(* ===== verification/Go_Prelude.thy ===== *)
theory Go_Prelude
  imports
    Main
    "HOL-Library.AList"
    "HOL-Library.List_Lexorder"
    "HOL-Library.Char_ord"
begin

text \<open>
  The part of Go and of its standard library that the decision packages use: byte strings with
  the functions of \<open>strings\<close> and \<open>strconv\<close>, the dynamic values of \<open>map[string]any\<close>, the printing
  of \<open>fmt.Sprint\<close>, stable sorting, and 64-bit wrap-around.

  A Go string is a byte sequence, here \<open>string\<close>. \<open>TrimSpace\<close> is exact on every byte sequence: it
  knows the UTF-8 encodings of all the white space runes. Case mapping is that of ASCII: a byte
  above 127 is left alone, where Go would apply Unicode's simple case mapping.

  Collections: \<open>go_str\<close> holds the rewrite rules on strings, \<open>meta_simps\<close> those on metadata maps.
\<close>

named_theorems go_str \<open>rewrite rules for Go's string functions\<close>
named_theorems meta_simps \<open>rewrite rules for metadata maps\<close>

section \<open>Bytes\<close>

abbreviation byte :: "char \<Rightarrow> int" where
  "byte c \<equiv> of_char c"

definition is_digit :: "char \<Rightarrow> bool" where
  "is_digit c \<longleftrightarrow> 48 \<le> byte c \<and> byte c \<le> 57"

definition digit_val :: "char \<Rightarrow> int" where
  "digit_val c = byte c - 48"

definition digit_char :: "int \<Rightarrow> char" where
  "digit_char n = char_of (n + 48)"

definition lower_char :: "char \<Rightarrow> char" where
  "lower_char c = (if 65 \<le> byte c \<and> byte c \<le> 90 then char_of (byte c + 32) else c)"

lemma byte_range [simp]: "0 \<le> byte c" "byte c < 256"
  using of_char_mod_256 [of c, where 'a = int] by presburger+

lemma byte_char_of: "0 \<le> n \<Longrightarrow> n < 256 \<Longrightarrow> byte (char_of n) = n"
  by simp

lemma byte_digit_char [simp]: "0 \<le> n \<Longrightarrow> n < 10 \<Longrightarrow> byte (digit_char n) = n + 48"
  by (simp add: digit_char_def)

lemma digit_val_digit_char [simp]: "0 \<le> n \<Longrightarrow> n < 10 \<Longrightarrow> digit_val (digit_char n) = n"
  by (simp add: digit_val_def)

lemma is_digit_digit_char [simp]: "0 \<le> n \<Longrightarrow> n < 10 \<Longrightarrow> is_digit (digit_char n)"
  by (simp add: is_digit_def)

lemma digit_val_less [simp]: "is_digit c \<Longrightarrow> 0 \<le> digit_val c \<and> digit_val c < 10"
  by (auto simp: is_digit_def digit_val_def)

lemma lower_char_idem [simp]: "lower_char (lower_char c) = lower_char c"
  by (auto simp: lower_char_def byte_char_of)

section \<open>Package strings\<close>

fun strip_prefix :: "string \<Rightarrow> string \<Rightarrow> string option" where
  "strip_prefix [] s = Some s"
| "strip_prefix (p # ps) [] = None"
| "strip_prefix (p # ps) (c # cs) = (if p = c then strip_prefix ps cs else None)"

lemma strip_prefix_iff: "strip_prefix p s = Some r \<longleftrightarrow> s = p @ r"
  by (induction p s rule: strip_prefix.induct) auto

lemma strip_prefix_None: "strip_prefix p s = None \<longleftrightarrow> (\<nexists>r. s = p @ r)"
  using strip_prefix_iff [of p s] by (cases "strip_prefix p s") auto

definition HasPrefix :: "string \<Rightarrow> string \<Rightarrow> bool" where
  "HasPrefix s p = (strip_prefix p s \<noteq> None)"

definition TrimPrefix :: "string \<Rightarrow> string \<Rightarrow> string" where
  "TrimPrefix s p = (case strip_prefix p s of None \<Rightarrow> s | Some r \<Rightarrow> r)"

definition HasSuffix :: "string \<Rightarrow> string \<Rightarrow> bool" where
  "HasSuffix s p = HasPrefix (rev s) (rev p)"

definition TrimSuffix :: "string \<Rightarrow> string \<Rightarrow> string" where
  "TrimSuffix s p = rev (TrimPrefix (rev s) (rev p))"

lemma HasPrefix_iff: "HasPrefix s p \<longleftrightarrow> (\<exists>r. s = p @ r)"
  using strip_prefix_None [of p s] by (auto simp: HasPrefix_def)

lemma HasSuffix_iff: "HasSuffix s p \<longleftrightarrow> (\<exists>r. s = r @ p)"
proof -
  have "(\<exists>r. rev s = rev p @ r) \<longleftrightarrow> (\<exists>r. s = r @ p)"
    by (metis rev_append rev_rev_ident)
  then show ?thesis by (simp add: HasSuffix_def HasPrefix_iff)
qed

lemma TrimPrefix_append [simp]: "TrimPrefix (p @ r) p = r"
  using strip_prefix_iff [of p "p @ r" r] by (simp add: TrimPrefix_def)

lemma TrimPrefix_no: "\<not> HasPrefix s p \<Longrightarrow> TrimPrefix s p = s"
  by (simp add: TrimPrefix_def HasPrefix_def)

lemma TrimSuffix_append [simp]: "TrimSuffix (r @ p) p = r"
  by (simp add: TrimSuffix_def)

lemma TrimSuffix_no: "\<not> HasSuffix s p \<Longrightarrow> TrimSuffix s p = s"
  by (simp add: TrimSuffix_def HasSuffix_def TrimPrefix_no)

text \<open>The UTF-8 encodings of the white space runes above ASCII (\<open>unicode.IsSpace\<close>).\<close>

definition wide_spaces :: "string list" where
  "wide_spaces =
     [[CHR 0xC2, CHR 0x85], [CHR 0xC2, CHR 0xA0], [CHR 0xE1, CHR 0x9A, CHR 0x80]] @
     map (\<lambda>c. [CHR 0xE2, CHR 0x80, c])
       [CHR 0x80, CHR 0x81, CHR 0x82, CHR 0x83, CHR 0x84, CHR 0x85, CHR 0x86, CHR 0x87, CHR 0x88,
        CHR 0x89, CHR 0x8A, CHR 0xA8, CHR 0xA9, CHR 0xAF] @
     [[CHR 0xE2, CHR 0x81, CHR 0x9F], [CHR 0xE3, CHR 0x80, CHR 0x80]]"

definition is_ascii_space :: "char \<Rightarrow> bool" where
  "is_ascii_space c \<longleftrightarrow> byte c = 32 \<or> (9 \<le> byte c \<and> byte c \<le> 13)"

text \<open>What remains after one leading white space rune, if there is one.\<close>

fun strip_any :: "string list \<Rightarrow> string \<Rightarrow> string option" where
  "strip_any [] s = None"
| "strip_any (w # ws) s =
     (if w \<noteq> [] \<and> strip_prefix w s \<noteq> None then strip_prefix w s else strip_any ws s)"

fun skip_space :: "string list \<Rightarrow> string \<Rightarrow> string option" where
  "skip_space ws [] = None"
| "skip_space ws (c # cs) =
     (if byte c < 128 then (if is_ascii_space c then Some cs else None)
      else strip_any ws (c # cs))"

lemma strip_any_Some: "strip_any ws s = Some r \<Longrightarrow> \<exists>w. w \<noteq> [] \<and> s = w @ r"
  by (induction ws) (auto simp: strip_prefix_iff split: if_splits)

lemma strip_any_None:
  "strip_any ws s = None \<longleftrightarrow> (\<forall>w \<in> set ws. w \<noteq> [] \<longrightarrow> (\<nexists>r. s = w @ r))"
  by (induction ws) (auto simp: strip_prefix_None strip_prefix_iff)

lemma skip_space_suffix: "skip_space ws s = Some r \<Longrightarrow> \<exists>w. w \<noteq> [] \<and> s = w @ r"
  by (cases s) (auto simp: strip_any_Some split: if_splits)

lemma skip_space_shorter: "skip_space ws s = Some r \<Longrightarrow> length r < length s"
  by (auto dest!: skip_space_suffix)

text \<open>A prefix of \<open>s\<close> has no more leading white space than \<open>s\<close> has.\<close>

lemma skip_space_prefix:
  assumes "skip_space ws (p @ q) = None"
  shows "skip_space ws p = None"
proof (cases p)
  case (Cons c cs)
  have "strip_any ws (c # cs) = None" if "strip_any ws (c # cs @ q) = None"
    using that unfolding strip_any_None by (metis append.assoc append_Cons)
  then show ?thesis using assms Cons by (auto split: if_splits)
qed simp

function trim_left_by :: "string list \<Rightarrow> string \<Rightarrow> string" where
  "trim_left_by ws s = (case skip_space ws s of None \<Rightarrow> s | Some r \<Rightarrow> trim_left_by ws r)"
  by pat_completeness auto
termination
  by (relation "measure (\<lambda>(ws, s). length s)") (auto intro: skip_space_shorter)

declare trim_left_by.simps [simp del]

lemma skip_space_trim_left_by: "skip_space ws (trim_left_by ws s) = None"
proof (induction ws s rule: trim_left_by.induct)
  case (1 ws s)
  then show ?case
    by (subst trim_left_by.simps) (auto split: option.splits)
qed

lemma trim_left_by_suffix: "\<exists>w. s = w @ trim_left_by ws s"
proof (induction ws s rule: trim_left_by.induct)
  case (1 ws s)
  show ?case
  proof (cases "skip_space ws s")
    case None
    then show ?thesis by (subst trim_left_by.simps) simp
  next
    case (Some r)
    then obtain w v where "s = w @ r" "r = v @ trim_left_by ws r"
      using skip_space_suffix "1.IH" by blast
    then have "s = (w @ v) @ trim_left_by ws r" by simp
    with Some show ?thesis by (subst trim_left_by.simps) auto
  qed
qed

lemma trim_left_by_id: "skip_space ws s = None \<Longrightarrow> trim_left_by ws s = s"
  by (subst trim_left_by.simps) simp

definition TrimLeftSpace :: "string \<Rightarrow> string" where
  "TrimLeftSpace s = trim_left_by wide_spaces s"

definition TrimRightSpace :: "string \<Rightarrow> string" where
  "TrimRightSpace s = rev (trim_left_by (map rev wide_spaces) (rev s))"

definition TrimSpace :: "string \<Rightarrow> string" where
  "TrimSpace s = TrimRightSpace (TrimLeftSpace s)"

lemma TrimRightSpace_prefix: "\<exists>w. s = TrimRightSpace s @ w"
proof -
  obtain w where "rev s = w @ trim_left_by (map rev wide_spaces) (rev s)"
    using trim_left_by_suffix by blast
  then have "s = TrimRightSpace s @ rev w"
    unfolding TrimRightSpace_def by (metis rev_append rev_rev_ident)
  then show ?thesis by blast
qed

lemma TrimSpace_left_clean: "skip_space wide_spaces (TrimSpace s) = None"
proof -
  obtain w where "TrimLeftSpace s = TrimSpace s @ w"
    using TrimRightSpace_prefix unfolding TrimSpace_def by blast
  moreover have "skip_space wide_spaces (TrimLeftSpace s) = None"
    by (simp add: TrimLeftSpace_def skip_space_trim_left_by)
  ultimately show ?thesis by (metis skip_space_prefix)
qed

lemma TrimSpace_right_clean: "skip_space (map rev wide_spaces) (rev (TrimSpace s)) = None"
  by (simp add: TrimSpace_def TrimRightSpace_def skip_space_trim_left_by)

lemma TrimSpace_id:
  "skip_space wide_spaces s = None \<Longrightarrow> skip_space (map rev wide_spaces) (rev s) = None \<Longrightarrow>
   TrimSpace s = s"
  by (simp add: TrimSpace_def TrimLeftSpace_def TrimRightSpace_def trim_left_by_id)

lemma TrimSpace_idem [simp, go_str]: "TrimSpace (TrimSpace s) = TrimSpace s"
  by (rule TrimSpace_id) (simp_all add: TrimSpace_left_clean TrimSpace_right_clean)

lemma TrimSpace_Nil [simp, go_str]: "TrimSpace [] = []"
  by (rule TrimSpace_id) simp_all

definition ToLower :: "string \<Rightarrow> string" where
  "ToLower s = map lower_char s"

definition EqualFold :: "string \<Rightarrow> string \<Rightarrow> bool" where
  "EqualFold s t \<longleftrightarrow> ToLower s = ToLower t"

lemma ToLower_Nil [simp]: "ToLower [] = []"
  by (simp add: ToLower_def)

lemma ToLower_idem [simp, go_str]: "ToLower (ToLower s) = ToLower s"
  by (simp add: ToLower_def)

lemma ToLower_eq_Nil [simp]: "ToLower s = [] \<longleftrightarrow> s = []"
  by (simp add: ToLower_def)

lemma EqualFold_refl [simp]: "EqualFold s s"
  by (simp add: EqualFold_def)

text \<open>What trimming and case mapping keep.\<close>

lemma set_TrimSpace: "set (TrimSpace s) \<subseteq> set s"
proof -
  obtain w where w: "TrimLeftSpace s = TrimSpace s @ w" using TrimRightSpace_prefix unfolding TrimSpace_def by blast
  obtain v where "s = v @ TrimLeftSpace s" using trim_left_by_suffix unfolding TrimLeftSpace_def by blast
  then have "set s = set v \<union> set (TrimLeftSpace s)" by (metis set_append)
  then show ?thesis unfolding w by auto
qed

lemma length_TrimSpace: "length (TrimSpace s) \<le> length s"
proof -
  obtain w where "TrimLeftSpace s = TrimSpace s @ w" using TrimRightSpace_prefix unfolding TrimSpace_def by blast
  moreover obtain v where "s = v @ TrimLeftSpace s" using trim_left_by_suffix unfolding TrimLeftSpace_def by blast
  ultimately have "length s = length v + (length (TrimSpace s) + length w)" by (metis length_append)
  then show ?thesis by simp
qed

lemma lower_char_low: "byte x < 65 \<Longrightarrow> lower_char c = x \<longleftrightarrow> c = x"
  by (auto simp: lower_char_def byte_char_of split: if_splits)

lemma lower_char_high: "128 \<le> byte x \<Longrightarrow> lower_char c = x \<longleftrightarrow> c = x"
  by (auto simp: lower_char_def byte_char_of split: if_splits)

lemma map_lower_high:
  assumes "\<forall>x \<in> set w. 128 \<le> byte x" "map lower_char s = w @ r"
  shows "\<exists>r'. s = w @ r'"
proof -
  have "map lower_char (take (length w) s) = w" using assms(2) by (metis append_eq_conv_conj take_map)
  moreover have "map lower_char u = w \<Longrightarrow> \<forall>x \<in> set w. 128 \<le> byte x \<Longrightarrow> u = w" for u w
  proof (induction u arbitrary: w)
    case (Cons a u)
    then show ?case using lower_char_high [of "hd w" a] by (cases w) auto
  qed simp
  ultimately show ?thesis using assms(1) by (metis append_take_drop_id)
qed

lemma byte_lower_less: "byte (lower_char c) < 128 \<longleftrightarrow> byte c < 128"
  by (auto simp: lower_char_def byte_char_of)

lemma space_lower: "is_ascii_space (lower_char c) = is_ascii_space c"
  by (auto simp: lower_char_def is_ascii_space_def byte_char_of)

lemma skip_space_lower:
  assumes "\<forall>w \<in> set ws. \<forall>x \<in> set w. 128 \<le> byte x" "skip_space ws s = None"
  shows "skip_space ws (map lower_char s) = None"
proof (cases s)
  case (Cons c cs)
  have "strip_any ws (map lower_char s) = None" if "strip_any ws s = None"
    using that assms(1) map_lower_high unfolding strip_any_None by metis
  then show ?thesis using assms(2) Cons by (auto simp: byte_lower_less space_lower split: if_splits)
qed simp

lemma wide_spaces_high: "\<forall>w \<in> set wide_spaces. \<forall>x \<in> set w. 128 \<le> byte x"
  by (simp add: wide_spaces_def)

lemma TrimSpace_ToLower: "TrimSpace (ToLower (TrimSpace s)) = ToLower (TrimSpace s)"
proof (rule TrimSpace_id)
  show "skip_space wide_spaces (ToLower (TrimSpace s)) = None"
    unfolding ToLower_def by (rule skip_space_lower [OF wide_spaces_high TrimSpace_left_clean])
  show "skip_space (map rev wide_spaces) (rev (ToLower (TrimSpace s))) = None"
    unfolding ToLower_def rev_map
    by (rule skip_space_lower [OF _ TrimSpace_right_clean]) (use wide_spaces_high in simp)
qed

text \<open>\<open>strings.Trim\<close> with a set of single-byte characters.\<close>

definition TrimSet :: "string \<Rightarrow> string \<Rightarrow> string" where
  "TrimSet s cs = rev (dropWhile (\<lambda>c. c \<in> set cs) (rev (dropWhile (\<lambda>c. c \<in> set cs) s)))"

text \<open>\<open>strings.Split\<close> by a one-byte separator; \<open>strings.ReplaceAll\<close> of one byte by another.\<close>

fun Split :: "string \<Rightarrow> char \<Rightarrow> string list" where
  "Split [] sep = [[]]"
| "Split (c # cs) sep =
     (if c = sep then [] # Split cs sep
      else (case Split cs sep of [] \<Rightarrow> [[c]] | p # ps \<Rightarrow> (c # p) # ps))"

definition ReplaceByte :: "char \<Rightarrow> char \<Rightarrow> string \<Rightarrow> string" where
  "ReplaceByte a b s = map (\<lambda>c. if c = a then b else c) s"

text \<open>What follows the first occurrence of \<open>sub\<close>: the second part of \<open>strings.SplitN (s, sub, 2)\<close>.\<close>

fun after_first :: "string \<Rightarrow> string \<Rightarrow> string option" where
  "after_first sub s =
     (case strip_prefix sub s of
        Some r \<Rightarrow> Some r
      | None \<Rightarrow> (case s of [] \<Rightarrow> None | c # cs \<Rightarrow> after_first sub cs))"

declare after_first.simps [simp del]

fun Join :: "string list \<Rightarrow> string \<Rightarrow> string" where
  "Join [] sep = []"
| "Join [x] sep = x"
| "Join (x # y # zs) sep = x @ sep @ Join (y # zs) sep"

text \<open>Positions of a byte: \<open>strings.IndexByte\<close> and \<open>strings.LastIndexByte\<close>.\<close>

definition IndexByte :: "string \<Rightarrow> char \<Rightarrow> nat option" where
  "IndexByte s c = (if c \<in> set s then Some (length (takeWhile (\<lambda>d. d \<noteq> c) s)) else None)"

definition LastIndexByte :: "string \<Rightarrow> char \<Rightarrow> nat option" where
  "LastIndexByte s c =
     (if c \<in> set s then Some (length s - 1 - length (takeWhile (\<lambda>d. d \<noteq> c) (rev s))) else None)"

end
