(* ===== verification/Go_Values.thy ===== *)
theory Go_Values
  imports Go_Prelude "HOL-Library.Product_Lexorder"
begin

text \<open>
  Numbers and dynamic values of Go: \<open>strconv\<close> (\<open>Itoa\<close>, \<open>Atoi\<close>, \<open>ParseFloat\<close>, \<open>Quote\<close>), the values a
  \<open>map[string]any\<close> can hold, \<open>fmt.Sprint\<close> on them, metadata maps with their assignments, and the
  64-bit arithmetic of \<open>time.Duration\<close>.

  A \<open>float64\<close> is given by the shortest decimal that denotes it: a sign, digits \<open>d\<close> with no trailing
  zero, and an exponent \<open>e\<close>, for \<open>d * 10 ^ e\<close>. This decimal is what \<open>strconv\<close> prints and it
  determines the value. The values come out of \<open>encoding/json\<close>, so they are finite.
\<close>

section \<open>Integers\<close>

function nat_digits :: "int \<Rightarrow> string" where
  "nat_digits n = (if n < 10 then [digit_char n] else nat_digits (n div 10) @ [digit_char (n mod 10)])"
  by pat_completeness auto
termination
  by (relation "measure nat") auto

declare nat_digits.simps [simp del]

definition Itoa :: "int \<Rightarrow> string" where
  "Itoa i = (if i < 0 then CHR ''-'' # nat_digits (- i) else nat_digits i)"

definition digits_val :: "string \<Rightarrow> int" where
  "digits_val s = foldl (\<lambda>a c. 10 * a + digit_val c) 0 s"

text \<open>\<open>strconv.Atoi\<close> on a 64-bit platform: a sign, at least one digit, and the int64 range.\<close>

definition min_int64 :: int where "min_int64 = - 9223372036854775808"
definition max_int64 :: int where "max_int64 = 9223372036854775807"

definition atoi_unsigned :: "string \<Rightarrow> int option" where
  "atoi_unsigned s = (if s \<noteq> [] \<and> list_all is_digit s then Some (digits_val s) else None)"

definition split_sign :: "string \<Rightarrow> bool \<times> string" where
  "split_sign s =
     (case s of
        [] \<Rightarrow> (False, s)
      | c # cs \<Rightarrow> if c = CHR ''-'' then (True, cs) else if c = CHR ''+'' then (False, cs) else (False, s))"

definition Atoi :: "string \<Rightarrow> int option" where
  "Atoi s =
     (let (neg, body) = split_sign s
      in case atoi_unsigned body of
           None \<Rightarrow> None
         | Some n \<Rightarrow>
             (let i = (if neg then - n else n)
              in if min_int64 \<le> i \<and> i \<le> max_int64 then Some i else None))"

lemma nat_digits_nonempty [simp]: "nat_digits n \<noteq> []"
  by (subst nat_digits.simps) simp

lemma nat_digits_all_digits [simp]: "0 \<le> n \<Longrightarrow> list_all is_digit (nat_digits n)"
proof (induction n rule: nat_digits.induct)
  case (1 n)
  then show ?case by (subst nat_digits.simps) auto
qed

lemma digits_val_snoc [simp]: "digits_val (s @ [c]) = 10 * digits_val s + digit_val c"
  by (simp add: digits_val_def)

lemma digits_val_nat_digits [simp]: "0 \<le> n \<Longrightarrow> digits_val (nat_digits n) = n"
proof (induction n rule: nat_digits.induct)
  case (1 n)
  show ?case
  proof (cases "n < 10")
    case True
    with "1.prems" show ?thesis by (subst nat_digits.simps) (simp add: digits_val_def)
  next
    case False
    with "1" show ?thesis by (subst nat_digits.simps) simp
  qed
qed

lemma hd_nat_digits: "0 \<le> n \<Longrightarrow> is_digit (hd (nat_digits n))"
  using nat_digits_all_digits [of n] by (cases "nat_digits n") auto

lemma is_digit_not_sign: "is_digit c \<Longrightarrow> c \<noteq> CHR ''-'' \<and> c \<noteq> CHR ''+''"
  by (auto simp: is_digit_def)

lemma split_sign_digits: "0 \<le> n \<Longrightarrow> split_sign (nat_digits n) = (False, nat_digits n)"
  using hd_nat_digits [of n] is_digit_not_sign
  by (cases "nat_digits n") (auto simp: split_sign_def)

lemma Atoi_Itoa:
  assumes "min_int64 \<le> i" "i \<le> max_int64"
  shows "Atoi (Itoa i) = Some i"
proof (cases "i < 0")
  case True
  then show ?thesis
    using assms by (simp add: Atoi_def Itoa_def atoi_unsigned_def split_sign_def)
next
  case False
  then show ?thesis
    using assms by (simp add: Atoi_def Itoa_def atoi_unsigned_def split_sign_digits)
qed

lemma nat_digits_inj: "0 \<le> m \<Longrightarrow> 0 \<le> n \<Longrightarrow> nat_digits m = nat_digits n \<longleftrightarrow> m = n"
  by (metis digits_val_nat_digits)

lemma nat_digits_not_minus:
  assumes "0 \<le> n"
  shows "CHR ''-'' # s \<noteq> nat_digits n" and "nat_digits n \<noteq> CHR ''-'' # s"
  using hd_nat_digits [OF assms] is_digit_not_sign by (cases "nat_digits n"; auto)+

lemma Itoa_eq_iff [simp]: "Itoa i = Itoa j \<longleftrightarrow> i = j"
  by (simp add: Itoa_def nat_digits_inj nat_digits_not_minus)

definition FormatBool :: "bool \<Rightarrow> string" where
  "FormatBool b = (if b then ''true'' else ''false'')"

section \<open>Floating point\<close>

datatype f64 = FNaN | FInf bool | FNum int int

function ilog2 :: "int \<Rightarrow> int" where
  "ilog2 n = (if n < 2 then 0 else 1 + ilog2 (n div 2))"
  by pat_completeness auto
termination
  by (relation "measure nat") auto

declare ilog2.simps [simp del]

definition pow_int :: "int \<Rightarrow> int \<Rightarrow> int" where
  "pow_int b e = b ^ nat e"

definition round_half_even :: "int \<Rightarrow> int \<Rightarrow> int" where
  "round_half_even p q =
     (let k = p div q; r = p mod q
      in if q < 2 * r \<or> (2 * r = q \<and> odd k) then k + 1 else k)"

text \<open>
  The float64 nearest to \<open>p / q\<close> for \<open>p \<ge> 0\<close>, as mantissa and binary exponent; \<open>None\<close> when it
  overflows.
\<close>

definition round_f64 :: "int \<Rightarrow> int \<Rightarrow> (int \<times> int) option" where
  "round_f64 p q =
     (if p = 0 then Some (0, 0)
      else
        let e0 = ilog2 p - ilog2 q;
            e = (if (if 0 \<le> e0 then q * pow_int 2 e0 \<le> p else q \<le> p * pow_int 2 (- e0)) then e0 else e0 - 1);
            u = max (e - 52) (- 1074);
            m = (if 0 \<le> u then round_half_even p (q * pow_int 2 u)
                 else round_half_even (p * pow_int 2 (- u)) q)
        in if 1024 \<le> u + ilog2 m then None else Some (m, u))"

definition hex_digit_val :: "char \<Rightarrow> int option" where
  "hex_digit_val c =
     (let b = byte c
      in if 48 \<le> b \<and> b \<le> 57 then Some (b - 48)
         else if 97 \<le> b \<and> b \<le> 102 then Some (b - 87)
         else if 65 \<le> b \<and> b \<le> 70 then Some (b - 55) else None)"

definition base_digit_val :: "int \<Rightarrow> char \<Rightarrow> int option" where
  "base_digit_val base c =
     (case hex_digit_val c of None \<Rightarrow> None | Some v \<Rightarrow> if v < base then Some v else None)"

text \<open>
  The mantissa loop of \<open>readFloat\<close>: mantissa so far, digits after the point, whether a point and
  whether a digit has been seen; it stops at the first byte that does not fit.
\<close>

fun scan_mantissa :: "int \<Rightarrow> bool \<Rightarrow> bool \<Rightarrow> int \<Rightarrow> int \<Rightarrow> string \<Rightarrow> int \<times> int \<times> bool \<times> string" where
  "scan_mantissa base dot saw mant frac [] = (mant, frac, saw, [])"
| "scan_mantissa base dot saw mant frac (c # cs) =
     (if c = CHR ''_'' then scan_mantissa base dot saw mant frac cs
      else if c = CHR ''.'' then
        (if dot then (mant, frac, saw, c # cs) else scan_mantissa base True saw mant frac cs)
      else case base_digit_val base c of
             None \<Rightarrow> (mant, frac, saw, c # cs)
           | Some v \<Rightarrow> scan_mantissa base dot True (mant * base + v) (frac + (if dot then 1 else 0)) cs)"

fun scan_exponent :: "int \<Rightarrow> string \<Rightarrow> int \<times> string" where
  "scan_exponent e [] = (e, [])"
| "scan_exponent e (c # cs) =
     (if c = CHR ''_'' then scan_exponent e cs
      else if is_digit c then scan_exponent (if e < 10000 then 10 * e + digit_val c else e) cs
      else (e, c # cs))"

text \<open>\<open>underscoreOK\<close>: an underscore stands between digits, or after the base prefix.\<close>

fun underscores_ok :: "bool \<Rightarrow> char \<Rightarrow> string \<Rightarrow> bool" where
  "underscores_ok hex saw [] = (saw \<noteq> CHR ''_'')"
| "underscores_ok hex saw (c # cs) =
     (if is_digit c \<or> (hex \<and> hex_digit_val c \<noteq> None) then underscores_ok hex (CHR ''0'') cs
      else if c = CHR ''_'' then saw = CHR ''0'' \<and> underscores_ok hex (CHR ''_'') cs
      else saw \<noteq> CHR ''_'' \<and> underscores_ok hex (CHR ''!'') cs)"

definition parse_exponent :: "int \<Rightarrow> string \<Rightarrow> int option" where
  "parse_exponent base s =
     (case s of
        [] \<Rightarrow> if base = 16 then None else Some 0
      | c # cs \<Rightarrow>
          if lower_char c = (if base = 16 then CHR ''p'' else CHR ''e'') then
            (let (neg, ds) = split_sign cs
             in if ds \<noteq> [] \<and> is_digit (hd ds) then
                  (case scan_exponent 0 ds of
                     (e, []) \<Rightarrow> Some (if neg then - e else e)
                   | (e, _ # _) \<Rightarrow> None)
                else None)
          else None)"

definition parse_number :: "bool \<Rightarrow> string \<Rightarrow> f64 option" where
  "parse_number neg s =
     (let hex = (HasPrefix s ''0x'' \<or> HasPrefix s ''0X'');
          base = (if hex then 16 else 10);
          body = (if hex then drop 2 s else s);
          (mant, frac, saw, rest) = scan_mantissa base False False 0 0 body
      in if \<not> saw \<or> (CHR ''_'' \<in> set s \<and> \<not> underscores_ok hex (if hex then CHR ''0'' else CHR ''^'') body)
         then None
         else case parse_exponent base rest of
                None \<Rightarrow> None
              | Some e \<Rightarrow>
                  (let e' = (if hex then e - 4 * frac else e - frac);
                       b = (if hex then 2 else 10)
                   in map_option (\<lambda>(m, u). FNum (if neg then - m else m) u)
                        (if 0 \<le> e' then round_f64 (mant * pow_int b e') 1
                         else round_f64 mant (pow_int b (- e')))))"

definition ParseFloat :: "string \<Rightarrow> f64 option" where
  "ParseFloat s =
     (let (neg, body) = split_sign s; low = ToLower body
      in if low = ''inf'' \<or> low = ''infinity'' then Some (FInf neg)
         else if ToLower s = ''nan'' then Some FNaN
         else parse_number neg body)"

fun f64_le :: "f64 \<Rightarrow> f64 \<Rightarrow> bool" where
  "f64_le FNaN y = False"
| "f64_le x FNaN = False"
| "f64_le (FInf n) (FInf n') = (n \<or> \<not> n')"
| "f64_le (FInf n) (FNum _ _) = n"
| "f64_le (FNum _ _) (FInf n) = (\<not> n)"
| "f64_le (FNum m e) (FNum m' e') =
     (let k = min e e' in m * pow_int 2 (e - k) \<le> m' * pow_int 2 (e' - k))"

section \<open>Dynamic values\<close>

text \<open>
  What a \<open>map[string]any\<close> holds here: the shapes \<open>encoding/json\<close> produces (\<open>nil\<close>, \<open>bool\<close>, \<open>float64\<close>,
  \<open>string\<close>, \<open>[]any\<close>, \<open>map[string]any\<close>) and those the code itself stores (\<open>int\<close>, \<open>[]string\<close>).
\<close>

datatype any =
    ANil
  | ABool bool
  | AInt int
  | AFloat bool int int
  | AStr string
  | AStrs "string list"
  | AList "any list"
  | AMap "(string \<times> any) list"

type_synonym metadata = "(string \<times> any) list"

text \<open>\<open>%v\<close> of a float64: the shortest \<open>%g\<close>, with an exponent from \<open>1e+06\<close> on and below \<open>1e-04\<close>.\<close>

definition two_digits :: "int \<Rightarrow> string" where
  "two_digits n = (if n < 10 then CHR ''0'' # nat_digits n else nat_digits n)"

definition sprint_float :: "bool \<Rightarrow> int \<Rightarrow> int \<Rightarrow> string" where
  "sprint_float neg d e =
     (let ds = nat_digits d; nd = int (length ds); dp = nd + e; x = dp - 1;
          body =
            (if d = 0 then ''0''
             else if x < - 4 \<or> 6 \<le> x then
               take 1 ds @ (if 1 < nd then ''.'' @ drop 1 ds else []) @ ''e'' @
               (if x < 0 then ''-'' else ''+'') @ two_digits (abs x)
             else if dp \<le> 0 then ''0.'' @ replicate (nat (- dp)) (CHR ''0'') @ ds
             else if nd \<le> dp then ds @ replicate (nat (dp - nd)) (CHR ''0'')
             else take (nat dp) ds @ ''.'' @ drop (nat dp) ds)
      in (if neg then ''-'' else []) @ body)"

fun Sprint :: "any \<Rightarrow> string" where
  "Sprint ANil = ''<nil>''"
| "Sprint (ABool b) = FormatBool b"
| "Sprint (AInt i) = Itoa i"
| "Sprint (AFloat n d e) = sprint_float n d e"
| "Sprint (AStr s) = s"
| "Sprint (AStrs ss) = ''['' @ Join ss '' '' @ '']''"
| "Sprint (AList vs) = ''['' @ Join (map Sprint vs) '' '' @ '']''"
| "Sprint (AMap kvs) =
     ''map['' @
     Join (map (\<lambda>(k, v). k @ '':'' @ v) (sort_key fst (map (\<lambda>(k, v). (k, Sprint v)) kvs))) '' '' @ '']''"

text \<open>\<open>int(f)\<close> of a float64 truncates towards zero.\<close>

definition float_trunc :: "bool \<Rightarrow> int \<Rightarrow> int \<Rightarrow> int" where
  "float_trunc neg d e =
     (let a = (if 0 \<le> e then d * pow_int 10 e else d div pow_int 10 (- e))
      in if neg then - a else a)"

section \<open>Metadata maps\<close>

text \<open>
  A Go map with string keys is an association list; \<open>map_of\<close> reads it and \<open>AList.update\<close> assigns.
  \<open>puts\<close> runs a block of guarded assignments \<open>if c { m[k] = v }\<close> in the order of the source.
\<close>

definition puts :: "(bool \<times> string \<times> any) list \<Rightarrow> metadata \<Rightarrow> metadata" where
  "puts es m = fold (\<lambda>(c, k, v) m. if c then AList.update k v m else m) es m"

abbreviation put :: "string \<Rightarrow> any \<Rightarrow> metadata \<Rightarrow> metadata" where
  "put k v m \<equiv> AList.update k v m"

text \<open>The entry of \<open>if v != "" { m[k] = v }\<close> and of an unconditional \<open>m[k] = v\<close>.\<close>

abbreviation put_str :: "string \<Rightarrow> string \<Rightarrow> bool \<times> string \<times> any" where
  "put_str k v \<equiv> (v \<noteq> [], k, AStr v)"

abbreviation put_always :: "string \<Rightarrow> any \<Rightarrow> bool \<times> string \<times> any" where
  "put_always k v \<equiv> (True, k, v)"

lemma puts_Nil [simp]: "puts [] m = m"
  by (simp add: puts_def)

lemma puts_Cons [simp]: "puts ((c, k, v) # es) m = puts es (if c then put k v m else m)"
  by (simp add: puts_def)

lemma puts_append: "puts (es @ fs) m = puts fs (puts es m)"
  by (simp add: puts_def)

lemma map_of_put [simp, meta_simps]: "map_of (put k v m) k' = (if k' = k then Some v else map_of m k')"
  by (simp add: update_conv)

text \<open>The value of a key after a block: that of the last assignment to it, if any was executed.\<close>

definition last_put :: "(bool \<times> string \<times> any) list \<Rightarrow> string \<Rightarrow> any option" where
  "last_put es k = map_of (rev (map snd (filter fst es))) k"

lemma map_of_puts:
  "map_of (puts es m) k = (case last_put es k of Some v \<Rightarrow> Some v | None \<Rightarrow> map_of m k)"
proof (induction es arbitrary: m)
  case (Cons e es)
  obtain c k' v where e: "e = (c, k', v)" by (cases e)
  show ?case
    by (auto simp: e Cons.IH last_put_def map_of_append map_add_def split: option.splits)
qed (simp add: last_put_def)

lemma map_of_puts_other:
  "k \<notin> (\<lambda>(c, k', v). k') ` set es \<Longrightarrow> map_of (puts es m) k = map_of m k"
proof -
  assume "k \<notin> (\<lambda>(c, k', v). k') ` set es"
  then have "k \<notin> fst ` set (rev (map snd (filter fst es)))" by force
  then have "last_put es k = None"
    unfolding last_put_def by (simp add: map_of_eq_None_iff)
  then show ?thesis by (simp add: map_of_puts)
qed

lemma distinct_puts: "distinct (map fst m) \<Longrightarrow> distinct (map fst (puts es m))"
proof (induction es arbitrary: m)
  case (Cons e es)
  then show ?case by (cases e) (simp add: distinct_update)
qed simp

section \<open>Quoting\<close>

definition hex_char :: "int \<Rightarrow> char" where
  "hex_char n = char_of (if n < 10 then n + 48 else n + 87)"

definition quote_byte :: "char \<Rightarrow> string" where
  "quote_byte c =
     (let b = byte c
      in if b = 34 \<or> b = 92 then [CHR 0x5C, c]
         else if 32 \<le> b \<and> b \<noteq> 127 then [c]
         else if b = 7 then [CHR 0x5C, CHR ''a''] else if b = 8 then [CHR 0x5C, CHR ''b'']
         else if b = 9 then [CHR 0x5C, CHR ''t''] else if b = 10 then [CHR 0x5C, CHR ''n'']
         else if b = 11 then [CHR 0x5C, CHR ''v''] else if b = 12 then [CHR 0x5C, CHR ''f'']
         else if b = 13 then [CHR 0x5C, CHR ''r'']
         else [CHR 0x5C, CHR ''x'', hex_char (b div 16), hex_char (b mod 16)])"

definition Quote :: "string \<Rightarrow> string" where
  "Quote s = [CHR 0x22] @ concat (map quote_byte s) @ [CHR 0x22]"

definition EncodeToString :: "int list \<Rightarrow> string" where
  "EncodeToString bs = concat (map (\<lambda>b. [hex_char (b div 16 mod 16), hex_char (b mod 16)]) bs)"

section \<open>Instants and durations\<close>

text \<open>
  A \<open>time.Time\<close> is its number of nanoseconds since the Unix epoch; a \<open>time.Duration\<close> is an int64 of
  nanoseconds. Multiplying a count of seconds by \<open>time.Second\<close> wraps, \<open>Time.Sub\<close> saturates.
\<close>

definition int64 :: "int \<Rightarrow> int" where
  "int64 x = (x + 9223372036854775808) mod 18446744073709551616 - 9223372036854775808"

definition nanos :: int where "nanos = 1000000000"

definition seconds_duration :: "int \<Rightarrow> int" where
  "seconds_duration s = int64 (s * nanos)"

definition time_sub :: "int \<Rightarrow> int \<Rightarrow> int" where
  "time_sub t u = max min_int64 (min max_int64 (t - u))"

definition zero_time :: int where
  "zero_time = - 62135596800 * nanos"

lemma int64_range: "min_int64 \<le> int64 x \<and> int64 x \<le> max_int64"
  using pos_mod_bound [of 18446744073709551616 "x + 9223372036854775808"]
    pos_mod_sign [of 18446744073709551616 "x + 9223372036854775808"]
  unfolding int64_def min_int64_def max_int64_def by linarith

lemma int64_id: "min_int64 \<le> x \<Longrightarrow> x \<le> max_int64 \<Longrightarrow> int64 x = x"
  unfolding int64_def min_int64_def max_int64_def
  by (subst mod_pos_pos_trivial) linarith+

lemma seconds_duration_exact:
  "0 \<le> s \<Longrightarrow> s \<le> 9223372036 \<Longrightarrow> seconds_duration s = s * nanos"
  by (simp add: seconds_duration_def nanos_def int64_id min_int64_def max_int64_def)

end
