(* ===== verification/Go_Time.thy ===== *)
theory Go_Time
  imports Go_Values
begin

text \<open>
  The part of the Go package \<open>time\<close> the decision path relies on.  An instant is the number of
  nanoseconds since the Unix epoch (an \<open>int\<close>: the code never leaves the range in which Go's own
  representation is exact).  The theory holds the proleptic Gregorian calendar, formatting in UTC
  with the layout \<open>time.RFC3339\<close>, and parsing with that layout.  The parser is the general one of
  Go, which accepts a one-digit hour, a fraction after a full stop or a comma that the layout does
  not mention, and offsets up to 24:60.  The main fact is the round trip \<open>Parse_Format\<close>: what
  \<open>Format\<close> prints, \<open>Parse\<close> reads back, truncated to whole seconds.
\<close>

type_synonym instant = int

section \<open>The calendar\<close>

text \<open>\<open>days_before y\<close> is the number of days in the first \<open>y\<close> years of a 400-year cycle that
  starts on the first of January of a year 400 c + 1.\<close>

definition days_before :: "int \<Rightarrow> int" where
  "days_before y = 365 * y + y div 4 - y div 100 + y div 400"

definition is_leap :: "int \<Rightarrow> bool" where
  "is_leap y \<longleftrightarrow> y mod 4 = 0 \<and> (y mod 100 \<noteq> 0 \<or> y mod 400 = 0)"

definition month_lengths :: "bool \<Rightarrow> int list" where
  "month_lengths leap = [31, if leap then 29 else 28, 31, 30, 31, 30, 31, 31, 30, 31, 30, 31]"

definition daysIn :: "int \<Rightarrow> int \<Rightarrow> int" where
  "daysIn m y = month_lengths (is_leap y) ! nat (m - 1)"

lemma div_succ:
  fixes y :: int assumes "0 < k"
  shows "(y + 1) div k = y div k + (if (y + 1) mod k = 0 then 1 else 0)"
proof (cases "y mod k + 1 = k")
  case True
  then have "y + 1 = k * (y div k + 1)"
    unfolding distrib_left using mult_div_mod_eq [of k y] by linarith
  then show ?thesis using assms by simp
next
  case False
  have r: "0 \<le> y mod k + 1" "y mod k + 1 < k" "0 < y mod k + 1"
    using False pos_mod_bound [OF assms, of y] pos_mod_sign [OF assms, of y] by linarith+
  have "y + 1 = k * (y div k) + (y mod k + 1)" using mult_div_mod_eq [of k y] by linarith
  from int_div_pos_eq [OF this r(1,2)] int_mod_pos_eq [OF this r(1,2)] r(3) show ?thesis by simp
qed

lemma leap_days:
  fixes a :: int
  assumes "R \<Longrightarrow> Q" "Q \<Longrightarrow> P"
  shows "x + 365 + (a + (if P then 1 else 0)) - (b + (if Q then 1 else 0)) + (c + (if R then 1 else 0)) =
    x + a - b + c + (if P \<and> (\<not> Q \<or> R) then 366 else 365)"
  using assms by (cases P; cases Q; cases R) simp_all

lemma days_before_step: "days_before (y + 1) = days_before y + (if is_leap (y + 1) then 366 else 365)"
proof -
  have "400 dvd z \<Longrightarrow> 100 dvd z" for z :: int by (rule dvd_trans [of 100 400]) simp_all
  moreover have "100 dvd z \<Longrightarrow> 4 dvd z" for z :: int by (rule dvd_trans [of 4 100]) simp_all
  moreover have k: "0 < (4 :: int)" "0 < (100 :: int)" "0 < (400 :: int)" by simp_all
  ultimately show ?thesis
    unfolding days_before_def is_leap_def distrib_left mult_1_right div_succ [OF k(1)] div_succ [OF k(2)]
      div_succ [OF k(3)] mod_eq_0_iff_dvd
    by (intro leap_days)
qed

lemma days_before_less: "days_before y < days_before (y + 1)"
  by (simp add: days_before_step)

function year_from :: "int \<Rightarrow> int \<Rightarrow> int" where
  "year_from d y = (if d < days_before (y + 1) then y else year_from d (y + 1))"
  by pat_completeness auto
termination
proof (relation "measure (\<lambda>(d, y). nat (d + 1 - days_before y))")
  fix d y assume "\<not> d < days_before (y + 1)"
  then show "((d, y + 1), d, y) \<in> measure (\<lambda>(d, y). nat (d + 1 - days_before y))"
    using days_before_less [of y] by simp
qed simp

declare year_from.simps [simp del]

fun month_from :: "int \<Rightarrow> int \<Rightarrow> int list \<Rightarrow> int \<times> int" where
  "month_from m d [] = (m, d + 1)"
| "month_from m d (l # ls) = (if d < l then (m, d + 1) else month_from (m + 1) (d - l) ls)"

text \<open>A day number counts the days since the first of January of the year 1.\<close>

definition civil_of_days :: "int \<Rightarrow> int \<times> int \<times> int" where
  "civil_of_days n =
     (let c = n div 146097; d = n mod 146097; y = year_from d (d div 366); year = 400 * c + y + 1;
          (m, day) = month_from 1 (d - days_before y) (month_lengths (is_leap year))
      in (year, m, day))"

definition days_of_civil :: "int \<Rightarrow> int \<Rightarrow> int \<Rightarrow> int" where
  "days_of_civil year m day =
     days_before (year - 1) + sum_list (take (nat (m - 1)) (month_lengths (is_leap year))) + day - 1"

definition unix_day :: int where
  "unix_day = 719162"

section \<open>Formatting and parsing\<close>

definition two :: "int \<Rightarrow> string" where
  "two n = [digit_char (n div 10), digit_char (n mod 10)]"

text \<open>At least four digits, after the sign of a year before the year 0.\<close>

definition pad_year :: "int \<Rightarrow> string" where
  "pad_year y =
     (if y < 0 then ''-'' else []) @
     (if \<bar>y\<bar> < 10000 then two (\<bar>y\<bar> div 100) @ two (\<bar>y\<bar> mod 100) else nat_digits \<bar>y\<bar>)"

definition Format :: "instant \<Rightarrow> string" where
  "Format t =
     (let s = t div nanos; n = s div 86400; r = s mod 86400;
          (year, m, day) = civil_of_days (n + unix_day)
      in pad_year year @ ''-'' @ two m @ ''-'' @ two day @ ''T'' @ two (r div 3600) @ '':'' @
         two (r div 60 mod 60) @ '':'' @ two (r mod 60) @ ''Z'')"

fun getnum :: "bool \<Rightarrow> string \<Rightarrow> (int \<times> string) option" where
  "getnum fixed [] = None"
| "getnum fixed [a] = (if is_digit a \<and> \<not> fixed then Some (digit_val a, []) else None)"
| "getnum fixed (a # b # cs) =
     (if \<not> is_digit a then None
      else if is_digit b then Some (10 * digit_val a + digit_val b, cs)
      else if fixed then None else Some (digit_val a, b # cs))"

definition get_year :: "string \<Rightarrow> (int \<times> string) option" where
  "get_year s =
     (if 4 \<le> length s \<and> list_all is_digit (take 4 s) then Some (digits_val (take 4 s), drop 4 s) else None)"

definition skip_char :: "char \<Rightarrow> string \<Rightarrow> string option" where
  "skip_char c s = (case s of x # xs \<Rightarrow> if x = c then Some xs else None | [] \<Rightarrow> None)"

definition get_fraction :: "string \<Rightarrow> int \<times> string" where
  "get_fraction s =
     (case s of
        c # d # _ \<Rightarrow>
          (if (c = CHR ''.'' \<or> c = CHR '','') \<and> is_digit d
           then (let ds = takeWhile is_digit (tl s); kept = take 9 ds
                 in (digits_val kept * 10 ^ (9 - length kept), drop (length ds) (tl s)))
           else (0, s))
      | _ \<Rightarrow> (0, s))"

definition get_zone :: "string \<Rightarrow> (int \<times> string) option" where
  "get_zone s =
     (case s of
        c # rest \<Rightarrow>
          (if c = CHR ''Z'' then Some (0, rest)
           else if length s < 6 \<or> s ! 3 \<noteq> CHR '':'' then None
           else case (getnum True (take 2 rest), getnum True (take 2 (drop 4 s))) of
             (Some (h, _), Some (m, _)) \<Rightarrow>
               (if h > 24 \<or> m > 60 then None
                else if c = CHR ''+'' then Some ((h * 60 + m) * 60, drop 6 s)
                else if c = CHR ''-'' then Some (- ((h * 60 + m) * 60), drop 6 s)
                else None)
           | _ \<Rightarrow> None)
      | [] \<Rightarrow> None)"

definition field :: "bool \<Rightarrow> int \<Rightarrow> int \<Rightarrow> string \<Rightarrow> (int \<times> string) option" where
  "field fixed lo hi s =
     (case getnum fixed s of Some (n, r) \<Rightarrow> if lo \<le> n \<and> n \<le> hi then Some (n, r) else None | None \<Rightarrow> None)"

definition parse_date :: "string \<Rightarrow> (int \<times> string) option" where
  "parse_date s =
     Option.bind (get_year s) (\<lambda>(y, s).
     Option.bind (skip_char (CHR ''-'') s) (\<lambda>s.
     Option.bind (field True 1 12 s) (\<lambda>(m, s).
     Option.bind (skip_char (CHR ''-'') s) (\<lambda>s.
     Option.bind (field True 1 (daysIn m y) s) (\<lambda>(d, s).
     Some (days_of_civil y m d, s))))))"

definition parse_clock :: "string \<Rightarrow> (int \<times> string) option" where
  "parse_clock s =
     Option.bind (field False 0 23 s) (\<lambda>(h, s).
     Option.bind (skip_char (CHR '':'') s) (\<lambda>s.
     Option.bind (field True 0 59 s) (\<lambda>(m, s).
     Option.bind (skip_char (CHR '':'') s) (\<lambda>s.
     Option.bind (field True 0 59 s) (\<lambda>(sec, s).
     Some (h * 3600 + m * 60 + sec, s))))))"

text \<open>The day of the month is checked before the time of day here and after it in Go; either
  failure is the same error.\<close>

definition Parse :: "string \<Rightarrow> instant option" where
  "Parse s =
     Option.bind (parse_date s) (\<lambda>(n, s).
     Option.bind (skip_char (CHR ''T'') s) (\<lambda>s.
     Option.bind (parse_clock s) (\<lambda>(c, s).
     let (ns, s) = get_fraction s in
     Option.bind (get_zone s) (\<lambda>(z, s).
     if s = [] then Some (((n - unix_day) * 86400 + c - z) * nanos + ns) else None))))"

section \<open>What is printed is read back\<close>

lemma year_from_bounds:
  "days_before y \<le> d \<Longrightarrow> days_before (year_from d y) \<le> d \<and> d < days_before (year_from d y + 1)"
proof (induction d y rule: year_from.induct)
  case (1 d y)
  then show ?case by (subst (1 2) year_from.simps) auto
qed

lemma days_before_start: "0 \<le> d \<Longrightarrow> days_before (d div 366) \<le> d"
proof -
  assume "0 \<le> d"
  define y where "y = d div 366"
  have "0 \<le> y" "366 * y \<le> d" using \<open>0 \<le> d\<close> by (simp_all add: y_def)
  moreover have "days_before y \<le> 366 * y" if "0 \<le> y"
  proof -
    have "0 \<le> y div 4" "0 \<le> y div 100" "0 \<le> y div 400" using that by (simp_all add: pos_imp_zdiv_nonneg_iff)
    moreover have "0 \<le> y mod 4" "0 \<le> y mod 400" by simp_all
    ultimately show ?thesis
      unfolding days_before_def using mult_div_mod_eq [of 4 y] mult_div_mod_eq [of 400 y] by linarith
  qed
  ultimately show ?thesis by (simp add: y_def [symmetric])
qed

lemma days_before_cycle: "days_before (400 * c + y) = 146097 * c + days_before y"
proof -
  have "(400 * c + y) div 4 = 100 * c + y div 4" "(400 * c + y) div 100 = 4 * c + y div 100"
    "(400 * c + y) div 400 = c + y div 400"
    using div_mult_self1 [of 4 y "100 * c"] div_mult_self1 [of 100 y "4 * c"] div_mult_self1 [of 400 y c]
    by (simp_all add: algebra_simps)
  then show ?thesis unfolding days_before_def by (simp only: distrib_left)
qed

lemma month_from_bounds:
  assumes "0 \<le> d" "d < sum_list ls" "month_from m d ls = (m', day)"
  shows "m \<le> m' \<and> nat (m' - m) < length ls \<and> 1 \<le> day \<and> day \<le> ls ! nat (m' - m) \<and>
    sum_list (take (nat (m' - m)) ls) + day - 1 = d"
  using assms
proof (induction m d ls rule: month_from.induct)
  case (2 m d l ls)
  show ?case
  proof (cases "d < l")
    case False
    then have "m + 1 \<le> m' \<and> nat (m' - (m + 1)) < length ls \<and> 1 \<le> day \<and> day \<le> ls ! nat (m' - (m + 1)) \<and>
      sum_list (take (nat (m' - (m + 1))) ls) + day - 1 = d - l"
      using 2 by simp
    moreover from this have "nat (m' - m) = Suc (nat (m' - (m + 1)))" by linarith
    ultimately show ?thesis by simp
  qed (use 2 in auto)
qed simp

lemma length_month_lengths [simp]: "length (month_lengths b) = 12"
  and sum_month_lengths [simp]: "sum_list (month_lengths b) = (if b then 366 else 365)"
  by (simp_all add: month_lengths_def)

lemma month_lengths_le: "i < 12 \<Longrightarrow> month_lengths b ! i \<le> 31"
  by (auto simp: month_lengths_def less_Suc_eq numeral_eq_Suc)

lemma civil_of_days_valid:
  assumes "civil_of_days n = (y, m, d)"
  shows "1 \<le> m \<and> m \<le> 12 \<and> 1 \<le> d \<and> d \<le> daysIn m y \<and> days_of_civil y m d = n"
proof -
  define c r where "c = n div 146097" and "r = n mod 146097"
  define k where "k = year_from r (r div 366)"
  have n: "n = 146097 * c + r" by (simp add: c_def r_def)
  have k: "days_before k \<le> r" "r < days_before (k + 1)"
    using year_from_bounds [OF days_before_start, of r] by (auto simp: k_def r_def)
  have y: "y = 400 * c + k + 1"
    and md: "month_from 1 (r - days_before k) (month_lengths (is_leap y)) = (m, d)"
    using assms by (auto simp: civil_of_days_def Let_def c_def r_def k_def split: prod.splits)
  have "is_leap y = is_leap (k + 1)"
  proof -
    have "y = k + 1 + (100 * c) * 4" "y = k + 1 + (4 * c) * 100" "y = k + 1 + c * 400" by (simp_all add: y)
    then have "y mod 4 = (k + 1) mod 4" "y mod 100 = (k + 1) mod 100" "y mod 400 = (k + 1) mod 400"
      by (metis mod_mult_self1)+
    then show ?thesis by (simp only: is_leap_def)
  qed
  then have "r - days_before k < sum_list (month_lengths (is_leap y))"
    using k days_before_step [of k] by auto
  from month_from_bounds [OF _ this md] k show ?thesis
    by (simp add: daysIn_def days_of_civil_def y n days_before_cycle) linarith
qed

lemma getnum_two [simp]: "0 \<le> n \<Longrightarrow> n < 100 \<Longrightarrow> getnum fixed (two n @ r) = Some (n, r)"
proof -
  assume "0 \<le> n" "n < 100"
  then have "0 \<le> n div 10" "n div 10 < 10" "0 \<le> n mod 10" "n mod 10 < 10" by auto
  then show ?thesis by (simp add: two_def)
qed

lemma field_two [simp]: "0 \<le> lo \<Longrightarrow> lo \<le> n \<Longrightarrow> n \<le> hi \<Longrightarrow> hi < 100 \<Longrightarrow> field fixed lo hi (two n @ r) = Some (n, r)"
  by (simp add: field_def)

lemma get_year_digits:
  assumes "0 \<le> a" "a < 10" "0 \<le> b" "b < 10" "0 \<le> c" "c < 10" "0 \<le> d" "d < 10"
  shows "get_year ([digit_char a, digit_char b, digit_char c, digit_char d] @ r) =
    Some (10 * (10 * (10 * a + b) + c) + d, r)"
  using assms by (simp add: get_year_def digits_val_def numeral_eq_Suc)

lemma get_year_pad [simp]:
  assumes "0 \<le> y" "y < 10000" shows "get_year (pad_year y @ r) = Some (y, r)"
proof -
  define p q where "p = y div 100" and "q = y mod 100"
  have y: "y = 100 * p + q" by (simp only: p_def q_def mult_div_mod_eq)
  have pq: "0 \<le> p" "0 \<le> q" "q < 100" using assms by (simp_all add: p_def q_def)
  have "p < 100" using y pq assms by linarith
  have "10 * (10 * (10 * (p div 10) + p mod 10) + q div 10) + q mod 10 = y"
    unfolding mult_div_mod_eq distrib_left mult.assoc [symmetric]
    unfolding add.assoc y by (simp only: mult_div_mod_eq)
  moreover have "0 \<le> p div 10" "p div 10 < 10" "0 \<le> q div 10" "q div 10 < 10" "0 \<le> p mod 10" "p mod 10 < 10"
    "0 \<le> q mod 10" "q mod 10 < 10" using pq \<open>p < 100\<close> by simp_all
  moreover have "pad_year y = [digit_char (p div 10), digit_char (p mod 10), digit_char (q div 10), digit_char (q mod 10)]"
    using assms by (simp add: pad_year_def two_def p_def q_def)
  ultimately show ?thesis by (simp only: get_year_digits)
qed

lemma skip_char_Cons [simp]: "skip_char c (c # s) = Some s"
  by (simp add: skip_char_def)

theorem Parse_Format:
  assumes "civil_of_days (t div nanos div 86400 + unix_day) = (y, m, d)" "0 \<le> y" "y < 10000"
  shows "Parse (Format t) = Some (t div nanos * nanos)"
proof -
  define s where "s = t div nanos"
  define r where "r = s mod 86400"
  note v = civil_of_days_valid [OF assms(1)]
  have "nat (m - 1) < 12" using v by linarith
  from month_lengths_le [OF this, of "is_leap y"] have d31: "daysIn m y < 100" by (simp add: daysIn_def)
  have r: "0 \<le> r" "r < 86400" by (simp_all add: r_def)
  have clock: "parse_clock (two (r div 3600) @ '':'' @ two (r div 60 mod 60) @ '':'' @ two (r mod 60) @ rest) = Some (r, rest)" for rest
  proof -
    define q where "q = r div 60"
    have "r = 60 * q + r mod 60" "q = 60 * (q div 60) + q mod 60" by (simp_all only: q_def mult_div_mod_eq)
    moreover have "r div 3600 = q div 60" using zdiv_zmult2_eq [of 60 r 60] by (simp add: q_def)
    ultimately have "r div 3600 * 3600 + r div 60 mod 60 * 60 + r mod 60 = r" unfolding q_def [symmetric] by linarith
    then show ?thesis using r by (simp add: parse_clock_def)
  qed
  have date: "parse_date (pad_year y @ ''-'' @ two m @ ''-'' @ two d @ rest) = Some (days_of_civil y m d, rest)" for rest
    using assms v d31 by (simp add: parse_date_def)
  have f: "Format t = pad_year y @ ''-'' @ two m @ ''-'' @ two d @ ''T'' @ two (r div 3600) @ '':'' @
         two (r div 60 mod 60) @ '':'' @ two (r mod 60) @ ''Z''"
    using assms(1) by (simp only: Format_def s_def r_def Let_def prod.case)
  have "s div 86400 * 86400 + r = s" by (simp add: r_def)
  then show ?thesis
    unfolding Parse_def f date
    using v by (simp add: clock [simplified] get_fraction_def get_zone_def s_def)
qed

end
