(* ===== verification/Model_Types.thy ===== *)
theory Model_Types
  imports Go_Time
begin

text \<open>
  The structures of \<open>src/model/types.go\<close> that the decision path reads or writes, field by field
  and in the order of the source.  A pointer is an option, a slice a list, a \<open>map[string]any\<close> an
  association list over dynamic values.  The constants \<open>zero_*\<close> are Go's zero values, which
  composite literals fill in for the fields they leave out.  A nil slice or map is the empty one:
  the decision path only ever takes their length, iterates or looks up.
\<close>

record policy_action =
  pa_Decision :: string

definition zero_policy_action :: policy_action where
  "zero_policy_action =
    \<lparr>pa_Decision = []\<rparr>"

record dlp_spec =
  ds_Identifiers :: "string list"
  ds_MinCount :: int
  ds_OnMatch :: string
  ds_InstanceScope :: string
  ds_PolicyID :: string

definition zero_dlp_spec :: dlp_spec where
  "zero_dlp_spec =
    \<lparr>ds_Identifiers = [], ds_MinCount = 0, ds_OnMatch = [], ds_InstanceScope = [], ds_PolicyID = []\<rparr>"

record policy =
  pol_ID :: string
  pol_TenantID :: string
  pol_Name :: string
  pol_Priority :: int
  pol_Conditions :: metadata
  pol_Action :: policy_action
  pol_DLP :: "dlp_spec option"
  pol_Log :: "bool option"
  pol_RequiredTokenBinding :: bool
  pol_RequiredHumanApproval :: bool
  pol_RequiredWorkloadAttestation :: bool
  pol_BreakGlassPolicy :: bool
  pol_BreakGlassIdentityID :: "string option"
  pol_BreakGlassMaxSessionSeconds :: "int option"
  pol_BreakGlassStrongAuthRequired :: bool
  pol_BreakGlassAuditRequired :: bool
  pol_AllowedTaskPurposes :: "string list"
  pol_AllowedToolIDs :: "string list"
  pol_AllowedToolActions :: "string list"
  pol_AllowedContextScopeIDs :: "string list"
  pol_AllowedMemoryScopeIDs :: "string list"
  pol_AllowedDataClassifications :: "string list"
  pol_InspectionProfileID :: "string option"
  pol_ServiceFamily :: "string option"
  pol_ConnectionInitiator :: "string option"
  pol_SourceRole :: "string option"
  pol_DestinationRole :: "string option"
  pol_Status :: string
  pol_CreatedBy :: "string option"
  pol_UpdatedAt :: "string option"
  pol_Metadata :: metadata

definition zero_policy :: policy where
  "zero_policy =
    \<lparr>pol_ID = [], pol_TenantID = [], pol_Name = [], pol_Priority = 0, pol_Conditions = [],
     pol_Action = zero_policy_action, pol_DLP = None, pol_Log = None, pol_RequiredTokenBinding = False,
     pol_RequiredHumanApproval = False, pol_RequiredWorkloadAttestation = False,
     pol_BreakGlassPolicy = False, pol_BreakGlassIdentityID = None,
     pol_BreakGlassMaxSessionSeconds = None, pol_BreakGlassStrongAuthRequired = False,
     pol_BreakGlassAuditRequired = False, pol_AllowedTaskPurposes = [], pol_AllowedToolIDs = [],
     pol_AllowedToolActions = [], pol_AllowedContextScopeIDs = [], pol_AllowedMemoryScopeIDs = [],
     pol_AllowedDataClassifications = [], pol_InspectionProfileID = None, pol_ServiceFamily = None,
     pol_ConnectionInitiator = None, pol_SourceRole = None, pol_DestinationRole = None, pol_Status = [],
     pol_CreatedBy = None, pol_UpdatedAt = None, pol_Metadata = []\<rparr>"

record saas_identity_source =
  sis_Source :: string
  sis_Claim :: string
  sis_SkipCookiePatterns :: "string list"

record saas_identity_rule =
  sir_EmailFrom :: "saas_identity_source list"
  sir_NameFrom :: "saas_identity_source list"

record saas_catalog_entry =
  sc_TenantID :: string
  sc_SaaSApplicationID :: string
  sc_Name :: string
  sc_Provider :: string
  sc_Category :: string
  sc_RiskTier :: string
  sc_DomainPatterns :: "string list"
  sc_SNIPatterns :: "string list"
  sc_Tags :: "string list"
  sc_AIService :: bool
  sc_AIGovernance :: string
  sc_IdentityRule :: "saas_identity_rule option"

definition zero_saas_catalog_entry :: saas_catalog_entry where
  "zero_saas_catalog_entry =
    \<lparr>sc_TenantID = [], sc_SaaSApplicationID = [], sc_Name = [], sc_Provider = [], sc_Category = [],
     sc_RiskTier = [], sc_DomainPatterns = [], sc_SNIPatterns = [], sc_Tags = [], sc_AIService = False,
     sc_AIGovernance = [], sc_IdentityRule = None\<rparr>"

record saas_context =
  sx_SaaSApplicationID :: string
  sx_Name :: string
  sx_Provider :: string
  sx_Category :: string
  sx_RiskTier :: string
  sx_MatchedDomain :: string
  sx_MatchedPattern :: string
  sx_MatchType :: string

definition zero_saas_context :: saas_context where
  "zero_saas_context =
    \<lparr>sx_SaaSApplicationID = [], sx_Name = [], sx_Provider = [], sx_Category = [], sx_RiskTier = [],
     sx_MatchedDomain = [], sx_MatchedPattern = [], sx_MatchType = []\<rparr>"

record swg_tenant_restriction_rule =
  tr_ID :: string
  tr_TenantID :: string
  tr_SaaSApplicationID :: string
  tr_Provider :: string
  tr_HeaderName :: string
  tr_HeaderValueRef :: string
  tr_HeaderValueKind :: string
  tr_EnforcementMode :: string
  tr_Status :: string
  tr_Metadata :: metadata

definition zero_swg_tenant_restriction_rule :: swg_tenant_restriction_rule where
  "zero_swg_tenant_restriction_rule =
    \<lparr>tr_ID = [], tr_TenantID = [], tr_SaaSApplicationID = [], tr_Provider = [], tr_HeaderName = [],
     tr_HeaderValueRef = [], tr_HeaderValueKind = [], tr_EnforcementMode = [], tr_Status = [],
     tr_Metadata = []\<rparr>"

record dlp_rule =
  dlp_ID :: string
  dlp_TenantID :: string
  dlp_SaaSApplicationID :: string
  dlp_Provider :: string
  dlp_Identifiers :: "string list"
  dlp_MinCount :: int
  dlp_OnMatch :: string
  dlp_InstanceScope :: string
  dlp_Status :: string
  dlp_Metadata :: metadata

definition zero_dlp_rule :: dlp_rule where
  "zero_dlp_rule =
    \<lparr>dlp_ID = [], dlp_TenantID = [], dlp_SaaSApplicationID = [], dlp_Provider = [], dlp_Identifiers = [],
     dlp_MinCount = 0, dlp_OnMatch = [], dlp_InstanceScope = [], dlp_Status = [], dlp_Metadata = []\<rparr>"

record swg_tls_bypass_rule =
  by_ID :: string
  by_TenantID :: string
  by_Name :: string
  by_MatchType :: string
  by_Pattern :: string
  by_SaaSApplicationID :: string
  by_Category :: string
  by_Reason :: string
  by_Status :: string
  by_Metadata :: metadata

definition zero_swg_tls_bypass_rule :: swg_tls_bypass_rule where
  "zero_swg_tls_bypass_rule =
    \<lparr>by_ID = [], by_TenantID = [], by_Name = [], by_MatchType = [], by_Pattern = [],
     by_SaaSApplicationID = [], by_Category = [], by_Reason = [], by_Status = [], by_Metadata = []\<rparr>"

record tenant_root_ca =
  ca_ID :: string
  ca_TenantID :: string
  ca_Name :: string
  ca_Status :: string
  ca_DistributionMode :: string
  ca_TrustStoreTarget :: string
  ca_CertificateRef :: "string option"
  ca_PrivateKeyStatus :: string
  ca_CreatedAt :: "string option"
  ca_UpdatedAt :: "string option"
  ca_Metadata :: metadata

definition zero_tenant_root_ca :: tenant_root_ca where
  "zero_tenant_root_ca =
    \<lparr>ca_ID = [], ca_TenantID = [], ca_Name = [], ca_Status = [], ca_DistributionMode = [],
     ca_TrustStoreTarget = [], ca_CertificateRef = None, ca_PrivateKeyStatus = [], ca_CreatedAt = None,
     ca_UpdatedAt = None, ca_Metadata = []\<rparr>"

record trust_profile =
  tp_ID :: string
  tp_TenantID :: string
  tp_Name :: string
  tp_TenantRootCAID :: string
  tp_TrustStoreState :: string
  tp_CertificatePinningPolicy :: string
  tp_BypassPolicyID :: "string option"
  tp_Status :: string
  tp_Metadata :: metadata

definition zero_trust_profile :: trust_profile where
  "zero_trust_profile =
    \<lparr>tp_ID = [], tp_TenantID = [], tp_Name = [], tp_TenantRootCAID = [], tp_TrustStoreState = [],
     tp_CertificatePinningPolicy = [], tp_BypassPolicyID = None, tp_Status = [], tp_Metadata = []\<rparr>"

record inspection_profile =
  ip_ID :: string
  ip_TenantID :: string
  ip_Name :: string
  ip_InspectionMode :: string
  ip_TrustProfileID :: string
  ip_TenantRootCAID :: string
  ip_QUICPolicyMode :: string
  ip_QUICPolicyAction :: string
  ip_PayloadPolicy :: string
  ip_CertificateIssuanceMode :: string
  ip_TLSInterceptionEnabled :: bool
  ip_NetworkExtensionDependency :: string
  ip_Status :: string
  ip_Metadata :: metadata

definition zero_inspection_profile :: inspection_profile where
  "zero_inspection_profile =
    \<lparr>ip_ID = [], ip_TenantID = [], ip_Name = [], ip_InspectionMode = [], ip_TrustProfileID = [],
     ip_TenantRootCAID = [], ip_QUICPolicyMode = [], ip_QUICPolicyAction = [], ip_PayloadPolicy = [],
     ip_CertificateIssuanceMode = [], ip_TLSInterceptionEnabled = False,
     ip_NetworkExtensionDependency = [], ip_Status = [], ip_Metadata = []\<rparr>"

record target_scope =
  ts_TargetType :: string
  ts_EdgeRegionID :: "string option"
  ts_EdgeClusterID :: "string option"
  ts_DeviceGroupID :: "string option"
  ts_ConnectorGroupID :: "string option"

definition zero_target_scope :: target_scope where
  "zero_target_scope =
    \<lparr>ts_TargetType = [], ts_EdgeRegionID = None, ts_EdgeClusterID = None, ts_DeviceGroupID = None,
     ts_ConnectorGroupID = None\<rparr>"

record policy_bundle =
  pb_ID :: string
  pb_TenantID :: string
  pb_Version :: string
  pb_PolicySchemaVersion :: string
  pb_Checksum :: string
  pb_Signature :: string
  pb_SigningKeyID :: string
  pb_TargetScope :: target_scope
  pb_PolicyIDs :: "string list"
  pb_CompiledPolicyRef :: string
  pb_BundleType :: string
  pb_ExpiresAt :: string
  pb_RevokedAt :: "string option"
  pb_CreatedAt :: string
  pb_ActivatedAt :: "string option"
  pb_Status :: string
  pb_SaaSCatalog :: "saas_catalog_entry list"
  pb_SWGTenantRestrictionRules :: "swg_tenant_restriction_rule list"
  pb_DLPRules :: "dlp_rule list"
  pb_SWGTLSBypassRules :: "swg_tls_bypass_rule list"
  pb_TenantRootCAs :: "tenant_root_ca list"
  pb_TrustProfiles :: "trust_profile list"
  pb_InspectionProfiles :: "inspection_profile list"
  pb_Metadata :: metadata

definition zero_policy_bundle :: policy_bundle where
  "zero_policy_bundle =
    \<lparr>pb_ID = [], pb_TenantID = [], pb_Version = [], pb_PolicySchemaVersion = [], pb_Checksum = [],
     pb_Signature = [], pb_SigningKeyID = [], pb_TargetScope = zero_target_scope, pb_PolicyIDs = [],
     pb_CompiledPolicyRef = [], pb_BundleType = [], pb_ExpiresAt = [], pb_RevokedAt = None,
     pb_CreatedAt = [], pb_ActivatedAt = None, pb_Status = [], pb_SaaSCatalog = [],
     pb_SWGTenantRestrictionRules = [], pb_DLPRules = [], pb_SWGTLSBypassRules = [],
     pb_TenantRootCAs = [], pb_TrustProfiles = [], pb_InspectionProfiles = [], pb_Metadata = []\<rparr>"

record legacy_exception_record =
  lx_ID :: string
  lx_TenantID :: string
  lx_BusinessOwner :: string
  lx_ExpiresAt :: string
  lx_SourceServer :: string
  lx_DeviceGroup :: string
  lx_ServiceFamily :: string
  lx_Protocol :: string
  lx_Port :: int
  lx_MaxSessionSeconds :: int
  lx_ApprovalRequired :: bool
  lx_Mode :: string
  lx_Status :: string

definition zero_legacy_exception_record :: legacy_exception_record where
  "zero_legacy_exception_record =
    \<lparr>lx_ID = [], lx_TenantID = [], lx_BusinessOwner = [], lx_ExpiresAt = [], lx_SourceServer = [],
     lx_DeviceGroup = [], lx_ServiceFamily = [], lx_Protocol = [], lx_Port = 0, lx_MaxSessionSeconds = 0,
     lx_ApprovalRequired = False, lx_Mode = [], lx_Status = []\<rparr>"

record decision_request =
  rq_TenantID :: string
  rq_SessionID :: string
  rq_AuthenticationEventID :: string
  rq_UserID :: string
  rq_SubjectUserID :: string
  rq_UserGroups :: "string list"
  rq_ActorType :: string
  rq_ActorNHIID :: string
  rq_NHIRiskSeverity :: string
  rq_TransportDeviceIdentity :: string
  rq_TransportClientCertVerified :: bool
  rq_DelegatedAccessGrantID :: string
  rq_AgentTaskSessionID :: string
  rq_ToolID :: string
  rq_ToolActionType :: string
  rq_ToolPermissionProfile :: string
  rq_ToolVersion :: string
  rq_ToolSignatureState :: string
  rq_MCPServerID :: string
  rq_MCPResourceURI :: string
  rq_MCPAudience :: string
  rq_MCPTokenPassthroughPolicy :: string
  rq_RuntimeEnvironmentID :: string
  rq_ContextBoundaryID :: string
  rq_DataClassification :: string
  rq_AMR :: "string list"
  rq_ACR :: string
  rq_MFAState :: string
  rq_AuthTime :: string
  rq_AuthMethod :: string
  rq_IDPID :: string
  rq_Issuer :: string
  rq_DeviceID :: string
  rq_DeviceTrustLevel :: string
  rq_ApplicationID :: string
  rq_ApplicationSensitivity :: string
  rq_ConnectorID :: string
  rq_ConnectorRouteVerified :: bool
  rq_SourceIP :: string
  rq_SourcePort :: int
  rq_Destination :: string
  rq_DestinationIP :: string
  rq_DestinationResolvedIP :: string
  rq_DestinationPort :: int
  rq_Protocol :: string
  rq_SteeringMode :: string
  rq_FQDN :: string
  rq_SNI :: string
  rq_ServiceFamily :: string
  rq_SaaSApplicationID :: string
  rq_SaaSName :: string
  rq_SaaSProvider :: string
  rq_SaaSCategory :: string
  rq_SaaSRiskTier :: string
  rq_SaaSMatchedDomain :: string
  rq_SaaSMatchedPattern :: string
  rq_SaaSMatchType :: string
  rq_InspectionProfileID :: string
  rq_InspectionMode :: string
  rq_TrustProfileID :: string
  rq_TenantRootCAID :: string
  rq_QUICPolicyMode :: string
  rq_QUICPolicyAction :: string
  rq_BreakGlassRequestID :: string
  rq_BreakGlassReasonPresent :: bool
  rq_BreakGlassTicketIDPresent :: bool
  rq_ConnectionInitiator :: string
  rq_SourceServer :: string
  rq_DeviceGroup :: string
  rq_SourceRole :: string
  rq_DestinationRole :: string
  rq_TokenBindingState :: string
  rq_WorkloadAttestationState :: string
  rq_HumanApprovalEventID :: string
  rq_HumanApprovalEventTrustState :: string
  rq_HumanApprovalEventBindingState :: string
  rq_HumanApprovalEventFreshnessState :: string
  rq_RiskStateID :: string
  rq_RiskStateSeverity :: string
  rq_RiskRecommendedAction :: string
  rq_RiskSignalSources :: "string list"
  rq_AdminHighRisk :: bool
  rq_IDPRiskLevel :: string
  rq_AgentTamperSignal :: bool
  rq_AuthenticationAnomaly :: bool

definition zero_decision_request :: decision_request where
  "zero_decision_request =
    \<lparr>rq_TenantID = [], rq_SessionID = [], rq_AuthenticationEventID = [], rq_UserID = [],
     rq_SubjectUserID = [], rq_UserGroups = [], rq_ActorType = [], rq_ActorNHIID = [],
     rq_NHIRiskSeverity = [], rq_TransportDeviceIdentity = [], rq_TransportClientCertVerified = False,
     rq_DelegatedAccessGrantID = [], rq_AgentTaskSessionID = [], rq_ToolID = [], rq_ToolActionType = [],
     rq_ToolPermissionProfile = [], rq_ToolVersion = [], rq_ToolSignatureState = [], rq_MCPServerID = [],
     rq_MCPResourceURI = [], rq_MCPAudience = [], rq_MCPTokenPassthroughPolicy = [],
     rq_RuntimeEnvironmentID = [], rq_ContextBoundaryID = [], rq_DataClassification = [], rq_AMR = [],
     rq_ACR = [], rq_MFAState = [], rq_AuthTime = [], rq_AuthMethod = [], rq_IDPID = [], rq_Issuer = [],
     rq_DeviceID = [], rq_DeviceTrustLevel = [], rq_ApplicationID = [], rq_ApplicationSensitivity = [],
     rq_ConnectorID = [], rq_ConnectorRouteVerified = False, rq_SourceIP = [], rq_SourcePort = 0,
     rq_Destination = [], rq_DestinationIP = [], rq_DestinationResolvedIP = [], rq_DestinationPort = 0,
     rq_Protocol = [], rq_SteeringMode = [], rq_FQDN = [], rq_SNI = [], rq_ServiceFamily = [],
     rq_SaaSApplicationID = [], rq_SaaSName = [], rq_SaaSProvider = [], rq_SaaSCategory = [],
     rq_SaaSRiskTier = [], rq_SaaSMatchedDomain = [], rq_SaaSMatchedPattern = [], rq_SaaSMatchType = [],
     rq_InspectionProfileID = [], rq_InspectionMode = [], rq_TrustProfileID = [], rq_TenantRootCAID = [],
     rq_QUICPolicyMode = [], rq_QUICPolicyAction = [], rq_BreakGlassRequestID = [],
     rq_BreakGlassReasonPresent = False, rq_BreakGlassTicketIDPresent = False,
     rq_ConnectionInitiator = [], rq_SourceServer = [], rq_DeviceGroup = [], rq_SourceRole = [],
     rq_DestinationRole = [], rq_TokenBindingState = [], rq_WorkloadAttestationState = [],
     rq_HumanApprovalEventID = [], rq_HumanApprovalEventTrustState = [],
     rq_HumanApprovalEventBindingState = [], rq_HumanApprovalEventFreshnessState = [],
     rq_RiskStateID = [], rq_RiskStateSeverity = [], rq_RiskRecommendedAction = [],
     rq_RiskSignalSources = [], rq_AdminHighRisk = False, rq_IDPRiskLevel = [],
     rq_AgentTamperSignal = False, rq_AuthenticationAnomaly = False\<rparr>"

record decision_action =
  da_Type :: string
  da_Target :: "string option"
  da_TTLSeconds :: "int option"
  da_Metadata :: metadata

record access_decision =
  dec_ID :: string
  dec_TenantID :: string
  dec_SessionID :: "string option"
  dec_AuthenticationEventID :: "string option"
  dec_UserID :: "string option"
  dec_SubjectUserID :: "string option"
  dec_ActorType :: string
  dec_ActorNHIID :: "string option"
  dec_DelegatedAccessGrantID :: "string option"
  dec_AgentTaskSessionID :: "string option"
  dec_ToolID :: "string option"
  dec_ToolActionType :: "string option"
  dec_ToolPermissionProfile :: "string option"
  dec_ToolVersion :: "string option"
  dec_ToolSignatureState :: "string option"
  dec_MCPServerID :: "string option"
  dec_MCPResourceURI :: "string option"
  dec_MCPAudience :: "string option"
  dec_MCPTokenPassthroughPolicy :: "string option"
  dec_RuntimeEnvironmentID :: "string option"
  dec_ContextBoundaryID :: "string option"
  dec_DataClassification :: "string option"
  dec_DeviceID :: "string option"
  dec_ApplicationID :: string
  dec_PolicyID :: string
  dec_PolicyBundleID :: string
  dec_PolicyBundleVersion :: string
  dec_RiskStateID :: "string option"
  dec_SourceIP :: "string option"
  dec_SourcePort :: "int option"
  dec_Destination :: "string option"
  dec_DestinationIP :: "string option"
  dec_DestinationPort :: "int option"
  dec_RequestMethod :: "string option"
  dec_RequestPath :: "string option"
  dec_Protocol :: "string option"
  dec_FQDN :: "string option"
  dec_SNI :: "string option"
  dec_ServiceFamily :: "string option"
  dec_SaaSContext :: "saas_context option"
  dec_ConnectionInitiator :: "string option"
  dec_SourceRole :: "string option"
  dec_DestinationRole :: "string option"
  dec_SourceVLANID :: "string option"
  dec_DestinationVLANID :: "string option"
  dec_MatchedConditions :: "string list"
  dec_TokenBindingState :: "string option"
  dec_WorkloadAttestationState :: "string option"
  dec_HumanApprovalEventID :: "string option"
  dec_Decision :: string
  dec_Reason :: "string option"
  dec_ReasonCodes :: "string list"
  dec_Actions :: "decision_action list"
  dec_Bypass :: bool
  dec_InspectionProfileID :: "string option"
  dec_InspectionMode :: "string option"
  dec_InspectionRouteCategory :: "string option"
  dec_InspectionExecutionScope :: "string option"
  dec_EdgeRegionID :: "string option"
  dec_EdgeClusterID :: "string option"
  dec_ConnectorID :: "string option"
  dec_CacheStatus :: string
  dec_TTLSeconds :: int
  dec_Timestamp :: string
  dec_Metadata :: metadata

record access_log =
  al_ID :: string
  al_TenantID :: string
  al_ConfigGenerationID :: string
  al_AccessDecisionID :: string
  al_SessionID :: "string option"
  al_UserID :: "string option"
  al_SubjectUserID :: "string option"
  al_ActorType :: string
  al_ActorNHIID :: "string option"
  al_DelegatedAccessGrantID :: "string option"
  al_HumanApprovalEventID :: "string option"
  al_AgentTaskSessionID :: "string option"
  al_ToolID :: "string option"
  al_ToolActionType :: "string option"
  al_MCPServerID :: "string option"
  al_RuntimeEnvironmentID :: "string option"
  al_DeviceID :: "string option"
  al_ApplicationID :: "string option"
  al_SourceIP :: "string option"
  al_Destination :: "string option"
  al_RequestMethod :: "string option"
  al_RequestPath :: "string option"
  al_ServiceFamily :: "string option"
  al_Decision :: string
  al_Reason :: "string option"
  al_ReasonCodes :: "string list"
  al_PolicyID :: "string option"
  al_PolicyBundleID :: "string option"
  al_MatchedConditions :: "string list"
  al_CacheStatus :: string
  al_EdgeRegionID :: "string option"
  al_EdgeClusterID :: "string option"
  al_ConnectorID :: "string option"
  al_Timestamp :: string
  al_Metadata :: metadata

record audit_log =
  au_ID :: string
  au_TenantID :: string
  au_ActorUserID :: "string option"
  au_ActorNHIID :: "string option"
  au_EventType :: string
  au_TargetType :: "string option"
  au_TargetID :: "string option"
  au_Action :: "string option"
  au_Result :: "string option"
  au_Reason :: "string option"
  au_AccessDecisionID :: "string option"
  au_PolicyID :: "string option"
  au_PolicyBundleID :: "string option"
  au_EdgeRegionID :: "string option"
  au_EdgeClusterID :: "string option"
  au_SessionID :: "string option"
  au_AuthenticationEventID :: "string option"
  au_SourceIP :: "string option"
  au_Timestamp :: string
  au_Metadata :: metadata

record decision_trace =
  dt_ID :: string
  dt_AccessDecisionID :: string
  dt_PolicyID :: string
  dt_PolicyBundleID :: string
  dt_MatchedConditions :: "string list"
  dt_CacheStatus :: string
  dt_ReasonCodes :: "string list"
  dt_Timestamp :: string
  dt_Metadata :: metadata

end
