(* ===== verification/Go_Netip.thy ===== *)
theory Go_Netip
  imports Go_Values "HOL-Library.Word"
begin

text \<open>
  IP addresses as \<open>net/netip\<close> and \<open>net\<close> give them to the decision code: parsing and printing of
  addresses and prefixes, membership in a prefix, IPv4-mapped addresses, the address classes, and
  \<open>net.SplitHostPort\<close>. An address is a 32-bit or a 128-bit word; only the latter has a zone.
\<close>

unbundle bit_operations_syntax

datatype addr = V4 "32 word" | V6 "128 word" string

record prefix_net =
  pfx_addr :: addr
  pfx_bits :: nat

section \<open>Parsing\<close>

definition v4_of_bytes :: "int list \<Rightarrow> 32 word" where
  "v4_of_bytes bs = word_of_int (horner_sum id 256 (rev bs))"

definition v6_of_groups :: "int list \<Rightarrow> 128 word" where
  "v6_of_groups gs = word_of_int (horner_sum id 65536 (rev gs))"

definition v4_field :: "string \<Rightarrow> int option" where
  "v4_field f =
     (if f \<noteq> [] \<and> list_all is_digit f \<and> (1 < length f \<longrightarrow> hd f \<noteq> CHR ''0'') \<and> digits_val f \<le> 255
      then Some (digits_val f) else None)"

text \<open>\<open>parseIPv4Fields\<close>: four decimal octets, no leading zero, none above 255.\<close>

definition parse_v4_fields :: "string \<Rightarrow> int list option" where
  "parse_v4_fields s =
     (let fs = map v4_field (Split s (CHR ''.''))
      in if length fs = 4 \<and> list_all (\<lambda>f. f \<noteq> None) fs then Some (map the fs) else None)"

definition parseIPv4 :: "string \<Rightarrow> addr option" where
  "parseIPv4 s = map_option (\<lambda>bs. V4 (v4_of_bytes bs)) (parse_v4_fields s)"

text \<open>
  The loop of \<open>parseIPv6\<close>: the groups read so far, the position of the ellipsis, and the rest of the
  string. An IPv4 tail counts as two groups.
\<close>

definition hex_run :: "string \<Rightarrow> string" where
  "hex_run s = takeWhile (\<lambda>c. hex_digit_val c \<noteq> None) s"

definition hex_val :: "string \<Rightarrow> int" where
  "hex_val s = foldl (\<lambda>a c. 16 * a + (case hex_digit_val c of None \<Rightarrow> 0 | Some v \<Rightarrow> v)) 0 s"

fun v6_groups :: "nat \<Rightarrow> int list \<Rightarrow> nat option \<Rightarrow> string \<Rightarrow> (int list \<times> nat option) option" where
  "v6_groups 0 gs el s = (if s = [] then Some (gs, el) else None)"
| "v6_groups (Suc fuel) gs el s =
     (if 8 \<le> length gs then (if s = [] then Some (gs, el) else None)
      else
        let ds = hex_run s; rest = drop (length ds) s
        in if ds = [] \<or> 4 < length ds then None
           else case rest of
             [] \<Rightarrow> Some (gs @ [hex_val ds], el)
           | c # cs \<Rightarrow>
               if c = CHR ''.'' then
                 (if (el = None \<and> length gs \<noteq> 6) \<or> 6 < length gs then None
                  else case parse_v4_fields s of
                         Some [a, b, c, d] \<Rightarrow> Some (gs @ [256 * a + b, 256 * c + d], el)
                       | _ \<Rightarrow> None)
               else if c \<noteq> CHR '':'' \<or> cs = [] then None
               else
                 let gs' = gs @ [hex_val ds]
                 in if hd cs = CHR '':'' then
                      (if el \<noteq> None then None
                       else if tl cs = [] then Some (gs', Some (length gs'))
                       else v6_groups fuel gs' (Some (length gs')) (tl cs))
                    else v6_groups fuel gs' el cs)"

definition expand_groups :: "int list \<Rightarrow> nat option \<Rightarrow> int list option" where
  "expand_groups gs el =
     (case el of
        None \<Rightarrow> if length gs = 8 then Some gs else None
      | Some k \<Rightarrow> if length gs < 8 then Some (take k gs @ replicate (8 - length gs) 0 @ drop k gs) else None)"

definition parseIPv6 :: "string \<Rightarrow> addr option" where
  "parseIPv6 s =
     (let body = takeWhile (\<lambda>c. c \<noteq> CHR ''%'') s; zone = drop (length body + 1) s
      in if CHR ''%'' \<in> set s \<and> zone = [] then None
         else if body = ''::'' then Some (V6 0 zone)
         else
           let lead = HasPrefix body ''::''
           in case v6_groups 8 [] (if lead then Some 0 else None) (if lead then drop 2 body else body) of
                None \<Rightarrow> None
              | Some (gs, el) \<Rightarrow> map_option (\<lambda>gs. V6 (v6_of_groups gs) zone) (expand_groups gs el))"

text \<open>The first of the bytes \<open>.\<close>, \<open>:\<close> and \<open>%\<close> decides what the text is.\<close>

definition ParseAddr :: "string \<Rightarrow> addr option" where
  "ParseAddr s =
     (case List.find (\<lambda>c. c = CHR ''.'' \<or> c = CHR '':'' \<or> c = CHR ''%'') s of
        None \<Rightarrow> None
      | Some c \<Rightarrow> if c = CHR ''.'' then parseIPv4 s else if c = CHR '':'' then parseIPv6 s else None)"

fun Is4 :: "addr \<Rightarrow> bool" where
  "Is4 (V4 _) = True"
| "Is4 (V6 _ _) = False"

fun has_zone :: "addr \<Rightarrow> bool" where
  "has_zone (V4 _) = False"
| "has_zone (V6 _ z) = (z \<noteq> [])"

definition ParsePrefix :: "string \<Rightarrow> prefix_net option" where
  "ParsePrefix s =
     (case LastIndexByte s (CHR ''/'') of
        None \<Rightarrow> None
      | Some i \<Rightarrow>
          (case ParseAddr (take i s) of
             None \<Rightarrow> None
           | Some a \<Rightarrow>
               (let bits = drop (i + 1) s
                in if has_zone a \<or> (1 < length bits \<and> \<not> (49 \<le> byte (hd bits) \<and> byte (hd bits) \<le> 57)) then None
                   else case Atoi bits of
                          None \<Rightarrow> None
                        | Some n \<Rightarrow>
                            if 0 \<le> n \<and> n \<le> (if Is4 a then 32 else 128)
                            then Some \<lparr>pfx_addr = a, pfx_bits = nat n\<rparr> else None)))"

section \<open>Membership, mapping and classes\<close>

text \<open>\<open>Prefix.Contains\<close>: same family, no zone on the address, and equal leading bits.\<close>

fun Contains_addr :: "addr \<Rightarrow> nat \<Rightarrow> addr \<Rightarrow> bool" where
  "Contains_addr (V4 p) n (V4 a) = (drop_bit (32 - n) (a XOR p) = 0)"
| "Contains_addr (V6 p _) n (V6 a z) = (z = [] \<and> drop_bit (128 - n) (a XOR p) = 0)"
| "Contains_addr _ _ _ = False"

definition Contains :: "prefix_net \<Rightarrow> addr \<Rightarrow> bool" where
  "Contains p a = Contains_addr (pfx_addr p) (pfx_bits p) a"

text \<open>\<open>Prefix.Masked\<close> clears the host bits.\<close>

fun mask_addr :: "addr \<Rightarrow> nat \<Rightarrow> addr" where
  "mask_addr (V4 p) n = V4 (push_bit (32 - n) (drop_bit (32 - n) p))"
| "mask_addr (V6 p z) n = V6 (push_bit (128 - n) (drop_bit (128 - n) p)) []"

definition Masked :: "prefix_net \<Rightarrow> prefix_net" where
  "Masked p = p\<lparr>pfx_addr := mask_addr (pfx_addr p) (pfx_bits p)\<rparr>"

fun Is4In6 :: "addr \<Rightarrow> bool" where
  "Is4In6 (V4 _) = False"
| "Is4In6 (V6 w _) = (drop_bit 32 w = 0xFFFF)"

fun Unmap :: "addr \<Rightarrow> addr" where
  "Unmap (V4 w) = V4 w"
| "Unmap (V6 w z) = (if drop_bit 32 w = 0xFFFF then V4 (ucast w) else V6 w z)"

text \<open>The class predicates look at an IPv4-mapped address as its IPv4 self.\<close>

definition IsLoopback :: "addr \<Rightarrow> bool" where
  "IsLoopback a = (case Unmap a of V4 w \<Rightarrow> drop_bit 24 w = 127 | V6 w z \<Rightarrow> w = 1)"

definition IsPrivate :: "addr \<Rightarrow> bool" where
  "IsPrivate a =
     (case Unmap a of
        V4 w \<Rightarrow> drop_bit 24 w = 10 \<or> drop_bit 20 w = 0xAC1 \<or> drop_bit 16 w = 0xC0A8
      | V6 w z \<Rightarrow> drop_bit 121 w = 0x7E)"

definition IsLinkLocalUnicast :: "addr \<Rightarrow> bool" where
  "IsLinkLocalUnicast a =
     (case Unmap a of V4 w \<Rightarrow> drop_bit 16 w = 0xA9FE | V6 w z \<Rightarrow> drop_bit 118 w = 0x3FA)"

definition IsLinkLocalMulticast :: "addr \<Rightarrow> bool" where
  "IsLinkLocalMulticast a =
     (case Unmap a of
        V4 w \<Rightarrow> drop_bit 8 w = 0xE00000
      | V6 w z \<Rightarrow> drop_bit 120 w = 0xFF \<and> drop_bit 112 w AND 0xF = 0x2)"

definition IsInterfaceLocalMulticast :: "addr \<Rightarrow> bool" where
  "IsInterfaceLocalMulticast a =
     (case Unmap a of V4 w \<Rightarrow> False | V6 w z \<Rightarrow> drop_bit 120 w = 0xFF \<and> drop_bit 112 w AND 0xF = 0x1)"

text \<open>\<open>0.0.0.0\<close> and \<open>::\<close>; the mapped \<open>::ffff:0.0.0.0\<close> is neither.\<close>

definition IsUnspecified :: "addr \<Rightarrow> bool" where
  "IsUnspecified a \<longleftrightarrow> a = V4 0 \<or> a = V6 0 []"

section \<open>Printing\<close>

definition v4_bytes :: "32 word \<Rightarrow> int list" where
  "v4_bytes w = map (\<lambda>k. uint (drop_bit k w) mod 256) [24, 16, 8, 0]"

definition v6_group_list :: "128 word \<Rightarrow> int list" where
  "v6_group_list w = map (\<lambda>k. uint (drop_bit k w) mod 65536) [112, 96, 80, 64, 48, 32, 16, 0]"

fun hex_digits :: "nat \<Rightarrow> int \<Rightarrow> string" where
  "hex_digits 0 n = []"
| "hex_digits (Suc k) n =
     (if n < 16 then [hex_char n] else hex_digits k (n div 16) @ [hex_char (n mod 16)])"

text \<open>The leftmost longest run of at least two zero groups, as start and end.\<close>

definition zero_run :: "int list \<Rightarrow> nat \<Rightarrow> nat" where
  "zero_run gs i = length (takeWhile (\<lambda>g. g = 0) (drop i gs))"

definition longest_zero_run :: "int list \<Rightarrow> (nat \<times> nat) option" where
  "longest_zero_run gs =
     foldl (\<lambda>best i. let l = zero_run gs i
                     in if 2 \<le> l \<and> (case best of None \<Rightarrow> True | Some (a, b) \<Rightarrow> b - a < l) then Some (i, i + l) else best)
       None [0..<length gs]"

definition v6_text :: "int list \<Rightarrow> string" where
  "v6_text gs =
     (let hx = map (hex_digits 4) gs
      in case longest_zero_run gs of
           None \<Rightarrow> Join hx '':''
         | Some (a, b) \<Rightarrow> Join (take a hx) '':'' @ ''::'' @ Join (drop b hx) '':'')"

definition v4_text :: "32 word \<Rightarrow> string" where
  "v4_text w = Join (map Itoa (v4_bytes w)) ''.''"

fun Addr_String :: "addr \<Rightarrow> string" where
  "Addr_String (V4 w) = v4_text w"
| "Addr_String (V6 w z) =
     (if drop_bit 32 w = 0xFFFF then ''::ffff:'' @ v4_text (ucast w) else v6_text (v6_group_list w)) @
     (if z = [] then [] else CHR ''%'' # z)"

section \<open>Package net\<close>

definition ParseIP_ok :: "string \<Rightarrow> bool" where
  "ParseIP_ok s = (case ParseAddr s of None \<Rightarrow> False | Some a \<Rightarrow> \<not> has_zone a)"

definition SplitHostPort :: "string \<Rightarrow> (string \<times> string) option" where
  "SplitHostPort s =
     (case LastIndexByte s (CHR '':'') of
        None \<Rightarrow> None
      | Some i \<Rightarrow>
          if hd s = CHR ''['' then
            (case IndexByte s (CHR '']'') of
               None \<Rightarrow> None
             | Some end \<Rightarrow>
                 if end + 1 \<noteq> i then None
                 else if CHR ''['' \<in> set (drop 1 s) \<or> CHR '']'' \<in> set (drop (end + 1) s) then None
                 else Some (take (end - 1) (drop 1 s), drop (i + 1) s))
          else if CHR '':'' \<in> set (take i s) \<or> CHR ''['' \<in> set s \<or> CHR '']'' \<in> set s then None
          else Some (take i s, drop (i + 1) s))"

section \<open>Laws\<close>

lemma Unmap_idem [simp]: "Unmap (Unmap a) = Unmap a"
  by (cases a) auto

lemma class_Unmap [simp]:
  "IsLoopback (Unmap a) = IsLoopback a"
  "IsPrivate (Unmap a) = IsPrivate a"
  "IsLinkLocalUnicast (Unmap a) = IsLinkLocalUnicast a"
  "IsLinkLocalMulticast (Unmap a) = IsLinkLocalMulticast a"
  "IsInterfaceLocalMulticast (Unmap a) = IsInterfaceLocalMulticast a"
  by (simp_all add: IsLoopback_def IsPrivate_def IsLinkLocalUnicast_def IsLinkLocalMulticast_def
      IsInterfaceLocalMulticast_def)

lemma drop_bit_masked:
  fixes p :: "'a::len word"
  shows "drop_bit k (push_bit k (drop_bit k p)) = drop_bit k p"
  by (rule bit_word_eqI) (auto simp: bit_simps dest: bit_imp_le_length)

text \<open>Masking a prefix does not change which addresses it contains.\<close>

lemma Contains_Masked [simp]: "Contains (Masked p) a = Contains p a"
  by (cases "pfx_addr p"; cases a) (simp_all add: Contains_def Masked_def drop_bit_masked)

lemma Contains_same_family: "Contains p a \<Longrightarrow> Is4 (pfx_addr p) = Is4 a"
  by (cases "pfx_addr p"; cases a) (simp_all add: Contains_def)

lemma Contains_zero_bits:
  "pfx_bits p = 0 \<Longrightarrow> pfx_addr p = V4 w \<Longrightarrow> Contains p (V4 a)"
proof -
  have "drop_bit 32 (x :: 32 word) = 0" for x
    by (rule bit_word_eqI) (auto simp: bit_simps dest: bit_imp_le_length)
  then show "pfx_bits p = 0 \<Longrightarrow> pfx_addr p = V4 w \<Longrightarrow> Contains p (V4 a)"
    by (simp add: Contains_def)
qed

subsection \<open>Printing an IPv4 address and reading it back\<close>

lemma Split_no_sep: "sep \<notin> set s \<Longrightarrow> Split s sep = [s]"
  by (induction s) auto

lemma Split_append_sep: "sep \<notin> set s \<Longrightarrow> Split (s @ sep # r) sep = s # Split r sep"
  by (induction s) auto

lemma nat_digits_no_dot: "0 \<le> n \<Longrightarrow> c \<in> set (nat_digits n) \<Longrightarrow> is_digit c"
  using nat_digits_all_digits [of n] by (simp add: list_all_iff)

lemma digit_not_sep: "is_digit c \<Longrightarrow> c \<noteq> CHR ''.'' \<and> c \<noteq> CHR '':'' \<and> c \<noteq> CHR ''%''"
  by (auto simp: is_digit_def)

lemma hd_nat_digits_pos: "0 < n \<Longrightarrow> hd (nat_digits n) \<noteq> CHR ''0''"
proof (induction n rule: nat_digits.induct)
  case (1 n)
  show ?case
  proof (cases "n < 10")
    case True
    have "byte (digit_char n) \<noteq> byte (CHR ''0'')" using True "1.prems" by simp
    then have "digit_char n \<noteq> CHR ''0''" by metis
    with True show ?thesis by (subst nat_digits.simps) simp
  next
    case False
    then have "hd (nat_digits (n div 10)) \<noteq> CHR ''0''" by (intro "1.IH") simp_all
    with False show ?thesis by (subst nat_digits.simps) simp
  qed
qed

lemma v4_field_Itoa: "0 \<le> b \<Longrightarrow> b \<le> 255 \<Longrightarrow> v4_field (Itoa b) = Some b"
proof -
  assume b: "0 \<le> b" "b \<le> 255"
  have "length (nat_digits b) = 1" if "b = 0" using that by (subst nat_digits.simps) simp
  then show ?thesis
    using b hd_nat_digits_pos [of b] by (cases "b = 0") (auto simp: v4_field_def Itoa_def)
qed

lemma uint_split_bytes:
  fixes x :: int
  assumes "0 \<le> x" "x < 4294967296"
  shows "x mod 256 + 256 * (x div 256 mod 256 + 256 * (x div 65536 mod 256 + 256 * (x div 16777216 mod 256))) = x"
proof -
  have "x div 65536 = x div 256 div 256" "x div 16777216 = x div 256 div 256 div 256"
    by (simp_all flip: zdiv_zmult2_eq)
  moreover have "x div 256 div 256 div 256 mod 256 = x div 256 div 256 div 256"
    using assms by (subst mod_pos_pos_trivial) simp_all
  ultimately show ?thesis
    by (metis add.commute mult_div_mod_eq)
qed

lemma uint_drop_bit_v4: "uint (drop_bit k w) = uint w div 2 ^ k" for w :: "32 word"
proof -
  have "take_bit 32 (uint w) = uint w" using uint_range_size [of w] by (intro take_bit_int_eq_self) (simp_all add: word_size)
  then have "uint (drop_bit k w) = drop_bit k (uint w)"
    by (simp add: unsigned_drop_bit_eq)
  then show ?thesis by (simp add: drop_bit_int_def)
qed

lemma v4_bytes_div:
  "v4_bytes w = [uint w div 16777216 mod 256, uint w div 65536 mod 256, uint w div 256 mod 256, uint w mod 256]"
  unfolding v4_bytes_def uint_drop_bit_v4 by simp

lemma horner_bytes: "horner_sum id 256 (rev [a, b, c, d]) = d + 256 * (c + 256 * (b + 256 * a))" for a :: int
  by simp

lemma v4_of_bytes_v4_bytes: "v4_of_bytes (v4_bytes w) = w"
proof -
  have "0 \<le> uint w" "uint w < 4294967296"
    using uint_range_size [of w] by (simp_all add: word_size)
  then show ?thesis
    unfolding v4_of_bytes_def v4_bytes_div horner_bytes by (simp only: uint_split_bytes of_int_uint ucast_id)
qed

lemma v4_bytes_range: "b \<in> set (v4_bytes w) \<Longrightarrow> 0 \<le> b \<and> b \<le> 255"
proof -
  assume "b \<in> set (v4_bytes w)"
  then obtain x :: int where "b = x mod 256" by (auto simp: v4_bytes_def)
  then show ?thesis using pos_mod_bound [of 256 x] pos_mod_sign [of 256 x] by linarith
qed

lemma parse_v4_fields_print:
  assumes "\<And>x. x \<in> set [a, b, c, d] \<Longrightarrow> 0 \<le> x \<and> x \<le> 255"
  shows "parse_v4_fields (Join (map Itoa [a, b, c, d]) ''.'') = Some [a, b, c, d]"
proof -
  have no_dot: "CHR ''.'' \<notin> set (Itoa x)" if "0 \<le> x" for x
    using that nat_digits_no_dot digit_not_sep by (fastforce simp: Itoa_def)
  have "Split (Join (map Itoa [a, b, c, d]) ''.'') (CHR ''.'') = map Itoa [a, b, c, d]"
    using assms by (simp add: Split_append_sep Split_no_sep no_dot)
  then show ?thesis
    using assms by (simp add: parse_v4_fields_def v4_field_Itoa)
qed

lemma find_append_None: "List.find P xs = None \<Longrightarrow> List.find P (xs @ ys) = List.find P ys"
  by (induction xs) (auto split: if_splits)

lemma ParseAddr_v4_text [simp]: "ParseAddr (v4_text w) = Some (V4 w)"
proof -
  obtain a b c d where bs: "v4_bytes w = [a, b, c, d]" using v4_bytes_div by blast
  then have range: "x \<in> set [a, b, c, d] \<Longrightarrow> 0 \<le> x \<and> x \<le> 255" for x
    using v4_bytes_range [of x w] by simp
  let ?sep = "\<lambda>c. c = CHR ''.'' \<or> c = CHR '':'' \<or> c = CHR ''%''"
  have "List.find ?sep (Itoa a) = None"
    using range [of a] nat_digits_no_dot [of a] digit_not_sep by (auto simp: find_None_iff Itoa_def)
  then have "List.find ?sep (v4_text w) = Some (CHR ''.'')"
    by (simp add: v4_text_def bs find_append_None)
  moreover have "parseIPv4 (v4_text w) = Some (V4 w)"
    using parse_v4_fields_print [of a b c d] range v4_of_bytes_v4_bytes [of w]
    by (simp add: parseIPv4_def v4_text_def bs)
  ultimately show ?thesis by (simp add: ParseAddr_def)
qed

end
