(* ===== verification/Evaluator_Types.thy ===== *)
theory Evaluator_Types
  imports Model_Types Go_Netip
begin

text \<open>
  The configuration of the decision engine (\<open>Evaluator\<close> of \<open>src/decision/evaluator.go\<close>) with the
  structures it holds, and the small helpers the whole package shares.  The receiver of a Go method
  is the first argument of its definition here.
\<close>

section \<open>Configuration\<close>

record internal_networks =
  in_CIDRs :: "string list"
  in_Domains :: "string list"

record east_west_rule =
  er_ID :: string
  er_Priority :: int
  er_SourceUsers :: "string list"
  er_SourceGroups :: "string list"
  er_SourceDevices :: "string list"
  er_Destinations :: "string list"
  er_Protocols :: "string list"
  er_ServiceTransportPorts :: "(string \<times> int list) list option"
  er_Mode :: string
  er_Warn :: bool
  er_MaxTTLSeconds :: int
  er_DeviceAttestedAuto :: bool
  er_RequiredWorkloadAttestation :: bool
  er_RequiredIdPID :: string
  er_MinACR :: string
  er_RequiredAMR :: "string list"
  er_MaxAgeSeconds :: int
  er_MaxAgeSecondsSet :: bool
  er_RiskSeverities :: "string list"

definition zero_east_west_rule :: east_west_rule where
  "zero_east_west_rule =
    \<lparr>er_ID = [], er_Priority = 0, er_SourceUsers = [], er_SourceGroups = [], er_SourceDevices = [],
     er_Destinations = [], er_Protocols = [], er_ServiceTransportPorts = None, er_Mode = [], er_Warn = False,
     er_MaxTTLSeconds = 0, er_DeviceAttestedAuto = False, er_RequiredWorkloadAttestation = False,
     er_RequiredIdPID = [], er_MinACR = [], er_RequiredAMR = [], er_MaxAgeSeconds = 0,
     er_MaxAgeSecondsSet = False, er_RiskSeverities = []\<rparr>"

record east_west_grant =
  eg_SubjectUserID :: string
  eg_DeviceID :: string
  eg_Destination :: string
  eg_Protocol :: string
  eg_ExpiresAt :: instant
  eg_LastUsedAt :: instant
  eg_IdleTTLSeconds :: int

record legacy_exception =
  le_ID :: string
  le_SourceServer :: string
  le_DeviceGroup :: string
  le_ServiceFamily :: string
  le_Protocol :: string
  le_Port :: int
  le_Mode :: string
  le_ExpiresAt :: instant
  le_Active :: bool

record evaluator =
  ev_TenantRestrictionHeaderValues :: "(string \<times> string) list"
  ev_Policies :: "policy list"
  ev_PolicyBundle :: policy_bundle
  ev_EdgeRegionID :: string
  ev_EdgeClusterID :: string
  ev_EastWestEnabled :: bool
  ev_EastWestAllowUnmatched :: bool
  ev_EastWestInternalNetworks :: internal_networks
  ev_EastWestRules :: "east_west_rule list"
  ev_EastWestMaxGrantTTLSeconds :: int
  ev_EastWestGrants :: "east_west_grant list"
  ev_ServerInitiatedEnabled :: bool
  ev_LegacyExceptions :: "legacy_exception list"

definition zero_evaluator :: evaluator where
  "zero_evaluator =
    \<lparr>ev_TenantRestrictionHeaderValues = [], ev_Policies = [], ev_PolicyBundle = zero_policy_bundle,
     ev_EdgeRegionID = [], ev_EdgeClusterID = [], ev_EastWestEnabled = False,
     ev_EastWestAllowUnmatched = False, ev_EastWestInternalNetworks = \<lparr>in_CIDRs = [], in_Domains = []\<rparr>,
     ev_EastWestRules = [], ev_EastWestMaxGrantTTLSeconds = 0, ev_EastWestGrants = [],
     ev_ServerInitiatedEnabled = False, ev_LegacyExceptions = []\<rparr>"

section \<open>Helpers of the package\<close>

definition copyMetadata :: "metadata \<Rightarrow> metadata" where
  "copyMetadata m = puts (map (\<lambda>(k, v). (True, k, v)) (rev m)) []"

definition singleValue :: "string \<Rightarrow> string list" where
  "singleValue v = (if v = [] then [] else [v])"

definition trueValue :: "bool \<Rightarrow> string list" where
  "trueValue v = (if \<not> v then [] else [''true''])"

definition normalizedRiskValue :: "string \<Rightarrow> string" where
  "normalizedRiskValue v =
     (let v = ToLower (TrimSpace v); v = ReplaceByte (CHR ''-'') (CHR ''_'') v
      in ReplaceByte (CHR '' '') (CHR ''_'') v)"

definition appendUniqueString :: "string list \<Rightarrow> string \<Rightarrow> string list" where
  "appendUniqueString vs v = (if v = [] then vs else if v \<in> set vs then vs else vs @ [v])"

definition containsString :: "string list \<Rightarrow> string \<Rightarrow> bool" where
  "containsString vs e \<longleftrightarrow> e \<in> set vs"

definition firstNonEmpty :: "string list \<Rightarrow> string" where
  "firstNonEmpty vs = (case List.find (\<lambda>v. TrimSpace v \<noteq> []) vs of Some v \<Rightarrow> TrimSpace v | None \<Rightarrow> [])"

definition splitCommaList :: "string \<Rightarrow> string list" where
  "splitCommaList v = filter (\<lambda>p. p \<noteq> []) (map TrimSpace (Split v (CHR '','')))"

definition stringMetadataValue :: "metadata \<Rightarrow> string \<Rightarrow> string" where
  "stringMetadataValue m k =
     (case map_of m k of None \<Rightarrow> [] | Some ANil \<Rightarrow> [] | Some v \<Rightarrow> TrimSpace (Sprint v))"

definition valueOrDefault :: "string \<Rightarrow> string \<Rightarrow> string" where
  "valueOrDefault v fallback = (if v = [] then fallback else v)"

definition stringPtr :: "string \<Rightarrow> string option" where
  "stringPtr v = (if v = [] then None else Some v)"

definition intPtr :: "int \<Rightarrow> int option" where
  "intPtr v = (if v = 0 then None else Some v)"

definition intMetadata :: "metadata \<Rightarrow> string \<Rightarrow> int \<Rightarrow> int" where
  "intMetadata m k fallback =
     (case map_of m k of
        Some (AInt i) \<Rightarrow> i
      | Some (AFloat s ds e) \<Rightarrow> float_trunc s ds e
      | Some (AStr s) \<Rightarrow> (case Atoi s of Some i \<Rightarrow> i | None \<Rightarrow> fallback)
      | _ \<Rightarrow> fallback)"

definition boolMetadataValue :: "metadata \<Rightarrow> string \<Rightarrow> bool" where
  "boolMetadataValue m k =
     (case map_of m k of
        Some (ABool b) \<Rightarrow> b
      | Some (AStr s) \<Rightarrow> EqualFold (TrimSpace s) ''true''
      | _ \<Rightarrow> False)"

text \<open>Identifiers.  The sixteen bytes \<open>crypto/rand\<close> delivers are an argument; without them the
  identifier is made of the time, the process and a counter, which are arguments as well.\<close>

datatype entropy = Random "int list" | Fallback int int

definition randomModelID :: "string \<Rightarrow> instant \<Rightarrow> entropy \<Rightarrow> string" where
  "randomModelID prefix fallback r =
     (case r of
        Random bs \<Rightarrow> prefix @ EncodeToString bs
      | Fallback pid n \<Rightarrow> prefix @ Itoa fallback @ ''_'' @ Itoa pid @ ''_'' @ Itoa n)"

section \<open>Laws\<close>

lemma stringPtr_simps [simp]: "stringPtr [] = None" "stringPtr (c # s) = Some (c # s)"
  by (simp_all add: stringPtr_def)

lemma valueOrDefault_simps [simp]: "valueOrDefault [] d = d" "valueOrDefault (c # s) d = c # s"
  by (simp_all add: valueOrDefault_def)

lemma singleValue_simps [simp]: "singleValue [] = []" "singleValue (c # s) = [c # s]"
  by (simp_all add: singleValue_def)

lemma set_appendUniqueString: "set (appendUniqueString vs v) = set vs \<union> (if v = [] then {} else {v})"
  by (auto simp: appendUniqueString_def)

lemma distinct_appendUniqueString [simp]: "distinct vs \<Longrightarrow> distinct (appendUniqueString vs v)"
  by (auto simp: appendUniqueString_def)

lemma appendUniqueString_mono: "x \<in> set vs \<Longrightarrow> x \<in> set (appendUniqueString vs v)"
  by (auto simp: appendUniqueString_def)

lemma map_of_copyMetadata [simp]: "map_of (copyMetadata m) = map_of m"
proof (induction m)
  case (Cons e m)
  then show ?case by (cases e) (auto simp: copyMetadata_def puts_append)
qed (simp add: copyMetadata_def)

lemma normalizedRiskValue_Nil [simp]: "normalizedRiskValue [] = []"
  by (simp add: normalizedRiskValue_def ToLower_def ReplaceByte_def)

end
