(* ===== verification/Domains.thy ===== *)
theory Domains
  imports Go_Netip "HOL-Library.Sublist"
begin

text \<open>
  Domain names as lists of labels.  Three places of the decision path compare a host with a
  pattern by \<open>strings.HasSuffix (host, "." + suffix)\<close>; the lemmas here say what such a
  comparison means for the labels of the two names.
\<close>

abbreviation labels :: "string \<Rightarrow> string list" where
  "labels s \<equiv> Split s (CHR ''.'')"

lemma Split_nonempty [simp]: "Split s sep \<noteq> []"
  by (cases s) (auto split: list.splits)

lemma Split_append: "Split (s @ sep # r) sep = Split s sep @ Split r sep"
  by (induction s) (auto split: list.splits)

lemma Join_Split [simp]: "Join (Split s sep) [sep] = s"
proof (induction s)
  case (Cons c s)
  obtain p ps where s: "Split s sep = p # ps" by (cases "Split s sep") simp_all
  with Cons show ?case by (cases ps) auto
qed simp

lemma Join_append: "xs \<noteq> [] \<Longrightarrow> ys \<noteq> [] \<Longrightarrow> Join (xs @ ys) sep = Join xs sep @ sep @ Join ys sep"
  by (induction xs sep rule: Join.induct) (auto simp: neq_Nil_conv)

lemma Split_eq_iff [simp]: "Split s sep = Split t sep \<longleftrightarrow> s = t"
  by (metis Join_Split)

lemma Split_Join:
  "vs \<noteq> [] \<Longrightarrow> \<forall>v \<in> set vs. c \<notin> set v \<Longrightarrow> Split (Join vs [c]) c = vs"
proof (induction vs)
  case (Cons v vs)
  then show ?case by (cases vs) (simp_all add: Split_no_sep Split_append_sep)
qed simp

lemma Split_avoids: "v \<in> set (Split s c) \<Longrightarrow> c \<notin> set v \<and> set v \<subseteq> set s"
proof (induction s arbitrary: v)
  case (Cons a s)
  then show ?case by (cases "Split s c") (fastforce split: if_splits)+
qed simp

lemma set_Join: "set (Join vs [c]) \<subseteq> insert c (\<Union> (set ` set vs))"
proof (induction vs)
  case (Cons v vs)
  then show ?case by (cases vs) auto
qed simp

text \<open>Being below a name: its labels are a proper suffix.\<close>

definition below :: "string \<Rightarrow> string \<Rightarrow> bool" where
  "below host name \<longleftrightarrow> strict_suffix (labels name) (labels host)"

lemma HasSuffix_dot: "HasSuffix host (CHR ''.'' # name) \<longleftrightarrow> below host name"
proof
  assume "HasSuffix host (CHR ''.'' # name)"
  then obtain r where "host = r @ CHR ''.'' # name" by (auto simp: HasSuffix_iff)
  then have "labels host = labels r @ labels name" by (simp add: Split_append)
  then show "below host name" by (auto simp: below_def strict_suffix_def suffix_def)
next
  assume "below host name"
  then obtain ls where ls: "labels host = ls @ labels name" "ls \<noteq> []"
    unfolding below_def strict_suffix_def suffix_def by (metis append_Nil)
  have "host = Join (labels host) ''.''" by simp
  also have "\<dots> = Join ls ''.'' @ ''.'' @ name" using ls by (simp add: Join_append)
  finally show "HasSuffix host (CHR ''.'' # name)" by (auto simp: HasSuffix_iff)
qed

lemma below_irrefl [simp]: "\<not> below host host"
  by (simp add: below_def)

lemma below_trans: "below a b \<Longrightarrow> below b c \<Longrightarrow> below a c"
  unfolding below_def by (rule suffix_order.strict_trans)

lemma at_or_below_iff: "host = name \<or> below host name \<longleftrightarrow> suffix (labels name) (labels host)"
  by (auto simp: below_def strict_suffix_def)

end
