(* ===== verification/Locality.thy ===== *)
theory Locality
  imports Evaluator_Types Domains
begin

text \<open>
  Where a destination lies: \<open>src/decision/locality.go\<close> and \<open>destinationAddressScope\<close> of
  \<open>src/decision/evaluator.go\<close>.  The lemmas show that the operator's declaration can only extend
  the inside of the estate, that the address classes are a floor below it, that an IPv4-mapped
  address is its IPv4 self, and that a declared domain matches along label boundaries.
\<close>

section \<open>Definitions\<close>

datatype destination_locality = LocalityUnknown | LocalityInternal | LocalityPublic

fun locality_String :: "destination_locality \<Rightarrow> string" where
  "locality_String LocalityInternal = ''internal''"
| "locality_String LocalityPublic = ''public''"
| "locality_String LocalityUnknown = ''unknown''"

definition networks_Empty :: "internal_networks \<Rightarrow> bool" where
  "networks_Empty n \<longleftrightarrow> length (in_CIDRs n) = 0 \<and> length (in_Domains n) = 0"

definition destinationHost :: "decision_request \<Rightarrow> string" where
  "destinationHost req =
     (let d = TrimSpace (rq_Destination req)
      in if d = [] then []
         else case SplitHostPort d of
                Some (h, _) \<Rightarrow> TrimSpace h
              | None \<Rightarrow> TrimSet d ''[]'')"

fun parseIPCandidate :: "string list \<Rightarrow> addr option" where
  "parseIPCandidate [] = None"
| "parseIPCandidate (v # vs) =
     (let v = TrimSet (TrimSpace v) ''[]''
      in if v = [] then parseIPCandidate vs
         else case ParseAddr v of
                Some a \<Rightarrow> Some (Unmap a)
              | None \<Rightarrow> parseIPCandidate vs)"

definition cgnat :: prefix_net where
  "cgnat = \<lparr>pfx_addr = V4 0x64400000, pfx_bits = 10\<rparr>"

definition isInternalAddress :: "addr \<Rightarrow> bool" where
  "isInternalAddress ip \<longleftrightarrow>
     IsLoopback ip \<or> IsPrivate ip \<or> IsLinkLocalUnicast ip \<or> IsLinkLocalMulticast ip \<or>
     IsInterfaceLocalMulticast ip \<or> IsUnspecified ip \<or> (Is4 ip \<and> Contains cgnat ip)"

definition cidr_admits :: "addr \<Rightarrow> string \<Rightarrow> bool" where
  "cidr_admits ip c =
     (let c = TrimSpace c
      in c \<noteq> [] \<and>
         (case ParsePrefix c of
            None \<Rightarrow> False
          | Some p \<Rightarrow> Is4 (pfx_addr p) = Is4 ip \<and> Contains p ip))"

definition matchesCIDR :: "internal_networks \<Rightarrow> addr \<Rightarrow> bool" where
  "matchesCIDR n ip = list_ex (cidr_admits ip) (in_CIDRs n)"

definition declared_domain :: "string \<Rightarrow> string" where
  "declared_domain d = TrimSuffix (TrimPrefix (ToLower (TrimSpace d)) ''*.'') ''.''"

definition matchesDomain :: "internal_networks \<Rightarrow> string \<Rightarrow> bool" where
  "matchesDomain n fqdn =
     (let fqdn = TrimSuffix (ToLower (TrimSpace fqdn)) ''.''
      in fqdn \<noteq> [] \<and>
         list_ex (\<lambda>d. let d = declared_domain d
                      in d \<noteq> [] \<and> (fqdn = d \<or> HasSuffix fqdn (''.'' @ d))) (in_Domains n))"

definition ClassifyDestinationLocality :: "decision_request \<Rightarrow> internal_networks \<Rightarrow> destination_locality" where
  "ClassifyDestinationLocality req declared =
     (let host = destinationHost req;
          fqdn = ToLower (TrimSpace (rq_FQDN req));
          fqdn = (if fqdn = [] \<and> host \<noteq> [] \<and> \<not> ParseIP_ok host then ToLower host else fqdn)
      in if fqdn \<noteq> [] \<and> matchesDomain declared fqdn then LocalityInternal
         else case parseIPCandidate [host, rq_DestinationIP req, rq_DestinationResolvedIP req] of
                None \<Rightarrow> LocalityUnknown
              | Some ip \<Rightarrow>
                  if matchesCIDR declared ip then LocalityInternal
                  else if isInternalAddress ip then LocalityInternal
                  else LocalityPublic)"

definition EastWestLocalityAdmits :: "destination_locality \<Rightarrow> bool" where
  "EastWestLocalityAdmits l \<longleftrightarrow> l \<noteq> LocalityPublic"

definition destinationAddressScope :: "decision_request \<Rightarrow> string" where
  "destinationAddressScope req =
     (let candidate = TrimSpace (rq_DestinationIP req);
          candidate = (if candidate = [] then TrimSpace (rq_Destination req) else candidate);
          candidate = TrimSet candidate ''[]''
      in case ParseAddr candidate of
           None \<Rightarrow> ''public''
         | Some addr \<Rightarrow>
             if IsLoopback addr then ''loopback''
             else if IsLinkLocalUnicast addr \<or> IsLinkLocalMulticast addr then ''link_local''
             else if IsPrivate addr then ''private''
             else ''public'')"

section \<open>Laws\<close>

lemma parseIPCandidate_Unmap: "parseIPCandidate vs = Some a \<Longrightarrow> Unmap a = a"
  by (induction vs) (auto simp: Let_def split: if_splits option.splits)

text \<open>A declaration extends another when it names at least its networks and domains.\<close>

definition extends :: "internal_networks \<Rightarrow> internal_networks \<Rightarrow> bool" where
  "extends m n \<longleftrightarrow> set (in_CIDRs n) \<subseteq> set (in_CIDRs m) \<and> set (in_Domains n) \<subseteq> set (in_Domains m)"

lemma matchesCIDR_extends: "extends m n \<Longrightarrow> matchesCIDR n ip \<Longrightarrow> matchesCIDR m ip"
  by (auto simp: extends_def matchesCIDR_def list_ex_iff)

lemma matchesDomain_extends: "extends m n \<Longrightarrow> matchesDomain n f \<Longrightarrow> matchesDomain m f"
  by (auto simp: extends_def matchesDomain_def list_ex_iff Let_def)

text \<open>The name and the address a request is classified by.\<close>

definition locality_name :: "decision_request \<Rightarrow> string" where
  "locality_name req =
     (let fqdn = ToLower (TrimSpace (rq_FQDN req)); host = destinationHost req
      in if fqdn = [] \<and> host \<noteq> [] \<and> \<not> ParseIP_ok host then ToLower host else fqdn)"

definition locality_address :: "decision_request \<Rightarrow> addr option" where
  "locality_address req =
     parseIPCandidate [destinationHost req, rq_DestinationIP req, rq_DestinationResolvedIP req]"

lemma Classify_cases:
  "ClassifyDestinationLocality req n =
    (if locality_name req \<noteq> [] \<and> matchesDomain n (locality_name req) then LocalityInternal
     else case locality_address req of
            None \<Rightarrow> LocalityUnknown
          | Some ip \<Rightarrow> if matchesCIDR n ip \<or> isInternalAddress ip then LocalityInternal else LocalityPublic)"
  unfolding ClassifyDestinationLocality_def locality_name_def locality_address_def Let_def
  by (simp only: option.case_distrib split: option.split) simp

lemma Internal_extends:
  "extends m n \<Longrightarrow> ClassifyDestinationLocality req n = LocalityInternal \<Longrightarrow>
    ClassifyDestinationLocality req m = LocalityInternal"
  using matchesCIDR_extends [of m n] matchesDomain_extends [of m n]
  by (auto simp: Classify_cases split: if_splits option.splits)

lemma Public_iff:
  "ClassifyDestinationLocality req n = LocalityPublic \<longleftrightarrow>
    \<not> (locality_name req \<noteq> [] \<and> matchesDomain n (locality_name req)) \<and>
    (\<exists>ip. locality_address req = Some ip \<and> \<not> matchesCIDR n ip \<and> \<not> isInternalAddress ip)"
  by (auto simp: Classify_cases split: option.splits)

text \<open>A declared domain covers the name itself and the names below it, label by label.\<close>

lemma matchesDomain_labels:
  "matchesDomain n f \<longleftrightarrow>
    (let f = TrimSuffix (ToLower (TrimSpace f)) ''.''
     in f \<noteq> [] \<and> (\<exists>d \<in> set (in_Domains n). declared_domain d \<noteq> [] \<and> suffix (labels (declared_domain d)) (labels f)))"
  by (auto simp: matchesDomain_def list_ex_iff Let_def HasSuffix_dot at_or_below_iff simp flip: at_or_below_iff)

text \<open>A malformed declaration matches nothing.\<close>

lemma cidr_admits_malformed: "ParsePrefix (TrimSpace c) = None \<Longrightarrow> \<not> cidr_admits ip c"
  by (simp add: cidr_admits_def Let_def)

section \<open>Properties\<close>

text \<open>C32. What counts as internal.  A destination is internal exactly when its name ends, label by label, in a declared
  internal domain, or its address is in a declared network or in the built-in private ranges.\<close>

theorem locality_internal_iff:
  "ClassifyDestinationLocality req n = LocalityInternal \<longleftrightarrow>
    (let f = TrimSuffix (ToLower (TrimSpace (locality_name req))) ''.''
     in locality_name req \<noteq> [] \<and> f \<noteq> [] \<and>
        (\<exists>d \<in> set (in_Domains n). declared_domain d \<noteq> [] \<and> suffix (labels (declared_domain d)) (labels f))) \<or>
    (\<exists>ip. locality_address req = Some ip \<and> (matchesCIDR n ip \<or> isInternalAddress ip))"
  unfolding Classify_cases matchesDomain_labels Let_def by (simp split: option.split)

end
