(* ===== verification/Condition_Match.thy ===== *)
theory Condition_Match
  imports Locality
begin

text \<open>
  Matching one policy against one request: the condition language, the attributes a condition can
  name, and \<open>matchPolicy\<close> (\<open>src/decision/evaluator.go\<close>).  The instant \<open>now\<close> is an argument
  where the code reads the clock.  The lemmas show that an absent attribute satisfies no condition,
  that every operator is monotone in the attributes of the request, what hostname patterns mean,
  and that the tenant gate separates two known tenants.
\<close>

section \<open>Attributes of a request\<close>

text \<open>The whole seconds since an instant, zero for an instant in the future.  Go converts through
  a float64 here, which can only matter in the last nanoseconds of a second after half a year.\<close>

definition age_seconds :: "instant \<Rightarrow> instant \<Rightarrow> int" where
  "age_seconds now t = (let d = time_sub now t in if d < 0 then 0 else d div nanos)"

definition authAgeSeconds :: "instant \<Rightarrow> string \<Rightarrow> string" where
  "authAgeSeconds now authTime =
     (if authTime = [] then []
      else case Parse authTime of None \<Rightarrow> [] | Some parsed \<Rightarrow> Itoa (age_seconds now parsed))"

definition user_ids :: "decision_request \<Rightarrow> string list" where
  "user_ids req =
     (if rq_UserID req \<noteq> [] then [rq_UserID req] else []) @
     (if rq_SubjectUserID req \<noteq> [] \<and> rq_SubjectUserID req \<noteq> rq_UserID req then [rq_SubjectUserID req] else [])"

definition field_table :: "instant \<Rightarrow> decision_request \<Rightarrow> string \<Rightarrow> (string \<times> string list) list" where
  "field_table now req actorType =
     [(''actor_type'', singleValue actorType),
      (''actor_nhi_id'', singleValue (rq_ActorNHIID req)),
      (''nhi_risk_severity'', singleValue (rq_NHIRiskSeverity req)),
      (''transport_client_cert_verified'', singleValue (FormatBool (rq_TransportClientCertVerified req))),
      (''transport_device_identity'', singleValue (rq_TransportDeviceIdentity req)),
      (''delegated_access_grant_id'', singleValue (rq_DelegatedAccessGrantID req)),
      (''agent_task_session_id'', singleValue (rq_AgentTaskSessionID req)),
      (''tool_id'', singleValue (rq_ToolID req)),
      (''tool_action_type'', singleValue (rq_ToolActionType req)),
      (''tool_permission_profile'', singleValue (rq_ToolPermissionProfile req)),
      (''tool_version'', singleValue (rq_ToolVersion req)),
      (''tool_signature_state'', singleValue (rq_ToolSignatureState req)),
      (''mcp_server_id'', singleValue (rq_MCPServerID req)),
      (''mcp_resource_uri'', singleValue (rq_MCPResourceURI req)),
      (''mcp_audience'', singleValue (rq_MCPAudience req)),
      (''mcp_token_passthrough_policy'', singleValue (rq_MCPTokenPassthroughPolicy req)),
      (''runtime_environment_id'', singleValue (rq_RuntimeEnvironmentID req)),
      (''context_boundary_id'', singleValue (rq_ContextBoundaryID req)),
      (''data_classification'', singleValue (rq_DataClassification req)),
      (''tenant_id'', singleValue (rq_TenantID req)),
      (''session_id_present'', singleValue (FormatBool (TrimSpace (rq_SessionID req) \<noteq> []))),
      (''application_id'', singleValue (rq_ApplicationID req)),
      (''service_family'', singleValue (rq_ServiceFamily req)),
      (''fqdn'', singleValue (rq_FQDN req)),
      (''sni'', singleValue (rq_SNI req)),
      (''saas_application_id'', singleValue (rq_SaaSApplicationID req)),
      (''saas_name'', singleValue (rq_SaaSName req)),
      (''saas_provider'', singleValue (rq_SaaSProvider req)),
      (''saas_category'', singleValue (rq_SaaSCategory req)),
      (''saas_risk_tier'', singleValue (rq_SaaSRiskTier req)),
      (''saas_match_type'', singleValue (rq_SaaSMatchType req)),
      (''inspection_profile_id'', singleValue (rq_InspectionProfileID req)),
      (''inspection_mode'', singleValue (rq_InspectionMode req)),
      (''trust_profile_id'', singleValue (rq_TrustProfileID req)),
      (''tenant_root_ca_id'', singleValue (rq_TenantRootCAID req)),
      (''quic_policy_mode'', singleValue (rq_QUICPolicyMode req)),
      (''quic_policy_action'', singleValue (rq_QUICPolicyAction req)),
      (''protocol'', singleValue (rq_Protocol req)),
      (''steering_mode'', singleValue (rq_SteeringMode req)),
      (''destination_port'', (if rq_DestinationPort req = 0 then [] else singleValue (Itoa (rq_DestinationPort req)))),
      (''user_groups'', rq_UserGroups req),
      (''user_id'', user_ids req),
      (''mfa_state'', singleValue (rq_MFAState req)),
      (''acr'', singleValue (rq_ACR req)),
      (''amr'', rq_AMR req),
      (''idp_id'', singleValue (rq_IDPID req)),
      (''issuer'', singleValue (rq_Issuer req)),
      (''authentication_event_id'', singleValue (rq_AuthenticationEventID req)),
      (''auth_time'', singleValue (rq_AuthTime req)),
      (''auth_age_seconds'', singleValue (authAgeSeconds now (rq_AuthTime req))),
      (''auth_method'', singleValue (rq_AuthMethod req)),
      (''source_ip'', singleValue (rq_SourceIP req)),
      (''device_id'', singleValue (rq_DeviceID req)),
      (''device_trust_level'', singleValue (rq_DeviceTrustLevel req)),
      (''source_role'', singleValue (rq_SourceRole req)),
      (''destination_role'', singleValue (rq_DestinationRole req)),
      (''connection_initiator'', singleValue (rq_ConnectionInitiator req)),
      (''source_server'', singleValue (rq_SourceServer req)),
      (''destination_address_scope'', singleValue (destinationAddressScope req)),
      (''token_binding_state'', singleValue (rq_TokenBindingState req)),
      (''workload_attestation_state'', singleValue (rq_WorkloadAttestationState req)),
      (''human_approval_event_id'', singleValue (rq_HumanApprovalEventID req)),
      (''human_approval_event_trust_state'', singleValue (rq_HumanApprovalEventTrustState req)),
      (''human_approval_event_binding_state'', singleValue (rq_HumanApprovalEventBindingState req)),
      (''human_approval_event_freshness_state'', singleValue (rq_HumanApprovalEventFreshnessState req)),
      (''risk_state_id'', singleValue (rq_RiskStateID req)),
      (''risk_state_severity'', singleValue (rq_RiskStateSeverity req)),
      (''risk_recommended_action'', singleValue (rq_RiskRecommendedAction req)),
      (''risk_signal_sources'', rq_RiskSignalSources req),
      (''admin_high_risk'', trueValue (rq_AdminHighRisk req)),
      (''idp_risk_level'', singleValue (rq_IDPRiskLevel req)),
      (''agent_tamper_signal'', trueValue (rq_AgentTamperSignal req)),
      (''authentication_anomaly'', trueValue (rq_AuthenticationAnomaly req))]"

definition fieldValues :: "instant \<Rightarrow> decision_request \<Rightarrow> string \<Rightarrow> string \<Rightarrow> string list" where
  "fieldValues now req actorType key =
     (case map_of (field_table now req actorType) key of Some vs \<Rightarrow> vs | None \<Rightarrow> [])"

section \<open>The condition language\<close>

definition sortedConditionKeys :: "metadata \<Rightarrow> string list" where
  "sortedConditionKeys conditions = sort (remdups (map fst conditions))"

definition index_any :: "metadata \<Rightarrow> string \<Rightarrow> any" where
  "index_any m k = (case map_of m k of Some v \<Rightarrow> v | None \<Rightarrow> ANil)"

definition anyActualEquals :: "string list \<Rightarrow> string \<Rightarrow> bool" where
  "anyActualEquals actual expected = list_ex (\<lambda>v. v = expected) actual"

definition anyActualInExpectedValues :: "string list \<Rightarrow> any \<Rightarrow> bool" where
  "anyActualInExpectedValues actual expected =
     (case expected of
        AList values \<Rightarrow> (let allowed = map Sprint values in list_ex (\<lambda>v. v \<in> set allowed) actual)
      | _ \<Rightarrow> False)"

definition anyActualNumberCompare :: "string list \<Rightarrow> any \<Rightarrow> (f64 \<Rightarrow> f64 \<Rightarrow> bool) \<Rightarrow> bool" where
  "anyActualNumberCompare actual expectedValue compare =
     (case ParseFloat (Sprint expectedValue) of
        None \<Rightarrow> False
      | Some expected \<Rightarrow>
          list_ex (\<lambda>v. case ParseFloat v of None \<Rightarrow> False | Some n \<Rightarrow> compare n expected) actual)"

definition conditionValues :: "any \<Rightarrow> string list" where
  "conditionValues v =
     (case v of AList vs \<Rightarrow> map Sprint vs | AStrs ss \<Rightarrow> ss | ANil \<Rightarrow> [] | _ \<Rightarrow> [Sprint v])"

definition anyActualCIDRContains :: "string list \<Rightarrow> any \<Rightarrow> bool" where
  "anyActualCIDRContains actual expectedValue =
     (let prefixes = conditionValues expectedValue
      in list_ex (\<lambda>v. case ParseAddr v of
                         None \<Rightarrow> False
                       | Some addr \<Rightarrow>
                           list_ex (\<lambda>p. case ParsePrefix p of
                                           None \<Rightarrow> False
                                         | Some q \<Rightarrow> Contains (Masked q) addr \<or> Contains (Masked q) (Unmap addr))
                             prefixes)
           actual)"

definition conditionMatches :: "string list \<Rightarrow> any \<Rightarrow> bool" where
  "conditionMatches actual expected =
     (if actual = [] then False
      else case expected of
             AMap typed \<Rightarrow>
               (let op = Sprint (index_any typed ''op'')
                in if op = ''eq'' \<or> op = ''equals'' then anyActualEquals actual (Sprint (index_any typed ''value''))
                   else if op = ''in'' then anyActualInExpectedValues actual (index_any typed ''values'')
                   else if op = ''contains'' then anyActualEquals actual (Sprint (index_any typed ''value''))
                   else if op = ''lte'' then anyActualNumberCompare actual (index_any typed ''value'') f64_le
                   else if op = ''gte'' then anyActualNumberCompare actual (index_any typed ''value'') (\<lambda>a e. f64_le e a)
                   else if op = ''cidr_contains'' then
                     anyActualCIDRContains actual (index_any typed ''value'') \<or>
                     anyActualCIDRContains actual (index_any typed ''values'')
                   else False)
           | AList _ \<Rightarrow> anyActualInExpectedValues actual expected
           | _ \<Rightarrow> anyActualEquals actual (Sprint expected))"

section \<open>Hostname conditions\<close>

definition isHostnameConditionKey :: "string \<Rightarrow> bool" where
  "isHostnameConditionKey key \<longleftrightarrow> key = ''fqdn'' \<or> key = ''sni''"

definition hostMatchesPattern :: "string \<Rightarrow> string \<Rightarrow> bool" where
  "hostMatchesPattern host pattern =
     (let host = TrimSpace (ToLower host); pattern = TrimSpace (ToLower pattern)
      in if host = [] \<or> pattern = [] then False
         else if HasPrefix pattern ''*.'' then
           (let base = TrimPrefix pattern ''*.''
            in if base = [] \<or> host = base then False else HasSuffix host (''.'' @ base))
         else host = pattern)"

definition hostname_patterns :: "any \<Rightarrow> string list option" where
  "hostname_patterns expected =
     (case expected of
        AMap typed \<Rightarrow>
          (let op = Sprint (index_any typed ''op'')
           in if op = ''eq'' \<or> op = ''equals'' \<or> op = ''contains'' then Some [Sprint (index_any typed ''value'')]
              else if op = ''in'' then
                (case index_any typed ''values'' of AList vs \<Rightarrow> Some (map Sprint vs) | _ \<Rightarrow> Some [])
              else None)
      | AList vs \<Rightarrow> Some (map Sprint vs)
      | _ \<Rightarrow> Some [Sprint expected])"

definition hostnameConditionMatches :: "string list \<Rightarrow> any \<Rightarrow> bool" where
  "hostnameConditionMatches actual expected =
     (if actual = [] then False
      else case hostname_patterns expected of
             None \<Rightarrow> False
           | Some patterns \<Rightarrow> list_ex (\<lambda>host. list_ex (hostMatchesPattern host) patterns) actual)"

definition ipLiteralConditionMatchesDestination :: "string \<Rightarrow> any \<Rightarrow> bool" where
  "ipLiteralConditionMatchesDestination destination expected =
     (let dst = TrimSpace destination
      in if dst = [] then False
         else case ParseAddr dst of
                None \<Rightarrow> False
              | Some addr \<Rightarrow>
                  conditionMatches [dst, Addr_String (Unmap addr)] expected \<or> anyActualCIDRContains [dst] expected)"

section \<open>Messages\<close>

definition firstUnmetConditionMarker :: string where
  "firstUnmetConditionMarker = CHR 0x00 # ''unmet:''"

definition conditionExpectedForMessage :: "any \<Rightarrow> string" where
  "conditionExpectedForMessage expected =
     (case expected of
        AStr v \<Rightarrow> Quote v
      | AList vs \<Rightarrow> ''one of ['' @ Join (map Sprint vs) '', '' @ '']''
      | v \<Rightarrow> Sprint v)"

definition conditionActualForMessage :: "string list \<Rightarrow> string" where
  "conditionActualForMessage actual =
     (case actual of
        [] \<Rightarrow> ''no value for it''
      | [v] \<Rightarrow> if TrimSpace v = [] then ''an empty value'' else Quote v
      | _ \<Rightarrow> ''['' @ Join actual '', '' @ '']'')"

definition unmetConditionFrom :: "string list \<Rightarrow> string option" where
  "unmetConditionFrom names =
     (case names of
        [n] \<Rightarrow> if HasPrefix n firstUnmetConditionMarker then Some (TrimPrefix n firstUnmetConditionMarker) else None
      | _ \<Rightarrow> None)"

section \<open>One policy\<close>

definition policyTenantAppliesTo :: "policy \<Rightarrow> decision_request \<Rightarrow> bool" where
  "policyTenantAppliesTo policy req =
     (let pt = TrimSpace (pol_TenantID policy); rt = TrimSpace (rq_TenantID req)
      in pt = [] \<or> rt = [] \<or> pt = rt)"

definition condition_holds :: "instant \<Rightarrow> decision_request \<Rightarrow> string \<Rightarrow> string \<Rightarrow> any \<Rightarrow> bool" where
  "condition_holds now req actorType key expected =
     (let actual = fieldValues now req actorType key
      in conditionMatches actual expected \<or>
         (isHostnameConditionKey key \<and>
           (hostnameConditionMatches actual expected \<or>
            ipLiteralConditionMatchesDestination (rq_Destination req) expected)))"

fun match_keys ::
  "instant \<Rightarrow> decision_request \<Rightarrow> string \<Rightarrow> metadata \<Rightarrow> string list \<Rightarrow> string list \<Rightarrow> bool \<times> string list" where
  "match_keys now req actorType conditions matched [] = (True, matched)"
| "match_keys now req actorType conditions matched (key # keys) =
     (let expected = index_any conditions key
      in if \<not> condition_holds now req actorType key expected
         then (False, [firstUnmetConditionMarker @ key @ ''='' @ conditionExpectedForMessage expected @
                       '' (this request has '' @
                       conditionActualForMessage (fieldValues now req actorType key) @ '')''])
         else match_keys now req actorType conditions (matched @ [key]) keys)"

definition matchPolicy :: "instant \<Rightarrow> policy \<Rightarrow> decision_request \<Rightarrow> string \<Rightarrow> bool \<times> string list" where
  "matchPolicy now policy req actorType =
     (if pol_Status policy \<noteq> ''active'' then (False, [])
      else let pt = TrimSpace (pol_TenantID policy); rt = TrimSpace (rq_TenantID req)
           in if pt \<noteq> [] \<and> rt \<noteq> [] \<and> pt \<noteq> rt then (False, [])
              else match_keys now req actorType (pol_Conditions policy) []
                     (sortedConditionKeys (pol_Conditions policy)))"

section \<open>Laws\<close>

lemma conditionMatches_Nil [simp]: "\<not> conditionMatches [] expected"
  by (simp add: conditionMatches_def)

lemma list_ex_mono: "set xs \<subseteq> set ys \<Longrightarrow> list_ex P xs \<Longrightarrow> list_ex P ys"
  by (auto simp: list_ex_iff)

text \<open>There is no negation in the condition language: more attribute values never unmatch.\<close>

lemma anyActual_mono:
  assumes "set xs \<subseteq> set ys"
  shows "anyActualEquals xs e \<Longrightarrow> anyActualEquals ys e"
    and "anyActualInExpectedValues xs v \<Longrightarrow> anyActualInExpectedValues ys v"
    and "anyActualNumberCompare xs v c \<Longrightarrow> anyActualNumberCompare ys v c"
    and "anyActualCIDRContains xs v \<Longrightarrow> anyActualCIDRContains ys v"
  using list_ex_mono [OF assms]
  by (auto simp: anyActualEquals_def anyActualInExpectedValues_def anyActualNumberCompare_def
      anyActualCIDRContains_def Let_def split: any.splits option.splits)

lemma conditionMatches_mono:
  assumes "set xs \<subseteq> set ys" "conditionMatches xs e"
  shows "conditionMatches ys e"
proof -
  have "xs \<noteq> []" "ys \<noteq> []" using assms by (auto simp: conditionMatches_def split: if_splits)
  with assms(2) anyActual_mono [OF assms(1)] show ?thesis
    by (auto simp: conditionMatches_def Let_def split: any.splits if_splits)
qed

lemma hostnameConditionMatches_Nil [simp]: "\<not> hostnameConditionMatches [] expected"
  by (simp add: hostnameConditionMatches_def)

text \<open>A hostname pattern is a name or, with a leading \<open>*.\<close>, the names strictly below its base.\<close>

lemma hostMatchesPattern_iff:
  "hostMatchesPattern host pattern \<longleftrightarrow>
    (let h = TrimSpace (ToLower host); p = TrimSpace (ToLower pattern)
     in h \<noteq> [] \<and> p \<noteq> [] \<and>
        (if HasPrefix p ''*.'' then \<exists>base. p = ''*.'' @ base \<and> base \<noteq> [] \<and> below h base else h = p))"
proof -
  have "HasSuffix d (CHR ''.'' # b) \<Longrightarrow> d \<noteq> b" for d b :: string by (auto simp: HasSuffix_iff)
  then show ?thesis
    by (auto simp: hostMatchesPattern_def Let_def HasPrefix_iff HasSuffix_dot TrimPrefix_append [of "''*.''", simplified])
qed

text \<open>An attribute the engine does not know satisfies no condition.\<close>

lemma condition_unknown:
  "key \<notin> fst ` set (field_table now req actorType) \<Longrightarrow> \<not> condition_holds now req actorType key expected"
proof -
  assume k: "key \<notin> fst ` set (field_table now req actorType)"
  have "(''fqdn'', singleValue (rq_FQDN req)) \<in> set (field_table now req actorType)"
    "(''sni'', singleValue (rq_SNI req)) \<in> set (field_table now req actorType)"
    by (simp_all only: field_table_def list.set insert_iff simp_thms prod.inject refl)
  with k have "\<not> isHostnameConditionKey key" unfolding isHostnameConditionKey_def by force
  moreover have "map_of (field_table now req actorType) key = None" using k by (simp add: map_of_eq_None_iff)
  ultimately show ?thesis by (simp add: condition_holds_def fieldValues_def)
qed

lemma match_keys_True:
  "fst (match_keys now req at cs matched keys) \<longleftrightarrow> (\<forall>k \<in> set keys. condition_holds now req at k (index_any cs k))"
  by (induction keys arbitrary: matched) (auto simp: Let_def)

lemma match_keys_names:
  "fst (match_keys now req at cs matched keys) \<Longrightarrow> snd (match_keys now req at cs matched keys) = matched @ keys"
  by (induction keys arbitrary: matched) (auto simp: Let_def split: if_splits)

lemma set_sortedConditionKeys [simp]: "set (sortedConditionKeys cs) = fst ` set cs"
  by (simp add: sortedConditionKeys_def)

lemma matchPolicy_iff:
  "fst (matchPolicy now policy req at) \<longleftrightarrow>
    pol_Status policy = ''active'' \<and> policyTenantAppliesTo policy req \<and>
    (\<forall>k \<in> fst ` set (pol_Conditions policy). condition_holds now req at k (index_any (pol_Conditions policy) k))"
  by (auto simp: matchPolicy_def policyTenantAppliesTo_def Let_def match_keys_True)

lemma matchPolicy_names:
  "fst (matchPolicy now policy req at) \<Longrightarrow>
    snd (matchPolicy now policy req at) = sortedConditionKeys (pol_Conditions policy)"
  by (auto simp: matchPolicy_def Let_def match_keys_names split: if_splits)

text \<open>A candidate that applies but does not match carries the message of its first unmet condition.\<close>

lemma unmetConditionFrom_marker [simp]: "unmetConditionFrom [firstUnmetConditionMarker @ m] = Some m"
  by (auto simp: unmetConditionFrom_def HasPrefix_iff)

lemma match_keys_unmet:
  "\<not> fst (match_keys now req at cs matched keys) \<Longrightarrow>
    \<exists>k \<in> set keys. \<not> condition_holds now req at k (index_any cs k) \<and>
      unmetConditionFrom (snd (match_keys now req at cs matched keys)) =
        Some (k @ ''='' @ conditionExpectedForMessage (index_any cs k) @ '' (this request has '' @
          conditionActualForMessage (fieldValues now req at k) @ '')'')"
  by (induction keys arbitrary: matched) (auto simp: Let_def simp del: append.simps split: if_splits)

text \<open>The diagnosis of a near miss is truthful.  When an active policy of the caller's tenant does not match, the
  recorded reason names a condition of that policy that really fails, with what the condition expects
  and what the request has.\<close>

theorem matchPolicy_unmet:
  assumes "\<not> fst (matchPolicy now policy req at)" "pol_Status policy = ''active''" "policyTenantAppliesTo policy req"
  shows "\<exists>k \<in> fst ` set (pol_Conditions policy).
    \<not> condition_holds now req at k (index_any (pol_Conditions policy) k) \<and>
    unmetConditionFrom (snd (matchPolicy now policy req at)) =
      Some (k @ ''='' @ conditionExpectedForMessage (index_any (pol_Conditions policy) k) @ '' (this request has '' @
        conditionActualForMessage (fieldValues now req at k) @ '')'')"
proof -
  have "matchPolicy now policy req at =
      match_keys now req at (pol_Conditions policy) [] (sortedConditionKeys (pol_Conditions policy))"
    using assms(2,3) by (auto simp: matchPolicy_def policyTenantAppliesTo_def Let_def)
  with assms(1) match_keys_unmet [of now req at "pol_Conditions policy" "[]" "sortedConditionKeys (pol_Conditions policy)"]
  show ?thesis by simp
qed

theorem matchPolicy_unmet_witness:
  "let p = zero_policy\<lparr>pol_Status := ''active'', pol_Conditions := [(''user_id'', AStr ''alice'')]\<rparr>
   in \<not> condition_holds 0 zero_decision_request ''human'' ''user_id'' (AStr ''alice'') \<and>
      unmetConditionFrom (snd (matchPolicy 0 p zero_decision_request ''human'')) \<noteq> None"
proof -
  define p where "p = zero_policy\<lparr>pol_Status := ''active'', pol_Conditions := [(''user_id'', AStr ''alice'')]\<rparr>"
  have "\<not> fst (matchPolicy 0 p zero_decision_request ''human'')" "pol_Status p = ''active''"
    "policyTenantAppliesTo p zero_decision_request" unfolding p_def by code_simp+
  from matchPolicy_unmet [OF this] show ?thesis by (simp add: p_def Let_def index_any_def)
qed

section \<open>Properties\<close>

text \<open>A missing attribute fails closed.  A policy with a condition on an attribute the request does not carry does
  not match, for every attribute but the host names, whose conditions may also be met by the address.\<close>

theorem absent_attribute_fails:
  assumes "k \<in> fst ` set (pol_Conditions p)" "fieldValues now req at k = []" "\<not> isHostnameConditionKey k"
  shows "\<not> fst (matchPolicy now p req at)"
proof -
  have "\<not> condition_holds now req at k (index_any (pol_Conditions p) k)" using assms(2,3) by (simp add: condition_holds_def)
  with assms(1) show ?thesis unfolding matchPolicy_iff by blast
qed

theorem absent_attribute_fails_witness:
  "\<not> fst (matchPolicy 0 (zero_policy\<lparr>pol_Status := ''active'', pol_Conditions := [(''user_id'', AStr ''alice'')]\<rparr>)
     zero_decision_request ''human'')"
  by (rule absent_attribute_fails [of "''user_id''"]) code_simp+

end
