(* ===== verification/Precedence.thy ===== *)
theory Precedence
  imports Main "HOL-Library.Multiset"
begin

text \<open>
  Precedence between configured rules.  Each plane of the engine arranges its rules by a stable
  sort and takes the first that matches.  The interface \<open>precedence\<close> states what such an
  arrangement promises; what the first match then means for the operator is proved once here and
  used for the policies, for the east-west rules and for the explanation of a decision.
\<close>

lemma option_eqI:
  assumes "\<And>w. a = Some w \<longleftrightarrow> b = Some w" shows "a = b"
proof (cases a)
  case None
  with assms have "b \<noteq> Some w" for w by auto
  then have "b = None" by (meson not_Some_eq)
  with None show ?thesis by simp
next
  case (Some w)
  with assms [of w] show ?thesis by simp
qed

locale precedence =
  fixes arrange :: "'a list \<Rightarrow> 'a list"
    and rank :: "'a \<Rightarrow> 'k :: linorder"
  assumes arrange_mset: "mset (arrange xs) = mset xs"
    and arrange_sorted: "sorted (map rank (arrange xs))"
    and arrange_stable: "filter (\<lambda>x. rank x = k) (arrange xs) = filter (\<lambda>x. rank x = k) xs"
begin

lemma arrange_set [simp]: "set (arrange xs) = set xs"
  using arrange_mset mset_eq_setD by blast

lemma find_sorted_least:
  assumes "sorted (map rank ys)" "List.find ok ys = Some w" "y \<in> set ys" "ok y"
  shows "rank w \<le> rank y"
  using assms by (induction ys) (auto split: if_splits)

lemma winner_member: "List.find ok (arrange xs) = Some w \<Longrightarrow> w \<in> set xs \<and> ok w"
  using arrange_set [of xs] by (auto simp: find_Some_iff) (metis arrange_set nth_mem)

lemma winner_least:
  "List.find ok (arrange xs) = Some w \<Longrightarrow> y \<in> set xs \<Longrightarrow> ok y \<Longrightarrow> rank w \<le> rank y"
  using find_sorted_least [OF arrange_sorted] by simp

lemma no_winner: "List.find ok (arrange xs) = None \<longleftrightarrow> (\<forall>x \<in> set xs. \<not> ok x)"
  by (auto simp: find_None_iff)

lemma find_filter: "List.find P (filter Q xs) = List.find (\<lambda>x. Q x \<and> P x) xs"
  by (induction xs) auto

lemma find_rank: "List.find ok ys = Some w \<Longrightarrow> List.find (\<lambda>x. rank x = rank w \<and> ok x) ys = Some w"
  by (induction ys) (auto split: if_splits)

text \<open>Between matching rules of the same rank the one configured first wins.\<close>

lemma winner_first:
  assumes "List.find ok (arrange xs) = Some w"
  shows "List.find (\<lambda>x. rank x = rank w \<and> ok x) xs = Some w"
  using find_rank [OF assms] by (simp only: arrange_stable flip: find_filter)

text \<open>The two facts determine the winner.\<close>

lemma winner_iff:
  "List.find ok (arrange xs) = Some w \<longleftrightarrow>
    (\<forall>y \<in> set xs. ok y \<longrightarrow> rank w \<le> rank y) \<and> List.find (\<lambda>x. rank x = rank w \<and> ok x) xs = Some w"
proof
  assume r: "(\<forall>y \<in> set xs. ok y \<longrightarrow> rank w \<le> rank y) \<and> List.find (\<lambda>x. rank x = rank w \<and> ok x) xs = Some w"
  then have w: "w \<in> set xs" "ok w" by (auto simp: find_Some_iff)
  then obtain v where v: "List.find ok (arrange xs) = Some v"
    using no_winner [of ok xs] by (cases "List.find ok (arrange xs)") auto
  from winner_member [OF v] r have "rank w \<le> rank v" by blast
  with winner_least [OF v w] have eq: "rank v = rank w" by (rule order.antisym)
  have "Some v = Some w"
    by (rule trans [OF winner_first [OF v, unfolded eq, symmetric] conjunct2 [OF r]])
  with v show "List.find ok (arrange xs) = Some w" by (rule trans)
next
  assume w: "List.find ok (arrange xs) = Some w"
  show "(\<forall>y \<in> set xs. ok y \<longrightarrow> rank w \<le> rank y) \<and> List.find (\<lambda>x. rank x = rank w \<and> ok x) xs = Some w"
    using winner_least [OF w] winner_first [OF w] by simp
qed

text \<open>Rules that do not match are irrelevant to the outcome.\<close>

lemma winner_irrelevant:
  assumes "filter ok xs = filter ok ys"
  shows "List.find ok (arrange xs) = List.find ok (arrange ys)"
proof -
  have f: "List.find (\<lambda>x. Q x \<and> ok x) zs = List.find Q (filter ok zs)" for Q zs
    by (simp add: find_filter conj_commute)
  have "set (filter ok xs) = set (filter ok ys)" using assms by simp
  then have s: "(\<forall>x \<in> set xs. ok x \<longrightarrow> P x) \<longleftrightarrow> (\<forall>x \<in> set ys. ok x \<longrightarrow> P x)" for P
    unfolding set_filter by blast
  have "List.find ok (arrange xs) = Some w \<longleftrightarrow> List.find ok (arrange ys) = Some w" for w
    unfolding winner_iff f assms s ..
  then show ?thesis by (rule option_eqI)
qed

end

text \<open>A stable sort by a key is such an arrangement.\<close>

lemma sort_key_precedence: "precedence (sort_key f) f"
  by unfold_locales (simp_all add: sort_key_stable)

end
