(* ===== verification/Policy_Order.thy ===== *)
theory Policy_Order
  imports Condition_Match Precedence "HOL-Library.Product_Lexorder"
begin

text \<open>
  The order in which policies are tried and the search for the first match
  (\<open>src/decision/evaluator.go\<close>).  The arrangement meets the contract \<open>precedence\<close>, so the search
  returns the least matching policy by priority, restrictiveness and identifier, and the earliest
  configured one among equals.
\<close>

section \<open>Definitions\<close>

definition policyDecisionRestrictivenessRank :: "string \<Rightarrow> int" where
  "policyDecisionRestrictivenessRank decision =
     (if decision = ''deny'' then 0
      else if decision \<in> set [''require_reauthentication'', ''require_step_up_mfa'', ''require_interactive_mfa'',
                              ''authenticate_required''] then 1
      else 2)"

text \<open>The comparison of the sort: priority, then the more restrictive decision, then the ID.\<close>

definition policy_rank :: "policy \<Rightarrow> int \<times> int \<times> string" where
  "policy_rank p =
     (pol_Priority p, policyDecisionRestrictivenessRank (pa_Decision (pol_Action p)), pol_ID p)"

definition orderedPolicies :: "evaluator \<Rightarrow> policy list" where
  "orderedPolicies e = sort_key policy_rank (ev_Policies e)"

definition OrderedPolicies :: "evaluator \<Rightarrow> policy list" where
  "OrderedPolicies e = orderedPolicies e"

definition firstPolicyTenantID :: "evaluator \<Rightarrow> string" where
  "firstPolicyTenantID e =
     (case List.find (\<lambda>p. pol_TenantID p \<noteq> []) (orderedPolicies e) of Some p \<Rightarrow> pol_TenantID p | None \<Rightarrow> [])"

definition near_miss :: "decision_request \<Rightarrow> policy \<Rightarrow> string list \<Rightarrow> string" where
  "near_miss req policy names =
     (if pol_Status policy = ''active'' \<and> policyTenantAppliesTo policy req
      then case unmetConditionFrom names of
             Some unmet \<Rightarrow> ''the closest rule is '' @ Quote (pol_ID policy) @ '', and it requires '' @ unmet
           | None \<Rightarrow> []
      else [])"

fun search_policies ::
  "instant \<Rightarrow> decision_request \<Rightarrow> string \<Rightarrow> string \<Rightarrow> policy list \<Rightarrow> (policy \<times> string list) option \<times> string" where
  "search_policies now req actorType diagnosis [] = (None, diagnosis)"
| "search_policies now req actorType diagnosis (policy # ps) =
     (let (matches, names) = matchPolicy now policy req actorType
      in if matches then (Some (policy, names), [])
         else search_policies now req actorType
                (if diagnosis = [] then near_miss req policy names else diagnosis) ps)"

definition firstMatchedPolicyWithDiagnosis ::
  "instant \<Rightarrow> evaluator \<Rightarrow> decision_request \<Rightarrow> string \<Rightarrow> (policy \<times> string list) option \<times> string" where
  "firstMatchedPolicyWithDiagnosis now e req actorType =
     search_policies now req actorType [] (orderedPolicies e)"

definition firstMatchedPolicy ::
  "instant \<Rightarrow> evaluator \<Rightarrow> decision_request \<Rightarrow> string \<Rightarrow> (policy \<times> string list) option" where
  "firstMatchedPolicy now e req actorType = fst (firstMatchedPolicyWithDiagnosis now e req actorType)"

section \<open>Laws\<close>

interpretation policies: precedence "sort_key policy_rank" policy_rank
  by (rule sort_key_precedence)

abbreviation policy_matches :: "instant \<Rightarrow> decision_request \<Rightarrow> string \<Rightarrow> policy \<Rightarrow> bool" where
  "policy_matches now req actorType p \<equiv> fst (matchPolicy now p req actorType)"

lemma search_policies_find:
  "fst (search_policies now req at d ps) =
    map_option (\<lambda>p. (p, sortedConditionKeys (pol_Conditions p))) (List.find (policy_matches now req at) ps)"
proof (induction ps arbitrary: d)
  case (Cons p ps)
  then show ?case
    using matchPolicy_names [of now p req at] by (cases "matchPolicy now p req at") (auto simp: Let_def)
qed simp

lemma firstMatchedPolicy_find:
  "firstMatchedPolicy now e req at =
    map_option (\<lambda>p. (p, sortedConditionKeys (pol_Conditions p)))
      (List.find (policy_matches now req at) (sort_key policy_rank (ev_Policies e)))"
  by (simp add: firstMatchedPolicy_def firstMatchedPolicyWithDiagnosis_def orderedPolicies_def search_policies_find)

lemma firstMatchedPolicy_SomeD:
  assumes "firstMatchedPolicy now e req at = Some (p, names)"
  shows "p \<in> set (ev_Policies e)" "policy_matches now req at p" "names = sortedConditionKeys (pol_Conditions p)"
    "\<And>q. q \<in> set (ev_Policies e) \<Longrightarrow> policy_matches now req at q \<Longrightarrow> policy_rank p \<le> policy_rank q"
  using assms policies.winner_member [of "policy_matches now req at" "ev_Policies e" p]
    policies.winner_least [of "policy_matches now req at" "ev_Policies e" p]
  by (auto simp: firstMatchedPolicy_find)

lemma firstMatchedPolicy_None:
  "firstMatchedPolicy now e req at = None \<longleftrightarrow> (\<forall>p \<in> set (ev_Policies e). \<not> policy_matches now req at p)"
  by (simp add: firstMatchedPolicy_find policies.no_winner)

text \<open>A diagnosis is given only when nothing matched, and it is about an applicable policy.\<close>

lemma search_policies_diagnosis_None:
  "fst (search_policies now req at d ps) \<noteq> None \<Longrightarrow> snd (search_policies now req at d ps) = []"
  by (induction ps arbitrary: d) (auto simp: Let_def split: prod.splits)

lemma near_miss_applies:
  "near_miss req p names \<noteq> [] \<Longrightarrow> pol_Status p = ''active'' \<and> policyTenantAppliesTo p req"
  by (auto simp: near_miss_def split: if_splits)

lemma search_policies_diagnosis:
  "fst (search_policies now req at d ps) = None \<Longrightarrow>
    snd (search_policies now req at d ps) = d \<or>
    (\<exists>p \<in> set ps. pol_Status p = ''active'' \<and> policyTenantAppliesTo p req \<and>
      snd (search_policies now req at d ps) = near_miss req p (snd (matchPolicy now p req at)))"
proof (induction ps arbitrary: d)
  case (Cons p ps)
  obtain names where m: "matchPolicy now p req at = (False, names)"
    using Cons.prems by (cases "matchPolicy now p req at") (auto simp: Let_def split: if_splits)
  let ?d = "if d = [] then near_miss req p names else d"
  have s: "search_policies now req at d (p # ps) = search_policies now req at ?d ps" by (simp add: m)
  have "?d = d \<or> (pol_Status p = ''active'' \<and> policyTenantAppliesTo p req \<and> ?d = near_miss req p names)"
    using near_miss_applies [of req p names] by auto
  with Cons.IH [of ?d] Cons.prems show ?case unfolding s by (force simp: m)
qed simp

text \<open>Policies that do not match have no part in the choice.\<close>

lemma firstMatchedPolicy_irrelevant:
  assumes "filter (policy_matches now req at) (ev_Policies e) = filter (policy_matches now req at) (ev_Policies e')"
  shows "firstMatchedPolicy now e req at = firstMatchedPolicy now e' req at"
  using policies.winner_irrelevant [OF assms] by (simp add: firstMatchedPolicy_find)

section \<open>Properties\<close>

text \<open>C12. The winner of the policy search.  The search returns a policy exactly when that policy matches, no matching
  policy has a smaller rank (priority number, then the more restrictive decision, then the identifier),
  and it is the first of its rank in the order the rule set was loaded.\<close>

theorem winning_policy_iff:
  "firstMatchedPolicy now e req at = Some (p, ns) \<longleftrightarrow>
    ns = sortedConditionKeys (pol_Conditions p) \<and>
    (\<forall>y \<in> set (ev_Policies e). policy_matches now req at y \<longrightarrow> policy_rank p \<le> policy_rank y) \<and>
    List.find (\<lambda>x. policy_rank x = policy_rank p \<and> policy_matches now req at x) (ev_Policies e) = Some p"
  unfolding firstMatchedPolicy_find
  using policies.winner_iff [of "policy_matches now req at" "ev_Policies e" p] by auto

definition tie_engine :: evaluator where
  "tie_engine = zero_evaluator\<lparr>ev_Policies :=
     [zero_policy\<lparr>pol_ID := ''a'', pol_Status := ''active'', pol_Priority := 5,
        pol_Action := zero_policy_action\<lparr>pa_Decision := ''allow''\<rparr>\<rparr>,
      zero_policy\<lparr>pol_ID := ''b'', pol_Status := ''active'', pol_Priority := 5,
        pol_Action := zero_policy_action\<lparr>pa_Decision := ''deny''\<rparr>\<rparr>]\<rparr>"

theorem winning_policy_iff_witness:
  "let p = ev_Policies tie_engine ! 1
   in firstMatchedPolicy 0 tie_engine zero_decision_request ''human'' = Some (p, []) \<and>
      list_all (\<lambda>y. policy_rank p \<le> policy_rank y)
        (filter (policy_matches 0 zero_decision_request ''human'') (ev_Policies tie_engine))"
proof -
  have "firstMatchedPolicy 0 tie_engine zero_decision_request ''human'' = Some (ev_Policies tie_engine ! 1, [])"
    by code_simp
  then show ?thesis
    using winning_policy_iff [of 0 tie_engine zero_decision_request "''human''" "ev_Policies tie_engine ! 1" "[]"]
    by (simp add: Let_def list_all_iff)
qed

end
