(* ===== verification/Server_Initiated.thy ===== *)
theory Server_Initiated
  imports Evaluator_Types
begin

text \<open>
  Connections a server opens towards an endpoint: \<open>src/decision/server_initiated.go\<close>, and the
  conversion of the governed exceptions in \<open>src/decision/legacy_exception.go\<close>.  Such a connection
  is refused unless an active, unexpired exception covers it.
\<close>

section \<open>Definitions\<close>

definition isServerInitiated :: "decision_request \<Rightarrow> bool" where
  "isServerInitiated req \<longleftrightarrow>
     ToLower (TrimSpace (rq_ConnectionInitiator req)) \<in> set [''server'', ''server_initiated''] \<or>
     (EqualFold (TrimSpace (rq_SourceRole req)) ''server'' \<and> EqualFold (TrimSpace (rq_DestinationRole req)) ''client'')"

definition legacyFieldMatch :: "string \<Rightarrow> string \<Rightarrow> bool" where
  "legacyFieldMatch exVal reqVal =
     (let exVal = TrimSpace exVal in if exVal = [] then True else EqualFold exVal (TrimSpace reqVal))"

definition legacy_covers :: "instant \<Rightarrow> decision_request \<Rightarrow> legacy_exception \<Rightarrow> bool" where
  "legacy_covers now req ex =
     (if \<not> le_Active ex then False
      else if le_ExpiresAt ex \<noteq> zero_time \<and> \<not> now < le_ExpiresAt ex then False
      else if \<not> legacyFieldMatch (le_SourceServer ex) (rq_SourceServer req) then False
      else if \<not> legacyFieldMatch (le_DeviceGroup ex) (rq_DeviceGroup req) then False
      else if \<not> legacyFieldMatch (le_ServiceFamily ex) (rq_ServiceFamily req) then False
      else if \<not> legacyFieldMatch (le_Protocol ex) (rq_Protocol req) then False
      else if le_Port ex \<noteq> 0 \<and> le_Port ex \<noteq> rq_DestinationPort req then False
      else True)"

definition matchLegacyException :: "evaluator \<Rightarrow> decision_request \<Rightarrow> instant \<Rightarrow> legacy_exception option" where
  "matchLegacyException e req now = List.find (legacy_covers now req) (ev_LegacyExceptions e)"

definition serverInitiatedDecisionFor :: "evaluator \<Rightarrow> decision_request \<Rightarrow> instant \<Rightarrow> string \<times> string \<times> string list" where
  "serverInitiatedDecisionFor e req now =
     (case matchLegacyException e req now of
        None \<Rightarrow>
          (''deny'', ''Server-initiated access denied by default-deny (no active Legacy Exception).'',
           [''server_initiated_default_deny''])
      | Some ex \<Rightarrow>
          (let mode = ToLower (TrimSpace (le_Mode ex))
           in if mode = ''deny'' then
                (''deny'', ''Server-initiated access denied by Legacy Exception.'',
                 [''server_initiated_legacy_exception_deny''])
              else if mode = ''warn'' then
                (''allow'', ''Server-initiated access allowed (warn) by Legacy Exception.'',
                 [''server_initiated_legacy_exception_warn''])
              else if mode = ''observe'' then
                (''allow'', ''Server-initiated access allowed (observe) by Legacy Exception.'',
                 [''server_initiated_legacy_exception_observe''])
              else if mode = ''allow'' then
                (''allow'', ''Server-initiated access allowed by Legacy Exception.'',
                 [''server_initiated_legacy_exception_allow''])
              else
                (''deny'', ''Server-initiated access denied because the matching Legacy Exception is invalid.'',
                 [''server_initiated_invalid_exception''])))"

text \<open>The stored records become exceptions; a malformed expiry makes the exception refuse.\<close>

definition legacy_from_model :: "legacy_exception_record \<Rightarrow> legacy_exception" where
  "legacy_from_model ex =
     (let mode = TrimSpace (lx_Mode ex);
          mode = (if mode = [] then ''allow'' else mode);
          value = TrimSpace (lx_ExpiresAt ex);
          (expires, mode) =
            (if value \<noteq> []
             then case Parse value of Some t \<Rightarrow> (t, mode) | None \<Rightarrow> (zero_time, ''invalid'')
             else (zero_time, mode))
      in \<lparr>le_ID = lx_ID ex, le_SourceServer = lx_SourceServer ex, le_DeviceGroup = lx_DeviceGroup ex,
          le_ServiceFamily = lx_ServiceFamily ex, le_Protocol = lx_Protocol ex, le_Port = lx_Port ex,
          le_Mode = mode, le_ExpiresAt = expires, le_Active = EqualFold (TrimSpace (lx_Status ex)) ''active''\<rparr>)"

definition LegacyExceptionsFromModel :: "legacy_exception_record list \<Rightarrow> legacy_exception list" where
  "LegacyExceptionsFromModel exs = map legacy_from_model exs"

section \<open>Laws\<close>

lemma matchLegacyException_Some:
  "matchLegacyException e req now = Some ex \<Longrightarrow> ex \<in> set (ev_LegacyExceptions e) \<and> legacy_covers now req ex"
  by (auto simp: matchLegacyException_def find_Some_iff)

lemma serverInitiated_allow:
  assumes "serverInitiatedDecisionFor e req now = (''allow'', r, cs)"
  shows "\<exists>ex. matchLegacyException e req now = Some ex \<and> legacy_covers now req ex \<and>
    ex \<in> set (ev_LegacyExceptions e) \<and> ToLower (TrimSpace (le_Mode ex)) \<in> {''warn'', ''observe'', ''allow''}"
  using assms matchLegacyException_Some [of e req now]
  by (auto simp: serverInitiatedDecisionFor_def Let_def split: option.splits if_splits)

lemma serverInitiated_two_valued: "fst (serverInitiatedDecisionFor e req now) \<in> {''allow'', ''deny''}"
  by (simp add: serverInitiatedDecisionFor_def Let_def split: option.split)

lemma ToLower_invalid: "ToLower (TrimSpace ''invalid'') = ''invalid''"
  by code_simp

text \<open>A stored exception is honoured only with a readable expiry: an unreadable one never allows.\<close>

lemma legacy_malformed_mode:
  "TrimSpace (lx_ExpiresAt x) \<noteq> [] \<Longrightarrow> Parse (TrimSpace (lx_ExpiresAt x)) = None \<Longrightarrow>
    le_Mode (legacy_from_model x) = ''invalid''"
  by (simp add: legacy_from_model_def Let_def)

lemma legacy_expiry_exact:
  "TrimSpace (lx_ExpiresAt x) \<noteq> [] \<Longrightarrow> Parse (TrimSpace (lx_ExpiresAt x)) = Some t \<Longrightarrow>
    le_ExpiresAt (legacy_from_model x) = t"
  by (simp add: legacy_from_model_def Let_def)

lemma legacy_covers_expired: "le_ExpiresAt ex \<noteq> zero_time \<Longrightarrow> le_ExpiresAt ex \<le> now \<Longrightarrow> \<not> legacy_covers now req ex"
  by (simp add: legacy_covers_def)

lemma serverInitiated_invalid_denies:
  "matchLegacyException e req now = Some ex \<Longrightarrow> le_Mode ex = ''invalid'' \<Longrightarrow>
    fst (serverInitiatedDecisionFor e req now) = ''deny''"
  by (simp add: serverInitiatedDecisionFor_def ToLower_invalid)

text \<open>An unreadable expiry never permits.  When the exception that covers a server-initiated flow was stored with an
  expiry that is not a valid RFC 3339 time, the flow is denied.\<close>

theorem malformed_expiry_denies:
  assumes "matchLegacyException (e\<lparr>ev_LegacyExceptions := LegacyExceptionsFromModel xs\<rparr>) req now = Some (legacy_from_model x)"
    and "TrimSpace (lx_ExpiresAt x) \<noteq> []" "Parse (TrimSpace (lx_ExpiresAt x)) = None"
  shows "fst (serverInitiatedDecisionFor (e\<lparr>ev_LegacyExceptions := LegacyExceptionsFromModel xs\<rparr>) req now) = ''deny''"
  using assms(1) legacy_malformed_mode [OF assms(2,3)] by (rule serverInitiated_invalid_denies)

definition stale_exception :: legacy_exception_record where
  "stale_exception = zero_legacy_exception_record\<lparr>lx_ID := ''x'', lx_Status := ''active'', lx_ExpiresAt := ''tomorrow''\<rparr>"

theorem malformed_expiry_denies_witness:
  "fst (serverInitiatedDecisionFor (zero_evaluator\<lparr>ev_LegacyExceptions := LegacyExceptionsFromModel [stale_exception]\<rparr>)
     zero_decision_request 0) = ''deny''"
  by (rule malformed_expiry_denies [of _ _ _ _ stale_exception]) code_simp+

end
