(* ===== verification/Policy_Actions.thy ===== *)
theory Policy_Actions
  imports Evaluator_Types
begin

text \<open>
  What a matched policy asks for: reasons, reason codes and actions per decision, the agentic tool
  boundary, workload attestation and human approval (\<open>src/decision/evaluator.go\<close>).
\<close>

section \<open>Reasons and actions\<close>

definition is_agent :: "string \<Rightarrow> bool" where
  "is_agent actorType \<longleftrightarrow> actorType = ''delegated_agent'' \<or> actorType = ''nhi''"

definition reasonCodesForPolicyDecision :: "string \<Rightarrow> string \<Rightarrow> string list" where
  "reasonCodesForPolicyDecision decisionValue actorType =
     (if decisionValue = ''deny'' then [''policy_matched'', ''application_denied'']
      else if decisionValue = ''require_reauthentication'' then [''policy_matched'', ''reauthentication_required'']
      else if decisionValue = ''require_workload_attestation'' then [''policy_matched'', ''workload_attestation_required'']
      else if is_agent actorType
      then [''policy_matched'', ''delegated_grant_valid'', ''scope_allowed'', ''approval_valid'', ''tool_allowed'']
      else [''policy_matched'', ''application_allowed''])"

definition reasonForPolicyDecision :: "string \<Rightarrow> string \<Rightarrow> string" where
  "reasonForPolicyDecision decisionValue actorType =
     (if decisionValue = ''require_reauthentication'' then ''Request matched a policy that requires re-authentication.''
      else if decisionValue = ''require_workload_attestation''
      then ''Request matched a policy that requires verified workload attestation.''
      else if decisionValue = ''deny'' then ''Request matched an active deny policy.''
      else if is_agent actorType then ''Delegated agent request matched the active lab policy.''
      else ''Request matched the active lab policy.'')"

text \<open>The requirements of the authored rule that are carried to the enforcement point unread.\<close>

definition carried_keys :: "string list" where
  "carried_keys = [''required_amr'', ''max_age_seconds'', ''grant_ttl_seconds'']"

definition carried_value :: "string \<Rightarrow> any \<Rightarrow> any" where
  "carried_value key value =
     (case value of
        AStr methods \<Rightarrow>
          if key = ''required_amr'' \<and> TrimSpace methods \<noteq> [] then AStrs (splitCommaList methods) else value
      | _ \<Rightarrow> value)"

definition carried_requirement :: "metadata \<Rightarrow> string \<Rightarrow> metadata \<Rightarrow> metadata" where
  "carried_requirement from key meta =
     (case map_of from key of None \<Rightarrow> meta | Some value \<Rightarrow> put key (carried_value key value) meta)"

definition actionsForPolicyDecision :: "string \<Rightarrow> decision_request \<Rightarrow> policy \<Rightarrow> decision_action list" where
  "actionsForPolicyDecision decisionValue req policy =
     (if decisionValue = ''require_reauthentication'' then
        (let ttl = intMetadata (pol_Metadata policy) ''reauth_interval_seconds'' 300;
             meta = puts [put_always ''service_family'' (AStr (rq_ServiceFamily req)),
                          put_str ''required_idp_id'' (stringMetadataValue (pol_Metadata policy) ''required_idp_id''),
                          put_str ''min_acr'' (stringMetadataValue (pol_Metadata policy) ''min_acr'')] [];
             meta = fold (carried_requirement (pol_Metadata policy)) carried_keys meta
         in [\<lparr>da_Type = ''prompt_reauthentication'', da_Target = stringPtr (rq_ApplicationID req),
               da_TTLSeconds = intPtr ttl, da_Metadata = meta\<rparr>])
      else if decisionValue = ''require_workload_attestation'' then
        (let target = rq_ActorNHIID req;
             target = (if target = [] then rq_AgentTaskSessionID req else target)
         in [\<lparr>da_Type = ''request_workload_attestation'', da_Target = stringPtr target, da_TTLSeconds = None,
               da_Metadata =
                 [(''actor_nhi_id'', AStr (rq_ActorNHIID req)),
                  (''agent_task_session_id'', AStr (rq_AgentTaskSessionID req)),
                  (''application_id'', AStr (rq_ApplicationID req)),
                  (''required_by_policy_id'', AStr (pol_ID policy)),
                  (''attestation_acceptance'', AStrs [''verified'', ''valid''])]\<rparr>])
      else [])"

section \<open>The tool boundary\<close>

definition toolBoundaryListContains :: "string list \<Rightarrow> string \<Rightarrow> bool" where
  "toolBoundaryListContains items value =
     (let value = TrimSpace value
      in if value = [] then False else list_ex (\<lambda>item. EqualFold (TrimSpace item) value) items)"

definition toolActionBoundaryViolation :: "policy \<Rightarrow> decision_request \<Rightarrow> string option" where
  "toolActionBoundaryViolation policy req =
     (if pol_AllowedToolIDs policy \<noteq> [] \<and> \<not> toolBoundaryListContains (pol_AllowedToolIDs policy) (rq_ToolID req)
      then Some ''tool_id_not_allowed''
      else if pol_AllowedToolActions policy \<noteq> [] \<and>
              \<not> toolBoundaryListContains (pol_AllowedToolActions policy) (rq_ToolActionType req)
      then Some ''tool_action_not_allowed''
      else None)"

section \<open>Workload attestation and human approval\<close>

definition workloadAttestationSatisfied :: "string \<Rightarrow> bool" where
  "workloadAttestationSatisfied state \<longleftrightarrow> ToLower (TrimSpace state) \<in> set [''verified'', ''valid'']"

definition humanApprovalEventTrustSatisfied :: "string \<Rightarrow> bool" where
  "humanApprovalEventTrustSatisfied state \<longleftrightarrow> ToLower (TrimSpace state) \<in> set [''trusted'', ''valid'']"

definition humanApprovalEventBindingSatisfied :: "string \<Rightarrow> bool" where
  "humanApprovalEventBindingSatisfied state \<longleftrightarrow> ToLower (TrimSpace state) \<in> set [''bound'', ''matched'', ''valid'']"

definition humanApprovalEventFreshnessSatisfied :: "string \<Rightarrow> bool" where
  "humanApprovalEventFreshnessSatisfied state \<longleftrightarrow> ToLower (TrimSpace state) \<in> set [''fresh'', ''valid'']"

definition humanApprovalEventTrustBindingFreshnessRequired :: "policy \<Rightarrow> bool" where
  "humanApprovalEventTrustBindingFreshnessRequired policy \<longleftrightarrow>
     boolMetadataValue (pol_Metadata policy) ''human_approval_event_require_trusted_binding_freshness'' \<or>
     EqualFold (stringMetadataValue (pol_Metadata policy) ''human_approval_event_contract'') ''trust_binding_freshness''"

definition humanApprovalRequirementReasonCodes :: "decision_request \<Rightarrow> policy \<Rightarrow> string list" where
  "humanApprovalRequirementReasonCodes req policy =
     (if TrimSpace (rq_HumanApprovalEventID req) = [] then [''approval_absent'']
      else if \<not> humanApprovalEventTrustBindingFreshnessRequired policy then []
      else
        (if \<not> humanApprovalEventTrustSatisfied (rq_HumanApprovalEventTrustState req) then [''approval_untrusted''] else []) @
        (if \<not> humanApprovalEventBindingSatisfied (rq_HumanApprovalEventBindingState req) then [''approval_unbound''] else []) @
        (if \<not> humanApprovalEventFreshnessSatisfied (rq_HumanApprovalEventFreshnessState req) then [''approval_not_fresh'']
         else []))"

definition mapBool :: "bool \<Rightarrow> string \<Rightarrow> string \<Rightarrow> string" where
  "mapBool b t f = (if b then t else f)"

definition stateOrMissing :: "string \<Rightarrow> string" where
  "stateOrMissing value = (let t = TrimSpace value in if t \<noteq> [] then t else ''missing'')"

definition applyHumanApprovalEventContractMetadata ::
  "metadata \<Rightarrow> decision_request \<Rightarrow> policy \<Rightarrow> bool \<Rightarrow> metadata" where
  "applyHumanApprovalEventContractMetadata metadata req policy valid =
     (if \<not> humanApprovalEventTrustBindingFreshnessRequired policy then metadata
      else puts
        [put_always ''human_approval_event_contract'' (AStr ''trust_binding_freshness''),
         put_always ''human_approval_event_contract_result'' (AStr (mapBool valid ''valid'' ''invalid'')),
         put_always ''human_approval_event_trust_state'' (AStr (stateOrMissing (rq_HumanApprovalEventTrustState req))),
         put_always ''human_approval_event_binding_state'' (AStr (stateOrMissing (rq_HumanApprovalEventBindingState req))),
         put_always ''human_approval_event_freshness_state'' (AStr (stateOrMissing (rq_HumanApprovalEventFreshnessState req)))]
        metadata)"

definition humanApprovalRequestAction :: "decision_request \<Rightarrow> policy \<Rightarrow> decision_action" where
  "humanApprovalRequestAction req policy =
     \<lparr>da_Type = ''request_human_approval'', da_Target = stringPtr (rq_ApplicationID req),
      da_TTLSeconds = intPtr (intMetadata (pol_Metadata policy) ''human_approval_ttl_seconds'' 300),
      da_Metadata =
        puts [put_str ''actor_nhi_id'' (rq_ActorNHIID req),
              put_str ''delegated_access_grant_id'' (rq_DelegatedAccessGrantID req),
              put_str ''agent_task_session_id'' (rq_AgentTaskSessionID req),
              put_str ''tool_id'' (rq_ToolID req), put_str ''tool_action_type'' (rq_ToolActionType req),
              put_str ''data_classification'' (rq_DataClassification req)]
          [(''required_by_policy_id'', AStr (pol_ID policy)), (''application_id'', AStr (rq_ApplicationID req)),
           (''human_approval_required'', ABool True), (''human_approval_scope'', AStr ''metadata_only''),
           (''tool_payload_recorded'', ABool False), (''tool_secret_recorded'', ABool False),
           (''tool_credentials_recorded'', ABool False)]\<rparr>"

section \<open>Laws\<close>

text \<open>A declared boundary admits a request only when it carries a tool and an action of the boundary.\<close>

lemma toolBoundaryListContains_iff:
  "toolBoundaryListContains items v \<longleftrightarrow>
    TrimSpace v \<noteq> [] \<and> (\<exists>i \<in> set items. EqualFold (TrimSpace i) (TrimSpace v))"
  by (auto simp: toolBoundaryListContains_def Let_def list_ex_iff)

lemma toolActionBoundaryViolation_None:
  "toolActionBoundaryViolation policy req = None \<longleftrightarrow>
    (pol_AllowedToolIDs policy \<noteq> [] \<longrightarrow> toolBoundaryListContains (pol_AllowedToolIDs policy) (rq_ToolID req)) \<and>
    (pol_AllowedToolActions policy \<noteq> [] \<longrightarrow> toolBoundaryListContains (pol_AllowedToolActions policy) (rq_ToolActionType req))"
  by (auto simp: toolActionBoundaryViolation_def)

lemma humanApproval_complete:
  "humanApprovalRequirementReasonCodes req policy = [] \<longleftrightarrow>
    TrimSpace (rq_HumanApprovalEventID req) \<noteq> [] \<and>
    (humanApprovalEventTrustBindingFreshnessRequired policy \<longrightarrow>
      humanApprovalEventTrustSatisfied (rq_HumanApprovalEventTrustState req) \<and>
      humanApprovalEventBindingSatisfied (rq_HumanApprovalEventBindingState req) \<and>
      humanApprovalEventFreshnessSatisfied (rq_HumanApprovalEventFreshnessState req))"
  by (auto simp: humanApprovalRequirementReasonCodes_def)

lemma distinct_reasonCodesForPolicyDecision [simp]: "distinct (reasonCodesForPolicyDecision d a)"
  by (simp add: reasonCodesForPolicyDecision_def)

lemma distinct_humanApproval:
  "distinct ([''policy_matched'', ''human_approval_required''] @ humanApprovalRequirementReasonCodes req policy)"
  by (simp add: humanApprovalRequirementReasonCodes_def)

text \<open>The authored authentication requirements reach the action that asks for re-authentication.\<close>

lemma map_of_carried:
  "map_of (fold (carried_requirement m) ks meta) k =
    (if k \<in> set ks then (case map_of m k of None \<Rightarrow> map_of meta k | Some v \<Rightarrow> Some (carried_value k v))
     else map_of meta k)"
  by (induction ks arbitrary: meta) (auto simp: carried_requirement_def split: option.split)

lemma reauthentication_carries:
  assumes "k \<in> set carried_keys"
  shows "map_of (da_Metadata (hd (actionsForPolicyDecision ''require_reauthentication'' req policy))) k =
    map_option (carried_value k) (map_of (pol_Metadata policy) k)"
proof -
  have "k \<noteq> ''service_family''" "k \<noteq> ''required_idp_id''" "k \<noteq> ''min_acr''"
    using assms by (auto simp: carried_keys_def)
  with assms show ?thesis
    by (simp add: actionsForPolicyDecision_def Let_def map_of_carried split: option.split)
qed

end
