(* ===== verification/East_West.thy ===== *)
theory East_West
  imports Locality Policy_Actions Precedence
begin

text \<open>
  Per-hop authorization of internal traffic: \<open>src/decision/east_west.go\<close>.  The rules of the plane
  are tried in the order of their priority number; the arrangement meets the contract
  \<open>precedence\<close>.  The lemmas show when the plane allows, that a grant only ever releases an
  authenticate hold that carries no assurance requirement, that it does so for the device the
  transport proved, and which flows belong to the plane.
\<close>

section \<open>Selectors\<close>

definition eastWestProtocols :: "string list" where
  "eastWestProtocols =
     [''rdp'', ''smb'', ''cifs'', ''winrm'', ''wmi_rpc'', ''dcom_rpc'', ''ssh'', ''vnc'', ''rmm'', ''rmm_agent'',
      ''database'', ''db'', ''management_tcp'']"

definition IsEastWestProtocol :: "string \<Rightarrow> bool" where
  "IsEastWestProtocol serviceFamily \<longleftrightarrow> ToLower (TrimSpace serviceFamily) \<in> set eastWestProtocols"

definition AuthoritativeDeviceIdentity :: "decision_request \<Rightarrow> string" where
  "AuthoritativeDeviceIdentity req =
     (let i = TrimSpace (rq_TransportDeviceIdentity req) in if i \<noteq> [] then i else TrimSpace (rq_DeviceID req))"

definition eastWestSelectorMatches :: "string list \<Rightarrow> string list \<Rightarrow> bool" where
  "eastWestSelectorMatches selector candidates =
     (if selector = [] then True
      else list_ex (\<lambda>s. let s = TrimSpace s in s \<noteq> [] \<and> list_ex (\<lambda>c. s = TrimSpace c) candidates) selector)"

definition eastWestDestinationMatches :: "string list \<Rightarrow> string list \<Rightarrow> bool" where
  "eastWestDestinationMatches selector candidates =
     (if eastWestSelectorMatches selector candidates then True
      else list_ex (\<lambda>s. case ParseAddr (TrimSpace s) of
                          None \<Rightarrow> False
                        | Some want \<Rightarrow>
                            list_ex (\<lambda>c. case ParseAddr (TrimSpace c) of
                                            None \<Rightarrow> False
                                          | Some got \<Rightarrow> Unmap want = Unmap got) candidates)
             selector)"

definition rule_source_matches :: "east_west_rule \<Rightarrow> decision_request \<Rightarrow> bool" where
  "rule_source_matches r req =
     (if er_SourceUsers r \<noteq> [] \<or> er_SourceGroups r \<noteq> [] \<or> er_SourceDevices r \<noteq> []
      then (er_SourceUsers r \<noteq> [] \<and> eastWestSelectorMatches (er_SourceUsers r) [rq_UserID req, rq_SubjectUserID req]) \<or>
           (er_SourceGroups r \<noteq> [] \<and> eastWestSelectorMatches (er_SourceGroups r) (rq_UserGroups req)) \<or>
           (er_SourceDevices r \<noteq> [] \<and> eastWestSelectorMatches (er_SourceDevices r) [AuthoritativeDeviceIdentity req])
      else True)"

definition rule_service_matches :: "east_west_rule \<Rightarrow> decision_request \<Rightarrow> bool" where
  "rule_service_matches r req =
     (case er_ServiceTransportPorts r of
        None \<Rightarrow> eastWestSelectorMatches (er_Protocols r) [rq_ServiceFamily req]
      | Some ports \<Rightarrow>
          list_ex (\<lambda>port. port = rq_DestinationPort req \<and> port > 0)
            (case map_of ports (ToLower (TrimSpace (rq_Protocol req))) of Some ps \<Rightarrow> ps | None \<Rightarrow> []))"

definition rule_matches :: "east_west_rule \<Rightarrow> decision_request \<Rightarrow> bool" where
  "rule_matches r req =
     (if \<not> rule_source_matches r req then False
      else if \<not> eastWestDestinationMatches (er_Destinations r) [rq_Destination req, rq_ApplicationID req, rq_FQDN req] then False
      else if \<not> rule_service_matches r req then False
      else if \<not> eastWestSelectorMatches (er_RiskSeverities r) [rq_RiskStateSeverity req] then False
      else True)"

definition MatchedEastWestRule :: "east_west_rule list \<Rightarrow> decision_request \<Rightarrow> east_west_rule option" where
  "MatchedEastWestRule rules req = List.find (\<lambda>r. rule_matches r req) (sort_key er_Priority rules)"

section \<open>Grants\<close>

definition grant_matches :: "east_west_grant \<Rightarrow> decision_request \<Rightarrow> instant \<Rightarrow> bool" where
  "grant_matches g req now =
     (if \<not> now < eg_ExpiresAt g then False
      else if eg_IdleTTLSeconds g > 0 \<and> time_sub now (eg_LastUsedAt g) > seconds_duration (eg_IdleTTLSeconds g) then False
      else if eg_Protocol g \<noteq> [] \<and> \<not> EqualFold (eg_Protocol g) (TrimSpace (rq_ServiceFamily req)) then False
      else if eg_SubjectUserID g \<noteq> [] \<and> eg_SubjectUserID g \<noteq> rq_SubjectUserID req \<and> eg_SubjectUserID g \<noteq> rq_UserID req
      then False
      else if eg_DeviceID g \<noteq> [] \<and> eg_DeviceID g \<noteq> AuthoritativeDeviceIdentity req then False
      else if eg_Destination g \<noteq> [] \<and> eg_Destination g \<noteq> rq_Destination req \<and> eg_Destination g \<noteq> rq_ApplicationID req
      then False
      else True)"

definition hasValidEastWestGrant :: "evaluator \<Rightarrow> decision_request \<Rightarrow> instant \<Rightarrow> bool" where
  "hasValidEastWestGrant e req now = list_ex (\<lambda>g. grant_matches g req now) (ev_EastWestGrants e)"

definition eastWestDeviceAttestationEligible :: "decision_request \<Rightarrow> bool" where
  "eastWestDeviceAttestationEligible req \<longleftrightarrow>
     rq_TransportClientCertVerified req \<and> TrimSpace (rq_TransportDeviceIdentity req) \<noteq> []"

section \<open>The decision\<close>

definition eastWestStepUpActions :: "east_west_rule \<Rightarrow> decision_action list" where
  "eastWestStepUpActions rule =
     [\<lparr>da_Type = ''prompt_reauthentication'', da_Target = None,
       da_TTLSeconds = (if er_MaxAgeSeconds rule > 0 then intPtr (er_MaxAgeSeconds rule) else None),
       da_Metadata =
         puts [put_str ''required_idp_id'' (TrimSpace (er_RequiredIdPID rule)),
               put_str ''min_acr'' (TrimSpace (er_MinACR rule)),
               (er_RequiredAMR rule \<noteq> [], ''required_amr'', AStrs (er_RequiredAMR rule)),
               (er_MaxTTLSeconds rule \<noteq> 0, ''grant_ttl_seconds'', AInt (er_MaxTTLSeconds rule)),
               (er_MaxAgeSecondsSet rule \<or> er_MaxAgeSeconds rule \<noteq> 0, ''max_age_seconds'', AInt (er_MaxAgeSeconds rule))]
           [(''east_west'', ABool True)]\<rparr>]"

definition eastWestWarnActions :: "east_west_rule \<Rightarrow> decision_request \<Rightarrow> decision_action list" where
  "eastWestWarnActions rule req =
     [\<lparr>da_Type = ''warn_notice'', da_Target = None, da_TTLSeconds = None,
       da_Metadata =
         puts [put_str ''destination'' (TrimSpace (rq_Destination req)),
               put_str ''service_family'' (TrimSpace (rq_ServiceFamily req)),
               put_str ''rule_id'' (TrimSpace (er_ID rule))]
           [(''east_west'', ABool True),
            (''message'', AStr ''This internal connection is monitored. Authentication will soon be required to reach it.'')]\<rparr>]"

definition eastWestMode :: "east_west_rule \<Rightarrow> string" where
  "eastWestMode rule =
     (let m = ToLower (TrimSpace (er_Mode rule))
      in if m \<in> set [''allow'', ''authenticate'', ''deny''] then m else ''deny'')"

definition requiresFederatedProof :: "east_west_rule \<Rightarrow> bool" where
  "requiresFederatedProof rule \<longleftrightarrow>
     er_MaxAgeSecondsSet rule \<or> er_MaxAgeSeconds rule \<noteq> 0 \<or> TrimSpace (er_RequiredIdPID rule) \<noteq> [] \<or>
     TrimSpace (er_MinACR rule) \<noteq> [] \<or> length (er_RequiredAMR rule) \<noteq> 0"

definition capped_rule :: "evaluator \<Rightarrow> east_west_rule \<Rightarrow> east_west_rule" where
  "capped_rule e rule =
     (let cap = ev_EastWestMaxGrantTTLSeconds e
      in if cap < 0 then rule\<lparr>er_MaxTTLSeconds := cap\<rparr>
         else if cap > 0 \<and> (er_MaxTTLSeconds rule = 0 \<or> (er_MaxTTLSeconds rule > 0 \<and> cap < er_MaxTTLSeconds rule))
         then rule\<lparr>er_MaxTTLSeconds := cap\<rparr>
         else rule)"

type_synonym ew_outcome = "string \<times> string \<times> string list \<times> decision_action list"

definition eastWestAuthenticate :: "evaluator \<Rightarrow> decision_request \<Rightarrow> instant \<Rightarrow> east_west_rule \<Rightarrow> ew_outcome" where
  "eastWestAuthenticate e req now rule =
     (if \<not> requiresFederatedProof rule \<and> hasValidEastWestGrant e req now
      then (''allow'', ''East-west access released by a valid ephemeral grant.'', [''east_west_grant_satisfied''], [])
      else if \<not> requiresFederatedProof rule \<and> er_DeviceAttestedAuto rule \<and> eastWestDeviceAttestationEligible req
      then (''allow'', ''East-west access allowed by device attestation (verified mTLS device + trusted posture).'',
            [''east_west_device_attested''], [])
      else (''authenticate_required'', ''East-west access requires interactive authentication.'',
            [''east_west_authentication_required''], eastWestStepUpActions (capped_rule e rule)))"

definition eastWestDecisionFor :: "evaluator \<Rightarrow> decision_request \<Rightarrow> instant \<Rightarrow> ew_outcome" where
  "eastWestDecisionFor e req now =
     (case MatchedEastWestRule (ev_EastWestRules e) req of
        Some rule \<Rightarrow>
          (let mode = eastWestMode rule
           in if er_Warn rule \<and> (mode = ''authenticate'' \<or> mode = ''deny'')
              then (''allow'', ''East-west access permitted in Warn stage (monitored; enforcement not yet active).'',
                    [''east_west_warn''], eastWestWarnActions rule req)
              else if mode \<noteq> ''deny'' \<and> er_RequiredWorkloadAttestation rule \<and>
                      \<not> workloadAttestationSatisfied (rq_WorkloadAttestationState req)
              then (''require_workload_attestation'', ''East-west policy requires verified workload attestation.'',
                    [''east_west_workload_attestation_required''],
                    actionsForPolicyDecision ''require_workload_attestation'' req (zero_policy\<lparr>pol_ID := er_ID rule\<rparr>))
              else if mode = ''allow''
              then (''allow'', ''East-west access permitted by per-hop policy.'', [''east_west_policy_allow''], [])
              else if mode = ''authenticate'' then eastWestAuthenticate e req now rule
              else (''deny'', ''East-west access denied by per-hop policy.'', [''east_west_policy_deny''], []))
      | None \<Rightarrow>
          if ev_EastWestAllowUnmatched e
          then (''allow'', ''East-west access permitted (Partial Enforce: no rule matched; unmatched default is allow-all).'',
                [''east_west_unmatched_allow''], [])
          else (''deny'', ''East-west access denied by default-deny per-hop policy.'', [''east_west_default_deny''], []))"

section \<open>Membership of the plane\<close>

definition IsEastWestFlow :: "decision_request \<Rightarrow> internal_networks \<Rightarrow> bool" where
  "IsEastWestFlow req declared =
     (if rq_ConnectorRouteVerified req then True
      else if \<not> IsEastWestProtocol (rq_ServiceFamily req) then False
      else EastWestLocalityAdmits (ClassifyDestinationLocality req declared))"

definition isEastWestFlow :: "evaluator \<Rightarrow> decision_request \<Rightarrow> bool" where
  "isEastWestFlow e req = IsEastWestFlow req (ev_EastWestInternalNetworks e)"

section \<open>Laws of matching\<close>

interpretation ew_rules: precedence "sort_key er_Priority" er_Priority
  by (rule sort_key_precedence)

lemma MatchedEastWestRule_SomeD:
  assumes "MatchedEastWestRule rules req = Some r"
  shows "r \<in> set rules" "rule_matches r req"
    "\<And>q. q \<in> set rules \<Longrightarrow> rule_matches q req \<Longrightarrow> er_Priority r \<le> er_Priority q"
    "List.find (\<lambda>q. er_Priority q = er_Priority r \<and> rule_matches q req) rules = Some r"
  using assms ew_rules.winner_member [of "\<lambda>r. rule_matches r req" rules r]
    ew_rules.winner_least [of "\<lambda>r. rule_matches r req" rules r]
    ew_rules.winner_first [of "\<lambda>r. rule_matches r req" rules r]
  by (auto simp: MatchedEastWestRule_def)

lemma MatchedEastWestRule_None:
  "MatchedEastWestRule rules req = None \<longleftrightarrow> (\<forall>r \<in> set rules. \<not> rule_matches r req)"
  by (simp add: MatchedEastWestRule_def ew_rules.no_winner)

lemma eastWestSelectorMatches_iff:
  "eastWestSelectorMatches sel cands \<longleftrightarrow>
    sel = [] \<or> (\<exists>s \<in> set sel. TrimSpace s \<noteq> [] \<and> TrimSpace s \<in> TrimSpace ` set cands)"
  by (auto simp: eastWestSelectorMatches_def Let_def list_ex_iff image_iff)

lemma eastWestDestinationMatches_iff:
  "eastWestDestinationMatches sel cands \<longleftrightarrow>
    eastWestSelectorMatches sel cands \<or>
    (\<exists>s \<in> set sel. \<exists>c \<in> set cands. \<exists>a b. ParseAddr (TrimSpace s) = Some a \<and> ParseAddr (TrimSpace c) = Some b \<and>
      Unmap a = Unmap b)"
  by (auto simp: eastWestDestinationMatches_def list_ex_iff split: option.splits) force+

text \<open>A destination and its IPv4-mapped form are the same to a selector made of addresses.\<close>

text \<open>C34. Address spellings.  A destination selector of addresses gives the same answer for an IPv4 address and for its
  IPv4-mapped IPv6 form.\<close>

theorem eastWestDestination_mapped:
  assumes sel: "\<And>s. s \<in> set sel \<Longrightarrow> ParseAddr (TrimSpace s) \<noteq> None"
    and ab: "ParseAddr (TrimSpace c) = Some a" "ParseAddr (TrimSpace c') = Some b" "Unmap a = Unmap b"
  shows "eastWestDestinationMatches sel (c # cs) = eastWestDestinationMatches sel (c' # cs)"
proof -
  have sub: "eastWestDestinationMatches sel (c' # cs)"
    if m: "eastWestDestinationMatches sel (c # cs)"
      and p: "ParseAddr (TrimSpace c) = Some a" "ParseAddr (TrimSpace c') = Some b" "Unmap a = Unmap b" for c c' a b
  proof -
    consider "sel = []"
      | s where "s \<in> set sel" "TrimSpace s \<noteq> []" "TrimSpace s \<in> TrimSpace ` set cs"
      | s where "s \<in> set sel" "TrimSpace s = TrimSpace c"
      | s d x y where "s \<in> set sel" "d \<in> set (c # cs)" "ParseAddr (TrimSpace s) = Some x"
          "ParseAddr (TrimSpace d) = Some y" "Unmap x = Unmap y"
      using m unfolding eastWestDestinationMatches_iff eastWestSelectorMatches_iff by force
    then show ?thesis
      using p by cases (auto simp: eastWestDestinationMatches_iff eastWestSelectorMatches_iff)
  qed
  from sub [of c a c' b] sub [of c' b c a] ab show ?thesis by auto
qed

section \<open>Laws of the decision\<close>

lemma eastWestMode_cases: "eastWestMode r \<in> {''allow'', ''authenticate'', ''deny''}"
  by (auto simp: eastWestMode_def Let_def)

lemma eastWestDecisionFor_unmatched:
  "MatchedEastWestRule (ev_EastWestRules e) req = None \<Longrightarrow>
    fst (eastWestDecisionFor e req now) = (if ev_EastWestAllowUnmatched e then ''allow'' else ''deny'')"
  by (simp add: eastWestDecisionFor_def)

text \<open>What the matched rule must say, and what must be proved, for the flow to pass.\<close>

definition hop_permitted :: "evaluator \<Rightarrow> decision_request \<Rightarrow> instant \<Rightarrow> east_west_rule \<Rightarrow> bool" where
  "hop_permitted e req now r \<longleftrightarrow>
     (er_Warn r \<and> eastWestMode r \<noteq> ''allow'') \<or>
     ((er_RequiredWorkloadAttestation r \<longrightarrow> workloadAttestationSatisfied (rq_WorkloadAttestationState req)) \<and>
      (eastWestMode r = ''allow'' \<or>
       (eastWestMode r = ''authenticate'' \<and> \<not> requiresFederatedProof r \<and>
        (hasValidEastWestGrant e req now \<or> (er_DeviceAttestedAuto r \<and> eastWestDeviceAttestationEligible req)))))"

lemma eastWestAuthenticate_allow:
  "fst (eastWestAuthenticate e req now r) = ''allow'' \<longleftrightarrow>
    \<not> requiresFederatedProof r \<and>
    (hasValidEastWestGrant e req now \<or> (er_DeviceAttestedAuto r \<and> eastWestDeviceAttestationEligible req))"
  by (simp add: eastWestAuthenticate_def)

lemma eastWestDecisionFor_matched:
  assumes "MatchedEastWestRule (ev_EastWestRules e) req = Some r"
  shows "fst (eastWestDecisionFor e req now) = ''allow'' \<longleftrightarrow> hop_permitted e req now r"
  using eastWestMode_cases [of r]
  by (auto simp: eastWestDecisionFor_def assms Let_def hop_permitted_def eastWestAuthenticate_allow)

lemma eastWestDecisionFor_range:
  "fst (eastWestDecisionFor e req now) \<in> {''allow'', ''deny'', ''authenticate_required'', ''require_workload_attestation''}"
  by (auto simp: eastWestDecisionFor_def eastWestAuthenticate_def Let_def split: option.split)

lemma eastWestDecisionFor_codes: "\<exists>c. fst (snd (snd (eastWestDecisionFor e req now))) = [c]"
  by (auto simp: eastWestDecisionFor_def eastWestAuthenticate_def Let_def split: option.split)

lemma eastWest_no_default: "''no_policy_match'' \<notin> set (fst (snd (snd (eastWestDecisionFor e req now))))"
  by (auto simp: eastWestDecisionFor_def eastWestAuthenticate_def Let_def split: option.split)

text \<open>The claimed device is not consulted once the transport has proved one.\<close>

lemma Authoritative_claim:
  "TrimSpace (rq_TransportDeviceIdentity req) \<noteq> [] \<Longrightarrow>
    AuthoritativeDeviceIdentity (req\<lparr>rq_DeviceID := d\<rparr>) = AuthoritativeDeviceIdentity req"
  by (simp add: AuthoritativeDeviceIdentity_def Let_def)

text \<open>C28. A claimed device does not count.  Once the transport has authenticated a device, the device the request
  claims for itself has no influence on the east-west decision.\<close>

theorem claimed_device_irrelevant:
  assumes "TrimSpace (rq_TransportDeviceIdentity req) \<noteq> []"
  shows "eastWestDecisionFor e (req\<lparr>rq_DeviceID := d\<rparr>) now = eastWestDecisionFor e req now"
proof -
  note a = Authoritative_claim [OF assms, of d]
  have "rule_service_matches r (req\<lparr>rq_DeviceID := d\<rparr>) = rule_service_matches r req" for r
    by (simp add: rule_service_matches_def split: option.split)
  then have "rule_matches r (req\<lparr>rq_DeviceID := d\<rparr>) = rule_matches r req" for r
    by (simp add: rule_matches_def rule_source_matches_def a)
  moreover have "grant_matches g (req\<lparr>rq_DeviceID := d\<rparr>) now = grant_matches g req now" for g
    by (simp add: grant_matches_def a)
  ultimately have
    "MatchedEastWestRule rules (req\<lparr>rq_DeviceID := d\<rparr>) = MatchedEastWestRule rules req"
    "hasValidEastWestGrant e (req\<lparr>rq_DeviceID := d\<rparr>) now = hasValidEastWestGrant e req now" for rules
    by (simp_all add: MatchedEastWestRule_def hasValidEastWestGrant_def)
  then show ?thesis
    by (cases "MatchedEastWestRule (ev_EastWestRules e) req")
      (simp_all add: eastWestDecisionFor_def eastWestAuthenticate_def eastWestDeviceAttestationEligible_def
        eastWestWarnActions_def actionsForPolicyDecision_def Let_def)
qed

text \<open>A tenant ceiling bounds the lifetime asked of the ceremony.\<close>

text \<open>The grant lifetime offered at step-up.  With a positive global limit, the lifetime of the rule that is sent to
  the caller is positive, at most the limit, and at most the rule's own lifetime where it has one.\<close>

theorem capped_rule_bound:
  "0 < ev_EastWestMaxGrantTTLSeconds e \<Longrightarrow> 0 \<le> er_MaxTTLSeconds r \<Longrightarrow>
    0 < er_MaxTTLSeconds (capped_rule e r) \<and> er_MaxTTLSeconds (capped_rule e r) \<le> ev_EastWestMaxGrantTTLSeconds e \<and>
    (0 < er_MaxTTLSeconds r \<longrightarrow> er_MaxTTLSeconds (capped_rule e r) \<le> er_MaxTTLSeconds r)"
  by (simp add: capped_rule_def Let_def)

section \<open>Laws of membership\<close>

text \<open>C33. Declaring more is never less protection.  A flow on the east-west plane stays on it when further internal
  networks or domains are declared.\<close>

theorem IsEastWestFlow_extends: "extends m n \<Longrightarrow> IsEastWestFlow req n \<Longrightarrow> IsEastWestFlow req m"
proof -
  assume x: "extends m n" and f: "IsEastWestFlow req n"
  have "ClassifyDestinationLocality req m \<noteq> LocalityPublic" if "ClassifyDestinationLocality req n \<noteq> LocalityPublic"
    using that matchesCIDR_extends [OF x] matchesDomain_extends [OF x] by (auto simp: Public_iff)
  with f show ?thesis by (auto simp: IsEastWestFlow_def EastWestLocalityAdmits_def split: if_splits)
qed

text \<open>C29. The winning east-west rule.  The matching rule with the lowest priority number wins, and among those of
  equal priority the first in the list; the decision on the hop is that of the winner alone.\<close>

theorem lowest_priority_rule_wins:
  "MatchedEastWestRule rules req = Some r \<longleftrightarrow>
    (\<forall>q \<in> set rules. rule_matches q req \<longrightarrow> er_Priority r \<le> er_Priority q) \<and>
    List.find (\<lambda>q. er_Priority q = er_Priority r \<and> rule_matches q req) rules = Some r"
  unfolding MatchedEastWestRule_def by (rule ew_rules.winner_iff)

definition two_rules :: "east_west_rule list" where
  "two_rules = [zero_east_west_rule\<lparr>er_ID := ''broad'', er_Priority := 20, er_Mode := ''allow''\<rparr>,
                zero_east_west_rule\<lparr>er_ID := ''narrow'', er_Priority := 10, er_Mode := ''deny''\<rparr>]"

theorem lowest_priority_rule_wins_witness:
  "MatchedEastWestRule two_rules zero_decision_request = Some (two_rules ! 1) \<and>
   list_all (\<lambda>q. er_Priority (two_rules ! 1) \<le> er_Priority q) (filter (\<lambda>q. rule_matches q zero_decision_request) two_rules)"
proof -
  have "MatchedEastWestRule two_rules zero_decision_request = Some (two_rules ! 1)" by code_simp
  then show ?thesis using lowest_priority_rule_wins [of two_rules zero_decision_request "two_rules ! 1"]
    by (simp add: list_all_iff)
qed

theorem IsEastWestFlow_extends_witness:
  "IsEastWestFlow (zero_decision_request\<lparr>rq_ServiceFamily := ''ssh'', rq_DestinationIP := ''10.0.0.7''\<rparr>)
     \<lparr>in_CIDRs = [''192.0.2.0/24''], in_Domains = []\<rparr>"
  by (rule IsEastWestFlow_extends [of _ "\<lparr>in_CIDRs = [], in_Domains = []\<rparr>"]) (simp add: extends_def, code_simp)

theorem claimed_device_irrelevant_witness:
  "eastWestDecisionFor zero_evaluator (zero_decision_request\<lparr>rq_TransportDeviceIdentity := ''dev-1'', rq_DeviceID := ''dev-2''\<rparr>) 0 =
   eastWestDecisionFor zero_evaluator (zero_decision_request\<lparr>rq_TransportDeviceIdentity := ''dev-1''\<rparr>) 0"
proof -
  have "TrimSpace (rq_TransportDeviceIdentity (zero_decision_request\<lparr>rq_TransportDeviceIdentity := ''dev-1''\<rparr>)) \<noteq> []"
    by code_simp
  from claimed_device_irrelevant [OF this, of zero_evaluator "''dev-2''" 0] show ?thesis by simp
qed

theorem eastWestDestination_mapped_witness:
  "eastWestDestinationMatches [''10.0.0.7''] [''::ffff:10.0.0.7''] = eastWestDestinationMatches [''10.0.0.7''] [''10.0.0.7'']"
proof (rule eastWestDestination_mapped)
  show "ParseAddr (TrimSpace s) \<noteq> None" if "s \<in> set [''10.0.0.7'']" for s
  proof -
    have "s = ''10.0.0.7''" using that by simp
    then show ?thesis by (simp only:) code_simp
  qed
  show "ParseAddr (TrimSpace ''::ffff:10.0.0.7'') = Some (the (ParseAddr (TrimSpace ''::ffff:10.0.0.7'')))" by code_simp
  show "ParseAddr (TrimSpace ''10.0.0.7'') = Some (the (ParseAddr (TrimSpace ''10.0.0.7'')))" by code_simp
  show "Unmap (the (ParseAddr (TrimSpace ''::ffff:10.0.0.7''))) = Unmap (the (ParseAddr (TrimSpace ''10.0.0.7'')))" by code_simp
qed

theorem capped_rule_bound_witness:
  "er_MaxTTLSeconds (capped_rule (zero_evaluator\<lparr>ev_EastWestMaxGrantTTLSeconds := 60\<rparr>) (zero_east_west_rule\<lparr>er_MaxTTLSeconds := 3600\<rparr>)) \<le> 60"
  using capped_rule_bound [of "zero_evaluator\<lparr>ev_EastWestMaxGrantTTLSeconds := 60\<rparr>" "zero_east_west_rule\<lparr>er_MaxTTLSeconds := 3600\<rparr>"]
  by simp

end
