(* ===== verification/Break_Glass.thy ===== *)
theory Break_Glass
  imports Condition_Match
begin

text \<open>
  Emergency access: the context a break-glass policy is judged in and the guard applied to its
  decision (\<open>src/decision/evaluator.go\<close>).  The guard never turns a refusal into a permission, it
  keeps a permission only under the three safeguards (a lifetime of at most an hour, strong
  authentication, an audit trail) and a fresh strong authentication, and it always emits the audit
  event.
\<close>

section \<open>Definitions\<close>

record break_glass_context =
  bg_Configured :: bool
  bg_IdentityID :: string
  bg_MaxSessionSeconds :: int
  bg_StrongAuthRequired :: bool
  bg_StrongAuthSatisfied :: bool
  bg_AuditRequired :: bool
  bg_AuthAgeSeconds :: int
  bg_AuthAgeKnown :: bool
  bg_AuthFreshness :: string
  bg_ReasonPresent :: bool
  bg_TicketIDPresent :: bool
  bg_RequestID :: string
  bg_RequirementReasonCodes :: "string list"
  bg_ReauthenticationReasons :: "string list"

definition zero_break_glass_context :: break_glass_context where
  "zero_break_glass_context =
    \<lparr>bg_Configured = False, bg_IdentityID = [], bg_MaxSessionSeconds = 0, bg_StrongAuthRequired = False,
     bg_StrongAuthSatisfied = False, bg_AuditRequired = False, bg_AuthAgeSeconds = 0, bg_AuthAgeKnown = False,
     bg_AuthFreshness = [], bg_ReasonPresent = False, bg_TicketIDPresent = False, bg_RequestID = [],
     bg_RequirementReasonCodes = [], bg_ReauthenticationReasons = []\<rparr>"

definition conditionContainsBreakGlassValue :: "any \<Rightarrow> bool" where
  "conditionContainsBreakGlassValue v = list_ex (\<lambda>c. normalizedRiskValue c = ''break_glass'') (conditionValues v)"

definition conditionRequiresBreakGlassAuth :: "any \<Rightarrow> bool" where
  "conditionRequiresBreakGlassAuth condition =
     (case condition of
        AMap typed \<Rightarrow>
          conditionContainsBreakGlassValue (index_any typed ''value'') \<or>
          conditionContainsBreakGlassValue (index_any typed ''values'')
      | _ \<Rightarrow> conditionContainsBreakGlassValue condition)"

definition breakGlassPolicyConfigured :: "policy \<Rightarrow> bool" where
  "breakGlassPolicyConfigured policy =
     (if pol_BreakGlassPolicy policy then True
      else if conditionRequiresBreakGlassAuth (index_any (pol_Conditions policy) ''auth_method'') then True
      else normalizedRiskValue (stringMetadataValue (pol_Metadata policy) ''purpose'')
             \<in> set [''break_glass'', ''break_glass_lab''])"

definition breakGlassMaxSessionSeconds :: "policy \<Rightarrow> int" where
  "breakGlassMaxSessionSeconds policy =
     (case pol_BreakGlassMaxSessionSeconds policy of
        Some s \<Rightarrow> s
      | None \<Rightarrow> intMetadata (pol_Metadata policy) ''break_glass_max_session_seconds'' 0)"

definition breakGlassAuthAgeSeconds :: "instant \<Rightarrow> string \<Rightarrow> int \<times> bool" where
  "breakGlassAuthAgeSeconds now authTime =
     (if TrimSpace authTime = [] then (0, False)
      else case Parse authTime of None \<Rightarrow> (0, False) | Some parsed \<Rightarrow> (age_seconds now parsed, True))"

definition breakGlassAuthFreshness :: "break_glass_context \<Rightarrow> string" where
  "breakGlassAuthFreshness ctx =
     (if \<not> bg_AuthAgeKnown ctx then ''missing_auth_time''
      else if bg_MaxSessionSeconds ctx \<le> 0 then ''missing_ttl''
      else if bg_AuthAgeSeconds ctx > bg_MaxSessionSeconds ctx then ''ttl_expired''
      else ''fresh'')"

definition breakGlassStrongAuthSatisfied :: "decision_request \<Rightarrow> bool" where
  "breakGlassStrongAuthSatisfied req =
     (if normalizedRiskValue (rq_AuthMethod req) \<noteq> ''break_glass'' then False
      else if normalizedRiskValue (rq_MFAState req) \<notin> set [''fresh'', ''verified'', ''satisfied''] then False
      else if list_ex (\<lambda>method. normalizedRiskValue method \<in> set
                [''otp'', ''totp'', ''hotp'', ''webauthn'', ''fido2'', ''passkey'', ''hardware_key'', ''phishing_resistant'', ''mfa''])
              (rq_AMR req) then True
      else normalizedRiskValue (rq_ACR req) \<in> set
             [''urn:break_glass:admin'', ''urn:break_glass:strong_auth'', ''break_glass_strong_auth''])"

definition breakGlassRequirementReasonCodes :: "break_glass_context \<Rightarrow> string list" where
  "breakGlassRequirementReasonCodes ctx =
     (let cs = [];
          cs = (if bg_MaxSessionSeconds ctx \<le> 0 then appendUniqueString cs ''break_glass_ttl_missing''
                else if bg_MaxSessionSeconds ctx > 3600 then appendUniqueString cs ''break_glass_ttl_too_long''
                else appendUniqueString cs ''break_glass_short_ttl_valid'');
          cs = (if \<not> bg_StrongAuthRequired ctx then appendUniqueString cs ''break_glass_strong_auth_requirement_missing'' else cs)
      in if \<not> bg_AuditRequired ctx then appendUniqueString cs ''break_glass_audit_requirement_missing''
         else appendUniqueString cs ''break_glass_audit_required'')"

definition breakGlassReauthenticationReasonCodes :: "break_glass_context \<Rightarrow> string list" where
  "breakGlassReauthenticationReasonCodes ctx =
     (let cs = [];
          cs = (if \<not> bg_StrongAuthSatisfied ctx then appendUniqueString cs ''break_glass_strong_auth_required''
                else appendUniqueString cs ''break_glass_strong_auth_satisfied'');
          f = bg_AuthFreshness ctx
      in if f = ''missing_auth_time'' then appendUniqueString cs ''break_glass_auth_time_missing''
         else if f = ''missing_ttl'' then cs
         else if f = ''ttl_expired'' then appendUniqueString cs ''break_glass_ttl_expired''
         else if f = ''fresh'' then cs
         else appendUniqueString cs ''break_glass_auth_time_missing'')"

definition breakGlassPolicyContextFor :: "instant \<Rightarrow> policy \<Rightarrow> decision_request \<Rightarrow> break_glass_context" where
  "breakGlassPolicyContextFor now policy req =
     (if \<not> breakGlassPolicyConfigured policy then zero_break_glass_context
      else
        let ctx = zero_break_glass_context
              \<lparr>bg_Configured := True,
               bg_IdentityID := stringMetadataValue (pol_Metadata policy) ''break_glass_identity_id'',
               bg_MaxSessionSeconds := breakGlassMaxSessionSeconds policy,
               bg_StrongAuthRequired := pol_BreakGlassStrongAuthRequired policy \<or>
                 boolMetadataValue (pol_Metadata policy) ''break_glass_strong_auth_required'',
               bg_AuditRequired := pol_BreakGlassAuditRequired policy \<or>
                 boolMetadataValue (pol_Metadata policy) ''break_glass_audit_required'',
               bg_StrongAuthSatisfied := breakGlassStrongAuthSatisfied req,
               bg_ReasonPresent := rq_BreakGlassReasonPresent req,
               bg_TicketIDPresent := rq_BreakGlassTicketIDPresent req,
               bg_RequestID := rq_BreakGlassRequestID req\<rparr>;
            ctx = (case pol_BreakGlassIdentityID policy of
                     Some i \<Rightarrow> if TrimSpace i \<noteq> [] then ctx\<lparr>bg_IdentityID := TrimSpace i\<rparr> else ctx
                   | None \<Rightarrow> ctx);
            (age, known) = breakGlassAuthAgeSeconds now (rq_AuthTime req);
            ctx = ctx\<lparr>bg_AuthAgeSeconds := age, bg_AuthAgeKnown := known\<rparr>;
            ctx = ctx\<lparr>bg_AuthFreshness := breakGlassAuthFreshness ctx\<rparr>;
            ctx = ctx\<lparr>bg_RequirementReasonCodes := breakGlassRequirementReasonCodes ctx\<rparr>
        in ctx\<lparr>bg_ReauthenticationReasons := breakGlassReauthenticationReasonCodes ctx\<rparr>)"

definition applyBreakGlassPolicyMetadata :: "metadata \<Rightarrow> break_glass_context \<Rightarrow> metadata" where
  "applyBreakGlassPolicyMetadata metadata ctx =
     puts [put_always ''break_glass_policy'' (ABool True),
           put_str ''break_glass_identity_id'' (bg_IdentityID ctx),
           (bg_MaxSessionSeconds ctx > 0, ''break_glass_max_session_seconds'', AInt (bg_MaxSessionSeconds ctx)),
           put_always ''break_glass_strong_auth_required'' (ABool (bg_StrongAuthRequired ctx)),
           put_always ''break_glass_strong_auth_satisfied'' (ABool (bg_StrongAuthSatisfied ctx)),
           put_always ''break_glass_audit_required'' (ABool (bg_AuditRequired ctx)),
           put_always ''break_glass_audit_event_required'' (ABool True),
           (bg_AuthAgeKnown ctx, ''break_glass_auth_age_seconds'', AInt (bg_AuthAgeSeconds ctx)),
           put_str ''break_glass_auth_freshness'' (bg_AuthFreshness ctx),
           put_str ''break_glass_request_id'' (bg_RequestID ctx),
           (bg_ReasonPresent ctx, ''break_glass_reason_present'', ABool True),
           (bg_TicketIDPresent ctx, ''break_glass_ticket_id_present'', ABool True)]
       metadata"

definition breakGlassPolicyRequirementsSatisfied :: "break_glass_context \<Rightarrow> bool" where
  "breakGlassPolicyRequirementsSatisfied ctx \<longleftrightarrow>
     bg_MaxSessionSeconds ctx > 0 \<and> bg_MaxSessionSeconds ctx \<le> 3600 \<and> bg_StrongAuthRequired ctx \<and> bg_AuditRequired ctx"

definition breakGlassRuntimeSatisfied :: "break_glass_context \<Rightarrow> bool" where
  "breakGlassRuntimeSatisfied ctx \<longleftrightarrow> bg_StrongAuthSatisfied ctx \<and> bg_AuthFreshness ctx = ''fresh''"

definition breakGlassReauthenticationAction :: "break_glass_context \<Rightarrow> decision_request \<Rightarrow> policy \<Rightarrow> decision_action" where
  "breakGlassReauthenticationAction ctx req policy =
     \<lparr>da_Type = ''prompt_reauthentication'', da_Target = stringPtr (rq_ApplicationID req),
      da_TTLSeconds = intPtr (bg_MaxSessionSeconds ctx),
      da_Metadata =
        [(''break_glass_policy'', ABool True), (''required_by_policy_id'', AStr (pol_ID policy)),
         (''required_auth_method'', AStr ''break_glass''), (''strong_auth_required'', ABool True),
         (''max_session_seconds'', AInt (bg_MaxSessionSeconds ctx)),
         (''accepted_mfa_factors'', AStrs [''otp'', ''webauthn'', ''fido2'', ''passkey'', ''hardware_key'']),
         (''audit_event_type'', AStr ''break_glass_policy_decision''),
         (''break_glass_auth_freshness'', AStr (bg_AuthFreshness ctx))]\<rparr>"

definition breakGlassAuditAction ::
  "break_glass_context \<Rightarrow> decision_request \<Rightarrow> policy \<Rightarrow> string \<Rightarrow> decision_action" where
  "breakGlassAuditAction ctx req policy guardResult =
     \<lparr>da_Type = ''emit_audit_event'', da_Target = None, da_TTLSeconds = None,
      da_Metadata =
        puts [put_str ''break_glass_identity_id'' (bg_IdentityID ctx),
              (bg_MaxSessionSeconds ctx > 0, ''break_glass_max_session_seconds'', AInt (bg_MaxSessionSeconds ctx)),
              (bg_AuthAgeKnown ctx, ''break_glass_auth_age_seconds'', AInt (bg_AuthAgeSeconds ctx)),
              put_str ''break_glass_request_id'' (bg_RequestID ctx),
              (bg_ReasonPresent ctx, ''break_glass_reason_present'', ABool True),
              (bg_TicketIDPresent ctx, ''break_glass_ticket_id_present'', ABool True)]
          [(''audit_event_type'', AStr ''break_glass_policy_decision''), (''policy_id'', AStr (pol_ID policy)),
           (''application_id'', AStr (rq_ApplicationID req)), (''break_glass_policy'', ABool True),
           (''break_glass_policy_guard_result'', AStr guardResult),
           (''break_glass_strong_auth_required'', ABool (bg_StrongAuthRequired ctx)),
           (''break_glass_strong_auth_satisfied'', ABool (bg_StrongAuthSatisfied ctx)),
           (''break_glass_audit_required'', ABool (bg_AuditRequired ctx)),
           (''break_glass_auth_freshness'', AStr (bg_AuthFreshness ctx))]\<rparr>"

definition applyBreakGlassPolicyGuard ::
  "string \<Rightarrow> string \<Rightarrow> string list \<Rightarrow> decision_action list \<Rightarrow> policy \<Rightarrow> decision_request \<Rightarrow> break_glass_context \<Rightarrow>
    string \<times> string \<times> string list \<times> decision_action list" where
  "applyBreakGlassPolicyGuard decisionValue reason reasonCodes actions policy req ctx =
     (let reasonCodes = appendUniqueString reasonCodes ''break_glass_policy_matched'';
          reasonCodes = foldl appendUniqueString reasonCodes (bg_RequirementReasonCodes ctx);
          reasonCodes = foldl appendUniqueString reasonCodes (bg_ReauthenticationReasons ctx);
          (guardResult, decisionValue, reason, reasonCodes, actions) =
            (if \<not> breakGlassPolicyRequirementsSatisfied ctx then
               (''blocked_policy_configuration'', ''deny'',
                ''Break-glass policy is missing required short TTL, strong authentication, or audit safeguards.'',
                appendUniqueString reasonCodes ''break_glass_policy_guard_failed'', actions)
             else if decisionValue = ''allow'' \<and> \<not> breakGlassRuntimeSatisfied ctx then
               (''reauthentication_required'', ''require_reauthentication'',
                ''Break-glass access requires fresh strong authentication within the policy TTL.'',
                appendUniqueString reasonCodes ''reauthentication_required'',
                actions @ [breakGlassReauthenticationAction ctx req policy])
             else (''allowed'', decisionValue, reason, reasonCodes, actions))
      in (decisionValue, reason, reasonCodes, actions @ [breakGlassAuditAction ctx req policy guardResult]))"

section \<open>Laws\<close>

lemma bg_Configured_iff [simp]:
  "bg_Configured (breakGlassPolicyContextFor now policy req) = breakGlassPolicyConfigured policy"
  by (simp add: breakGlassPolicyContextFor_def zero_break_glass_context_def Let_def split: prod.split option.split)

lemma bg_context_fields:
  assumes "breakGlassPolicyConfigured policy"
  shows "bg_MaxSessionSeconds (breakGlassPolicyContextFor now policy req) = breakGlassMaxSessionSeconds policy"
    "bg_StrongAuthRequired (breakGlassPolicyContextFor now policy req) \<longleftrightarrow>
      pol_BreakGlassStrongAuthRequired policy \<or> boolMetadataValue (pol_Metadata policy) ''break_glass_strong_auth_required''"
    "bg_AuditRequired (breakGlassPolicyContextFor now policy req) \<longleftrightarrow>
      pol_BreakGlassAuditRequired policy \<or> boolMetadataValue (pol_Metadata policy) ''break_glass_audit_required''"
    "bg_StrongAuthSatisfied (breakGlassPolicyContextFor now policy req) = breakGlassStrongAuthSatisfied req"
    "bg_AuthFreshness (breakGlassPolicyContextFor now policy req) =
      (let (age, known) = breakGlassAuthAgeSeconds now (rq_AuthTime req)
       in if \<not> known then ''missing_auth_time''
          else if breakGlassMaxSessionSeconds policy \<le> 0 then ''missing_ttl''
          else if age > breakGlassMaxSessionSeconds policy then ''ttl_expired'' else ''fresh'')"
  using assms
  by (simp_all add: breakGlassPolicyContextFor_def Let_def breakGlassAuthFreshness_def split: prod.split option.split)

lemma guard_allow:
  "fst (applyBreakGlassPolicyGuard d r cs as policy req ctx) = ''allow'' \<longleftrightarrow>
    d = ''allow'' \<and> breakGlassPolicyRequirementsSatisfied ctx \<and> breakGlassRuntimeSatisfied ctx"
  by (cases "d = ''allow''") (simp_all add: applyBreakGlassPolicyGuard_def Let_def)

lemma guard_range:
  "fst (applyBreakGlassPolicyGuard d r cs as policy req ctx) \<in> {d, ''deny'', ''require_reauthentication''}"
  by (simp add: applyBreakGlassPolicyGuard_def Let_def)

lemma guard_actions:
  "\<exists>pre res. snd (snd (snd (applyBreakGlassPolicyGuard d r cs as policy req ctx))) =
    as @ pre @ [breakGlassAuditAction ctx req policy res]"
  by (auto simp: applyBreakGlassPolicyGuard_def Let_def)

lemma guard_types:
  assumes "a \<in> set (snd (snd (snd (applyBreakGlassPolicyGuard d r cs as policy req ctx))))"
  shows "a \<in> set as \<or> da_Type a = ''prompt_reauthentication'' \<or> da_Type a = ''emit_audit_event''"
proof -
  have "da_Type (breakGlassAuditAction ctx req policy res) = ''emit_audit_event''" for res
    by (simp add: breakGlassAuditAction_def)
  moreover have "da_Type (breakGlassReauthenticationAction ctx req policy) = ''prompt_reauthentication''"
    by (simp add: breakGlassReauthenticationAction_def)
  ultimately show ?thesis using assms by (auto simp: applyBreakGlassPolicyGuard_def Let_def split: if_splits)
qed

lemma distinct_foldl_append: "distinct cs \<Longrightarrow> distinct (foldl appendUniqueString cs vs)"
  by (induction vs arbitrary: cs) simp_all

lemma guard_distinct: "distinct cs \<Longrightarrow> distinct (fst (snd (snd (applyBreakGlassPolicyGuard d r cs as policy req ctx))))"
  by (simp add: applyBreakGlassPolicyGuard_def Let_def distinct_foldl_append)

lemma set_foldl_append: "c \<in> set cs \<Longrightarrow> c \<in> set (foldl appendUniqueString cs vs)"
  by (induction vs arbitrary: cs) (auto intro: appendUniqueString_mono)

lemma guard_codes: "c \<in> set cs \<Longrightarrow> c \<in> set (fst (snd (snd (applyBreakGlassPolicyGuard d r cs as policy req ctx))))"
  by (simp add: applyBreakGlassPolicyGuard_def Let_def set_foldl_append appendUniqueString_mono)

text \<open>What keeps a permission under a break-glass policy.\<close>

lemma runtime_satisfied_iff:
  assumes "breakGlassPolicyConfigured policy"
  shows "breakGlassRuntimeSatisfied (breakGlassPolicyContextFor now policy req) \<longleftrightarrow>
    breakGlassStrongAuthSatisfied req \<and>
    (\<exists>t. TrimSpace (rq_AuthTime req) \<noteq> [] \<and> Parse (rq_AuthTime req) = Some t \<and>
      0 < breakGlassMaxSessionSeconds policy \<and> age_seconds now t \<le> breakGlassMaxSessionSeconds policy)"
  using bg_context_fields [OF assms, of now req]
  by (auto simp: breakGlassRuntimeSatisfied_def breakGlassAuthAgeSeconds_def split: if_splits option.splits)

end
