(* ===== verification/Saas_Catalog.thy ===== *)
theory Saas_Catalog
  imports Evaluator_Types Domains
begin

text \<open>
  The SaaS catalog of a policy bundle (\<open>src/decision/saas_catalog.go\<close>).  Evaluation throws away
  whatever SaaS context a request claims and derives its own from the destination names and the
  catalog of the tenant.
\<close>

section \<open>Definitions\<close>

record saas_catalog_candidate =
  cand_Source :: string
  cand_Value :: string

definition normalizeSaaSDomain :: "string \<Rightarrow> string" where
  "normalizeSaaSDomain value =
     (let value = TrimSpace (ToLower value)
      in if value = [] then []
         else let value = (case after_first ''://'' value of
                             None \<Rightarrow> value
                           | Some rest \<Rightarrow> takeWhile (\<lambda>c. c \<noteq> CHR ''/'') rest);
                  value = (case SplitHostPort value of Some (host, _) \<Rightarrow> host | None \<Rightarrow> value)
              in TrimSpace (TrimSuffix value ''.''))"

definition saasDomainPatternMatches :: "string \<Rightarrow> string \<Rightarrow> (string \<times> string) option" where
  "saasDomainPatternMatches domain pattern =
     (let domain = normalizeSaaSDomain domain; pattern = normalizeSaaSDomain pattern
      in if domain = [] \<or> pattern = [] \<or> pattern = ''*'' then None
         else if HasPrefix pattern ''*.'' then
           (let base = TrimPrefix pattern ''*.''
            in if base = [] \<or> domain = base then None
               else if HasSuffix domain (''.'' @ base) then Some (pattern, ''wildcard'')
               else None)
         else if domain = pattern then Some (pattern, ''exact'')
         else None)"

fun first_pattern :: "string \<Rightarrow> string \<Rightarrow> string list \<Rightarrow> (string \<times> string) option" where
  "first_pattern pre domain [] = None"
| "first_pattern pre domain (p # ps) =
     (case saasDomainPatternMatches domain p of
        Some (normalized, kind) \<Rightarrow> Some (normalized, pre @ kind)
      | None \<Rightarrow> first_pattern pre domain ps)"

definition matchSaaSCatalogPatterns :: "string \<Rightarrow> string \<Rightarrow> saas_catalog_entry \<Rightarrow> (string \<times> string) option" where
  "matchSaaSCatalogPatterns domain source entry =
     (if TrimSpace (sc_SaaSApplicationID entry) = [] then None
      else case first_pattern (source @ ''_'') domain (sc_DomainPatterns entry) of
             Some r \<Rightarrow> Some r
           | None \<Rightarrow>
               if source \<noteq> ''sni'' then None
               else first_pattern ''sni_'' domain (sc_SNIPatterns entry))"

definition saasCatalogEntryInTenantScope :: "policy_bundle \<Rightarrow> saas_catalog_entry \<Rightarrow> bool" where
  "saasCatalogEntryInTenantScope bundle entry =
     (let entryTenantID = TrimSpace (sc_TenantID entry)
      in if entryTenantID = [] then True
         else TrimSpace (pb_TenantID bundle) = [] \<or> entryTenantID = TrimSpace (pb_TenantID bundle))"

definition containsSaaSCatalogCandidate :: "saas_catalog_candidate list \<Rightarrow> string \<Rightarrow> string \<Rightarrow> bool" where
  "containsSaaSCatalogCandidate cs value source =
     list_ex (\<lambda>c. cand_Value c = value \<and> cand_Source c = source) cs"

definition saasCatalogCandidates :: "decision_request \<Rightarrow> saas_catalog_candidate list" where
  "saasCatalogCandidates req =
     fold (\<lambda>c cs. if cand_Value c = [] then cs
                  else if \<not> containsSaaSCatalogCandidate cs (cand_Value c) (cand_Source c) then cs @ [c] else cs)
       [\<lparr>cand_Source = ''fqdn'', cand_Value = normalizeSaaSDomain (rq_FQDN req)\<rparr>,
        \<lparr>cand_Source = ''sni'', cand_Value = normalizeSaaSDomain (rq_SNI req)\<rparr>,
        \<lparr>cand_Source = ''destination'', cand_Value = normalizeSaaSDomain (rq_Destination req)\<rparr>] []"

fun first_candidate :: "saas_catalog_entry \<Rightarrow> saas_catalog_candidate list \<Rightarrow> saas_context option" where
  "first_candidate entry [] = None"
| "first_candidate entry (c # cs) =
     (case matchSaaSCatalogPatterns (cand_Value c) (cand_Source c) entry of
        Some (pattern, matchType) \<Rightarrow>
          Some \<lparr>sx_SaaSApplicationID = TrimSpace (sc_SaaSApplicationID entry),
                sx_Name = TrimSpace (sc_Name entry), sx_Provider = TrimSpace (sc_Provider entry),
                sx_Category = TrimSpace (sc_Category entry), sx_RiskTier = TrimSpace (sc_RiskTier entry),
                sx_MatchedDomain = cand_Value c, sx_MatchedPattern = pattern, sx_MatchType = matchType\<rparr>
      | None \<Rightarrow> first_candidate entry cs)"

fun first_entry :: "policy_bundle \<Rightarrow> saas_catalog_candidate list \<Rightarrow> saas_catalog_entry list \<Rightarrow> saas_context option" where
  "first_entry bundle cs [] = None"
| "first_entry bundle cs (e # es) =
     (if \<not> saasCatalogEntryInTenantScope bundle e then first_entry bundle cs es
      else case first_candidate e cs of
             Some ctx \<Rightarrow> Some ctx
           | None \<Rightarrow> first_entry bundle cs es)"

definition SaaSContextForRequest :: "policy_bundle \<Rightarrow> decision_request \<Rightarrow> saas_context option" where
  "SaaSContextForRequest bundle req =
     (let bundle = (if TrimSpace (rq_TenantID req) \<noteq> [] then bundle\<lparr>pb_TenantID := rq_TenantID req\<rparr> else bundle);
          candidates = saasCatalogCandidates req
      in if candidates = [] then None else first_entry bundle candidates (pb_SaaSCatalog bundle))"

definition clearDecisionRequestSaaSContext :: "decision_request \<Rightarrow> decision_request" where
  "clearDecisionRequestSaaSContext req =
     req\<lparr>rq_SaaSApplicationID := [], rq_SaaSName := [], rq_SaaSProvider := [], rq_SaaSCategory := [],
         rq_SaaSRiskTier := [], rq_SaaSMatchedDomain := [], rq_SaaSMatchedPattern := [], rq_SaaSMatchType := []\<rparr>"

definition decisionRequestWithSaaSContext :: "evaluator \<Rightarrow> decision_request \<Rightarrow> decision_request" where
  "decisionRequestWithSaaSContext e req =
     (let req = clearDecisionRequestSaaSContext req
      in case SaaSContextForRequest (ev_PolicyBundle e) req of
           None \<Rightarrow> req
         | Some ctx \<Rightarrow>
             req\<lparr>rq_SaaSApplicationID := sx_SaaSApplicationID ctx, rq_SaaSName := sx_Name ctx,
                 rq_SaaSProvider := sx_Provider ctx, rq_SaaSCategory := sx_Category ctx,
                 rq_SaaSRiskTier := sx_RiskTier ctx, rq_SaaSMatchedDomain := sx_MatchedDomain ctx,
                 rq_SaaSMatchedPattern := sx_MatchedPattern ctx, rq_SaaSMatchType := sx_MatchType ctx\<rparr>)"

definition saasContextFromRequest :: "decision_request \<Rightarrow> saas_context option" where
  "saasContextFromRequest req =
     (if rq_SaaSApplicationID req = [] then None
      else Some \<lparr>sx_SaaSApplicationID = rq_SaaSApplicationID req, sx_Name = rq_SaaSName req,
                 sx_Provider = rq_SaaSProvider req, sx_Category = rq_SaaSCategory req,
                 sx_RiskTier = rq_SaaSRiskTier req, sx_MatchedDomain = rq_SaaSMatchedDomain req,
                 sx_MatchedPattern = rq_SaaSMatchedPattern req, sx_MatchType = rq_SaaSMatchType req\<rparr>)"

section \<open>Laws\<close>

text \<open>What a request claims about its SaaS context has no influence.\<close>

lemma clear_clear [simp]:
  "clearDecisionRequestSaaSContext (clearDecisionRequestSaaSContext req) = clearDecisionRequestSaaSContext req"
  by (simp add: clearDecisionRequestSaaSContext_def)

lemma WithSaaSContext_clear:
  "clearDecisionRequestSaaSContext r = clearDecisionRequestSaaSContext r' \<Longrightarrow>
    decisionRequestWithSaaSContext e r = decisionRequestWithSaaSContext e r'"
  by (simp add: decisionRequestWithSaaSContext_def)

text \<open>Deriving the context twice changes nothing.\<close>

lemma clear_WithSaaSContext [simp]:
  "clearDecisionRequestSaaSContext (decisionRequestWithSaaSContext e r) = clearDecisionRequestSaaSContext r"
  by (simp add: decisionRequestWithSaaSContext_def clearDecisionRequestSaaSContext_def Let_def split: option.split)

lemma WithSaaSContext_idem [simp]:
  "decisionRequestWithSaaSContext e (decisionRequestWithSaaSContext e r) = decisionRequestWithSaaSContext e r"
  by (rule WithSaaSContext_clear) simp

text \<open>The fields outside the SaaS context pass through.\<close>

lemma WithSaaSContext_frame [simp]:
  "rq_TenantID (decisionRequestWithSaaSContext e r) = rq_TenantID r"
  "rq_ActorType (decisionRequestWithSaaSContext e r) = rq_ActorType r"
  "rq_Destination (decisionRequestWithSaaSContext e r) = rq_Destination r"
  "rq_ServiceFamily (decisionRequestWithSaaSContext e r) = rq_ServiceFamily r"
  "rq_FQDN (decisionRequestWithSaaSContext e r) = rq_FQDN r"
  "rq_ConnectorRouteVerified (decisionRequestWithSaaSContext e r) = rq_ConnectorRouteVerified r"
  "rq_WorkloadAttestationState (decisionRequestWithSaaSContext e r) = rq_WorkloadAttestationState r"
  "rq_AuthTime (decisionRequestWithSaaSContext e r) = rq_AuthTime r"
  "rq_ToolID (decisionRequestWithSaaSContext e r) = rq_ToolID r"
  "rq_ToolActionType (decisionRequestWithSaaSContext e r) = rq_ToolActionType r"
  by (simp_all add: decisionRequestWithSaaSContext_def clearDecisionRequestSaaSContext_def Let_def split: option.split)

text \<open>A pattern matches one name exactly or, with a leading \<open>*.\<close>, every name below its base.\<close>

text \<open>C35. Catalog patterns.  A domain matches a pattern exactly when they are equal after normalisation, or the
  pattern is a wildcard and the domain lies strictly below its base at a label boundary.\<close>

theorem saasDomainPatternMatches_iff:
  "saasDomainPatternMatches d p = Some (q, k) \<longleftrightarrow>
    (let d = normalizeSaaSDomain d; p = normalizeSaaSDomain p
     in d \<noteq> [] \<and> p \<noteq> [] \<and> p \<noteq> ''*'' \<and> q = p \<and>
        (if HasPrefix p ''*.''
         then k = ''wildcard'' \<and> (\<exists>base. p = ''*.'' @ base \<and> base \<noteq> [] \<and> below d base)
         else k = ''exact'' \<and> d = p))"
proof -
  have "HasSuffix d (CHR ''.'' # b) \<Longrightarrow> d \<noteq> b" for d b :: string by (auto simp: HasSuffix_iff)
  then show ?thesis
    by (auto simp: saasDomainPatternMatches_def Let_def HasPrefix_iff HasSuffix_dot
        TrimPrefix_append [of "''*.''", simplified])
qed

lemma first_pattern_Some:
  "first_pattern pre d ps = Some (q, k) \<Longrightarrow> \<exists>p \<in> set ps. \<exists>k'. saasDomainPatternMatches d p = Some (q, k') \<and> k = pre @ k'"
  by (induction ps) (auto split: option.splits)

lemma matchSaaSCatalogPatterns_Some:
  assumes "matchSaaSCatalogPatterns d src e = Some (q, k)"
  shows "TrimSpace (sc_SaaSApplicationID e) \<noteq> [] \<and>
    (\<exists>p \<in> set (sc_DomainPatterns e) \<union> (if src = ''sni'' then set (sc_SNIPatterns e) else {}).
      saasDomainPatternMatches d p \<noteq> None)"
  using assms by (auto simp: matchSaaSCatalogPatterns_def split: if_splits option.splits dest!: first_pattern_Some)

lemma first_candidate_Some:
  "first_candidate e cs = Some ctx \<Longrightarrow>
    sx_SaaSApplicationID ctx = TrimSpace (sc_SaaSApplicationID e) \<and> sx_SaaSApplicationID ctx \<noteq> [] \<and>
    (\<exists>c \<in> set cs. cand_Value c = sx_MatchedDomain ctx \<and>
      matchSaaSCatalogPatterns (cand_Value c) (cand_Source c) e = Some (sx_MatchedPattern ctx, sx_MatchType ctx))"
  by (induction cs) (auto split: option.splits dest: matchSaaSCatalogPatterns_Some)

lemma first_entry_Some:
  "first_entry b cs es = Some ctx \<Longrightarrow>
    \<exists>e \<in> set es. saasCatalogEntryInTenantScope b e \<and> first_candidate e cs = Some ctx"
  by (induction es) (auto split: if_splits option.splits)

end
