(* ===== verification/Inspection.thy ===== *)
theory Inspection
  imports Saas_Catalog
begin

text \<open>
  The TLS inspection readiness of a matched policy (\<open>src/decision/evaluator.go\<close>): the inspection
  profile, trust profile and root CA it resolves to, and what they add to the decision.  The lemmas
  show that a resource of one tenant is never applied to the flow of another.
\<close>

section \<open>Definitions\<close>

record tls_inspection_context =
  ti_Configured :: bool
  ti_Profile :: inspection_profile
  ti_TrustProfile :: "trust_profile option"
  ti_TenantRootCA :: "tenant_root_ca option"
  ti_QUICApplicable :: bool

definition zero_tls_inspection_context :: tls_inspection_context where
  "zero_tls_inspection_context =
    \<lparr>ti_Configured = False, ti_Profile = zero_inspection_profile, ti_TrustProfile = None,
     ti_TenantRootCA = None, ti_QUICApplicable = False\<rparr>"

definition tenantMatches :: "string \<Rightarrow> string \<Rightarrow> string \<Rightarrow> string \<Rightarrow> bool" where
  "tenantMatches candidate bundleTenant policyTenant requestTenant =
     (let candidate = TrimSpace candidate
      in if candidate = [] then True else candidate = firstNonEmpty [requestTenant, policyTenant, bundleTenant])"

definition inspectionProfileByID :: "evaluator \<Rightarrow> string \<Rightarrow> inspection_profile option" where
  "inspectionProfileByID e i =
     List.find (\<lambda>p. TrimSpace (ip_ID p) = TrimSpace i) (pb_InspectionProfiles (ev_PolicyBundle e))"

definition trustProfileByID :: "evaluator \<Rightarrow> string \<Rightarrow> trust_profile option" where
  "trustProfileByID e i = List.find (\<lambda>p. TrimSpace (tp_ID p) = TrimSpace i) (pb_TrustProfiles (ev_PolicyBundle e))"

definition tenantRootCAByID :: "evaluator \<Rightarrow> string \<Rightarrow> tenant_root_ca option" where
  "tenantRootCAByID e i = List.find (\<lambda>c. TrimSpace (ca_ID c) = TrimSpace i) (pb_TenantRootCAs (ev_PolicyBundle e))"

definition requestIndicatesQUIC :: "decision_request \<Rightarrow> bool" where
  "requestIndicatesQUIC req \<longleftrightarrow>
     normalizedRiskValue (rq_Protocol req) \<in> set [''udp'', ''quic''] \<or>
     normalizedRiskValue (rq_ServiceFamily req) \<in> set [''quic'', ''http3'', ''http_3'', ''https_quic'']"

definition quicPolicyRequiresTCPTLS :: "inspection_profile \<Rightarrow> bool" where
  "quicPolicyRequiresTCPTLS profile \<longleftrightarrow>
     normalizedRiskValue (ip_QUICPolicyAction profile) \<in>
       set [''tcp_tls_required'', ''prefer_tcp_tls'', ''redirect_to_tcp_tls'', ''disable_http3'']"

definition tlsInspectionReadinessContextFor :: "evaluator \<Rightarrow> policy \<Rightarrow> decision_request \<Rightarrow> tls_inspection_context" where
  "tlsInspectionReadinessContextFor e policy req =
     (let ours = (\<lambda>t. tenantMatches t (pb_TenantID (ev_PolicyBundle e)) (pol_TenantID policy) (rq_TenantID req))
      in case pol_InspectionProfileID policy of
           None \<Rightarrow> zero_tls_inspection_context
         | Some i \<Rightarrow>
             if TrimSpace i = [] then zero_tls_inspection_context
             else case inspectionProfileByID e (TrimSpace i) of
                    None \<Rightarrow> zero_tls_inspection_context
                  | Some profile \<Rightarrow>
                      if \<not> ours (ip_TenantID profile) then zero_tls_inspection_context
                      else
                        let trust = (case trustProfileByID e (ip_TrustProfileID profile) of
                                       Some t \<Rightarrow> if ours (tp_TenantID t) then Some t else None
                                     | None \<Rightarrow> None);
                            rootCAID = ip_TenantRootCAID profile;
                            rootCAID = (case trust of
                                          Some t \<Rightarrow> if rootCAID = [] then tp_TenantRootCAID t else rootCAID
                                        | None \<Rightarrow> rootCAID);
                            root = (case tenantRootCAByID e rootCAID of
                                      Some c \<Rightarrow> if ours (ca_TenantID c) then Some c else None
                                    | None \<Rightarrow> None)
                        in \<lparr>ti_Configured = True, ti_Profile = profile, ti_TrustProfile = trust,
                            ti_TenantRootCA = root, ti_QUICApplicable = requestIndicatesQUIC req\<rparr>)"

definition trust_entries :: "trust_profile option \<Rightarrow> (bool \<times> string \<times> any) list" where
  "trust_entries trust =
     (case trust of
        None \<Rightarrow> []
      | Some t \<Rightarrow>
          [put_always ''trust_profile_id'' (AStr (tp_ID t)),
           put_always ''trust_profile_status'' (AStr (valueOrDefault (tp_Status t) ''unknown'')),
           put_str ''trust_store_state'' (tp_TrustStoreState t),
           put_str ''certificate_pinning_policy'' (tp_CertificatePinningPolicy t)])"

definition root_ca_entries :: "tenant_root_ca option \<Rightarrow> (bool \<times> string \<times> any) list" where
  "root_ca_entries root =
     (case root of
        None \<Rightarrow> []
      | Some c \<Rightarrow>
          [put_always ''tenant_root_ca_id'' (AStr (ca_ID c)),
           put_always ''tenant_root_ca_status'' (AStr (valueOrDefault (ca_Status c) ''unknown'')),
           put_str ''tenant_root_ca_distribution_mode'' (ca_DistributionMode c),
           put_str ''tenant_root_ca_trust_store_target'' (ca_TrustStoreTarget c),
           put_str ''tenant_root_ca_private_key_status'' (ca_PrivateKeyStatus c)])"

definition applyTLSInspectionReadinessMetadata :: "metadata \<Rightarrow> tls_inspection_context \<Rightarrow> metadata" where
  "applyTLSInspectionReadinessMetadata metadata ctx =
     (let profile = ti_Profile ctx
      in puts
           ([put_always ''tls_inspection_readiness'' (AStr ''policy_layer''),
             put_always ''tls_interception_enabled'' (ABool (ip_TLSInterceptionEnabled profile)),
             put_always ''certificate_issuance_mode'' (AStr (valueOrDefault (ip_CertificateIssuanceMode profile) ''not_issued'')),
             put_always ''inspection_profile_id'' (AStr (ip_ID profile)),
             put_always ''inspection_mode'' (AStr (valueOrDefault (ip_InspectionMode profile) ''metadata_only'')),
             put_always ''payload_policy'' (AStr (valueOrDefault (ip_PayloadPolicy profile) ''metadata_only'')),
             put_always ''network_extension_runtime_used'' (ABool False),
             put_str ''network_extension_dependency'' (ip_NetworkExtensionDependency profile),
             put_str ''trust_profile_id'' (ip_TrustProfileID profile),
             put_str ''tenant_root_ca_id'' (ip_TenantRootCAID profile)] @
            trust_entries (ti_TrustProfile ctx) @
            root_ca_entries (ti_TenantRootCA ctx) @
            [put_str ''quic_policy_mode'' (ip_QUICPolicyMode profile),
             put_str ''quic_policy_action'' (ip_QUICPolicyAction profile),
             (ti_QUICApplicable ctx \<and> quicPolicyRequiresTCPTLS profile, ''quic_tcp_tls_redirect_required'', ABool True)])
           metadata)"

definition inspectionRoutingForTLSInspectionContext :: "tls_inspection_context \<Rightarrow> string \<times> string" where
  "inspectionRoutingForTLSInspectionContext ctx =
     (if \<not> ti_Configured ctx then ([], [])
      else if ip_TLSInterceptionEnabled (ti_Profile ctx) then (''tls_readiness_candidate'', ''post_mvp_tls'')
      else if normalizedRiskValue (ip_InspectionMode (ti_Profile ctx)) = ''passthrough''
      then (''passthrough'', ''not_executed_metadata_only'')
      else (''metadata_inspection'', ''metadata_inspection_only''))"

definition applyEdgeInspectionRoutingMetadata ::
  "metadata \<Rightarrow> string \<Rightarrow> string \<Rightarrow> string \<Rightarrow> bool \<Rightarrow> metadata" where
  "applyEdgeInspectionRoutingMetadata metadata routeCategory executionScope source bypass =
     (if TrimSpace routeCategory = [] \<or> TrimSpace executionScope = [] then metadata
      else
        let decision = (if bypass then ''bypass''
                        else if routeCategory = ''tls_readiness_candidate'' then ''intercept_candidate''
                        else if routeCategory = ''passthrough'' then ''passthrough''
                        else ''metadata_inspection'')
        in puts [put_always ''inspection_route_category'' (AStr routeCategory),
                 put_always ''inspection_execution_scope'' (AStr executionScope),
                 put_always ''edge_tls_policy_decision'' (AStr decision),
                 put_always ''edge_tls_policy_decision_source'' (AStr source),
                 put_always ''edge_tls_policy_bypass'' (ABool bypass)]
             metadata)"

definition appendTLSInspectionReadinessReasonCodes :: "string list \<Rightarrow> tls_inspection_context \<Rightarrow> string list" where
  "appendTLSInspectionReadinessReasonCodes reasonCodes ctx =
     (let cs = appendUniqueString reasonCodes ''tls_inspection_readiness_policy_layer''
      in if ti_QUICApplicable ctx \<and> quicPolicyRequiresTCPTLS (ti_Profile ctx)
         then appendUniqueString cs ''quic_tcp_tls_required'' else cs)"

definition appendTLSInspectionReadinessActions ::
  "decision_action list \<Rightarrow> tls_inspection_context \<Rightarrow> decision_request \<Rightarrow> policy \<Rightarrow> decision_action list" where
  "appendTLSInspectionReadinessActions actions ctx req policy =
     (if \<not> ti_QUICApplicable ctx \<or> \<not> quicPolicyRequiresTCPTLS (ti_Profile ctx) then actions
      else actions @
        [\<lparr>da_Type = ''emit_audit_event'', da_Target = None, da_TTLSeconds = None,
          da_Metadata =
            [(''audit_event_type'', AStr ''tls_inspection_readiness_quic_policy''),
             (''application_id'', AStr (rq_ApplicationID req)),
             (''inspection_profile_id'', AStr (ip_ID (ti_Profile ctx))),
             (''policy_id'', AStr (pol_ID policy)),
             (''quic_policy_action'', AStr (ip_QUICPolicyAction (ti_Profile ctx))),
             (''recommended_transport'', AStr ''tcp_tls''),
             (''network_extension_runtime_used'', ABool False)]\<rparr>])"

section \<open>Laws\<close>

lemma firstNonEmpty_Cons:
  "firstNonEmpty (v # vs) = (if TrimSpace v \<noteq> [] then TrimSpace v else firstNonEmpty vs)"
  by (simp add: firstNonEmpty_def)

lemma firstNonEmpty_Nil [simp]: "firstNonEmpty [] = []"
  by (simp add: firstNonEmpty_def)

text \<open>The flow's own tenant decides; only a resource without a tenant is shared.\<close>

lemma tenantMatches_known:
  "TrimSpace rt \<noteq> [] \<Longrightarrow> tenantMatches c bt pt rt \<longleftrightarrow> TrimSpace c = [] \<or> TrimSpace c = TrimSpace rt"
  by (simp add: tenantMatches_def Let_def firstNonEmpty_Cons)

lemma tlsInspection_tenant:
  assumes "ti_Configured (tlsInspectionReadinessContextFor e policy req)"
  shows "tenantMatches (ip_TenantID (ti_Profile (tlsInspectionReadinessContextFor e policy req)))
      (pb_TenantID (ev_PolicyBundle e)) (pol_TenantID policy) (rq_TenantID req)"
    "ti_TrustProfile (tlsInspectionReadinessContextFor e policy req) = Some t \<Longrightarrow>
      tenantMatches (tp_TenantID t) (pb_TenantID (ev_PolicyBundle e)) (pol_TenantID policy) (rq_TenantID req)"
    "ti_TenantRootCA (tlsInspectionReadinessContextFor e policy req) = Some c \<Longrightarrow>
      tenantMatches (ca_TenantID c) (pb_TenantID (ev_PolicyBundle e)) (pol_TenantID policy) (rq_TenantID req)"
  using assms
  by (auto simp: tlsInspectionReadinessContextFor_def zero_tls_inspection_context_def Let_def
      split: option.splits if_splits)

lemma distinct_tls_codes [simp]: "distinct cs \<Longrightarrow> distinct (appendTLSInspectionReadinessReasonCodes cs ctx)"
  by (simp add: appendTLSInspectionReadinessReasonCodes_def Let_def)

lemma tls_codes_mono: "c \<in> set cs \<Longrightarrow> c \<in> set (appendTLSInspectionReadinessReasonCodes cs ctx)"
  by (simp add: appendTLSInspectionReadinessReasonCodes_def Let_def appendUniqueString_mono)

lemma tls_actions_types:
  "da_Type ` set (appendTLSInspectionReadinessActions as ctx req policy) \<subseteq> insert ''emit_audit_event'' (da_Type ` set as)"
  by (auto simp: appendTLSInspectionReadinessActions_def)

end
