(* ===== verification/Swg_Enforcement.thy ===== *)
theory Swg_Enforcement
  imports Inspection
begin

text \<open>
  Web gateway enforcement on a matched flow: tenant restriction headers and TLS bypass
  (\<open>src/decision/swg_tenant_enforcement.go\<close>) and data loss prevention
  (\<open>src/decision/dlp_enforcement.go\<close>).  The lemmas show that a bypassed flow gets no header
  injected and that rules of another tenant are never chosen.
\<close>

section \<open>Tenant restriction and TLS bypass\<close>

record swg_context =
  sw_Configured :: bool
  sw_DefaultTLSDecryptRequired :: bool
  sw_MacCATrustRequired :: bool
  sw_TenantRestrictionRule :: "swg_tenant_restriction_rule option"
  sw_TLSBypassRule :: "swg_tls_bypass_rule option"
  sw_HeaderInjectionApplicable :: bool
  sw_HeaderInjectionSuppressed :: bool
  sw_HeaderInjectionAction :: bool
  sw_RuntimeTLSObserved :: bool
  sw_RuntimeHeaderObserved :: bool
  sw_HeaderValueMaterialPresent :: bool

definition zero_swg_context :: swg_context where
  "zero_swg_context =
    \<lparr>sw_Configured = False, sw_DefaultTLSDecryptRequired = False, sw_MacCATrustRequired = False,
     sw_TenantRestrictionRule = None, sw_TLSBypassRule = None, sw_HeaderInjectionApplicable = False,
     sw_HeaderInjectionSuppressed = False, sw_HeaderInjectionAction = False, sw_RuntimeTLSObserved = False,
     sw_RuntimeHeaderObserved = False, sw_HeaderValueMaterialPresent = False\<rparr>"

definition requestIsSWGHTTPS :: "decision_request \<Rightarrow> bool" where
  "requestIsSWGHTTPS req =
     (let serviceFamily = normalizedRiskValue (rq_ServiceFamily req); protocol = normalizedRiskValue (rq_Protocol req)
      in serviceFamily = ''https'' \<or> serviceFamily = ''saas'' \<or>
         (rq_DestinationPort req = 443 \<and> (protocol = ''tcp'' \<or> protocol = [])))"

definition activeSWGRule :: "string \<Rightarrow> bool" where
  "activeSWGRule status \<longleftrightarrow> normalizedRiskValue status = [] \<or> normalizedRiskValue status = ''active''"

definition swgTenantRestrictionRuleMatches :: "swg_tenant_restriction_rule \<Rightarrow> decision_request \<Rightarrow> bool" where
  "swgTenantRestrictionRuleMatches rule req =
     (let ruleAppID = TrimSpace (tr_SaaSApplicationID rule)
      in if ruleAppID \<noteq> [] \<and> ruleAppID = TrimSpace (rq_SaaSApplicationID req) then True
         else let ruleProvider = normalizedRiskValue (tr_Provider rule)
              in ruleProvider \<noteq> [] \<and> ruleProvider = normalizedRiskValue (rq_SaaSProvider req))"

definition tenant_restriction_applies :: "evaluator \<Rightarrow> decision_request \<Rightarrow> policy \<Rightarrow> swg_tenant_restriction_rule \<Rightarrow> bool" where
  "tenant_restriction_applies e req policy rule =
     (if \<not> activeSWGRule (tr_Status rule) then False
      else if TrimSpace (rq_TenantID req) \<noteq> [] \<and> tr_TenantID rule \<noteq> [] \<and> tr_TenantID rule \<noteq> rq_TenantID req then False
      else if \<not> tenantMatches (tr_TenantID rule) (pb_TenantID (ev_PolicyBundle e)) (pol_TenantID policy) (rq_TenantID req)
      then False
      else swgTenantRestrictionRuleMatches rule req)"

definition firstSWGTenantRestrictionRule ::
  "evaluator \<Rightarrow> decision_request \<Rightarrow> policy \<Rightarrow> swg_tenant_restriction_rule option" where
  "firstSWGTenantRestrictionRule e req policy =
     List.find (tenant_restriction_applies e req policy) (pb_SWGTenantRestrictionRules (ev_PolicyBundle e))"

definition swgDomainRuleMatches :: "string \<Rightarrow> string list \<Rightarrow> bool" where
  "swgDomainRuleMatches pattern candidates =
     list_ex (\<lambda>candidate. saasDomainPatternMatches candidate pattern \<noteq> None) candidates"

definition swgTLSBypassRuleMatches :: "swg_tls_bypass_rule \<Rightarrow> decision_request \<Rightarrow> bool" where
  "swgTLSBypassRuleMatches rule req =
     (let kind = normalizedRiskValue (by_MatchType rule)
      in if kind = ''fqdn'' \<or> kind = ''domain''
         then swgDomainRuleMatches (by_Pattern rule) [rq_FQDN req, rq_SNI req, rq_Destination req]
         else if kind = ''sni'' then swgDomainRuleMatches (by_Pattern rule) [rq_SNI req]
         else if kind = ''saas_application_id''
         then TrimSpace (by_SaaSApplicationID rule) \<noteq> [] \<and>
              TrimSpace (by_SaaSApplicationID rule) = TrimSpace (rq_SaaSApplicationID req)
         else if kind = ''category''
         then normalizedRiskValue (by_Category rule) \<noteq> [] \<and>
              normalizedRiskValue (by_Category rule) = normalizedRiskValue (rq_SaaSCategory req)
         else False)"

definition tls_bypass_applies :: "evaluator \<Rightarrow> decision_request \<Rightarrow> policy \<Rightarrow> swg_tls_bypass_rule \<Rightarrow> bool" where
  "tls_bypass_applies e req policy rule =
     (if \<not> activeSWGRule (by_Status rule) then False
      else if \<not> tenantMatches (by_TenantID rule) (pb_TenantID (ev_PolicyBundle e)) (pol_TenantID policy) (rq_TenantID req)
      then False
      else swgTLSBypassRuleMatches rule req)"

definition firstSWGTLSBypassRule :: "evaluator \<Rightarrow> decision_request \<Rightarrow> policy \<Rightarrow> swg_tls_bypass_rule option" where
  "firstSWGTLSBypassRule e req policy =
     List.find (tls_bypass_applies e req policy) (pb_SWGTLSBypassRules (ev_PolicyBundle e))"

definition swgTenantEnforcementContextFor ::
  "evaluator \<Rightarrow> policy \<Rightarrow> decision_request \<Rightarrow> tls_inspection_context \<Rightarrow> swg_context" where
  "swgTenantEnforcementContextFor e policy req inspectionCtx =
     (if \<not> requestIsSWGHTTPS req then zero_swg_context
      else if rq_SaaSApplicationID req = [] \<and> rq_SaaSProvider req = [] \<and> rq_SaaSCategory req = [] then zero_swg_context
      else
        let decrypt = ti_Configured inspectionCtx \<and> ip_TLSInterceptionEnabled (ti_Profile inspectionCtx);
            ctx = zero_swg_context\<lparr>sw_DefaultTLSDecryptRequired := decrypt, sw_MacCATrustRequired := decrypt,
                                   sw_RuntimeTLSObserved := False, sw_RuntimeHeaderObserved := False\<rparr>;
            ctx = (case firstSWGTenantRestrictionRule e req policy of
                     Some rule \<Rightarrow> ctx\<lparr>sw_TenantRestrictionRule := Some rule, sw_HeaderInjectionApplicable := True\<rparr>
                   | None \<Rightarrow> ctx);
            ctx = (case firstSWGTLSBypassRule e req policy of
                     Some rule \<Rightarrow> ctx\<lparr>sw_TLSBypassRule := Some rule,
                                      sw_HeaderInjectionSuppressed := sw_HeaderInjectionApplicable ctx\<rparr>
                   | None \<Rightarrow> ctx);
            ctx = ctx\<lparr>sw_HeaderInjectionAction :=
                        sw_HeaderInjectionApplicable ctx \<and> sw_TLSBypassRule ctx = None \<and> sw_DefaultTLSDecryptRequired ctx\<rparr>
        in ctx\<lparr>sw_Configured := sw_DefaultTLSDecryptRequired ctx \<or> sw_TenantRestrictionRule ctx \<noteq> None \<or>
                 sw_TLSBypassRule ctx \<noteq> None\<rparr>)"

definition tenant_restriction_entries :: "swg_context \<Rightarrow> (bool \<times> string \<times> any) list" where
  "tenant_restriction_entries ctx =
     (case sw_TenantRestrictionRule ctx of
        None \<Rightarrow> []
      | Some r \<Rightarrow>
          [put_always ''swg_tenant_restriction_rule_id'' (AStr (tr_ID r)),
           put_always ''swg_tenant_restriction_header_name'' (AStr (tr_HeaderName r)),
           put_always ''swg_tenant_restriction_header_value_ref'' (AStr (tr_HeaderValueRef r)),
           put_always ''swg_tenant_restriction_header_value_kind'' (AStr (tr_HeaderValueKind r)),
           put_always ''swg_tenant_restriction_header_value_material_in_decision'' (ABool (sw_HeaderValueMaterialPresent ctx)),
           put_always ''swg_tenant_restriction_header_injection_applicable'' (ABool (sw_HeaderInjectionApplicable ctx)),
           put_always ''swg_tenant_restriction_header_injection_applied'' (ABool (sw_HeaderInjectionAction ctx)),
           put_always ''swg_tenant_restriction_header_injection_suppressed_by_bypass'' (ABool (sw_HeaderInjectionSuppressed ctx))])"

definition applySWGTenantEnforcementMetadata :: "metadata \<Rightarrow> swg_context \<Rightarrow> metadata" where
  "applySWGTenantEnforcementMetadata metadata ctx =
     puts
       ([put_always ''swg_tenant_enforcement_preflight'' (AStr ''policy_layer''),
         put_always ''swg_default_tls_decryption_required'' (ABool (sw_DefaultTLSDecryptRequired ctx)),
         put_always ''swg_tls_bypass_policy'' (AStr ''per_destination_bypass_list''),
         put_always ''swg_tls_bypass_applied'' (ABool (sw_TLSBypassRule ctx \<noteq> None)),
         put_always ''swg_tls_runtime_decryption_observed'' (ABool (sw_RuntimeTLSObserved ctx)),
         put_always ''swg_header_injection_runtime_observed'' (ABool (sw_RuntimeHeaderObserved ctx)),
         put_always ''swg_macos_ca_trust_required'' (ABool (sw_MacCATrustRequired ctx)),
         put_always ''swg_macos_ca_trust_observed'' (ABool False)] @
        tenant_restriction_entries ctx @
        (case sw_TLSBypassRule ctx of
           None \<Rightarrow> []
         | Some b \<Rightarrow>
             [put_always ''swg_tls_bypass_rule_id'' (AStr (by_ID b)),
              put_always ''swg_tls_bypass_match_type'' (AStr (by_MatchType b)),
              put_always ''swg_tls_bypass_reason'' (AStr (by_Reason b))]))
       metadata"

definition appendSWGTenantEnforcementReasonCodes :: "string list \<Rightarrow> swg_context \<Rightarrow> string list" where
  "appendSWGTenantEnforcementReasonCodes reasonCodes ctx =
     (let cs = appendUniqueString reasonCodes ''swg_saas_tenant_enforcement_preflight'';
          cs = (if sw_DefaultTLSDecryptRequired ctx then appendUniqueString cs ''swg_default_tls_decryption_required'' else cs);
          cs = (if sw_HeaderInjectionAction ctx then appendUniqueString cs ''swg_tenant_restriction_header_injection_planned'' else cs)
      in if sw_TLSBypassRule ctx \<noteq> None then appendUniqueString cs ''swg_tls_bypass_applied'' else cs)"

definition header_injection_action :: "swg_tenant_restriction_rule \<Rightarrow> decision_request \<Rightarrow> policy \<Rightarrow> decision_action" where
  "header_injection_action r req policy =
     \<lparr>da_Type = ''inject_saas_tenant_restriction_header'',
      da_Target = stringPtr (valueOrDefault (rq_SaaSApplicationID req) (rq_ApplicationID req)), da_TTLSeconds = None,
      da_Metadata =
        puts [(tr_Provider r = ''microsoft_365'' \<and>
               (case map_of (tr_Metadata r) ''restriction_context_ref'' of Some (AStr ref) \<Rightarrow> ref \<noteq> [] | _ \<Rightarrow> False),
               ''restriction_context_ref'',
               (case map_of (tr_Metadata r) ''restriction_context_ref'' of Some v \<Rightarrow> v | None \<Rightarrow> ANil))]
          [(''policy_id'', AStr (pol_ID policy)), (''saas_application_id'', AStr (rq_SaaSApplicationID req)),
           (''saas_provider'', AStr (rq_SaaSProvider req)), (''swg_tenant_restriction_rule_id'', AStr (tr_ID r)),
           (''header_name'', AStr (tr_HeaderName r)), (''header_value_ref'', AStr (tr_HeaderValueRef r)),
           (''header_value_kind'', AStr (tr_HeaderValueKind r)), (''header_value_material_in_decision'', ABool False),
           (''tls_decryption_mode'', AStr ''default_decrypt''), (''runtime_tls_decryption_observed'', ABool False),
           (''runtime_header_injection_observed'', ABool False)]\<rparr>"

definition bypass_audit_action :: "swg_context \<Rightarrow> swg_tls_bypass_rule \<Rightarrow> decision_request \<Rightarrow> policy \<Rightarrow> decision_action" where
  "bypass_audit_action ctx b req policy =
     \<lparr>da_Type = ''emit_audit_event'', da_Target = None, da_TTLSeconds = None,
      da_Metadata =
        [(''audit_event_type'', AStr ''swg_tls_bypass_preflight''), (''policy_id'', AStr (pol_ID policy)),
         (''saas_application_id'', AStr (rq_SaaSApplicationID req)), (''swg_tls_bypass_rule_id'', AStr (by_ID b)),
         (''swg_tls_bypass_match_type'', AStr (by_MatchType b)), (''swg_tls_bypass_reason'', AStr (by_Reason b)),
         (''tenant_header_injection_suppressed'', ABool (sw_HeaderInjectionSuppressed ctx)),
         (''runtime_tls_decryption_observed'', ABool False), (''runtime_header_injection_observed'', ABool False),
         (''header_value_material_in_decision'', ABool False), (''network_extension_runtime_used'', ABool False)]\<rparr>"

definition appendSWGTenantEnforcementActions ::
  "decision_action list \<Rightarrow> swg_context \<Rightarrow> decision_request \<Rightarrow> policy \<Rightarrow> decision_action list" where
  "appendSWGTenantEnforcementActions actions ctx req policy =
     (let actions = (case sw_TenantRestrictionRule ctx of
                       Some r \<Rightarrow> if sw_HeaderInjectionAction ctx then actions @ [header_injection_action r req policy] else actions
                     | None \<Rightarrow> actions)
      in case sw_TLSBypassRule ctx of
           Some b \<Rightarrow> actions @ [bypass_audit_action ctx b req policy]
         | None \<Rightarrow> actions)"

section \<open>Data loss prevention\<close>

definition dlpRuleMatches :: "dlp_rule \<Rightarrow> decision_request \<Rightarrow> bool" where
  "dlpRuleMatches rule req =
     (let appID = TrimSpace (dlp_SaaSApplicationID rule)
      in if appID \<noteq> [] \<and> appID = TrimSpace (rq_SaaSApplicationID req) then True
         else let provider = normalizedRiskValue (dlp_Provider rule)
              in if provider \<noteq> [] \<and> provider = normalizedRiskValue (rq_SaaSProvider req) then True
                 else appID = [] \<and> provider = [])"

definition dlp_applies :: "evaluator \<Rightarrow> decision_request \<Rightarrow> policy \<Rightarrow> dlp_rule \<Rightarrow> bool" where
  "dlp_applies e req policy rule =
     (if \<not> activeSWGRule (dlp_Status rule) then False
      else if \<not> tenantMatches (dlp_TenantID rule) (pb_TenantID (ev_PolicyBundle e)) (pol_TenantID policy) (rq_TenantID req)
      then False
      else dlpRuleMatches rule req)"

definition firstDLPRule :: "evaluator \<Rightarrow> decision_request \<Rightarrow> policy \<Rightarrow> dlp_rule option" where
  "firstDLPRule e req policy = List.find (dlp_applies e req policy) (pb_DLPRules (ev_PolicyBundle e))"

definition dlpInspectDirective ::
  "string \<Rightarrow> string list \<Rightarrow> int \<Rightarrow> string \<Rightarrow> string \<Rightarrow> string \<Rightarrow> decision_action" where
  "dlpInspectDirective ruleID identifiers minCount onMatch instanceScope policyID =
     (let onMatch = TrimSpace onMatch;
          onMatch = (if onMatch = [] then ''observe'' else onMatch);
          md = puts [(TrimSpace instanceScope \<noteq> [] \<and> TrimSpace instanceScope \<noteq> ''any'',
                      ''instance_scope'', AStr (TrimSpace instanceScope)),
                     put_str ''dlp_policy_id'' (TrimSpace policyID)]
                 [(''dlp_rule_id'', AStr ruleID), (''identifiers'', AStrs identifiers), (''min_count'', AInt minCount),
                  (''action'', AStr onMatch)]
      in \<lparr>da_Type = ''dlp_inspect'', da_Target = None, da_TTLSeconds = None, da_Metadata = md\<rparr>)"

definition dlpInspectAction :: "dlp_rule \<Rightarrow> decision_action" where
  "dlpInspectAction rule =
     dlpInspectDirective (dlp_ID rule) (dlp_Identifiers rule) (dlp_MinCount rule) (dlp_OnMatch rule) (dlp_InstanceScope rule) []"

definition dlpInspectActionFromSpec :: "string \<Rightarrow> dlp_spec \<Rightarrow> decision_action" where
  "dlpInspectActionFromSpec ruleID spec =
     dlpInspectDirective ruleID (ds_Identifiers spec) (ds_MinCount spec) (ds_OnMatch spec) (ds_InstanceScope spec) (ds_PolicyID spec)"

section \<open>Laws\<close>

text \<open>A bypassed flow gets no header, and an injected header needs a rule and decryption.\<close>

lemma swg_injection:
  "sw_HeaderInjectionAction (swgTenantEnforcementContextFor e policy req ic) \<Longrightarrow>
    sw_TLSBypassRule (swgTenantEnforcementContextFor e policy req ic) = None \<and>
    sw_TenantRestrictionRule (swgTenantEnforcementContextFor e policy req ic) = firstSWGTenantRestrictionRule e req policy \<and>
    firstSWGTenantRestrictionRule e req policy \<noteq> None \<and>
    ti_Configured ic \<and> ip_TLSInterceptionEnabled (ti_Profile ic)"
  by (auto simp: swgTenantEnforcementContextFor_def zero_swg_context_def Let_def split: if_splits option.splits)

lemma swg_bypass_rule:
  "sw_TLSBypassRule (swgTenantEnforcementContextFor e policy req ic) = Some b \<Longrightarrow>
    b \<in> set (pb_SWGTLSBypassRules (ev_PolicyBundle e)) \<and> tls_bypass_applies e req policy b \<and>
    sw_Configured (swgTenantEnforcementContextFor e policy req ic)"
  by (auto simp: swgTenantEnforcementContextFor_def zero_swg_context_def Let_def firstSWGTLSBypassRule_def find_Some_iff
      split: if_splits option.splits)

lemma distinct_swg_codes [simp]: "distinct cs \<Longrightarrow> distinct (appendSWGTenantEnforcementReasonCodes cs ctx)"
  by (simp add: appendSWGTenantEnforcementReasonCodes_def Let_def)

lemma swg_codes_mono: "c \<in> set cs \<Longrightarrow> c \<in> set (appendSWGTenantEnforcementReasonCodes cs ctx)"
  by (simp add: appendSWGTenantEnforcementReasonCodes_def Let_def appendUniqueString_mono)

lemma swg_actions:
  "a \<in> set (appendSWGTenantEnforcementActions as ctx req policy) \<Longrightarrow>
    a \<in> set as \<or> da_Type a = ''emit_audit_event'' \<or>
    (sw_HeaderInjectionAction ctx \<and> da_Type a = ''inject_saas_tenant_restriction_header'')"
  by (auto simp: appendSWGTenantEnforcementActions_def header_injection_action_def bypass_audit_action_def Let_def
      split: option.splits if_splits)

lemma dlpInspect_type [simp]:
  "da_Type (dlpInspectAction rule) = ''dlp_inspect''" "da_Type (dlpInspectActionFromSpec i spec) = ''dlp_inspect''"
  by (simp_all add: dlpInspectAction_def dlpInspectActionFromSpec_def dlpInspectDirective_def Let_def)

text \<open>Rules of another tenant are never chosen for a flow whose tenant is known.\<close>

lemma tls_bypass_tenant:
  "tls_bypass_applies e req policy b \<Longrightarrow> TrimSpace (rq_TenantID req) \<noteq> [] \<Longrightarrow>
    TrimSpace (by_TenantID b) = [] \<or> TrimSpace (by_TenantID b) = TrimSpace (rq_TenantID req)"
  by (simp add: tls_bypass_applies_def tenantMatches_known split: if_splits)

lemma tenant_restriction_tenant:
  "tenant_restriction_applies e req policy r \<Longrightarrow> TrimSpace (rq_TenantID req) \<noteq> [] \<Longrightarrow>
    tr_TenantID r = [] \<or> tr_TenantID r = rq_TenantID req"
  by (auto simp: tenant_restriction_applies_def split: if_splits)

lemma dlp_tenant:
  "dlp_applies e req policy r \<Longrightarrow> TrimSpace (rq_TenantID req) \<noteq> [] \<Longrightarrow>
    TrimSpace (dlp_TenantID r) = [] \<or> TrimSpace (dlp_TenantID r) = TrimSpace (rq_TenantID req)"
  by (simp add: dlp_applies_def tenantMatches_known split: if_splits)

end
