(* ===== verification/Evaluator.thy ===== *)
theory Evaluator
  imports Policy_Order Server_Initiated East_West Break_Glass Swg_Enforcement
begin

text \<open>
  The decision engine: \<open>Evaluate\<close> of \<open>src/decision/evaluator.go\<close>.  The local variables of the Go
  function are the fields of \<open>eval_state\<close>; each block of its body is a transformer of that state,
  and \<open>Evaluate\<close> composes them in the order of the source.  The instant \<open>now\<close> stands for the clock
  (the code reads it again where it computes an age), the bytes of a fresh identifier are an
  argument.  A log line is not part of the model.
\<close>

section \<open>Metadata of the request\<close>

definition decisionRequestHasToolMCPContext :: "decision_request \<Rightarrow> bool" where
  "decisionRequestHasToolMCPContext req \<longleftrightarrow>
     rq_ToolID req \<noteq> [] \<or> rq_ToolActionType req \<noteq> [] \<or> rq_ToolPermissionProfile req \<noteq> [] \<or>
     rq_ToolVersion req \<noteq> [] \<or> rq_ToolSignatureState req \<noteq> [] \<or> rq_MCPServerID req \<noteq> [] \<or>
     rq_MCPResourceURI req \<noteq> [] \<or> rq_MCPAudience req \<noteq> [] \<or> rq_MCPTokenPassthroughPolicy req \<noteq> [] \<or>
     rq_RuntimeEnvironmentID req \<noteq> []"

definition decisionMetadata :: "decision_request \<Rightarrow> metadata" where
  "decisionMetadata req = puts
      [put_str ''actor_type'' (rq_ActorType req),
       put_str ''subject_user_id'' (valueOrDefault (rq_SubjectUserID req) (rq_UserID req)),
       put_str ''mfa_state'' (rq_MFAState req),
       put_str ''auth_time'' (rq_AuthTime req),
       put_str ''acr'' (rq_ACR req),
       (rq_AMR req \<noteq> [], ''amr'', AStrs (rq_AMR req)),
       put_str ''auth_method'' (rq_AuthMethod req),
       put_str ''idp_id'' (rq_IDPID req),
       put_str ''issuer'' (rq_Issuer req),
       put_str ''device_trust_level'' (rq_DeviceTrustLevel req),
       put_str ''actor_nhi_id'' (rq_ActorNHIID req),
       put_str ''delegated_access_grant_id'' (rq_DelegatedAccessGrantID req),
       put_str ''tool_id'' (rq_ToolID req),
       put_str ''tool_action_type'' (rq_ToolActionType req),
       put_str ''tool_permission_profile'' (rq_ToolPermissionProfile req),
       put_str ''tool_version'' (rq_ToolVersion req),
       put_str ''tool_signature_state'' (rq_ToolSignatureState req),
       put_str ''mcp_server_id'' (rq_MCPServerID req),
       put_str ''mcp_resource_uri'' (rq_MCPResourceURI req),
       put_str ''mcp_audience'' (rq_MCPAudience req),
       put_str ''mcp_token_passthrough_policy'' (rq_MCPTokenPassthroughPolicy req),
       put_str ''runtime_environment_id'' (rq_RuntimeEnvironmentID req),
       (decisionRequestHasToolMCPContext req, ''agent_tool_metadata_scope'', AStr ''metadata_only''),
       (decisionRequestHasToolMCPContext req, ''mcp_metadata_scope'', AStr ''metadata_only''),
       (decisionRequestHasToolMCPContext req, ''tool_payload_recorded'', ABool False),
       (decisionRequestHasToolMCPContext req, ''tool_secret_recorded'', ABool False),
       (decisionRequestHasToolMCPContext req, ''tool_credentials_recorded'', ABool False),
       put_str ''context_boundary_id'' (rq_ContextBoundaryID req),
       put_str ''data_classification'' (rq_DataClassification req),
       put_str ''human_approval_event_id'' (rq_HumanApprovalEventID req),
       put_str ''human_approval_event_trust_state'' (rq_HumanApprovalEventTrustState req),
       put_str ''human_approval_event_binding_state'' (rq_HumanApprovalEventBindingState req),
       put_str ''human_approval_event_freshness_state'' (rq_HumanApprovalEventFreshnessState req),
       put_str ''workload_attestation_state'' (rq_WorkloadAttestationState req),
       put_str ''risk_state_id'' (rq_RiskStateID req),
       put_str ''risk_state_severity'' (rq_RiskStateSeverity req),
       put_str ''risk_recommended_action'' (rq_RiskRecommendedAction req),
       (rq_RiskSignalSources req \<noteq> [], ''risk_signal_sources'', AStrs (rq_RiskSignalSources req)),
       (rq_AdminHighRisk req, ''admin_high_risk'', ABool True),
       put_str ''idp_risk_level'' (rq_IDPRiskLevel req),
       (rq_AgentTamperSignal req, ''agent_tamper_signal'', ABool True),
       (rq_AuthenticationAnomaly req, ''authentication_anomaly'', ABool True),
       put_str ''saas_application_id'' (rq_SaaSApplicationID req),
       put_str ''saas_name'' (rq_SaaSName req),
       put_str ''saas_provider'' (rq_SaaSProvider req),
       put_str ''saas_category'' (rq_SaaSCategory req),
       put_str ''saas_risk_tier'' (rq_SaaSRiskTier req),
       put_str ''saas_matched_domain'' (rq_SaaSMatchedDomain req),
       put_str ''saas_matched_pattern'' (rq_SaaSMatchedPattern req),
       put_str ''saas_match_type'' (rq_SaaSMatchType req),
       put_str ''requested_inspection_profile_id'' (rq_InspectionProfileID req),
       put_str ''requested_inspection_mode'' (rq_InspectionMode req),
       put_str ''requested_trust_profile_id'' (rq_TrustProfileID req),
       put_str ''requested_tenant_root_ca_id'' (rq_TenantRootCAID req),
       put_str ''requested_quic_policy_mode'' (rq_QUICPolicyMode req),
       put_str ''requested_quic_policy_action'' (rq_QUICPolicyAction req)]
      []"

section \<open>The local state\<close>

record eval_state =
  st_decision :: string
  st_reason :: string
  st_reasonCodes :: "string list"
  st_matched :: "string list"
  st_actions :: "decision_action list"
  st_policyID :: string
  st_tokenBindingState :: string
  st_workloadAttestationState :: string
  st_metadata :: metadata
  st_inspectionProfileID :: "string option"
  st_inspectionMode :: "string option"
  st_inspectionRouteCategory :: "string option"
  st_inspectionExecutionScope :: "string option"
  st_bypass :: bool

definition initial_state :: "decision_request \<Rightarrow> eval_state" where
  "initial_state req =
     \<lparr>st_decision = ''deny'', st_reason = ''No active policy matched the request.'',
      st_reasonCodes = [''no_policy_match''], st_matched = [], st_actions = [], st_policyID = [],
      st_tokenBindingState = rq_TokenBindingState req, st_workloadAttestationState = rq_WorkloadAttestationState req,
      st_metadata = decisionMetadata req, st_inspectionProfileID = None, st_inspectionMode = None,
      st_inspectionRouteCategory = None, st_inspectionExecutionScope = None, st_bypass = False\<rparr>"

section \<open>The dedicated planes\<close>

definition server_initiated_branch :: "instant \<Rightarrow> evaluator \<Rightarrow> decision_request \<Rightarrow> eval_state \<Rightarrow> eval_state" where
  "server_initiated_branch now e req st =
     (let (decisionValue, reason, reasonCodes) = serverInitiatedDecisionFor e req now
      in st\<lparr>st_decision := decisionValue, st_reason := reason, st_reasonCodes := reasonCodes,
            st_policyID := ''server_initiated_policy'',
            st_metadata := put ''server_initiated_authorization'' (ABool True) (st_metadata st)\<rparr>)"

definition east_west_branch :: "instant \<Rightarrow> evaluator \<Rightarrow> decision_request \<Rightarrow> eval_state \<Rightarrow> eval_state" where
  "east_west_branch now e req st =
     (let (decisionValue, reason, reasonCodes, ewActions) = eastWestDecisionFor e req now
      in st\<lparr>st_decision := decisionValue, st_reason := reason, st_reasonCodes := reasonCodes,
            st_actions := st_actions st @ ewActions, st_policyID := ''east_west_policy'',
            st_metadata := puts
              [put_always ''east_west_authorization'' (ABool True),
               put_always ''east_west_protocol'' (AStr (ToLower (TrimSpace (rq_ServiceFamily req)))),
               put_always ''destination_locality''
                 (AStr (locality_String (ClassifyDestinationLocality req (ev_EastWestInternalNetworks e))))]
              (st_metadata st)\<rparr>)"

section \<open>A matched policy\<close>

definition stage_match :: "policy \<Rightarrow> eval_state \<Rightarrow> eval_state" where
  "stage_match policy st =
     (let decisionValue = TrimSpace (pa_Decision (pol_Action policy));
          decisionValue = (if decisionValue = [] then ''deny'' else decisionValue)
      in st\<lparr>st_policyID := pol_ID policy, st_decision := decisionValue,
            st_metadata := puts
              [put_always ''matched_policy_tenant_id'' (AStr (pol_TenantID policy)),
               (pol_Log policy \<noteq> None, ''log_traffic'', ABool (case pol_Log policy of Some b \<Rightarrow> b | None \<Rightarrow> False))]
              (st_metadata st)\<rparr>)"

definition stage_attestation :: "policy \<Rightarrow> eval_state \<Rightarrow> eval_state" where
  "stage_attestation policy st =
     (if (st_decision st = ''allow'' \<or> st_decision st = ''require_reauthentication'') \<and>
         pol_RequiredWorkloadAttestation policy \<and> \<not> workloadAttestationSatisfied (st_workloadAttestationState st)
      then st\<lparr>st_decision := ''require_workload_attestation'', st_workloadAttestationState := ''required''\<rparr>
      else st)"

definition stage_freshness :: "instant \<Rightarrow> policy \<Rightarrow> decision_request \<Rightarrow> eval_state \<Rightarrow> eval_state" where
  "stage_freshness now policy req st =
     (if st_decision st = ''allow'' then
        (let maxAge = intMetadata (pol_Metadata policy) ''authentication_max_age_seconds'' 0
         in if maxAge > 0 then
              (let (age, known) = breakGlassAuthAgeSeconds now (rq_AuthTime req)
               in if \<not> known \<or> age > maxAge
                  then st\<lparr>st_decision := ''require_reauthentication'',
                          st_metadata := puts
                            [put_always ''reauthentication_reason'' (AStr ''authentication_max_age_exceeded''),
                             put_always ''authentication_max_age_seconds'' (AInt maxAge)] (st_metadata st)\<rparr>
                  else st)
            else st)
      else st)"

definition stage_derive :: "policy \<Rightarrow> decision_request \<Rightarrow> string \<Rightarrow> string list \<Rightarrow> eval_state \<Rightarrow> eval_state" where
  "stage_derive policy req actorType names st =
     st\<lparr>st_reason := reasonForPolicyDecision (st_decision st) actorType,
        st_reasonCodes := reasonCodesForPolicyDecision (st_decision st) actorType,
        st_matched := names,
        st_actions := actionsForPolicyDecision (st_decision st) req policy,
        st_tokenBindingState :=
          (if st_tokenBindingState st = [] \<and> pol_RequiredTokenBinding policy then ''required'' else st_tokenBindingState st)\<rparr>"

definition stage_tool_boundary :: "policy \<Rightarrow> decision_request \<Rightarrow> eval_state \<Rightarrow> eval_state" where
  "stage_tool_boundary policy req st =
     (if st_decision st = ''allow'' then
        (case toolActionBoundaryViolation policy req of
           Some code \<Rightarrow>
             st\<lparr>st_decision := ''deny'',
                st_reason := ''Request matched a policy but the tool action is outside the permitted agentic boundary.'',
                st_reasonCodes := [''policy_matched'', ''tool_action_out_of_boundary'', code],
                st_actions := [],
                st_metadata := puts
                  [put_always ''tool_action_boundary_enforced'' (ABool True),
                   put_always ''tool_action_boundary_violation'' (AStr code)] (st_metadata st)\<rparr>
         | None \<Rightarrow> st)
      else st)"

definition stage_human_approval :: "policy \<Rightarrow> decision_request \<Rightarrow> eval_state \<Rightarrow> eval_state" where
  "stage_human_approval policy req st =
     (if st_decision st = ''allow'' \<and> pol_RequiredHumanApproval policy then
        (let codes = humanApprovalRequirementReasonCodes req policy
         in if codes \<noteq> []
            then st\<lparr>st_decision := ''require_human_approval'',
                    st_reason := ''Request matched a policy that requires human approval.'',
                    st_reasonCodes := [''policy_matched'', ''human_approval_required''] @ codes,
                    st_actions := [humanApprovalRequestAction req policy],
                    st_metadata := applyHumanApprovalEventContractMetadata
                      (puts [put_always ''human_approval_required'' (ABool True),
                             put_always ''human_approval_request_scope'' (AStr ''metadata_only'')] (st_metadata st))
                      req policy False\<rparr>
            else st\<lparr>st_metadata := applyHumanApprovalEventContractMetadata (st_metadata st) req policy True\<rparr>)
      else st)"

definition stage_break_glass :: "instant \<Rightarrow> policy \<Rightarrow> decision_request \<Rightarrow> eval_state \<Rightarrow> eval_state" where
  "stage_break_glass now policy req st =
     (let ctx = breakGlassPolicyContextFor now policy req
      in if bg_Configured ctx then
           (let (decisionValue, reason, reasonCodes, actions) =
                  applyBreakGlassPolicyGuard (st_decision st) (st_reason st) (st_reasonCodes st) (st_actions st) policy req ctx
            in st\<lparr>st_decision := decisionValue, st_reason := reason, st_reasonCodes := reasonCodes, st_actions := actions,
                  st_metadata := applyBreakGlassPolicyMetadata (st_metadata st) ctx\<rparr>)
         else st)"

definition stage_inspection :: "evaluator \<Rightarrow> policy \<Rightarrow> decision_request \<Rightarrow> eval_state \<Rightarrow> eval_state" where
  "stage_inspection e policy req st =
     (let ctx = tlsInspectionReadinessContextFor e policy req
      in if ti_Configured ctx then
           (let (routeCategory, executionScope) = inspectionRoutingForTLSInspectionContext ctx
            in st\<lparr>st_inspectionProfileID := stringPtr (ip_ID (ti_Profile ctx)),
                  st_inspectionMode := (if ip_InspectionMode (ti_Profile ctx) \<noteq> []
                                        then stringPtr (ip_InspectionMode (ti_Profile ctx)) else st_inspectionMode st),
                  st_inspectionRouteCategory := stringPtr routeCategory,
                  st_inspectionExecutionScope := stringPtr executionScope,
                  st_metadata := applyEdgeInspectionRoutingMetadata
                    (applyTLSInspectionReadinessMetadata (st_metadata st) ctx) routeCategory executionScope ''inspection_profile'' False,
                  st_reasonCodes := appendTLSInspectionReadinessReasonCodes (st_reasonCodes st) ctx,
                  st_actions := appendTLSInspectionReadinessActions (st_actions st) ctx req policy\<rparr>)
         else case pol_InspectionProfileID policy of
                Some i \<Rightarrow>
                  if TrimSpace i \<noteq> []
                  then st\<lparr>st_inspectionProfileID := stringPtr (TrimSpace i),
                          st_metadata := put ''inspection_profile_resolution'' (AStr ''missing'') (st_metadata st)\<rparr>
                  else st
              | None \<Rightarrow> st)"

definition swg_context_for :: "evaluator \<Rightarrow> policy \<Rightarrow> decision_request \<Rightarrow> swg_context" where
  "swg_context_for e policy req =
     swgTenantEnforcementContextFor e policy req (tlsInspectionReadinessContextFor e policy req)"

definition stage_swg :: "evaluator \<Rightarrow> policy \<Rightarrow> decision_request \<Rightarrow> eval_state \<Rightarrow> eval_state" where
  "stage_swg e policy req st =
     (let ctx = swg_context_for e policy req
      in if sw_Configured ctx then
           (let st = st\<lparr>st_metadata := applySWGTenantEnforcementMetadata (st_metadata st) ctx\<rparr>;
                st = (if sw_TLSBypassRule ctx \<noteq> None
                      then st\<lparr>st_bypass := True, st_inspectionRouteCategory := stringPtr ''passthrough'',
                              st_inspectionExecutionScope := stringPtr ''not_executed_metadata_only'',
                              st_metadata := applyEdgeInspectionRoutingMetadata (st_metadata st) ''passthrough''
                                ''not_executed_metadata_only'' ''swg_tls_bypass_rule'' True\<rparr>
                      else st)
            in st\<lparr>st_reasonCodes := appendSWGTenantEnforcementReasonCodes (st_reasonCodes st) ctx,
                  st_actions := appendSWGTenantEnforcementActions (st_actions st) ctx req policy\<rparr>)
         else st)"

definition stage_dlp :: "evaluator \<Rightarrow> policy \<Rightarrow> decision_request \<Rightarrow> eval_state \<Rightarrow> eval_state" where
  "stage_dlp e policy req st =
     (if sw_TLSBypassRule (swg_context_for e policy req) = None then
        (case pol_DLP policy of
           Some spec \<Rightarrow>
             st\<lparr>st_actions := st_actions st @ [dlpInspectActionFromSpec (pol_ID policy) spec],
                st_metadata := put ''dlp_rule_id'' (AStr (pol_ID policy)) (st_metadata st)\<rparr>
         | None \<Rightarrow>
             (case firstDLPRule e req policy of
                Some rule \<Rightarrow>
                  st\<lparr>st_actions := st_actions st @ [dlpInspectAction rule],
                     st_metadata := put ''dlp_rule_id'' (AStr (dlp_ID rule)) (st_metadata st)\<rparr>
              | None \<Rightarrow> st))
      else st)"

definition matched_branch ::
  "instant \<Rightarrow> evaluator \<Rightarrow> decision_request \<Rightarrow> string \<Rightarrow> policy \<Rightarrow> string list \<Rightarrow> eval_state \<Rightarrow> eval_state" where
  "matched_branch now e req actorType policy names st =
     (let st = stage_match policy st;
          st = stage_attestation policy st;
          st = stage_freshness now policy req st;
          st = stage_derive policy req actorType names st;
          st = stage_tool_boundary policy req st;
          st = stage_human_approval policy req st;
          st = stage_break_glass now policy req st;
          st = stage_inspection e policy req st;
          st = stage_swg e policy req st
      in stage_dlp e policy req st)"

section \<open>The decision\<close>

definition final_state :: "instant \<Rightarrow> evaluator \<Rightarrow> decision_request \<Rightarrow> eval_state" where
  "final_state now e req =
     (let actorType = valueOrDefault (rq_ActorType req) ''human''; st = initial_state req
      in if ev_ServerInitiatedEnabled e \<and> isServerInitiated req then server_initiated_branch now e req st
         else if ev_EastWestEnabled e \<and> isEastWestFlow e req then east_west_branch now e req st
         else case firstMatchedPolicyWithDiagnosis now e req actorType of
                (None, whyNot) \<Rightarrow>
                  if whyNot \<noteq> [] then st\<lparr>st_reason := ''No active policy matched the request. '' @ whyNot @ ''.''\<rparr> else st
              | (Some (policy, names), _) \<Rightarrow> matched_branch now e req actorType policy names st)"

definition decision_of_state ::
  "instant \<Rightarrow> entropy \<Rightarrow> evaluator \<Rightarrow> decision_request \<Rightarrow> eval_state \<Rightarrow> access_decision" where
  "decision_of_state now r e req st =
     (let actorType = valueOrDefault (rq_ActorType req) ''human'';
          tenantID = valueOrDefault (rq_TenantID req) (firstPolicyTenantID e)
      in
     \<lparr>dec_ID = randomModelID ''dec_'' now r, dec_TenantID = tenantID, dec_SessionID = stringPtr (rq_SessionID req),
      dec_AuthenticationEventID = stringPtr (rq_AuthenticationEventID req), dec_UserID = stringPtr (rq_UserID req),
      dec_SubjectUserID = stringPtr (valueOrDefault (rq_SubjectUserID req) (rq_UserID req)), dec_ActorType = actorType,
      dec_ActorNHIID = stringPtr (rq_ActorNHIID req),
      dec_DelegatedAccessGrantID = stringPtr (rq_DelegatedAccessGrantID req),
      dec_AgentTaskSessionID = stringPtr (rq_AgentTaskSessionID req), dec_ToolID = stringPtr (rq_ToolID req),
      dec_ToolActionType = stringPtr (rq_ToolActionType req),
      dec_ToolPermissionProfile = stringPtr (rq_ToolPermissionProfile req),
      dec_ToolVersion = stringPtr (rq_ToolVersion req), dec_ToolSignatureState = stringPtr (rq_ToolSignatureState req),
      dec_MCPServerID = stringPtr (rq_MCPServerID req), dec_MCPResourceURI = stringPtr (rq_MCPResourceURI req),
      dec_MCPAudience = stringPtr (rq_MCPAudience req),
      dec_MCPTokenPassthroughPolicy = stringPtr (rq_MCPTokenPassthroughPolicy req),
      dec_RuntimeEnvironmentID = stringPtr (rq_RuntimeEnvironmentID req),
      dec_ContextBoundaryID = stringPtr (rq_ContextBoundaryID req),
      dec_DataClassification = stringPtr (rq_DataClassification req), dec_DeviceID = stringPtr (rq_DeviceID req),
      dec_ApplicationID = rq_ApplicationID req, dec_PolicyID = st_policyID st,
      dec_PolicyBundleID = pb_ID (ev_PolicyBundle e), dec_PolicyBundleVersion = pb_Version (ev_PolicyBundle e),
      dec_RiskStateID = stringPtr (rq_RiskStateID req), dec_SourceIP = stringPtr (rq_SourceIP req),
      dec_SourcePort = intPtr (rq_SourcePort req), dec_Destination = stringPtr (rq_Destination req),
      dec_DestinationIP = stringPtr (rq_DestinationIP req), dec_DestinationPort = intPtr (rq_DestinationPort req),
      dec_RequestMethod = None, dec_RequestPath = None, dec_Protocol = stringPtr (rq_Protocol req),
      dec_FQDN = stringPtr (rq_FQDN req), dec_SNI = stringPtr (rq_SNI req),
      dec_ServiceFamily = stringPtr (rq_ServiceFamily req), dec_SaaSContext = saasContextFromRequest req,
      dec_ConnectionInitiator = stringPtr (rq_ConnectionInitiator req), dec_SourceRole = stringPtr (rq_SourceRole req),
      dec_DestinationRole = stringPtr (rq_DestinationRole req), dec_SourceVLANID = None, dec_DestinationVLANID = None,
      dec_MatchedConditions = st_matched st, dec_TokenBindingState = stringPtr (st_tokenBindingState st),
      dec_WorkloadAttestationState = stringPtr (st_workloadAttestationState st),
      dec_HumanApprovalEventID = stringPtr (rq_HumanApprovalEventID req), dec_Decision = st_decision st,
      dec_Reason = Some (st_reason st), dec_ReasonCodes = st_reasonCodes st, dec_Actions = st_actions st,
      dec_Bypass = st_bypass st, dec_InspectionProfileID = st_inspectionProfileID st,
      dec_InspectionMode = st_inspectionMode st, dec_InspectionRouteCategory = st_inspectionRouteCategory st,
      dec_InspectionExecutionScope = st_inspectionExecutionScope st, dec_EdgeRegionID = stringPtr (ev_EdgeRegionID e),
      dec_EdgeClusterID = stringPtr (ev_EdgeClusterID e), dec_ConnectorID = stringPtr (rq_ConnectorID req),
      dec_CacheStatus = ''miss'', dec_TTLSeconds = 60, dec_Timestamp = Format now, dec_Metadata = st_metadata st\<rparr>)"

definition Evaluate :: "instant \<Rightarrow> entropy \<Rightarrow> evaluator \<Rightarrow> decision_request \<Rightarrow> access_decision" where
  "Evaluate now r e req =
     (let req = decisionRequestWithSaaSContext e req in decision_of_state now r e req (final_state now e req))"

definition IsDefaultDeny :: "access_decision \<Rightarrow> bool" where
  "IsDefaultDeny dec =
     (if dec_Decision dec \<noteq> ''deny'' then False
      else if length (dec_MatchedConditions dec) > 0 then False
      else containsString (dec_ReasonCodes dec) ''no_policy_match'')"

end
