(* ===== verification/Evaluator_Laws.thy ===== *)
theory Evaluator_Laws
  imports Evaluator
begin

text \<open>
  Lemmas about \<open>Evaluate\<close>, stage by stage: which stage may change which part of the state, when
  the composition ends in a permission, which reason codes and actions can appear, and on what the
  result does not depend.
\<close>

section \<open>Projections\<close>

lemma decision_of_state_sel [simp]:
  "dec_Decision (decision_of_state now r e req st) = st_decision st"
  "dec_PolicyID (decision_of_state now r e req st) = st_policyID st"
  "dec_ReasonCodes (decision_of_state now r e req st) = st_reasonCodes st"
  "dec_MatchedConditions (decision_of_state now r e req st) = st_matched st"
  "dec_Actions (decision_of_state now r e req st) = st_actions st"
  "dec_Bypass (decision_of_state now r e req st) = st_bypass st"
  "dec_Metadata (decision_of_state now r e req st) = st_metadata st"
  "dec_Reason (decision_of_state now r e req st) = Some (st_reason st)"
  "dec_TenantID (decision_of_state now r e req st) = valueOrDefault (rq_TenantID req) (firstPolicyTenantID e)"
  by (simp_all add: decision_of_state_def Let_def)

lemma Evaluate_sel:
  "Evaluate now r e req =
    decision_of_state now r e (decisionRequestWithSaaSContext e req)
      (final_state now e (decisionRequestWithSaaSContext e req))"
  by (simp add: Evaluate_def Let_def)

lemma initial_state_sel [simp]:
  "st_decision (initial_state req) = ''deny''"
  "st_workloadAttestationState (initial_state req) = rq_WorkloadAttestationState req"
  "st_reasonCodes (initial_state req) = [''no_policy_match'']"
  "st_matched (initial_state req) = []"
  "st_actions (initial_state req) = []"
  "st_policyID (initial_state req) = []"
  "st_bypass (initial_state req) = False"
  "st_metadata (initial_state req) = decisionMetadata req"
  by (simp_all add: initial_state_def)

section \<open>What a stage leaves alone\<close>

lemma stage_dlp_frame [simp]:
  "st_decision (stage_dlp e p req st) = st_decision st"
  "st_reasonCodes (stage_dlp e p req st) = st_reasonCodes st"
  "st_bypass (stage_dlp e p req st) = st_bypass st"
  "st_policyID (stage_dlp e p req st) = st_policyID st"
  "st_matched (stage_dlp e p req st) = st_matched st"
  by (simp_all add: stage_dlp_def split: option.split)

lemma stage_swg_frame [simp]:
  "st_decision (stage_swg e p req st) = st_decision st"
  "st_policyID (stage_swg e p req st) = st_policyID st"
  "st_matched (stage_swg e p req st) = st_matched st"
  by (simp_all add: stage_swg_def Let_def)

lemma stage_inspection_frame [simp]:
  "st_decision (stage_inspection e p req st) = st_decision st"
  "st_bypass (stage_inspection e p req st) = st_bypass st"
  "st_policyID (stage_inspection e p req st) = st_policyID st"
  "st_matched (stage_inspection e p req st) = st_matched st"
  by (simp_all add: stage_inspection_def Let_def split: prod.split option.split)

lemma stage_break_glass_frame [simp]:
  "st_bypass (stage_break_glass now p req st) = st_bypass st"
  "st_policyID (stage_break_glass now p req st) = st_policyID st"
  "st_matched (stage_break_glass now p req st) = st_matched st"
  by (simp_all add: stage_break_glass_def Let_def split: prod.split)

lemma stage_human_approval_frame [simp]:
  "st_bypass (stage_human_approval p req st) = st_bypass st"
  "st_policyID (stage_human_approval p req st) = st_policyID st"
  "st_matched (stage_human_approval p req st) = st_matched st"
  by (simp_all add: stage_human_approval_def Let_def)

lemma stage_tool_boundary_frame [simp]:
  "st_bypass (stage_tool_boundary p req st) = st_bypass st"
  "st_policyID (stage_tool_boundary p req st) = st_policyID st"
  "st_matched (stage_tool_boundary p req st) = st_matched st"
  by (simp_all add: stage_tool_boundary_def split: option.split)

lemma stage_derive_frame [simp]:
  "st_decision (stage_derive p req at ns st) = st_decision st"
  "st_bypass (stage_derive p req at ns st) = st_bypass st"
  "st_policyID (stage_derive p req at ns st) = st_policyID st"
  "st_matched (stage_derive p req at ns st) = ns"
  by (simp_all add: stage_derive_def)

lemma stage_freshness_frame [simp]:
  "st_bypass (stage_freshness now p req st) = st_bypass st"
  "st_policyID (stage_freshness now p req st) = st_policyID st"
  by (simp_all add: stage_freshness_def Let_def split: prod.split)

lemma stage_attestation_frame [simp]:
  "st_bypass (stage_attestation p st) = st_bypass st"
  "st_policyID (stage_attestation p st) = st_policyID st"
  by (simp_all add: stage_attestation_def)

lemma stage_match_frame [simp]:
  "st_bypass (stage_match p st) = st_bypass st"
  "st_policyID (stage_match p st) = pol_ID p"
  "st_workloadAttestationState (stage_match p st) = st_workloadAttestationState st"
  by (simp_all add: stage_match_def Let_def)

section \<open>When a stage keeps a permission\<close>

definition authentication_fresh :: "instant \<Rightarrow> policy \<Rightarrow> decision_request \<Rightarrow> bool" where
  "authentication_fresh now p req \<longleftrightarrow>
     (let maxAge = intMetadata (pol_Metadata p) ''authentication_max_age_seconds'' 0
      in 0 < maxAge \<longrightarrow>
        (\<exists>t. TrimSpace (rq_AuthTime req) \<noteq> [] \<and> Parse (rq_AuthTime req) = Some t \<and> age_seconds now t \<le> maxAge))"

lemma stage_match_allow:
  "st_decision (stage_match p st) = ''allow'' \<longleftrightarrow> TrimSpace (pa_Decision (pol_Action p)) = ''allow''"
  by (simp add: stage_match_def Let_def)

lemma stage_attestation_allow:
  "st_decision (stage_attestation p st) = ''allow'' \<longleftrightarrow>
    st_decision st = ''allow'' \<and>
    (pol_RequiredWorkloadAttestation p \<longrightarrow> workloadAttestationSatisfied (st_workloadAttestationState st))"
  by (auto simp: stage_attestation_def)

lemma stage_freshness_allow:
  "st_decision (stage_freshness now p req st) = ''allow'' \<longleftrightarrow>
    st_decision st = ''allow'' \<and> authentication_fresh now p req"
  by (auto simp: stage_freshness_def authentication_fresh_def breakGlassAuthAgeSeconds_def Let_def
      split: option.splits if_splits prod.splits)

lemma stage_tool_boundary_allow:
  "st_decision (stage_tool_boundary p req st) = ''allow'' \<longleftrightarrow>
    st_decision st = ''allow'' \<and> toolActionBoundaryViolation p req = None"
  by (auto simp: stage_tool_boundary_def split: option.split)

lemma stage_human_approval_allow:
  "st_decision (stage_human_approval p req st) = ''allow'' \<longleftrightarrow>
    st_decision st = ''allow'' \<and> (pol_RequiredHumanApproval p \<longrightarrow> humanApprovalRequirementReasonCodes req p = [])"
  by (auto simp: stage_human_approval_def Let_def)

lemma stage_break_glass_decision:
  "st_decision (stage_break_glass now p req st) =
    (let ctx = breakGlassPolicyContextFor now p req
     in if breakGlassPolicyConfigured p
        then fst (applyBreakGlassPolicyGuard (st_decision st) (st_reason st) (st_reasonCodes st) (st_actions st) p req ctx)
        else st_decision st)"
  by (simp add: stage_break_glass_def Let_def split: prod.split)

lemma stage_break_glass_allow:
  "st_decision (stage_break_glass now p req st) = ''allow'' \<longleftrightarrow>
    st_decision st = ''allow'' \<and>
    (breakGlassPolicyConfigured p \<longrightarrow>
      breakGlassPolicyRequirementsSatisfied (breakGlassPolicyContextFor now p req) \<and>
      breakGlassRuntimeSatisfied (breakGlassPolicyContextFor now p req))"
  by (auto simp: stage_break_glass_decision guard_allow Let_def)

text \<open>What the matched policy must say and what the request must prove.\<close>

definition policy_permits :: "instant \<Rightarrow> policy \<Rightarrow> decision_request \<Rightarrow> bool" where
  "policy_permits now p req \<longleftrightarrow>
     TrimSpace (pa_Decision (pol_Action p)) = ''allow'' \<and>
     (pol_RequiredWorkloadAttestation p \<longrightarrow> workloadAttestationSatisfied (rq_WorkloadAttestationState req)) \<and>
     authentication_fresh now p req \<and>
     toolActionBoundaryViolation p req = None \<and>
     (pol_RequiredHumanApproval p \<longrightarrow> humanApprovalRequirementReasonCodes req p = []) \<and>
     (breakGlassPolicyConfigured p \<longrightarrow>
       breakGlassPolicyRequirementsSatisfied (breakGlassPolicyContextFor now p req) \<and>
       breakGlassRuntimeSatisfied (breakGlassPolicyContextFor now p req))"

lemma matched_branch_allow:
  "st_decision (matched_branch now e req at p ns (initial_state req)) = ''allow'' \<longleftrightarrow> policy_permits now p req"
  by (auto simp: matched_branch_def Let_def policy_permits_def stage_break_glass_allow stage_human_approval_allow
      stage_tool_boundary_allow stage_freshness_allow stage_attestation_allow stage_match_allow)

lemma matched_branch_sel [simp]:
  "st_policyID (matched_branch now e req at p ns st) = pol_ID p"
  "st_matched (matched_branch now e req at p ns st) = ns"
  by (simp_all add: matched_branch_def Let_def)

section \<open>The three planes\<close>

datatype plane = ServerPlane | EastWestPlane | PolicyPlane

definition plane_of :: "evaluator \<Rightarrow> decision_request \<Rightarrow> plane" where
  "plane_of e req =
     (if ev_ServerInitiatedEnabled e \<and> isServerInitiated req then ServerPlane
      else if ev_EastWestEnabled e \<and> isEastWestFlow e req then EastWestPlane
      else PolicyPlane)"

abbreviation actor :: "decision_request \<Rightarrow> string" where
  "actor req \<equiv> valueOrDefault (rq_ActorType req) ''human''"

lemma final_state_server:
  "plane_of e req = ServerPlane \<Longrightarrow> final_state now e req = server_initiated_branch now e req (initial_state req)"
  by (simp add: final_state_def plane_of_def split: if_splits)

lemma final_state_east_west:
  "plane_of e req = EastWestPlane \<Longrightarrow> final_state now e req = east_west_branch now e req (initial_state req)"
  by (auto simp: final_state_def plane_of_def split: if_splits)

lemma final_state_matched:
  assumes "plane_of e req = PolicyPlane" "firstMatchedPolicy now e req (actor req) = Some (p, ns)"
  shows "final_state now e req = matched_branch now e req (actor req) p ns (initial_state req)"
proof -
  obtain d where "firstMatchedPolicyWithDiagnosis now e req (actor req) = (Some (p, ns), d)"
    using assms(2) by (cases "firstMatchedPolicyWithDiagnosis now e req (actor req)") (simp add: firstMatchedPolicy_def)
  with assms(1) show ?thesis by (auto simp: final_state_def plane_of_def Let_def split: if_splits)
qed

lemma final_state_unmatched:
  assumes "plane_of e req = PolicyPlane" "firstMatchedPolicy now e req (actor req) = None"
  shows "\<exists>reason. final_state now e req = (initial_state req)\<lparr>st_reason := reason\<rparr>"
proof -
  obtain d where d: "firstMatchedPolicyWithDiagnosis now e req (actor req) = (None, d)"
    using assms(2) by (cases "firstMatchedPolicyWithDiagnosis now e req (actor req)") (simp add: firstMatchedPolicy_def)
  have "initial_state req = (initial_state req)\<lparr>st_reason := ''No active policy matched the request.''\<rparr>"
    by (simp add: initial_state_def)
  with d assms(1) show ?thesis by (auto simp: final_state_def plane_of_def Let_def split: if_splits)
qed

lemma server_branch_sel [simp]:
  "st_decision (server_initiated_branch now e req st) = fst (serverInitiatedDecisionFor e req now)"
  "st_reasonCodes (server_initiated_branch now e req st) = snd (snd (serverInitiatedDecisionFor e req now))"
  "st_policyID (server_initiated_branch now e req st) = ''server_initiated_policy''"
  "st_bypass (server_initiated_branch now e req st) = st_bypass st"
  "st_actions (server_initiated_branch now e req st) = st_actions st"
  by (simp_all add: server_initiated_branch_def split: prod.split)

lemma east_west_branch_sel [simp]:
  "st_decision (east_west_branch now e req st) = fst (eastWestDecisionFor e req now)"
  "st_reasonCodes (east_west_branch now e req st) = fst (snd (snd (eastWestDecisionFor e req now)))"
  "st_policyID (east_west_branch now e req st) = ''east_west_policy''"
  "st_bypass (east_west_branch now e req st) = st_bypass st"
  "st_actions (east_west_branch now e req st) = st_actions st @ snd (snd (snd (eastWestDecisionFor e req now)))"
  by (simp_all add: east_west_branch_def split: prod.split)

lemma final_state_cases:
  obtains (server) "plane_of e req = ServerPlane" "final_state now e req = server_initiated_branch now e req (initial_state req)"
  | (east_west) "plane_of e req = EastWestPlane" "final_state now e req = east_west_branch now e req (initial_state req)"
  | (policy) p ns where "plane_of e req = PolicyPlane" "firstMatchedPolicy now e req (actor req) = Some (p, ns)"
      "final_state now e req = matched_branch now e req (actor req) p ns (initial_state req)"
  | (unmatched) reason where "plane_of e req = PolicyPlane" "firstMatchedPolicy now e req (actor req) = None"
      "final_state now e req = (initial_state req)\<lparr>st_reason := reason\<rparr>"
proof (cases "plane_of e req")
  case ServerPlane
  then show thesis using server final_state_server by blast
next
  case EastWestPlane
  then show thesis using east_west final_state_east_west by blast
next
  case PolicyPlane
  show thesis
  proof (cases "firstMatchedPolicy now e req (actor req)")
    case None
    with PolicyPlane show thesis using unmatched final_state_unmatched by blast
  next
    case (Some pn)
    with PolicyPlane show thesis using policy final_state_matched by (cases pn) blast
  qed
qed

section \<open>Reason codes\<close>

text \<open>The codes of a matched policy: no repetition, the match is named, the default denial is not.\<close>

definition matched_codes :: "string list \<Rightarrow> bool" where
  "matched_codes cs \<longleftrightarrow> distinct cs \<and> ''policy_matched'' \<in> set cs \<and> ''no_policy_match'' \<notin> set cs"

lemma matched_codes_append:
  "matched_codes cs \<Longrightarrow> ''no_policy_match'' \<noteq> c \<Longrightarrow> matched_codes (appendUniqueString cs c)"
  by (auto simp: matched_codes_def set_appendUniqueString)

lemma matched_codes_foldl:
  "matched_codes cs \<Longrightarrow> ''no_policy_match'' \<notin> set vs \<Longrightarrow> matched_codes (foldl appendUniqueString cs vs)"
  by (induction vs arbitrary: cs) (simp_all add: matched_codes_append)

lemma matched_codes_derive: "matched_codes (st_reasonCodes (stage_derive p req at ns st))"
  by (simp add: stage_derive_def matched_codes_def reasonCodesForPolicyDecision_def)

lemma matched_codes_tool_boundary:
  "matched_codes (st_reasonCodes st) \<Longrightarrow> matched_codes (st_reasonCodes (stage_tool_boundary p req st))"
  by (auto simp: stage_tool_boundary_def matched_codes_def toolActionBoundaryViolation_def split: option.split if_splits)

lemma matched_codes_human_approval:
  "matched_codes (st_reasonCodes st) \<Longrightarrow> matched_codes (st_reasonCodes (stage_human_approval p req st))"
  by (auto simp: stage_human_approval_def matched_codes_def humanApprovalRequirementReasonCodes_def Let_def)

lemma requirement_codes: "''no_policy_match'' \<notin> set (breakGlassRequirementReasonCodes ctx)"
  by (simp add: breakGlassRequirementReasonCodes_def appendUniqueString_def Let_def)

lemma reauthentication_codes: "''no_policy_match'' \<notin> set (breakGlassReauthenticationReasonCodes ctx)"
  by (simp add: breakGlassReauthenticationReasonCodes_def appendUniqueString_def Let_def)

lemma break_glass_codes:
  "''no_policy_match'' \<notin> set (bg_RequirementReasonCodes (breakGlassPolicyContextFor now p req))"
  "''no_policy_match'' \<notin> set (bg_ReauthenticationReasons (breakGlassPolicyContextFor now p req))"
  by (simp_all add: breakGlassPolicyContextFor_def zero_break_glass_context_def Let_def requirement_codes
      reauthentication_codes split: prod.split)

lemma matched_codes_break_glass:
  assumes "matched_codes (st_reasonCodes st)"
  shows "matched_codes (st_reasonCodes (stage_break_glass now p req st))"
proof -
  let ?ctx = "breakGlassPolicyContextFor now p req"
  have "matched_codes (fst (snd (snd (applyBreakGlassPolicyGuard d r (st_reasonCodes st) as p req ?ctx))))" for d r as
    using assms break_glass_codes [of now p req]
    by (auto simp: applyBreakGlassPolicyGuard_def Let_def intro!: matched_codes_append matched_codes_foldl)
  then show ?thesis using assms by (auto simp: stage_break_glass_def Let_def split: prod.split) (metis fst_conv snd_conv)
qed

lemma matched_codes_inspection:
  "matched_codes (st_reasonCodes st) \<Longrightarrow> matched_codes (st_reasonCodes (stage_inspection e p req st))"
  by (auto simp: stage_inspection_def appendTLSInspectionReadinessReasonCodes_def Let_def
      intro!: matched_codes_append split: prod.split option.split)

lemma matched_codes_swg:
  "matched_codes (st_reasonCodes st) \<Longrightarrow> matched_codes (st_reasonCodes (stage_swg e p req st))"
  by (simp add: stage_swg_def appendSWGTenantEnforcementReasonCodes_def Let_def matched_codes_append)

lemma matched_branch_codes: "matched_codes (st_reasonCodes (matched_branch now e req at p ns st))"
  unfolding matched_branch_def Let_def stage_dlp_frame
  by (intro matched_codes_swg matched_codes_inspection matched_codes_break_glass matched_codes_human_approval
      matched_codes_tool_boundary matched_codes_derive)

section \<open>Actions and bypass\<close>

abbreviation inspecting_actions :: "string set" where
  "inspecting_actions \<equiv> {''dlp_inspect'', ''inject_saas_tenant_restriction_header''}"

definition no_inspection :: "eval_state \<Rightarrow> bool" where
  "no_inspection st \<longleftrightarrow> da_Type ` set (st_actions st) \<inter> inspecting_actions = {}"

lemma no_inspection_derive: "no_inspection (stage_derive p req at ns st)"
  by (auto simp: no_inspection_def stage_derive_def actionsForPolicyDecision_def Let_def)

lemma no_inspection_tool_boundary: "no_inspection st \<Longrightarrow> no_inspection (stage_tool_boundary p req st)"
  by (simp add: no_inspection_def stage_tool_boundary_def split: option.split)

lemma no_inspection_human_approval: "no_inspection st \<Longrightarrow> no_inspection (stage_human_approval p req st)"
  by (simp add: no_inspection_def stage_human_approval_def humanApprovalRequestAction_def Let_def)

lemma stage_break_glass_actions:
  "st_actions (stage_break_glass now p req st) =
    (if breakGlassPolicyConfigured p
     then snd (snd (snd (applyBreakGlassPolicyGuard (st_decision st) (st_reason st) (st_reasonCodes st) (st_actions st)
       p req (breakGlassPolicyContextFor now p req))))
     else st_actions st)"
  by (simp add: stage_break_glass_def Let_def split: prod.split)

lemma no_inspection_break_glass: "no_inspection st \<Longrightarrow> no_inspection (stage_break_glass now p req st)"
  unfolding no_inspection_def stage_break_glass_actions
  by (fastforce dest: guard_types split: if_splits)

lemma stage_inspection_actions:
  "st_actions (stage_inspection e p req st) =
    (if ti_Configured (tlsInspectionReadinessContextFor e p req)
     then appendTLSInspectionReadinessActions (st_actions st) (tlsInspectionReadinessContextFor e p req) req p
     else st_actions st)"
  by (simp add: stage_inspection_def Let_def split: prod.split option.split)

lemma no_inspection_inspection: "no_inspection st \<Longrightarrow> no_inspection (stage_inspection e p req st)"
  using tls_actions_types [of "st_actions st" "tlsInspectionReadinessContextFor e p req" req p]
  unfolding no_inspection_def stage_inspection_actions by (auto split: if_splits)

lemma stage_swg_actions:
  "st_actions (stage_swg e p req st) =
    (if sw_Configured (swg_context_for e p req)
     then appendSWGTenantEnforcementActions (st_actions st) (swg_context_for e p req) req p else st_actions st)"
  by (simp add: stage_swg_def Let_def)

lemma stage_swg_bypass:
  "st_bypass (stage_swg e p req st) \<longleftrightarrow> st_bypass st \<or> sw_TLSBypassRule (swg_context_for e p req) \<noteq> None"
  using swg_bypass_rule [of e p req "tlsInspectionReadinessContextFor e p req"]
  by (auto simp: stage_swg_def swg_context_for_def Let_def)

lemma no_inspection_swg:
  assumes "no_inspection st" "sw_TLSBypassRule (swg_context_for e p req) \<noteq> None"
  shows "no_inspection (stage_swg e p req st)"
proof -
  have "\<not> sw_HeaderInjectionAction (swg_context_for e p req)"
    using assms(2) swg_injection [of e p req "tlsInspectionReadinessContextFor e p req"] by (auto simp: swg_context_for_def)
  then have "da_Type ` set (appendSWGTenantEnforcementActions (st_actions st) (swg_context_for e p req) req p) \<subseteq>
      insert ''emit_audit_event'' (da_Type ` set (st_actions st))"
    using swg_actions [of _ "st_actions st" "swg_context_for e p req" req p] by blast
  with assms(1) show ?thesis unfolding no_inspection_def stage_swg_actions by (auto split: if_splits)
qed

lemma matched_branch_bypass:
  assumes "st_bypass (matched_branch now e req at p ns (initial_state req))"
  shows "no_inspection (matched_branch now e req at p ns (initial_state req))"
    and "sw_TLSBypassRule (swg_context_for e p req) \<noteq> None"
proof -
  show b: "sw_TLSBypassRule (swg_context_for e p req) \<noteq> None"
    using assms by (simp add: matched_branch_def Let_def stage_swg_bypass)
  have dlp: "stage_dlp e p req st = st" for st using b by (cases "sw_TLSBypassRule (swg_context_for e p req)") (simp_all add: stage_dlp_def)
  show "no_inspection (matched_branch now e req at p ns (initial_state req))"
    unfolding matched_branch_def Let_def dlp
    by (intro no_inspection_swg no_inspection_inspection no_inspection_break_glass no_inspection_human_approval
        no_inspection_tool_boundary no_inspection_derive b)
qed

text \<open>Later stages only append to the actions of the break-glass stage.\<close>

lemma stage_inspection_keeps: "a \<in> set (st_actions st) \<Longrightarrow> a \<in> set (st_actions (stage_inspection e p req st))"
  by (simp add: stage_inspection_actions appendTLSInspectionReadinessActions_def Let_def)

lemma stage_swg_keeps: "a \<in> set (st_actions st) \<Longrightarrow> a \<in> set (st_actions (stage_swg e p req st))"
  by (simp add: stage_swg_actions appendSWGTenantEnforcementActions_def Let_def split: option.split)

lemma stage_dlp_keeps: "a \<in> set (st_actions st) \<Longrightarrow> a \<in> set (st_actions (stage_dlp e p req st))"
  by (simp add: stage_dlp_def split: option.split)

lemma stage_break_glass_audit:
  assumes "breakGlassPolicyConfigured p"
  shows "\<exists>res. breakGlassAuditAction (breakGlassPolicyContextFor now p req) req p res \<in> set (st_actions (stage_break_glass now p req st))"
  using guard_actions [of "st_decision st" "st_reason st" "st_reasonCodes st" "st_actions st" p req
      "breakGlassPolicyContextFor now p req"] assms
  by (auto simp: stage_break_glass_actions)

lemma matched_branch_audit:
  assumes "breakGlassPolicyConfigured p"
  shows "\<exists>res. breakGlassAuditAction (breakGlassPolicyContextFor now p req) req p res \<in>
    set (st_actions (matched_branch now e req at p ns st))"
  unfolding matched_branch_def Let_def
  using stage_break_glass_audit [OF assms] by (meson stage_dlp_keeps stage_swg_keeps stage_inspection_keeps)

section \<open>An out-of-boundary tool call\<close>

lemma stage_human_approval_other: "st_decision st \<noteq> ''allow'' \<Longrightarrow> stage_human_approval p req st = st"
  by (simp add: stage_human_approval_def)

lemma stage_tool_boundary_decision:
  "toolActionBoundaryViolation p req \<noteq> None \<Longrightarrow>
    st_decision (stage_tool_boundary p req st) = (if st_decision st = ''allow'' then ''deny'' else st_decision st)"
  by (auto simp: stage_tool_boundary_def)

lemma stage_freshness_decision:
  "st_decision (stage_freshness now p req st) =
    (if st_decision st = ''allow'' \<and> \<not> authentication_fresh now p req then ''require_reauthentication'' else st_decision st)"
proof (cases "st_decision st = ''allow''")
  case True
  then have "st_decision (stage_freshness now p req st) \<in> {''allow'', ''require_reauthentication''}"
    by (simp add: stage_freshness_def Let_def split: prod.split)
  with True show ?thesis using stage_freshness_allow [of now p req st] by auto
qed (simp add: stage_freshness_def)

lemma stage_attestation_decision:
  "st_decision st = ''allow'' \<Longrightarrow> st_decision (stage_attestation p st) =
    (if pol_RequiredWorkloadAttestation p \<and>
        \<not> workloadAttestationSatisfied (st_workloadAttestationState st)
     then ''require_workload_attestation'' else ''allow'')"
  by (simp add: stage_attestation_def)

lemma matched_branch_boundary:
  assumes "TrimSpace (pa_Decision (pol_Action p)) = ''allow''" "\<not> breakGlassPolicyConfigured p"
    and "toolActionBoundaryViolation p req \<noteq> None"
  shows "st_decision (matched_branch now e req at p ns (initial_state req)) =
    (if pol_RequiredWorkloadAttestation p \<and> \<not> workloadAttestationSatisfied (rq_WorkloadAttestationState req)
     then ''require_workload_attestation''
     else if \<not> authentication_fresh now p req then ''require_reauthentication''
     else ''deny'')"
proof -
  have "st_decision (stage_match p (initial_state req)) = ''allow''" using assms(1) by (simp add: stage_match_allow)
  then show ?thesis
    using assms(2,3)
    by (simp add: matched_branch_def Let_def stage_break_glass_decision stage_human_approval_other
        stage_tool_boundary_decision stage_freshness_decision stage_attestation_decision)
qed

section \<open>What the decision does not depend on\<close>

text \<open>Policies that are inactive or belong to another tenant.\<close>

abbreviation relevant :: "decision_request \<Rightarrow> policy \<Rightarrow> bool" where
  "relevant req p \<equiv> pol_Status p = ''active'' \<and> policyTenantAppliesTo p req"

lemma irrelevant_match: "\<not> relevant req p \<Longrightarrow> \<exists>ns. matchPolicy now p req at = (False, ns) \<and> near_miss req p ns = []"
  using matchPolicy_iff [of now p req at] by (cases "matchPolicy now p req at") (auto simp: near_miss_def)

lemma search_policies_relevant:
  "search_policies now req at d (filter (relevant req) ps) = search_policies now req at d ps"
proof (induction ps arbitrary: d)
  case (Cons p ps)
  show ?case
  proof (cases "relevant req p")
    case False
    then obtain ns where "matchPolicy now p req at = (False, ns)" "near_miss req p ns = []"
      using irrelevant_match by blast
    then have s: "search_policies now req at d (p # ps) = search_policies now req at d ps" by (cases d) simp_all
    have f: "filter (relevant req) (p # ps) = filter (relevant req) ps" using False by auto
    show ?thesis unfolding s f by (rule Cons.IH)
  next
    case True
    with Cons.IH show ?thesis by (cases "matchPolicy now p req at") (simp add: Let_def)
  qed
qed simp

lemma firstMatchedPolicyWithDiagnosis_relevant:
  assumes "filter (relevant req) (ev_Policies e) = filter (relevant req) (ev_Policies e')"
  shows "firstMatchedPolicyWithDiagnosis now e req at = firstMatchedPolicyWithDiagnosis now e' req at"
proof -
  have "search_policies now req at [] (orderedPolicies x) =
      search_policies now req at [] (sort_key policy_rank (filter (relevant req) (ev_Policies x)))" for x
    unfolding orderedPolicies_def filter_sort [symmetric] search_policies_relevant ..
  then show ?thesis by (simp only: firstMatchedPolicyWithDiagnosis_def assms)
qed

text \<open>The policy list is read by the search and by nothing else.\<close>

lemma evaluator_policies:
  "ev_PolicyBundle (e\<lparr>ev_Policies := ps\<rparr>) = ev_PolicyBundle e"
  "ev_EastWestRules (e\<lparr>ev_Policies := ps\<rparr>) = ev_EastWestRules e"
  "ev_EastWestGrants (e\<lparr>ev_Policies := ps\<rparr>) = ev_EastWestGrants e"
  "ev_EastWestAllowUnmatched (e\<lparr>ev_Policies := ps\<rparr>) = ev_EastWestAllowUnmatched e"
  "ev_EastWestMaxGrantTTLSeconds (e\<lparr>ev_Policies := ps\<rparr>) = ev_EastWestMaxGrantTTLSeconds e"
  "ev_EastWestInternalNetworks (e\<lparr>ev_Policies := ps\<rparr>) = ev_EastWestInternalNetworks e"
  "ev_LegacyExceptions (e\<lparr>ev_Policies := ps\<rparr>) = ev_LegacyExceptions e"
  "ev_TenantRestrictionHeaderValues (e\<lparr>ev_Policies := ps\<rparr>) = ev_TenantRestrictionHeaderValues e"
  by simp_all

lemma policies_frame [simp]:
  "decisionRequestWithSaaSContext (e\<lparr>ev_Policies := ps\<rparr>) = decisionRequestWithSaaSContext e"
  "tlsInspectionReadinessContextFor (e\<lparr>ev_Policies := ps\<rparr>) = tlsInspectionReadinessContextFor e"
  "firstDLPRule (e\<lparr>ev_Policies := ps\<rparr>) = firstDLPRule e"
  "firstSWGTenantRestrictionRule (e\<lparr>ev_Policies := ps\<rparr>) = firstSWGTenantRestrictionRule e"
  "firstSWGTLSBypassRule (e\<lparr>ev_Policies := ps\<rparr>) = firstSWGTLSBypassRule e"
  "matchLegacyException (e\<lparr>ev_Policies := ps\<rparr>) = matchLegacyException e"
  "eastWestAuthenticate (e\<lparr>ev_Policies := ps\<rparr>) = eastWestAuthenticate e"
  "isEastWestFlow (e\<lparr>ev_Policies := ps\<rparr>) = isEastWestFlow e"
  unfolding fun_eq_iff decisionRequestWithSaaSContext_def tlsInspectionReadinessContextFor_def
    inspectionProfileByID_def trustProfileByID_def tenantRootCAByID_def firstDLPRule_def dlp_applies_def
    firstSWGTenantRestrictionRule_def tenant_restriction_applies_def firstSWGTLSBypassRule_def tls_bypass_applies_def
    matchLegacyException_def eastWestAuthenticate_def hasValidEastWestGrant_def capped_rule_def isEastWestFlow_def
    evaluator_policies by blast+

lemma policies_frame_outcomes [simp]:
  "swg_context_for (e\<lparr>ev_Policies := ps\<rparr>) = swg_context_for e"
  "serverInitiatedDecisionFor (e\<lparr>ev_Policies := ps\<rparr>) = serverInitiatedDecisionFor e"
  "eastWestDecisionFor (e\<lparr>ev_Policies := ps\<rparr>) = eastWestDecisionFor e"
  unfolding fun_eq_iff swg_context_for_def swgTenantEnforcementContextFor_def serverInitiatedDecisionFor_def
    eastWestDecisionFor_def policies_frame evaluator_policies by blast+

lemma stage_policies [simp]:
  "stage_inspection (e\<lparr>ev_Policies := ps\<rparr>) = stage_inspection e"
  "stage_swg (e\<lparr>ev_Policies := ps\<rparr>) = stage_swg e"
  "stage_dlp (e\<lparr>ev_Policies := ps\<rparr>) = stage_dlp e"
  "server_initiated_branch now (e\<lparr>ev_Policies := ps\<rparr>) = server_initiated_branch now e"
  "east_west_branch now (e\<lparr>ev_Policies := ps\<rparr>) = east_west_branch now e"
  unfolding fun_eq_iff stage_inspection_def stage_swg_def stage_dlp_def server_initiated_branch_def east_west_branch_def
    policies_frame policies_frame_outcomes evaluator_policies by blast+

lemma matched_branch_policies [simp]: "matched_branch now (e\<lparr>ev_Policies := ps\<rparr>) = matched_branch now e"
  unfolding fun_eq_iff matched_branch_def stage_policies by blast

lemma final_state_policies:
  "firstMatchedPolicyWithDiagnosis now (e\<lparr>ev_Policies := ps\<rparr>) req (actor req) =
      firstMatchedPolicyWithDiagnosis now (e\<lparr>ev_Policies := qs\<rparr>) req (actor req) \<Longrightarrow>
    final_state now (e\<lparr>ev_Policies := ps\<rparr>) req = final_state now (e\<lparr>ev_Policies := qs\<rparr>) req"
  unfolding final_state_def Let_def matched_branch_policies stage_policies policies_frame by simp

lemma decision_of_state_policies:
  "rq_TenantID req \<noteq> [] \<Longrightarrow> decision_of_state now r (e\<lparr>ev_Policies := ps\<rparr>) req st = decision_of_state now r e req st"
  by (simp add: decision_of_state_def valueOrDefault_def)

text \<open>Policies that are not active, or belong to another tenant, have no part in a decision.\<close>

lemma Evaluate_relevant:
  assumes "rq_TenantID req \<noteq> []" "filter (relevant req) ps = filter (relevant req) qs"
  shows "Evaluate now r (e\<lparr>ev_Policies := ps\<rparr>) req = Evaluate now r (e\<lparr>ev_Policies := qs\<rparr>) req"
proof -
  let ?q = "decisionRequestWithSaaSContext e req"
  have "filter (relevant ?q) ps = filter (relevant ?q) qs"
    using assms(2) by (simp add: policyTenantAppliesTo_def)
  then have "firstMatchedPolicyWithDiagnosis now (e\<lparr>ev_Policies := ps\<rparr>) ?q (actor ?q) =
      firstMatchedPolicyWithDiagnosis now (e\<lparr>ev_Policies := qs\<rparr>) ?q (actor ?q)"
    by (intro firstMatchedPolicyWithDiagnosis_relevant) simp
  then have "final_state now (e\<lparr>ev_Policies := ps\<rparr>) ?q = final_state now (e\<lparr>ev_Policies := qs\<rparr>) ?q"
    by (rule final_state_policies)
  with assms(1) show ?thesis by (simp add: Evaluate_sel decision_of_state_policies)
qed

end
