(* ===== verification/Go_Hash.thy ===== *)
theory Go_Hash
  imports Go_Values "HOL-Library.Word"
begin

text \<open>
  Two further packages of the Go library: \<open>crypto/sha256\<close> (the compression function over 32-bit
  words as FIPS 180-4 gives it) and the part of \<open>encoding/json\<close> that \<open>Marshal\<close> uses for dynamic
  values.  Text is taken to be UTF-8 without the line separators U+2028 and U+2029, which \<open>Marshal\<close>
  would escape.
\<close>

unbundle bit_operations_syntax

section \<open>SHA-256\<close>

definition sha_K :: "32 word list" where
  "sha_K =
     [0x428A2F98, 0x71374491, 0xB5C0FBCF, 0xE9B5DBA5, 0x3956C25B, 0x59F111F1, 0x923F82A4, 0xAB1C5ED5,
     0xD807AA98, 0x12835B01, 0x243185BE, 0x550C7DC3, 0x72BE5D74, 0x80DEB1FE, 0x9BDC06A7, 0xC19BF174,
     0xE49B69C1, 0xEFBE4786, 0x0FC19DC6, 0x240CA1CC, 0x2DE92C6F, 0x4A7484AA, 0x5CB0A9DC, 0x76F988DA,
     0x983E5152, 0xA831C66D, 0xB00327C8, 0xBF597FC7, 0xC6E00BF3, 0xD5A79147, 0x06CA6351, 0x14292967,
     0x27B70A85, 0x2E1B2138, 0x4D2C6DFC, 0x53380D13, 0x650A7354, 0x766A0ABB, 0x81C2C92E, 0x92722C85,
     0xA2BFE8A1, 0xA81A664B, 0xC24B8B70, 0xC76C51A3, 0xD192E819, 0xD6990624, 0xF40E3585, 0x106AA070,
     0x19A4C116, 0x1E376C08, 0x2748774C, 0x34B0BCB5, 0x391C0CB3, 0x4ED8AA4A, 0x5B9CCA4F, 0x682E6FF3,
     0x748F82EE, 0x78A5636F, 0x84C87814, 0x8CC70208, 0x90BEFFFA, 0xA4506CEB, 0xBEF9A3F7, 0xC67178F2]"

definition sha_H0 :: "32 word list" where
  "sha_H0 =
     [0x6A09E667, 0xBB67AE85, 0x3C6EF372, 0xA54FF53A, 0x510E527F, 0x9B05688C, 0x1F83D9AB, 0x5BE0CD19]"

definition rotr32 :: "nat \<Rightarrow> 32 word \<Rightarrow> 32 word" where
  "rotr32 n x = (drop_bit n x OR push_bit (32 - n) x)"

definition sha_sigma0 :: "32 word \<Rightarrow> 32 word" where
  "sha_sigma0 x = (rotr32 7 x XOR rotr32 18 x XOR drop_bit 3 x)"

definition sha_sigma1 :: "32 word \<Rightarrow> 32 word" where
  "sha_sigma1 x = (rotr32 17 x XOR rotr32 19 x XOR drop_bit 10 x)"

definition sha_Sigma0 :: "32 word \<Rightarrow> 32 word" where
  "sha_Sigma0 x = (rotr32 2 x XOR rotr32 13 x XOR rotr32 22 x)"

definition sha_Sigma1 :: "32 word \<Rightarrow> 32 word" where
  "sha_Sigma1 x = (rotr32 6 x XOR rotr32 11 x XOR rotr32 25 x)"

text \<open>The message schedule, newest word first.\<close>

primrec sha_extend :: "nat \<Rightarrow> 32 word list \<Rightarrow> 32 word list" where
  "sha_extend 0 ws = ws"
| "sha_extend (Suc k) ws =
     sha_extend k ((sha_sigma1 (ws ! 1) + ws ! 6 + sha_sigma0 (ws ! 14) + ws ! 15) # ws)"

fun sha_round :: "32 word \<times> 32 word \<Rightarrow> 32 word list \<Rightarrow> 32 word list" where
  "sha_round (k, w) [a, b, c, d, e, f, g, h] =
     (let t1 = h + sha_Sigma1 e + ((e AND f) XOR (NOT e AND g)) + k + w;
          t2 = sha_Sigma0 a + ((a AND b) XOR (a AND c) XOR (b AND c))
      in [t1 + t2, a, b, c, d + t1, e, f, g])"
| "sha_round _ s = s"

definition sha_block :: "32 word list \<Rightarrow> 32 word list \<Rightarrow> 32 word list" where
  "sha_block h block =
     (let ws = rev (sha_extend 48 (rev block)) in map2 (+) h (fold sha_round (zip sha_K ws) h))"

definition be_word :: "int list \<Rightarrow> 32 word" where
  "be_word bs = word_of_int (foldl (\<lambda>a b. a * 256 + b) 0 bs)"

fun chunks :: "nat \<Rightarrow> 'a list \<Rightarrow> 'a list list" where
  "chunks 0 xs = []"
| "chunks (Suc k) xs = (if xs = [] then [] else take (Suc k) xs # chunks (Suc k) (drop (Suc k) xs))"

definition be_bytes :: "nat \<Rightarrow> int \<Rightarrow> int list" where
  "be_bytes n x = map (\<lambda>i. x div 256 ^ (n - 1 - i) mod 256) [0..<n]"

definition sha_pad :: "int list \<Rightarrow> int list" where
  "sha_pad m =
     m @ [128] @ replicate (nat ((55 - int (length m)) mod 64)) 0 @ be_bytes 8 (8 * int (length m))"

definition sha256 :: "int list \<Rightarrow> int list" where
  "sha256 m =
     concat (map (\<lambda>w. be_bytes 4 (uint w))
       (fold (\<lambda>block h. sha_block h (map be_word (chunks 4 block))) (chunks 64 (sha_pad m)) sha_H0))"

section \<open>JSON\<close>

definition json_byte :: "char \<Rightarrow> string" where
  "json_byte c =
     (let b = byte c
      in if b = 34 \<or> b = 92 then [CHR 0x5C, c]
         else if b = 8 then [CHR 0x5C, CHR ''b''] else if b = 12 then [CHR 0x5C, CHR ''f'']
         else if b = 10 then [CHR 0x5C, CHR ''n''] else if b = 13 then [CHR 0x5C, CHR ''r'']
         else if b = 9 then [CHR 0x5C, CHR ''t'']
         else if b < 32 \<or> b = 60 \<or> b = 62 \<or> b = 38
         then CHR 0x5C # ''u00'' @ [hex_char (b div 16), hex_char (b mod 16)]
         else [c])"

definition json_string :: "string \<Rightarrow> string" where
  "json_string s = [CHR 0x22] @ concat (map json_byte s) @ [CHR 0x22]"

definition json_float :: "bool \<Rightarrow> int \<Rightarrow> int \<Rightarrow> string" where
  "json_float neg d e =
     (let ds = nat_digits d; n = int (length ds); x = n - 1 + e;
          body =
            (if d = 0 then ''0''
             else if -6 \<le> x \<and> x < 21 then
               (if 0 \<le> e then ds @ replicate (nat e) (CHR ''0'')
                else if 0 < n + e then take (nat (n + e)) ds @ ''.'' @ drop (nat (n + e)) ds
                else ''0.'' @ replicate (nat (- (n + e))) (CHR ''0'') @ ds)
             else
               [hd ds] @ (if tl ds = [] then [] else ''.'' @ tl ds) @ ''e'' @
               (if x < 0 then ''-'' else ''+'') @ nat_digits \<bar>x\<bar>)
      in (if neg then ''-'' else []) @ body)"

fun Marshal :: "any \<Rightarrow> string" where
  "Marshal ANil = ''null''"
| "Marshal (ABool b) = FormatBool b"
| "Marshal (AInt i) = Itoa i"
| "Marshal (AFloat n d e) = json_float n d e"
| "Marshal (AStr s) = json_string s"
| "Marshal (AStrs ss) = ''['' @ Join (map json_string ss) '','' @ '']''"
| "Marshal (AList vs) = ''['' @ Join (map Marshal vs) '','' @ '']''"
| "Marshal (AMap kvs) =
     [CHR 0x7B] @
     Join (map (\<lambda>(k, v). json_string k @ '':'' @ v) (sort_key fst (map (\<lambda>(k, v). (k, Marshal v)) kvs))) '','' @
     [CHR 0x7D]"

end
