(* ===== verification/Decision_Records.thy ===== *)
theory Decision_Records
  imports Evaluator_Laws Go_Hash
begin

text \<open>
  What is recorded about a decision: the configuration generation
  (\<open>src/decision/config_generation.go\<close>), the access log, the decision trace and the audit entry of a
  loaded bundle (\<open>src/decision/evaluator.go\<close>).  The lemmas show that moving the configuration out of
  the record into its generation loses nothing, and which keys a trace can carry.
\<close>

section \<open>Configuration generations\<close>

definition configGenerationKeys :: "string list" where
  "configGenerationKeys =
     [''certificate_issuance_mode'', ''certificate_pinning_policy'', ''inspection_mode'', ''inspection_profile_id'',
      ''network_extension_dependency'', ''network_extension_runtime_used'', ''payload_policy'',
      ''quic_policy_action'', ''quic_policy_mode'', ''quic_tcp_tls_redirect_required'',
      ''tenant_root_ca_distribution_mode'', ''tenant_root_ca_id'', ''tenant_root_ca_private_key_status'',
      ''tenant_root_ca_status'', ''tenant_root_ca_trust_store_target'', ''tls_inspection_readiness'',
      ''tls_interception_enabled'', ''trust_profile_id'', ''trust_profile_status'', ''trust_store_state'']"

record config_generation_snapshot =
  cg_ID :: string
  cg_TenantID :: string
  cg_Config :: metadata

definition generation_bytes :: "string \<Rightarrow> metadata \<Rightarrow> int list" where
  "generation_bytes tenantID config =
     map byte tenantID @ [0] @
     concat (map (\<lambda>k. map byte k @ [0] @ map byte (Marshal (index_any config k)) @ [0]) (sort (remdups (map fst config))))"

definition configGenerationID :: "string \<Rightarrow> metadata \<Rightarrow> string" where
  "configGenerationID tenantID config =
     ''cfg_gen_'' @ EncodeToString (take 8 (sha256 (generation_bytes tenantID config)))"

definition select_keys :: "string list \<Rightarrow> metadata \<Rightarrow> metadata" where
  "select_keys ks m = puts (map (\<lambda>k. (map_of m k \<noteq> None, k, index_any m k)) ks) []"

definition ConfigGenerationFromDecision :: "access_decision \<Rightarrow> config_generation_snapshot option" where
  "ConfigGenerationFromDecision dec =
     (if dec_Metadata dec = [] then None
      else let config = select_keys configGenerationKeys (dec_Metadata dec)
           in if config = [] then None
              else Some \<lparr>cg_ID = configGenerationID (dec_TenantID dec) config, cg_TenantID = dec_TenantID dec,
                         cg_Config = config\<rparr>)"

definition stripConfigGenerationKeys :: "metadata \<Rightarrow> metadata" where
  "stripConfigGenerationKeys m = (if m = [] then m else fold AList.delete configGenerationKeys m)"

section \<open>Access log, trace and audit\<close>

definition AccessLogFromDecision :: "instant \<Rightarrow> entropy \<Rightarrow> access_decision \<Rightarrow> access_log" where
  "AccessLogFromDecision now r dec =
     (let generationID = (case ConfigGenerationFromDecision dec of Some snapshot \<Rightarrow> cg_ID snapshot | None \<Rightarrow> []);
          metadata = stripConfigGenerationKeys (copyMetadata (dec_Metadata dec))
      in
     \<lparr>al_ID = randomModelID ''alog_'' now r, al_TenantID = dec_TenantID dec, al_ConfigGenerationID = generationID,
      al_AccessDecisionID = dec_ID dec, al_SessionID = dec_SessionID dec, al_UserID = dec_UserID dec,
      al_SubjectUserID = dec_SubjectUserID dec, al_ActorType = dec_ActorType dec, al_ActorNHIID = dec_ActorNHIID dec,
      al_DelegatedAccessGrantID = dec_DelegatedAccessGrantID dec,
      al_HumanApprovalEventID = dec_HumanApprovalEventID dec, al_AgentTaskSessionID = dec_AgentTaskSessionID dec,
      al_ToolID = dec_ToolID dec, al_ToolActionType = dec_ToolActionType dec, al_MCPServerID = dec_MCPServerID dec,
      al_RuntimeEnvironmentID = dec_RuntimeEnvironmentID dec, al_DeviceID = dec_DeviceID dec,
      al_ApplicationID = Some (dec_ApplicationID dec), al_SourceIP = dec_SourceIP dec,
      al_Destination = dec_Destination dec, al_RequestMethod = dec_RequestMethod dec,
      al_RequestPath = dec_RequestPath dec, al_ServiceFamily = dec_ServiceFamily dec, al_Decision = dec_Decision dec,
      al_Reason = dec_Reason dec, al_ReasonCodes = dec_ReasonCodes dec, al_PolicyID = stringPtr (dec_PolicyID dec),
      al_PolicyBundleID = stringPtr (dec_PolicyBundleID dec), al_MatchedConditions = dec_MatchedConditions dec,
      al_CacheStatus = dec_CacheStatus dec, al_EdgeRegionID = dec_EdgeRegionID dec,
      al_EdgeClusterID = dec_EdgeClusterID dec, al_ConnectorID = dec_ConnectorID dec, al_Timestamp = dec_Timestamp dec,
      al_Metadata = metadata\<rparr>)"

definition traceKeys :: "string list" where
  "traceKeys =
     [''saas_application_id'', ''saas_name'', ''saas_provider'', ''saas_category'', ''saas_risk_tier'',
      ''saas_matched_domain'', ''saas_matched_pattern'', ''saas_match_type'', ''tls_inspection_readiness'',
      ''tls_interception_enabled'', ''certificate_issuance_mode'', ''inspection_profile_id'', ''inspection_mode'',
      ''inspection_route_category'', ''inspection_execution_scope'', ''edge_tls_policy_decision'',
      ''edge_tls_policy_decision_source'', ''edge_tls_policy_bypass'', ''inspection_profile_resolution'',
      ''payload_policy'', ''network_extension_dependency'', ''trust_profile_id'', ''trust_profile_status'',
      ''trust_store_state'', ''certificate_pinning_policy'', ''tenant_root_ca_id'', ''tenant_root_ca_status'',
      ''tenant_root_ca_distribution_mode'', ''tenant_root_ca_trust_store_target'',
      ''tenant_root_ca_private_key_status'', ''quic_policy_mode'', ''quic_policy_action'',
      ''quic_tcp_tls_redirect_required'', ''network_extension_runtime_used'', ''break_glass_policy'',
      ''break_glass_identity_id'', ''break_glass_max_session_seconds'', ''break_glass_strong_auth_required'',
      ''break_glass_strong_auth_satisfied'', ''break_glass_audit_required'', ''break_glass_audit_event_required'',
      ''break_glass_auth_age_seconds'', ''break_glass_auth_freshness'', ''break_glass_request_id'',
      ''break_glass_reason_present'', ''break_glass_ticket_id_present'', ''subject_user_id'', ''actor_type'',
      ''actor_nhi_id'', ''delegated_access_grant_id'', ''agent_task_session_id'', ''tool_id'', ''tool_action_type'',
      ''tool_permission_profile'', ''tool_version'', ''tool_signature_state'', ''agent_tool_metadata_scope'',
      ''mcp_server_id'', ''mcp_resource_uri'', ''mcp_audience'', ''mcp_token_passthrough_policy'',
      ''mcp_metadata_scope'', ''runtime_environment_id'', ''tool_payload_recorded'', ''tool_secret_recorded'',
      ''tool_credentials_recorded'', ''context_boundary_id'', ''data_classification'', ''human_approval_event_id'',
      ''runtime_evidence_result'', ''delegated_grant_status'', ''delegated_grant_expires_at'', ''approval_result'',
      ''approval_expires_at'', ''nhi_registry_last_used_result'', ''nhi_registry_last_used_at'',
      ''swg_tenant_enforcement_preflight'', ''swg_default_tls_decryption_required'', ''swg_tls_bypass_policy'',
      ''swg_tls_bypass_applied'', ''swg_tls_runtime_decryption_observed'', ''swg_header_injection_runtime_observed'',
      ''swg_macos_ca_trust_required'', ''swg_macos_ca_trust_observed'', ''swg_tenant_restriction_rule_id'',
      ''swg_tenant_restriction_header_name'', ''swg_tenant_restriction_header_value_ref'',
      ''swg_tenant_restriction_header_value_kind'', ''swg_tenant_restriction_header_value_material_in_decision'',
      ''swg_tenant_restriction_header_injection_applicable'', ''swg_tenant_restriction_header_injection_applied'',
      ''swg_tenant_restriction_header_injection_suppressed_by_bypass'', ''swg_tls_bypass_rule_id'',
      ''swg_tls_bypass_match_type'', ''swg_tls_bypass_reason'']"

definition decisionTraceMetadata :: "metadata \<Rightarrow> metadata" where
  "decisionTraceMetadata m = select_keys traceKeys m"

definition DecisionTraceFromDecision :: "instant \<Rightarrow> entropy \<Rightarrow> access_decision \<Rightarrow> decision_trace" where
  "DecisionTraceFromDecision now r dec =
     \<lparr>dt_ID = randomModelID ''trace_'' now r, dt_AccessDecisionID = dec_ID dec, dt_PolicyID = dec_PolicyID dec,
      dt_PolicyBundleID = dec_PolicyBundleID dec, dt_MatchedConditions = dec_MatchedConditions dec,
      dt_CacheStatus = dec_CacheStatus dec, dt_ReasonCodes = dec_ReasonCodes dec, dt_Timestamp = dec_Timestamp dec,
      dt_Metadata = decisionTraceMetadata (dec_Metadata dec)\<rparr>"

definition BundleLoadedAuditLog :: "instant \<Rightarrow> entropy \<Rightarrow> policy_bundle \<Rightarrow> string \<Rightarrow> string \<Rightarrow> audit_log" where
  "BundleLoadedAuditLog now r bundle edgeRegionID edgeClusterID =
     \<lparr>au_ID = randomModelID ''audit_'' now r, au_TenantID = pb_TenantID bundle, au_ActorUserID = None,
      au_ActorNHIID = None, au_EventType = ''policy_bundle_loaded'', au_TargetType = Some ''policy_bundle'',
      au_TargetID = Some (pb_ID bundle), au_Action = Some ''load'', au_Result = Some ''success'',
      au_Reason = Some ''Local Edge loaded standard policy bundle.'', au_AccessDecisionID = None, au_PolicyID = None,
      au_PolicyBundleID = Some (pb_ID bundle), au_EdgeRegionID = Some edgeRegionID,
      au_EdgeClusterID = Some edgeClusterID, au_SessionID = None, au_AuthenticationEventID = None,
      au_SourceIP = Some ''127.0.0.1'', au_Timestamp = Format now, au_Metadata = []\<rparr>"

section \<open>Laws\<close>

lemma map_of_select_keys: "map_of (select_keys ks m) k = (if k \<in> set ks then map_of m k else None)"
proof -
  have "map_of (puts (map (\<lambda>k. (map_of m k \<noteq> None, k, index_any m k)) ks) acc) k =
      (if k \<in> set ks \<and> map_of m k \<noteq> None then map_of m k else map_of acc k)" for acc
    by (induction ks arbitrary: acc) (auto simp: index_any_def)
  then show ?thesis by (auto simp: select_keys_def)
qed

lemma map_of_delete_keys: "map_of (fold AList.delete ks m) k = (if k \<in> set ks then None else map_of m k)"
  by (induction ks arbitrary: m) (auto simp: delete_conv')

lemma map_of_strip: "map_of (stripConfigGenerationKeys m) k = (if k \<in> set configGenerationKeys then None else map_of m k)"
  by (auto simp: stripConfigGenerationKeys_def map_of_delete_keys)

lemma select_keys_empty [simp]: "select_keys ks [] = []"
  by (induction ks) (simp_all add: select_keys_def)

text \<open>The identifier depends on the contents of the configuration, not on the order of its entries.\<close>

lemma generation_bytes_cong: "map_of c = map_of c' \<Longrightarrow> generation_bytes t c = generation_bytes t c'"
proof -
  assume eq: "map_of c = map_of c'"
  then have "set (map fst c) = set (map fst c')" by (metis dom_map_of_conv_image_fst list.set_map)
  then have "sort (remdups (map fst c)) = sort (remdups (map fst c'))"
    by (metis sorted_list_of_set_sort_remdups)
  with eq show ?thesis by (simp add: generation_bytes_def index_any_def)
qed

lemma ConfigGeneration_Some_iff:
  "ConfigGenerationFromDecision dec \<noteq> None \<longleftrightarrow> (\<exists>k \<in> set configGenerationKeys. map_of (dec_Metadata dec) k \<noteq> None)"
proof -
  have "select_keys configGenerationKeys (dec_Metadata dec) = [] \<longleftrightarrow>
      map_of (select_keys configGenerationKeys (dec_Metadata dec)) = Map.empty"
    by (cases "select_keys configGenerationKeys (dec_Metadata dec)") auto
  then show ?thesis
    by (auto simp: ConfigGenerationFromDecision_def Let_def map_of_select_keys fun_eq_iff split: if_splits)
qed

lemma AccessLog_sel [simp]:
  "al_Metadata (AccessLogFromDecision now r dec) = stripConfigGenerationKeys (copyMetadata (dec_Metadata dec))"
  "al_ConfigGenerationID (AccessLogFromDecision now r dec) =
    (case ConfigGenerationFromDecision dec of Some s \<Rightarrow> cg_ID s | None \<Rightarrow> [])"
  "al_PolicyID (AccessLogFromDecision now r dec) = stringPtr (dec_PolicyID dec)"
  "al_Decision (AccessLogFromDecision now r dec) = dec_Decision dec"
  by (simp_all add: AccessLogFromDecision_def Let_def)

section \<open>Properties\<close>


lemma map_of_puts_last:
  "k \<notin> (\<lambda>(c, k', v). k') ` set es \<Longrightarrow> map_of (puts (es @ [(c, k, v)]) m) k = (if c then Some v else map_of m k)"
  by (simp add: puts_append map_of_puts_other)

definition full_inspection_context :: tls_inspection_context where
  "full_inspection_context =
     \<lparr>ti_Configured = True,
      ti_Profile = zero_inspection_profile\<lparr>ip_NetworkExtensionDependency := ''ne'', ip_QUICPolicyMode := ''m'',
        ip_QUICPolicyAction := ''disable_http3''\<rparr>,
      ti_TrustProfile = Some (zero_trust_profile\<lparr>tp_TrustStoreState := ''s'', tp_CertificatePinningPolicy := ''p''\<rparr>),
      ti_TenantRootCA = Some (zero_tenant_root_ca\<lparr>ca_DistributionMode := ''d'', ca_TrustStoreTarget := ''t'',
        ca_PrivateKeyStatus := ''k''\<rparr>),
      ti_QUICApplicable = True\<rparr>"

lemma full_inspection_keys:
  "list_all (\<lambda>k. map_of (applyTLSInspectionReadinessMetadata [] full_inspection_context) k \<noteq> None) configGenerationKeys"
  by code_simp

text \<open>C37. The keys of a generation are the keys the inspection overlay writes: each of the twenty keys is written for
  some configuration, and no other key is written for any.\<close>

theorem configGenerationKeys_exact:
  "(\<exists>ctx. map_of (applyTLSInspectionReadinessMetadata [] ctx) k \<noteq> None) \<longleftrightarrow> k \<in> set configGenerationKeys"
proof
  assume "k \<in> set configGenerationKeys"
  then have "map_of (applyTLSInspectionReadinessMetadata [] full_inspection_context) k \<noteq> None"
    using full_inspection_keys by (simp add: list_all_iff)
  then show "\<exists>ctx. map_of (applyTLSInspectionReadinessMetadata [] ctx) k \<noteq> None" ..
next
  assume written: "\<exists>ctx. map_of (applyTLSInspectionReadinessMetadata [] ctx) k \<noteq> None"
  show "k \<in> set configGenerationKeys"
  proof (rule ccontr)
    assume k: "k \<notin> set configGenerationKeys"
    have "map_of (applyTLSInspectionReadinessMetadata [] ctx) k = None" for ctx
      unfolding applyTLSInspectionReadinessMetadata_def Let_def using k
      by (subst map_of_puts_other)
        (auto simp: configGenerationKeys_def trust_entries_def root_ca_entries_def split: option.splits)
    with written show False by simp
  qed
qed

text \<open>C38. One key of a generation depends on the request: with a profile that sends QUIC to TCP and TLS, the redirect
  flag is recorded for a QUIC request and absent for another request under the same configuration.\<close>

theorem generation_depends_on_request:
  assumes "ti_Configured (tlsInspectionReadinessContextFor e p req)"
    and "quicPolicyRequiresTCPTLS (ti_Profile (tlsInspectionReadinessContextFor e p req))"
  shows "''quic_tcp_tls_redirect_required'' \<in> set configGenerationKeys \<and>
    map_of (applyTLSInspectionReadinessMetadata [] (tlsInspectionReadinessContextFor e p req)) ''quic_tcp_tls_redirect_required'' =
      (if requestIndicatesQUIC req then Some (ABool True) else None)"
proof -
  let ?ctx = "tlsInspectionReadinessContextFor e p req"
  have q: "ti_QUICApplicable ?ctx = requestIndicatesQUIC req"
    using assms(1) by (auto simp: tlsInspectionReadinessContextFor_def zero_tls_inspection_context_def Let_def
        split: option.splits if_splits)
  have split: "xs @ ts @ rs @ [a, b, c] = (xs @ ts @ rs @ [a, b]) @ [c]" for xs ts rs and a b c :: "bool \<times> string \<times> any"
    by simp
  have "map_of (applyTLSInspectionReadinessMetadata [] ?ctx) ''quic_tcp_tls_redirect_required'' =
      (if ti_QUICApplicable ?ctx then Some (ABool True) else None)"
    unfolding applyTLSInspectionReadinessMetadata_def Let_def split
    by (subst map_of_puts_last) (auto simp: assms(2) trust_entries_def root_ca_entries_def split: option.splits)
  then show ?thesis unfolding q by (simp add: configGenerationKeys_def)
qed

definition quic_engine :: evaluator where
  "quic_engine = zero_evaluator\<lparr>ev_PolicyBundle := zero_policy_bundle\<lparr>pb_InspectionProfiles :=
     [zero_inspection_profile\<lparr>ip_ID := ''strict'', ip_QUICPolicyAction := ''disable_http3''\<rparr>]\<rparr>\<rparr>"

theorem generation_depends_on_request_witness:
  "let p = zero_policy\<lparr>pol_InspectionProfileID := Some ''strict''\<rparr>;
       keys = (\<lambda>req. map_of (applyTLSInspectionReadinessMetadata [] (tlsInspectionReadinessContextFor quic_engine p req))
         ''quic_tcp_tls_redirect_required'')
   in keys (zero_decision_request\<lparr>rq_Protocol := ''quic''\<rparr>) = Some (ABool True) \<and> keys zero_decision_request = None"
proof -
  let ?p = "zero_policy\<lparr>pol_InspectionProfileID := Some ''strict''\<rparr>" and ?q = "zero_decision_request\<lparr>rq_Protocol := ''quic''\<rparr>"
  let ?ctx = "tlsInspectionReadinessContextFor quic_engine ?p"
  have "ti_Configured (?ctx ?q)" "quicPolicyRequiresTCPTLS (ti_Profile (?ctx ?q))" "requestIndicatesQUIC ?q" by code_simp+
  note quic = generation_depends_on_request [OF this(1,2)] this(3)
  have "ti_Configured (?ctx zero_decision_request)" "quicPolicyRequiresTCPTLS (ti_Profile (?ctx zero_decision_request))"
    "\<not> requestIndicatesQUIC zero_decision_request" by code_simp+
  note other = generation_depends_on_request [OF this(1,2)] this(3)
  show ?thesis unfolding Let_def using quic other by presburger
qed

end
