(* ===== verification/Explain.thy ===== *)
theory Explain
  imports Evaluator_Laws
begin

text \<open>
  The explanation of a decision (\<open>src/decision/explain.go\<close>): every policy in the order of
  evaluation, which matched, which won, which were shadowed.  The lemmas show that the winner of
  the explanation is the policy the engine applies.
\<close>

section \<open>Definitions\<close>

record policy_trace_entry =
  te_PolicyID :: string
  te_Name :: string
  te_Priority :: int
  te_Decision :: string
  te_Status :: string
  te_Matched :: bool
  te_MatchedConditions :: "string list"
  te_Winner :: bool
  te_Shadowed :: bool
  te_CreatedBy :: string

record decision_explanation =
  de_ActorType :: string
  de_Trace :: "policy_trace_entry list"
  de_WinnerPolicyID :: string
  de_WinnerDecision :: string
  de_FinalDecision :: string
  de_FinalPolicyID :: string

definition trace_entry :: "instant \<Rightarrow> decision_request \<Rightarrow> string \<Rightarrow> bool \<Rightarrow> policy \<Rightarrow> policy_trace_entry" where
  "trace_entry now req actorType winnerFound policy =
     (let (matched, names) = matchPolicy now policy req actorType
      in \<lparr>te_PolicyID = pol_ID policy, te_Name = pol_Name policy, te_Priority = pol_Priority policy,
          te_Decision = pa_Decision (pol_Action policy), te_Status = pol_Status policy, te_Matched = matched,
          te_MatchedConditions = names, te_Winner = (matched \<and> \<not> winnerFound),
          te_Shadowed = (matched \<and> winnerFound),
          te_CreatedBy = (case pol_CreatedBy policy of Some c \<Rightarrow> c | None \<Rightarrow> [])\<rparr>)"

text \<open>One turn of the loop: the entry is appended, and the first match is recorded as the winner.\<close>

definition explain_step ::
  "instant \<Rightarrow> decision_request \<Rightarrow> string \<Rightarrow> policy \<Rightarrow> bool \<times> decision_explanation \<Rightarrow> bool \<times> decision_explanation" where
  "explain_step now req actorType policy acc =
     (let (winnerFound, exp) = acc; entry = trace_entry now req actorType winnerFound policy;
          exp = (if te_Winner entry
                 then exp\<lparr>de_WinnerPolicyID := pol_ID policy, de_WinnerDecision := pa_Decision (pol_Action policy)\<rparr>
                 else exp)
      in (winnerFound \<or> te_Winner entry, exp\<lparr>de_Trace := de_Trace exp @ [entry]\<rparr>))"

definition ExplainDecision :: "instant \<Rightarrow> entropy \<Rightarrow> evaluator \<Rightarrow> decision_request \<Rightarrow> decision_explanation" where
  "ExplainDecision now r e req =
     (let enriched = decisionRequestWithSaaSContext e req;
          actorType = valueOrDefault (rq_ActorType enriched) ''human'';
          exp = \<lparr>de_ActorType = actorType, de_Trace = [], de_WinnerPolicyID = [], de_WinnerDecision = [],
                 de_FinalDecision = [], de_FinalPolicyID = []\<rparr>;
          exp = snd (fold (explain_step now enriched actorType) (orderedPolicies e) (False, exp));
          final = Evaluate now r e req
      in exp\<lparr>de_FinalDecision := dec_Decision final, de_FinalPolicyID := dec_PolicyID final\<rparr>)"

section \<open>Laws\<close>

lemma trace_entry_sel [simp]:
  "te_PolicyID (trace_entry now req at w p) = pol_ID p"
  "te_Matched (trace_entry now req at w p) = policy_matches now req at p"
  "te_Winner (trace_entry now req at w p) = (policy_matches now req at p \<and> \<not> w)"
  "te_Shadowed (trace_entry now req at w p) = (policy_matches now req at p \<and> w)"
  by (simp_all add: trace_entry_def split: prod.split)

text \<open>The trace as a function of the ordered policies.\<close>

fun trace_from :: "instant \<Rightarrow> decision_request \<Rightarrow> string \<Rightarrow> bool \<Rightarrow> policy list \<Rightarrow> policy_trace_entry list" where
  "trace_from now req at w [] = []"
| "trace_from now req at w (p # ps) =
     trace_entry now req at w p # trace_from now req at (w \<or> policy_matches now req at p) ps"

lemma explain_fold:
  "fold (explain_step now req at) ps (w, exp) =
    (w \<or> list_ex (policy_matches now req at) ps,
     exp\<lparr>de_Trace := de_Trace exp @ trace_from now req at w ps,
         de_WinnerPolicyID := (if w then de_WinnerPolicyID exp
           else case List.find (policy_matches now req at) ps of Some p \<Rightarrow> pol_ID p | None \<Rightarrow> de_WinnerPolicyID exp),
         de_WinnerDecision := (if w then de_WinnerDecision exp
           else case List.find (policy_matches now req at) ps of
                  Some p \<Rightarrow> pa_Decision (pol_Action p) | None \<Rightarrow> de_WinnerDecision exp)\<rparr>)"
  by (induction ps arbitrary: w exp) (auto simp: explain_step_def Let_def split: option.split)

lemma trace_from_won:
  "list_all (\<lambda>t. \<not> te_Winner t \<and> te_Shadowed t = te_Matched t) (trace_from now req at True ps)"
  by (induction ps) auto

lemma trace_from_winners:
  "map te_PolicyID (filter te_Winner (trace_from now req at False ps)) =
    (case List.find (policy_matches now req at) ps of Some p \<Rightarrow> [pol_ID p] | None \<Rightarrow> [])"
proof (induction ps)
  case (Cons p ps)
  have "filter te_Winner (trace_from now req at True ps) = []"
    using trace_from_won [of now req at ps] by (auto simp: filter_empty_conv list_all_iff)
  with Cons show ?case by auto
qed simp

lemma trace_from_shadowed:
  "list_all (\<lambda>t. te_Matched t = (te_Winner t \<or> te_Shadowed t) \<and> \<not> (te_Winner t \<and> te_Shadowed t)) (trace_from now req at w ps)"
  by (induction ps arbitrary: w) auto

lemma trace_from_ids: "map te_PolicyID (trace_from now req at w ps) = map pol_ID ps"
  by (induction ps arbitrary: w) auto

lemma ExplainDecision_sel:
  fixes e req
  defines "q \<equiv> decisionRequestWithSaaSContext e req"
  shows "de_Trace (ExplainDecision now r e req) = trace_from now q (actor q) False (orderedPolicies e)"
    "de_WinnerPolicyID (ExplainDecision now r e req) =
      (case firstMatchedPolicy now e q (actor q) of Some (p, _) \<Rightarrow> pol_ID p | None \<Rightarrow> [])"
    "de_WinnerDecision (ExplainDecision now r e req) =
      (case firstMatchedPolicy now e q (actor q) of Some (p, _) \<Rightarrow> pa_Decision (pol_Action p) | None \<Rightarrow> [])"
    "de_FinalPolicyID (ExplainDecision now r e req) = dec_PolicyID (Evaluate now r e req)"
    "de_FinalDecision (ExplainDecision now r e req) = dec_Decision (Evaluate now r e req)"
  unfolding q_def ExplainDecision_def Let_def explain_fold
  by (simp_all add: firstMatchedPolicy_find orderedPolicies_def split: option.split)

end
