(* ===== verification/Scenarios.thy ===== *)
theory Scenarios
  imports Evaluator_Laws Decision_Records Explain
begin

text \<open>
  Concrete configurations and requests on which the properties are instantiated: an engine with one
  allowing policy, the same engine with a TLS bypass rule, and requests that meet their conditions.
\<close>

definition plain_entropy :: entropy where
  "plain_entropy = Random (replicate 16 0)"

definition plain_policy :: policy where
  "plain_policy = zero_policy\<lparr>pol_ID := ''allow-app'', pol_TenantID := ''acme'', pol_Status := ''active'', pol_Priority := 10,
     pol_Conditions := [(''application_id'', AStr ''wiki'')], pol_Action := zero_policy_action\<lparr>pa_Decision := ''allow''\<rparr>\<rparr>"

definition other_policy :: policy where
  "other_policy = zero_policy\<lparr>pol_ID := ''deny-all'', pol_TenantID := ''globex'', pol_Status := ''active'', pol_Priority := 1,
     pol_Action := zero_policy_action\<lparr>pa_Decision := ''deny''\<rparr>\<rparr>"

definition plain_engine :: evaluator where
  "plain_engine = zero_evaluator\<lparr>ev_Policies := [plain_policy]\<rparr>"

definition plain_request :: decision_request where
  "plain_request = zero_decision_request\<lparr>rq_TenantID := ''acme'', rq_UserID := ''alice'', rq_ApplicationID := ''wiki''\<rparr>"

definition bypass_rule :: swg_tls_bypass_rule where
  "bypass_rule = zero_swg_tls_bypass_rule\<lparr>by_ID := ''bypass'', by_TenantID := ''acme'', by_MatchType := ''saas_application_id'',
     by_SaaSApplicationID := ''bank'', by_Status := ''active''\<rparr>"

definition bypass_engine :: evaluator where
  "bypass_engine = plain_engine\<lparr>ev_PolicyBundle := zero_policy_bundle\<lparr>pb_TenantID := ''acme'',
     pb_SWGTLSBypassRules := [bypass_rule],
     pb_SaaSCatalog := [zero_saas_catalog_entry\<lparr>sc_SaaSApplicationID := ''bank'', sc_DomainPatterns := [''bank.example'']\<rparr>]\<rparr>\<rparr>"

definition bypass_request :: decision_request where
  "bypass_request = plain_request\<lparr>rq_FQDN := ''bank.example'', rq_ServiceFamily := ''https'', rq_DestinationPort := 443\<rparr>"

lemma plain_enriched: "decisionRequestWithSaaSContext plain_engine plain_request = plain_request"
  by code_simp

lemma plain_plane: "plane_of plain_engine plain_request = PolicyPlane"
  by code_simp

lemma bypass_bypasses: "dec_Bypass (Evaluate 0 plain_entropy bypass_engine bypass_request)"
  by code_simp

definition break_glass_policy :: policy where
  "break_glass_policy = plain_policy\<lparr>pol_ID := ''break-glass'', pol_BreakGlassPolicy := True,
     pol_BreakGlassMaxSessionSeconds := Some 600\<rparr>"

definition tool_policy :: policy where
  "tool_policy = plain_policy\<lparr>pol_ID := ''tools'', pol_AllowedToolIDs := [''search''], pol_RequiredWorkloadAttestation := True\<rparr>"

definition tool_request :: decision_request where
  "tool_request = plain_request\<lparr>rq_ToolID := ''shell''\<rparr>"

lemma break_glass_scenario:
  "decisionRequestWithSaaSContext (plain_engine\<lparr>ev_Policies := [break_glass_policy]\<rparr>) plain_request = plain_request"
  "plane_of (plain_engine\<lparr>ev_Policies := [break_glass_policy]\<rparr>) plain_request = PolicyPlane"
  "firstMatchedPolicy 0 (plain_engine\<lparr>ev_Policies := [break_glass_policy]\<rparr>) plain_request (actor plain_request) =
    Some (break_glass_policy, [''application_id''])"
  "breakGlassPolicyConfigured break_glass_policy"
  by code_simp+

lemma tool_scenario:
  "decisionRequestWithSaaSContext (plain_engine\<lparr>ev_Policies := [tool_policy]\<rparr>) tool_request = tool_request"
  "plane_of (plain_engine\<lparr>ev_Policies := [tool_policy]\<rparr>) tool_request = PolicyPlane"
  "firstMatchedPolicy 0 (plain_engine\<lparr>ev_Policies := [tool_policy]\<rparr>) tool_request (actor tool_request) =
    Some (tool_policy, [''application_id''])"
  "TrimSpace (pa_Decision (pol_Action tool_policy)) = ''allow''"
  "\<not> breakGlassPolicyConfigured tool_policy"
  "toolActionBoundaryViolation tool_policy tool_request \<noteq> None"
  "pol_RequiredWorkloadAttestation tool_policy \<and> \<not> workloadAttestationSatisfied (rq_WorkloadAttestationState tool_request)"
  by code_simp+

end
