(* ===== verification/Go_Net.thy ===== *)
theory Go_Net
  imports Go_Netip
begin

text \<open>
  What the sources use of Go's package \<open>net\<close>: \<open>ParseIP\<close>, \<open>ParseCIDR\<close> and \<open>IPNet.Contains\<close>.  An address is kept
  in the sixteen byte form, in which an IPv4 address and its IPv4-mapped IPv6 form coincide.
\<close>

unbundle bit_operations_syntax

type_synonym ip16 = "128 word"

fun As16 :: "addr \<Rightarrow> ip16" where
  "As16 (V4 w) = push_bit 32 0xFFFF OR ucast w"
| "As16 (V6 w _) = w"

definition To4 :: "ip16 \<Rightarrow> 32 word option" where
  "To4 ip = (if drop_bit 32 ip = 0xFFFF then Some (ucast ip) else None)"

definition ParseIP :: "string \<Rightarrow> ip16 option" where
  "ParseIP s = (case ParseAddr s of Some a \<Rightarrow> if has_zone a then None else Some (As16 a) | None \<Rightarrow> None)"

text \<open>\<open>dtoi\<close>: decimal digits only, leading zeros allowed, below \<open>0xFFFFFF\<close>.\<close>

definition dtoi :: "string \<Rightarrow> int option" where
  "dtoi s = (if s \<noteq> [] \<and> list_all is_digit s \<and> digits_val s < 16777215 then Some (digits_val s) else None)"

record ipnet =
  nt_addr :: addr
  nt_bits :: nat

definition BitLen :: "addr \<Rightarrow> int" where
  "BitLen a = (if Is4 a then 32 else 128)"

definition ParseCIDR :: "string \<Rightarrow> ipnet option" where
  "ParseCIDR s =
     (case IndexByte s (CHR ''/'') of
        None \<Rightarrow> None
      | Some i \<Rightarrow>
          (case (ParseAddr (take i s), dtoi (drop (i + 1) s)) of
             (Some a, Some n) \<Rightarrow>
               if has_zone a \<or> n > BitLen a then None else Some \<lparr>nt_addr = a, nt_bits = nat n\<rparr>
           | _ \<Rightarrow> None))"

text \<open>
  \<open>IPNet.Contains\<close>: the masked network number is shortened to four bytes when it is IPv4-mapped, and so is
  the address; networks and addresses of different lengths do not match.
\<close>

fun net_Contains :: "ipnet \<Rightarrow> ip16 \<Rightarrow> bool" where
  "net_Contains n ip =
     (case nt_addr n of
        V4 w \<Rightarrow> (case To4 ip of Some x \<Rightarrow> drop_bit (32 - nt_bits n) (x XOR w) = 0 | None \<Rightarrow> False)
      | V6 w _ \<Rightarrow>
          (let nn = push_bit (128 - nt_bits n) (drop_bit (128 - nt_bits n) w)
           in case (To4 nn, To4 ip) of
                (Some m, Some x) \<Rightarrow> drop_bit (128 - nt_bits n) (x XOR m) = 0
              | (None, None) \<Rightarrow> drop_bit (128 - nt_bits n) (ip XOR w) = 0
              | _ \<Rightarrow> False))"

declare net_Contains.simps [code]

text \<open>An IPv4 network contains an address and its mapped form alike.\<close>

lemma To4_As16_V4 [simp]: "To4 (As16 (V4 w)) = Some w"
proof -
  have "drop_bit 32 (push_bit 32 0xFFFF OR ucast w) = (0xFFFF :: 128 word)"
    by (rule bit_word_eqI) (auto simp: bit_simps dest: bit_imp_le_length)
  moreover have "ucast (push_bit 32 0xFFFF OR ucast w :: 128 word) = w"
    by (rule bit_word_eqI) (unfold bit_unsigned_iff bit_or_iff bit_push_bit_iff, simp)
  ultimately show ?thesis by (simp only: To4_def As16.simps if_True simp_thms)
qed

lemma net_Contains_v4: "nt_addr n = V4 w \<Longrightarrow> net_Contains n (As16 (V4 x)) = Contains \<lparr>pfx_addr = V4 w, pfx_bits = nt_bits n\<rparr> (V4 x)"
  by (simp add: Contains_def del: As16.simps)

end
