(* ===== verification/Go_Maps.thy ===== *)
theory Go_Maps
  imports Go_Prelude "HOL-Library.AList"
begin

text \<open>
  Go's maps of maps, keyed by tenant and then by identifier, as association lists of association
  lists.  Reading a tenant that has no entry gives the empty map, as reading a nil map does in Go;
  writing creates the tenant's map.  Iteration follows the order of the lists, one of the orders Go
  may choose.
\<close>

type_synonym 'a tenant_map = "(string \<times> (string \<times> 'a) list) list"

definition rows :: "'a tenant_map \<Rightarrow> string \<Rightarrow> (string \<times> 'a) list" where
  "rows m t = (case map_of m t of Some r \<Rightarrow> r | None \<Rightarrow> [])"

definition row :: "'a tenant_map \<Rightarrow> string \<Rightarrow> string \<Rightarrow> 'a option" where
  "row m t k = map_of (rows m t) k"

definition put_row :: "string \<Rightarrow> string \<Rightarrow> 'a \<Rightarrow> 'a tenant_map \<Rightarrow> 'a tenant_map" where
  "put_row t k v m = AList.update t (AList.update k v (rows m t)) m"

definition filter_rows :: "string \<Rightarrow> (string \<Rightarrow> 'a \<Rightarrow> bool) \<Rightarrow> 'a tenant_map \<Rightarrow> 'a tenant_map" where
  "filter_rows t P m = map (\<lambda>(t', r). (t', if t' = t then filter (\<lambda>(k, v). P k v) r else r)) m"

definition delete_row :: "string \<Rightarrow> string \<Rightarrow> 'a tenant_map \<Rightarrow> 'a tenant_map" where
  "delete_row t k m = filter_rows t (\<lambda>k' v. k' \<noteq> k) m"

definition all_rows :: "'a tenant_map \<Rightarrow> (string \<times> string \<times> 'a) list" where
  "all_rows m = concat (map (\<lambda>(t, r). map (\<lambda>(k, v). (t, k, v)) r) m)"

text \<open>Keys are unique, as in a Go map.\<close>

definition wf_rows :: "'a tenant_map \<Rightarrow> bool" where
  "wf_rows m \<longleftrightarrow> distinct (map fst m) \<and> list_all (\<lambda>(t, r). distinct (map fst r)) m"

section \<open>Laws\<close>

lemma rows_Nil [simp]: "rows [] t = []"
  by (simp add: rows_def)

lemma row_Nil [simp]: "row [] t k = None"
  by (simp add: row_def)

lemma rows_put_row: "rows (put_row t k v m) t' = (if t' = t then AList.update k v (rows m t) else rows m t')"
  by (simp add: rows_def put_row_def update_conv)

lemma row_put_row [simp]: "row (put_row t k v m) t' k' = (if t' = t \<and> k' = k then Some v else row m t' k')"
  by (simp add: row_def rows_put_row update_conv)

lemma rows_filter_rows: "rows (filter_rows t P m) t' = (if t' = t then filter (\<lambda>(k, v). P k v) (rows m t) else rows m t')"
  by (induction m) (auto simp: rows_def filter_rows_def split: if_splits)

lemma map_of_filter_key: "map_of (filter (\<lambda>(k, v). k \<noteq> x) r) k = (if k = x then None else map_of r k)"
  by (induction r) auto

lemma row_delete_row [simp]: "row (delete_row t k m) t' k' = (if t' = t \<and> k' = k then None else row m t' k')"
  by (simp add: row_def delete_row_def rows_filter_rows map_of_filter_key)

lemma map_of_filter_value:
  "distinct (map fst r) \<Longrightarrow> map_of (filter (\<lambda>(k, v). P k v) r) k = (case map_of r k of Some v \<Rightarrow> if P k v then Some v else None | None \<Rightarrow> None)"
proof (induction r)
  case (Cons a r)
  then show ?case by (cases a) (auto split: option.splits dest: map_of_SomeD simp: image_iff)
qed simp

lemma wf_rows_Nil [simp]: "wf_rows []"
  by (simp add: wf_rows_def)

lemma wf_rows_distinct: "wf_rows m \<Longrightarrow> distinct (map fst (rows m t))"
  by (auto simp: wf_rows_def rows_def list_all_iff split: option.split dest: map_of_SomeD)

lemma row_filter_rows:
  "wf_rows m \<Longrightarrow> row (filter_rows t P m) t' k =
    (if t' = t then case row m t k of Some v \<Rightarrow> if P k v then Some v else None | None \<Rightarrow> None else row m t' k)"
  by (simp add: row_def rows_filter_rows map_of_filter_value [OF wf_rows_distinct])

lemma wf_rows_put_row [simp]: "wf_rows m \<Longrightarrow> wf_rows (put_row t k v m)"
proof -
  assume wf: "wf_rows m"
  have "distinct (map fst (AList.update k v (rows m t)))" using wf_rows_distinct [OF wf] by (rule distinct_update)
  moreover have "set (AList.update t r m) \<subseteq> insert (t, r) (set m)" for r
    by (induction m) auto
  ultimately show ?thesis
    using wf by (fastforce simp: wf_rows_def put_row_def list_all_iff intro!: distinct_update)
qed

lemma wf_rows_filter_rows [simp]: "wf_rows m \<Longrightarrow> wf_rows (filter_rows t P m)"
  by (auto simp: wf_rows_def filter_rows_def list_all_iff comp_def split_beta distinct_map_filter)

lemma wf_rows_delete_row [simp]: "wf_rows m \<Longrightarrow> wf_rows (delete_row t k m)"
  by (simp add: delete_row_def)

lemma all_rows_iff: "wf_rows m \<Longrightarrow> (t, k, v) \<in> set (all_rows m) \<longleftrightarrow> row m t k = Some v"
proof -
  assume wf: "wf_rows m"
  have "(t, k, v) \<in> set (all_rows m) \<longleftrightarrow> (\<exists>r. (t, r) \<in> set m \<and> (k, v) \<in> set r)"
    by (force simp: all_rows_def)
  also have "\<dots> \<longleftrightarrow> (\<exists>r. map_of m t = Some r \<and> map_of r k = Some v)"
    using wf by (fastforce simp: wf_rows_def list_all_iff)
  also have "\<dots> \<longleftrightarrow> row m t k = Some v" by (auto simp: row_def rows_def split: option.split)
  finally show ?thesis .
qed

lemma all_rows_distinct: "wf_rows m \<Longrightarrow> distinct (map (\<lambda>(t, i, r). (t, i)) (all_rows m))"
proof -
  assume "wf_rows m"
  then have "distinct (concat (map (\<lambda>(t, r). map (\<lambda>(k, v). (t, k)) r) m))"
  proof (induction m)
    case (Cons x m)
    obtain t r where x: "x = (t, r)" by force
    have "map (\<lambda>(k, v). (t, k)) r = map (Pair t) (map fst r)" by auto
    moreover have "distinct (map fst r)" using Cons.prems x by (simp add: wf_rows_def)
    ultimately have "distinct (map (\<lambda>(k, v). (t, k)) r)" by (simp only: distinct_map) (simp add: inj_on_def)
    then show ?case using Cons x by (force simp: wf_rows_def)
  qed simp
  moreover have "map (\<lambda>(t, i, r). (t, i)) (all_rows m) = concat (map (\<lambda>(t, r). map (\<lambda>(k, v). (t, k)) r) m)"
    by (induction m) (auto simp: all_rows_def)
  ultimately show ?thesis by simp
qed

lemma row_AList_delete: "row (AList.delete t m) t' i = (if t' = t then None else row m t' i)"
  by (simp add: row_def rows_def delete_conv')

lemma wf_AList_delete: "wf_rows m \<Longrightarrow> wf_rows (AList.delete t m)"
  by (auto simp: wf_rows_def list_all_iff AList.delete_eq distinct_map_filter)

text \<open>A property of every row, kept by the operations on maps.\<close>

definition rows_satisfy :: "(string \<Rightarrow> string \<Rightarrow> 'a \<Rightarrow> bool) \<Rightarrow> 'a tenant_map \<Rightarrow> bool" where
  "rows_satisfy P m \<longleftrightarrow> wf_rows m \<and> (\<forall>t i r. row m t i = Some r \<longrightarrow> P t i r)"

lemma rows_satisfy_Nil [simp]: "rows_satisfy P []"
  by (simp add: rows_satisfy_def)

lemma rows_satisfy_put [intro]: "rows_satisfy P m \<Longrightarrow> P t i r \<Longrightarrow> rows_satisfy P (put_row t i r m)"
  by (auto simp: rows_satisfy_def)

lemma rows_satisfy_delete_row [intro]: "rows_satisfy P m \<Longrightarrow> rows_satisfy P (delete_row t i m)"
  by (auto simp: rows_satisfy_def)

lemma rows_satisfy_delete_tenant [intro]: "rows_satisfy P m \<Longrightarrow> rows_satisfy P (AList.delete t m)"
  by (auto simp: rows_satisfy_def row_AList_delete wf_AList_delete)

end
