(* ===== verification/Asset_Catalog.thy ===== *)
theory Asset_Catalog
  imports Go_Net Go_Maps Go_Hash "HOL-Library.Product_Lexorder"
begin

text \<open>
  The asset catalog (\<open>src/assetcatalog\<close>): endpoints, groups and services of every tenant with one shared
  namespace of aliases, the built-in entries, the transaction around every authored change, the
  reconciliation with a control plane, and the resolution of rule subjects to addresses, device
  identities and transports.  Deep copies are the identity on values.
\<close>

section \<open>Data\<close>

record port_proto =
  pp_Protocol :: string
  pp_Port :: int

record endpoint =
  ep_ID :: string
  ep_TenantID :: string
  ep_Alias :: string
  ep_Kind :: string
  ep_Platform :: string
  ep_Steered :: bool
  ep_Identity :: string
  ep_Address :: string
  ep_Tags :: "string list"
  ep_Source :: string
  ep_BuiltIn :: bool
  ep_Category :: string

record membership_rule =
  mr_Platform :: "string option"
  mr_Steered :: "bool option"
  mr_Tag :: string
  mr_Subnet :: string

record asset_group =
  gr_ID :: string
  gr_TenantID :: string
  gr_Alias :: string
  gr_Tier0 :: bool
  gr_StaticMembers :: "string list"
  gr_Dynamic :: "membership_rule option"
  gr_BuiltIn :: bool
  gr_Category :: string

record service =
  sv_ID :: string
  sv_TenantID :: string
  sv_Alias :: string
  sv_Ports :: "port_proto list"
  sv_BuiltIn :: bool

definition zero_endpoint :: endpoint where
  "zero_endpoint = \<lparr>ep_ID = [], ep_TenantID = [], ep_Alias = [], ep_Kind = [], ep_Platform = [], ep_Steered = False,
     ep_Identity = [], ep_Address = [], ep_Tags = [], ep_Source = [], ep_BuiltIn = False, ep_Category = []\<rparr>"

definition zero_group :: asset_group where
  "zero_group = \<lparr>gr_ID = [], gr_TenantID = [], gr_Alias = [], gr_Tier0 = False, gr_StaticMembers = [], gr_Dynamic = None,
     gr_BuiltIn = False, gr_Category = []\<rparr>"

definition zero_service :: service where
  "zero_service = \<lparr>sv_ID = [], sv_TenantID = [], sv_Alias = [], sv_Ports = [], sv_BuiltIn = False\<rparr>"

record catalog =
  ct_seq :: int
  ct_endpoints :: "endpoint tenant_map"
  ct_groups :: "asset_group tenant_map"
  ct_services :: "service tenant_map"
  ct_aliases :: "string tenant_map"
  ct_enrolledAliases :: "string tenant_map"
  ct_builtInEndpoints :: "(string \<times> endpoint) list"
  ct_builtInGroups :: "(string \<times> asset_group) list"
  ct_builtInServices :: "(string \<times> service) list"
  ct_generation :: "64 word"

definition NewStore :: catalog where
  "NewStore = \<lparr>ct_seq = 0, ct_endpoints = [], ct_groups = [], ct_services = [], ct_aliases = [],
     ct_enrolledAliases = [], ct_builtInEndpoints = [], ct_builtInGroups = [], ct_builtInServices = [], ct_generation = 0\<rparr>"

definition SetBuiltInServices :: "service list \<Rightarrow> catalog \<Rightarrow> catalog" where
  "SetBuiltInServices services s =
     s\<lparr>ct_builtInServices := fold (\<lambda>svc m. AList.update (sv_ID svc) (svc\<lparr>sv_BuiltIn := True\<rparr>) m) services []\<rparr>"

definition SetBuiltInCatalog :: "endpoint list \<Rightarrow> asset_group list \<Rightarrow> catalog \<Rightarrow> catalog" where
  "SetBuiltInCatalog endpoints groups s =
     s\<lparr>ct_builtInEndpoints := fold (\<lambda>e m. AList.update (ep_ID e) (e\<lparr>ep_BuiltIn := True\<rparr>) m) endpoints [],
       ct_builtInGroups := fold (\<lambda>g m. AList.update (gr_ID g) (g\<lparr>gr_BuiltIn := True\<rparr>) m) groups []\<rparr>"

section \<open>Aliases\<close>

definition nextIDLocked :: "string \<Rightarrow> catalog \<Rightarrow> string \<times> catalog" where
  "nextIDLocked pre s = (pre @ ''-'' @ Itoa (ct_seq s + 1), s\<lparr>ct_seq := ct_seq s + 1\<rparr>)"

definition alias_free :: "(string \<times> string) list \<Rightarrow> string \<Rightarrow> string \<Rightarrow> bool" where
  "alias_free used ownerID a = (case map_of used a of None \<Rightarrow> True | Some owner \<Rightarrow> owner = ownerID)"

definition numbered :: "string \<Rightarrow> int \<Rightarrow> string" where
  "numbered desired n = desired @ ''-'' @ Itoa n"

lemma numbered_inj: "numbered d m = numbered d n \<longleftrightarrow> m = n"
  by (simp add: numbered_def Itoa_eq_iff)

text \<open>The loop has no bound of its own; it ends because the aliases in use are finitely many.\<close>

function alias_suffix :: "(string \<times> string) list \<Rightarrow> string \<Rightarrow> string \<Rightarrow> int \<Rightarrow> string" where
  "alias_suffix used ownerID desired n =
     (if alias_free used ownerID (numbered desired n) then numbered desired n
      else alias_suffix used ownerID desired (n + 1))"
  by pat_completeness auto

termination
proof (relation "measure (\<lambda>(used, ownerID, desired, n). card {a \<in> fst ` set used. \<exists>m\<ge>n. a = numbered desired m})")
  fix used :: "(string \<times> string) list" and ownerID desired and n :: int
  assume "\<not> alias_free used ownerID (numbered desired n)"
  then have "numbered desired n \<in> fst ` set used"
    by (auto simp: alias_free_def split: option.splits dest: map_of_SomeD intro: rev_image_eqI)
  moreover have "numbered desired n \<notin> {a \<in> fst ` set used. \<exists>m\<ge>n + 1. a = numbered desired m}"
    by (simp add: numbered_inj)
  moreover have "{a \<in> fst ` set used. \<exists>m\<ge>n + 1. a = numbered desired m} \<subseteq> {a \<in> fst ` set used. \<exists>m\<ge>n. a = numbered desired m}"
    by (auto simp: numbered_inj)
  ultimately have "{a \<in> fst ` set used. \<exists>m\<ge>n + 1. a = numbered desired m} \<subset> {a \<in> fst ` set used. \<exists>m\<ge>n. a = numbered desired m}"
    by blast
  then show "((used, ownerID, desired, n + 1), used, ownerID, desired, n)
      \<in> measure (\<lambda>(used, ownerID, desired, n). card {a \<in> fst ` set used. \<exists>m\<ge>n. a = numbered desired m})"
    by (simp add: psubset_card_mono)
qed simp

declare alias_suffix.simps [simp del]

definition uniqueAliasLocked :: "catalog \<Rightarrow> string \<Rightarrow> string \<Rightarrow> string \<Rightarrow> string" where
  "uniqueAliasLocked s tenant desired ownerID =
     (let desired = TrimSpace desired; desired = (if desired = [] then ownerID else desired); used = rows (ct_aliases s) tenant
      in if alias_free used ownerID desired then desired else alias_suffix used ownerID desired 2)"

definition releaseAliasLocked :: "string \<Rightarrow> string \<Rightarrow> catalog \<Rightarrow> catalog" where
  "releaseAliasLocked tenant ownerID s =
     s\<lparr>ct_aliases := filter_rows tenant (\<lambda>a owner. owner \<noteq> ownerID) (ct_aliases s)\<rparr>"

definition claimAliasLocked :: "string \<Rightarrow> string \<Rightarrow> string \<Rightarrow> catalog \<Rightarrow> string \<times> catalog" where
  "claimAliasLocked tenant desired ownerID s =
     (let s = releaseAliasLocked tenant ownerID s; a = uniqueAliasLocked s tenant desired ownerID
      in (a, s\<lparr>ct_aliases := put_row tenant a ownerID (ct_aliases s)\<rparr>))"

section \<open>Candidate operations\<close>

text \<open>The result of an operation on a candidate: an error message, or a value and the changed candidate.\<close>

type_synonym 'a step = "catalog \<Rightarrow> string + 'a \<times> catalog"

definition upsertEndpointLocked :: "endpoint \<Rightarrow> endpoint step" where
  "upsertEndpointLocked e s =
     (let (i, s) = (if TrimSpace (ep_ID e) = [] then nextIDLocked ''ep'' s else (ep_ID e, s));
          e = e\<lparr>ep_ID := i\<rparr>;
          (a, s) = claimAliasLocked (ep_TenantID e) (ep_Alias e) i s;
          e = e\<lparr>ep_Alias := a\<rparr>;
          s = s\<lparr>ct_endpoints := put_row (ep_TenantID e) i e (ct_endpoints s)\<rparr>
      in Inr (e, if ep_Source e \<noteq> ''enrolled'' then s\<lparr>ct_generation := ct_generation s + 1\<rparr> else s))"

definition upsertEndpoint :: "endpoint \<Rightarrow> endpoint step" where
  "upsertEndpoint e s =
     (let e = e\<lparr>ep_TenantID := TrimSpace (ep_TenantID e)\<rparr>
      in if ep_TenantID e = [] then Inl ''tenant_id is required''
         else if ep_Kind e \<noteq> ''steered_device'' \<and> ep_Kind e \<noteq> ''network''
         then Inl (''endpoint kind '' @ Quote (ep_Kind e) @ '' is invalid'')
         else upsertEndpointLocked e s)"

definition upsertGroup :: "asset_group \<Rightarrow> asset_group step" where
  "upsertGroup g s =
     (let g = g\<lparr>gr_TenantID := TrimSpace (gr_TenantID g)\<rparr>
      in if gr_TenantID g = [] then Inl ''tenant_id is required''
         else
           let (i, s) = (if TrimSpace (gr_ID g) = [] then nextIDLocked ''grp'' s else (gr_ID g, s));
               g = g\<lparr>gr_ID := i\<rparr>;
               (a, s) = claimAliasLocked (gr_TenantID g) (gr_Alias g) i s;
               g = g\<lparr>gr_Alias := a\<rparr>
           in Inr (g, s\<lparr>ct_groups := put_row (gr_TenantID g) i g (ct_groups s), ct_generation := ct_generation s + 1\<rparr>))"

fun normalize_ports :: "port_proto list \<Rightarrow> string + port_proto list" where
  "normalize_ports [] = Inr []"
| "normalize_ports (p # ps) =
     (let p = p\<lparr>pp_Protocol := ToLower (TrimSpace (pp_Protocol p))\<rparr>
      in if pp_Protocol p \<noteq> ''tcp'' \<and> pp_Protocol p \<noteq> ''udp'' then Inl ''service protocol must be tcp or udp''
         else if pp_Port p < 1 \<or> pp_Port p > 65535 then Inl ''service port must be between 1 and 65535''
         else case normalize_ports ps of Inl err \<Rightarrow> Inl err | Inr ps \<Rightarrow> Inr (p # ps))"

definition normalizeServiceTransports :: "service \<Rightarrow> string + service" where
  "normalizeServiceTransports svc =
     (if length (sv_Ports svc) = 0 then Inl ''service requires at least one port''
      else case normalize_ports (sv_Ports svc) of Inl err \<Rightarrow> Inl err | Inr ps \<Rightarrow> Inr (svc\<lparr>sv_Ports := ps\<rparr>))"

definition loadServiceTransports :: "service \<Rightarrow> service" where
  "loadServiceTransports svc = (case normalizeServiceTransports svc of Inr n \<Rightarrow> n | Inl _ \<Rightarrow> svc)"

definition upsertService :: "service \<Rightarrow> service step" where
  "upsertService svc s =
     (let svc = svc\<lparr>sv_TenantID := TrimSpace (sv_TenantID svc)\<rparr>
      in if sv_TenantID svc = [] then Inl ''tenant_id is required''
         else case normalizeServiceTransports svc of
                Inl err \<Rightarrow> Inl err
              | Inr svc \<Rightarrow>
                  let (i, s) = (if TrimSpace (sv_ID svc) = [] then nextIDLocked ''svc'' s else (sv_ID svc, s));
                      svc = svc\<lparr>sv_ID := i\<rparr>;
                      (a, s) = claimAliasLocked (sv_TenantID svc) (sv_Alias svc) i s;
                      svc = svc\<lparr>sv_Alias := a\<rparr>
                  in Inr (svc, s\<lparr>ct_services := put_row (sv_TenantID svc) i svc (ct_services s),
                                 ct_generation := ct_generation s + 1\<rparr>))"

definition deleteEndpoint :: "string \<Rightarrow> string \<Rightarrow> bool step" where
  "deleteEndpoint tenant i s =
     (if map_of (ct_builtInEndpoints s) i \<noteq> None then Inr (False, s)
      else if row (ct_endpoints s) tenant i = None then Inr (False, s)
      else let s = releaseAliasLocked tenant i (s\<lparr>ct_endpoints := delete_row tenant i (ct_endpoints s)\<rparr>)
           in Inr (True, s\<lparr>ct_generation := ct_generation s + 1\<rparr>))"

definition deleteGroup :: "string \<Rightarrow> string \<Rightarrow> bool step" where
  "deleteGroup tenant i s =
     (if map_of (ct_builtInGroups s) i \<noteq> None then Inr (False, s)
      else if row (ct_groups s) tenant i = None then Inr (False, s)
      else let s = releaseAliasLocked tenant i (s\<lparr>ct_groups := delete_row tenant i (ct_groups s)\<rparr>)
           in Inr (True, s\<lparr>ct_generation := ct_generation s + 1\<rparr>))"

definition deleteService :: "string \<Rightarrow> string \<Rightarrow> bool step" where
  "deleteService tenant i s =
     (if row (ct_services s) tenant i = None then Inr (False, s)
      else let s = releaseAliasLocked tenant i (s\<lparr>ct_services := delete_row tenant i (ct_services s)\<rparr>)
           in Inr (True, s\<lparr>ct_generation := ct_generation s + 1\<rparr>))"

section \<open>Reading\<close>

definition GetEndpoint :: "catalog \<Rightarrow> string \<Rightarrow> string \<Rightarrow> endpoint option" where
  "GetEndpoint s tenant i =
     (case row (ct_endpoints s) tenant i of Some e \<Rightarrow> Some e | None \<Rightarrow> map_of (ct_builtInEndpoints s) i)"

definition ListEndpoints :: "catalog \<Rightarrow> string \<Rightarrow> endpoint list" where
  "ListEndpoints s tenant = sort_key ep_Alias (map snd (rows (ct_endpoints s) tenant) @ map snd (ct_builtInEndpoints s))"

definition ListGroups :: "catalog \<Rightarrow> string \<Rightarrow> asset_group list" where
  "ListGroups s tenant = sort_key gr_Alias (map snd (rows (ct_groups s) tenant) @ map snd (ct_builtInGroups s))"

definition ListServices :: "catalog \<Rightarrow> string \<Rightarrow> service list" where
  "ListServices s tenant =
     (let own = map snd (rows (ct_services s) tenant); seen = map (\<lambda>svc. ToLower (sv_Alias svc)) own
      in sort_key sv_Alias (own @ filter (\<lambda>svc. ToLower (sv_Alias svc) \<notin> set seen) (map snd (ct_builtInServices s))))"

definition hasTag :: "string list \<Rightarrow> string \<Rightarrow> bool" where
  "hasTag tags tag = list_ex (\<lambda>t. EqualFold (TrimSpace t) (TrimSpace tag)) tags"

definition addressInSubnet :: "string \<Rightarrow> string \<Rightarrow> bool" where
  "addressInSubnet address cidr =
     (case ParseCIDR (TrimSpace cidr) of
        None \<Rightarrow> False
      | Some n \<Rightarrow>
          (let host = takeWhile (\<lambda>c. c \<noteq> CHR ''/'') (TrimSpace address)
           in case ParseIP host of None \<Rightarrow> False | Some ip \<Rightarrow> net_Contains n ip))"

definition endpointMatchesRule :: "endpoint \<Rightarrow> membership_rule \<Rightarrow> bool" where
  "endpointMatchesRule e r =
     (if (case mr_Platform r of Some p \<Rightarrow> \<not> EqualFold (TrimSpace (ep_Platform e)) (TrimSpace p) | None \<Rightarrow> False) then False
      else if (case mr_Steered r of Some b \<Rightarrow> ep_Steered e \<noteq> b | None \<Rightarrow> False) then False
      else if mr_Tag r \<noteq> [] \<and> \<not> hasTag (ep_Tags e) (mr_Tag r) then False
      else if mr_Subnet r \<noteq> [] \<and> \<not> addressInSubnet (ep_Address e) (mr_Subnet r) then False
      else True)"

text \<open>A set collected in a map and returned in order.\<close>

abbreviation sorted_set :: "string list \<Rightarrow> string list" where
  "sorted_set xs \<equiv> sort (remdups xs)"

definition ResolveGroupMembers :: "catalog \<Rightarrow> string \<Rightarrow> string \<Rightarrow> string list" where
  "ResolveGroupMembers s tenant groupID =
     (case map_of (ct_builtInGroups s) groupID of
        Some bg \<Rightarrow> sorted_set (filter (\<lambda>i. map_of (ct_builtInEndpoints s) i \<noteq> None) (gr_StaticMembers bg))
      | None \<Rightarrow>
          (case row (ct_groups s) tenant groupID of
             None \<Rightarrow> []
           | Some g \<Rightarrow>
               sorted_set (filter (\<lambda>i. row (ct_endpoints s) tenant i \<noteq> None) (gr_StaticMembers g) @
                 (case gr_Dynamic g of
                    None \<Rightarrow> []
                  | Some r \<Rightarrow> map fst (filter (\<lambda>(i, e). endpointMatchesRule e r) (rows (ct_endpoints s) tenant))))))"

section \<open>Resolution of rule subjects\<close>

definition expand_subjects :: "catalog \<Rightarrow> string \<Rightarrow> string list \<Rightarrow> string list" where
  "expand_subjects s tenant ids =
     concat (map (\<lambda>i. if GetEndpoint s tenant i \<noteq> None then [i] else ResolveGroupMembers s tenant i) ids)"

definition subject_tokens :: "catalog \<Rightarrow> string \<Rightarrow> (endpoint \<Rightarrow> string) \<Rightarrow> string list \<Rightarrow> string list" where
  "subject_tokens s tenant token ids =
     filter (\<lambda>v. v \<noteq> []) (concat (map (\<lambda>i. case GetEndpoint s tenant i of Some ep \<Rightarrow> [token ep] | None \<Rightarrow> [])
       (expand_subjects s tenant ids)))"

definition ResolvePlatforms :: "catalog \<Rightarrow> string \<Rightarrow> string list \<Rightarrow> string list \<times> string list" where
  "ResolvePlatforms s tenant ids =
     (let eps = concat (map (\<lambda>i. case GetEndpoint s tenant i of Some ep \<Rightarrow> [ep] | None \<Rightarrow> []) (expand_subjects s tenant ids))
      in (sorted_set (filter (\<lambda>p. p \<noteq> []) (map ep_Platform eps)),
          sorted_set (map ep_Alias (filter (\<lambda>ep. ep_Platform ep = ''macos'') eps))))"

definition EndpointAddresses :: "catalog \<Rightarrow> string \<Rightarrow> string list \<Rightarrow> string list" where
  "EndpointAddresses s tenant ids = sorted_set (subject_tokens s tenant ep_Address ids)"

definition SourceDeviceTokens :: "catalog \<Rightarrow> string \<Rightarrow> string list \<Rightarrow> string list" where
  "SourceDeviceTokens s tenant ids = sorted_set (subject_tokens s tenant ep_Identity ids)"

definition DestinationTokens :: "catalog \<Rightarrow> string \<Rightarrow> string list \<Rightarrow> string list" where
  "DestinationTokens s tenant ids =
     sorted_set (subject_tokens s tenant (\<lambda>ep. if ep_Address ep \<noteq> [] then ep_Address ep else ep_Alias ep) ids)"

definition ServiceProtocols :: "catalog \<Rightarrow> string \<Rightarrow> string \<Rightarrow> string list" where
  "ServiceProtocols s tenant serviceID =
     (if TrimSpace serviceID = [] then []
      else case List.find (\<lambda>svc. sv_ID svc = serviceID) (ListServices s tenant) of
             Some svc \<Rightarrow> [ToLower (TrimSpace (sv_Alias svc))] | None \<Rightarrow> [])"

definition ServicePorts :: "catalog \<Rightarrow> string \<Rightarrow> string \<Rightarrow> int list" where
  "ServicePorts s tenant serviceID =
     (if TrimSpace serviceID = [] then []
      else case List.find (\<lambda>svc. sv_ID svc = serviceID) (ListServices s tenant) of
             Some svc \<Rightarrow> filter (\<lambda>p. p > 0) (map pp_Port (sv_Ports svc)) | None \<Rightarrow> [])"

type_synonym transports = "(string \<times> int list) list"

definition add_transport :: "port_proto \<Rightarrow> transports \<Rightarrow> transports" where
  "add_transport p out =
     AList.update (pp_Protocol p) ((case map_of out (pp_Protocol p) of Some ps \<Rightarrow> ps | None \<Rightarrow> []) @ [pp_Port p]) out"

definition ServiceTransportPorts :: "catalog \<Rightarrow> string \<Rightarrow> string \<Rightarrow> transports option" where
  "ServiceTransportPorts s tenant serviceID =
     (if serviceID = [] then None
      else case List.find (\<lambda>svc. sv_ID svc = serviceID) (ListServices s tenant) of
             None \<Rightarrow> None
           | Some svc \<Rightarrow>
               (case normalizeServiceTransports svc of
                  Inl _ \<Rightarrow> None
                | Inr valid \<Rightarrow> Some (fold add_transport (sv_Ports valid) [])))"

definition ServiceIncludesTransport :: "catalog \<Rightarrow> string \<Rightarrow> string \<Rightarrow> string \<Rightarrow> int \<Rightarrow> bool" where
  "ServiceIncludesTransport s tenant serviceID protocol port =
     (if TrimSpace serviceID = [] then False
      else case ServiceTransportPorts s tenant serviceID of
             None \<Rightarrow> False
           | Some m \<Rightarrow> (case map_of m protocol of None \<Rightarrow> False | Some ps \<Rightarrow> port \<in> set ps))"

end
