(* ===== verification/Policy_Rules.thy ===== *)
theory Policy_Rules
  imports Evaluator_Types Asset_Catalog
begin

text \<open>
  Authored rules (\<open>src/policyrule\<close>): the rule an operator edits, its validation, and its compilation
  into east-west rules, egress policies and inspection host sets.  A resolver is the functions it
  offers, as arguments; an interface the code only probes for is an optional function.
\<close>

section \<open>Rules\<close>

record rule_action =
  ra_Access :: string
  ra_Inspection :: string
  ra_RequireWorkloadAttestation :: bool
  ra_GrantTTLSeconds :: int
  ra_RequiredIdPID :: string
  ra_MinACR :: string
  ra_RequiredAMR :: "string list"
  ra_MaxAgeSeconds :: "int option"
  ra_DeviceAttestedAuto :: bool
  ra_DLP :: "dlp_spec option"

record authored_rule =
  ru_ID :: string
  ru_TenantID :: string
  ru_Plane :: string
  ru_Direction :: string
  ru_Priority :: int
  ru_Name :: string
  ru_Source :: "string list"
  ru_Destination :: "string list"
  ru_ServiceID :: string
  ru_Action :: rule_action
  ru_AllowedToolIDs :: "string list"
  ru_RiskAtLeast :: string
  ru_Status :: string
  ru_Stage :: string

definition zero_rule :: authored_rule where
  "zero_rule =
     \<lparr>ru_ID = [], ru_TenantID = [], ru_Plane = [], ru_Direction = [], ru_Priority = 0, ru_Name = [], ru_Source = [],
      ru_Destination = [], ru_ServiceID = [],
      ru_Action = \<lparr>ra_Access = [], ra_Inspection = [], ra_RequireWorkloadAttestation = False, ra_GrantTTLSeconds = 0,
        ra_RequiredIdPID = [], ra_MinACR = [], ra_RequiredAMR = [], ra_MaxAgeSeconds = None, ra_DeviceAttestedAuto = False,
        ra_DLP = None\<rparr>,
      ru_AllowedToolIDs = [], ru_RiskAtLeast = [], ru_Status = [], ru_Stage = []\<rparr>"

definition SubjectAny :: string where
  "SubjectAny = ''*''"

definition IsAnySubject :: "string list \<Rightarrow> bool" where
  "IsAnySubject ids = list_ex (\<lambda>i. TrimSpace i = SubjectAny) ids"

text \<open>The three tokens of a source that names an identity rather than a device share their shape.\<close>

definition identity_token :: "string \<Rightarrow> string \<Rightarrow> string option" where
  "identity_token pre i =
     (let s = TrimSpace i
      in if \<not> HasPrefix s pre then None
         else let g = TrimSpace (TrimPrefix s pre) in if g = [] then None else Some g)"

definition IdentityGroupToken :: "string \<Rightarrow> string option" where
  "IdentityGroupToken i = identity_token ''idgroup:'' i"

definition IdentityUserToken :: "string \<Rightarrow> string option" where
  "IdentityUserToken i = identity_token ''iduser:'' i"

definition AgentToken :: "string \<Rightarrow> string option" where
  "AgentToken i = identity_token ''nhi:'' i"

definition riskSeverityRank :: "(string \<times> int) list" where
  "riskSeverityRank = [(''low'', 1), (''medium'', 2), (''high'', 3), (''critical'', 4)]"

definition RiskSeveritiesAtLeast :: "string \<Rightarrow> string list" where
  "RiskSeveritiesAtLeast threshold =
     (case map_of riskSeverityRank (ToLower (TrimSpace threshold)) of
        None \<Rightarrow> []
      | Some minRank \<Rightarrow>
          filter (\<lambda>s. the (map_of riskSeverityRank s) \<ge> minRank) [''low'', ''medium'', ''high'', ''critical''])"

section \<open>Validation\<close>

definition validate_plane :: "authored_rule \<Rightarrow> string + authored_rule" where
  "validate_plane r =
     (let r = r\<lparr>ru_Plane := ToLower (TrimSpace (ru_Plane r))\<rparr>
      in if ru_Plane r = ''east_west'' then
           (let d = ToLower (TrimSpace (ru_Direction r)); d = (if d = [] then ''outbound'' else d)
            in if d \<noteq> ''outbound'' \<and> d \<noteq> ''inbound''
               then Inl (''east-west direction '' @ Quote d @ '' is invalid (want outbound|inbound)'')
               else Inr (r\<lparr>ru_Direction := d\<rparr>))
         else if ru_Plane r = ''egress'' then
           (if TrimSpace (ru_Direction r) \<noteq> [] then Inl ''egress rules have no direction'' else Inr r)
         else Inl (''plane '' @ Quote (ru_Plane r) @ '' is invalid (want east_west|egress)''))"

definition validate_action :: "rule_action \<Rightarrow> string + rule_action" where
  "validate_action a =
     (let a = a\<lparr>ra_Access := ToLower (TrimSpace (ra_Access a))\<rparr>
      in if ra_Access a \<notin> set [''allow'', ''authenticate'', ''deny'']
         then Inl (''access '' @ Quote (ra_Access a) @ '' is invalid (want allow|authenticate|deny)'')
         else
           let i = ToLower (TrimSpace (ra_Inspection a)); a = a\<lparr>ra_Inspection := (if i = [] then ''inspect'' else i)\<rparr>
           in if ra_Inspection a \<noteq> ''inspect'' \<and> ra_Inspection a \<noteq> ''bypass''
              then Inl (''inspection '' @ Quote (ra_Inspection a) @ '' is invalid (want inspect|bypass)'')
              else if ra_Access a = ''deny'' \<and> ra_Inspection a = ''bypass'' then Inl ''deny cannot bypass inspection''
              else if ra_GrantTTLSeconds a < 0 then Inl ''grant_ttl_seconds cannot be negative''
              else if (case ra_MaxAgeSeconds a of Some m \<Rightarrow> m < 0 \<or> m > 86400 | None \<Rightarrow> False)
              then Inl ''max_age_seconds must be an integer from 0 to 86400''
              else Inr a)"

definition validate_subjects :: "authored_rule \<Rightarrow> string + authored_rule" where
  "validate_subjects r =
     (if ru_Source r = [] then Inl ''source requires at least one endpoint or group (or Any)''
      else if ru_Destination r = [] then Inl ''destination requires at least one endpoint or group (or Any)''
      else if list_ex (\<lambda>i. TrimSpace i = []) (ru_Source r) then Inl ''source contains a blank id''
      else if list_ex (\<lambda>i. TrimSpace i = []) (ru_Destination r) then Inl ''destination contains a blank id''
      else Inr (r\<lparr>ru_Source := (if IsAnySubject (ru_Source r) then [SubjectAny] else ru_Source r),
                  ru_Destination := (if IsAnySubject (ru_Destination r) then [SubjectAny] else ru_Destination r)\<rparr>))"

definition validate_lifecycle :: "authored_rule \<Rightarrow> string + authored_rule" where
  "validate_lifecycle r =
     (let risk = ToLower (TrimSpace (ru_RiskAtLeast r)); risk = (if risk = ''none'' then [] else risk);
          status = ToLower (TrimSpace (ru_Status r)); status = (if status = [] then ''active'' else status);
          stage = ToLower (TrimSpace (ru_Stage r)); stage = (if stage = [] then ''enforce'' else stage)
      in if risk \<noteq> [] \<and> map_of riskSeverityRank risk = None
         then Inl (''risk_at_least '' @ Quote risk @ '' is invalid (want low|medium|high|critical)'')
         else if status \<noteq> ''active'' \<and> status \<noteq> ''disabled''
         then Inl (''status '' @ Quote status @ '' is invalid (want active|disabled)'')
         else if stage \<noteq> ''enforce'' \<and> stage \<noteq> ''warn''
         then Inl (''stage '' @ Quote stage @ '' is invalid (want enforce|warn)'')
         else if stage = ''warn'' \<and> ru_Plane r \<noteq> ''east_west'' then Inl ''stage warn is only valid on east-west rules''
         else Inr (r\<lparr>ru_RiskAtLeast := risk, ru_Status := status, ru_Stage := stage\<rparr>))"

definition normalizeAndValidate :: "authored_rule \<Rightarrow> string + authored_rule" where
  "normalizeAndValidate r =
     (let r = r\<lparr>ru_TenantID := TrimSpace (ru_TenantID r)\<rparr>
      in if ru_TenantID r = [] then Inl ''tenant_id is required''
         else case validate_plane r of
                Inl err \<Rightarrow> Inl err
              | Inr r \<Rightarrow>
                  (case validate_action (ru_Action r) of
                     Inl err \<Rightarrow> Inl err
                   | Inr a \<Rightarrow>
                       (case validate_subjects (r\<lparr>ru_Action := a\<rparr>) of
                          Inl err \<Rightarrow> Inl err
                        | Inr r \<Rightarrow> validate_lifecycle r)))"

section \<open>East-west\<close>

definition sourceNoMatchSentinel :: string where
  "sourceNoMatchSentinel = CHR 0x00 # ''no-such-source-device''"

definition destinationNoMatchSentinel :: string where
  "destinationNoMatchSentinel = CHR 0x00 # ''no-such-destination''"

type_synonym subjects = "string \<Rightarrow> string list \<Rightarrow> string list"
type_synonym service_ports = "string \<Rightarrow> string \<Rightarrow> transports option"

definition east_west_applies :: "string \<Rightarrow> authored_rule \<Rightarrow> bool" where
  "east_west_applies tenant r \<longleftrightarrow>
     \<not> ((ru_TenantID r \<noteq> [] \<and> ru_TenantID r \<noteq> tenant) \<or> ru_Plane r \<noteq> ''east_west'' \<or> ru_Status r \<noteq> ''active'' \<or>
        ru_Direction r \<noteq> ''outbound'')"

definition resolved_or_sentinel :: "string list \<Rightarrow> string list \<Rightarrow> string \<Rightarrow> string list" where
  "resolved_or_sentinel subject tokens sentinel =
     (if IsAnySubject subject then [] else if tokens = [] then [sentinel] else tokens)"

definition compile_east_west_rule :: "subjects \<Rightarrow> subjects \<Rightarrow> service_ports \<Rightarrow> string \<Rightarrow> authored_rule \<Rightarrow> east_west_rule" where
  "compile_east_west_rule src dst svc tenant r =
     (let a = ru_Action r;
          ew = zero_east_west_rule\<lparr>er_ID := ru_ID r, er_Priority := ru_Priority r,
            er_SourceDevices := resolved_or_sentinel (ru_Source r) (src tenant (ru_Source r)) sourceNoMatchSentinel,
            er_Destinations := resolved_or_sentinel (ru_Destination r) (dst tenant (ru_Destination r)) destinationNoMatchSentinel,
            er_Mode := ra_Access a, er_Warn := (ru_Stage r = ''warn''), er_RequiredIdPID := ra_RequiredIdPID a,
            er_MinACR := ra_MinACR a, er_RequiredAMR := ra_RequiredAMR a, er_DeviceAttestedAuto := ra_DeviceAttestedAuto a,
            er_RequiredWorkloadAttestation := ra_RequireWorkloadAttestation a,
            er_RiskSeverities := RiskSeveritiesAtLeast (ru_RiskAtLeast r)\<rparr>;
          ew = (case ra_MaxAgeSeconds a of Some m \<Rightarrow> ew\<lparr>er_MaxAgeSeconds := m, er_MaxAgeSecondsSet := True\<rparr> | None \<Rightarrow> ew);
          ew = (if ru_ServiceID r \<noteq> []
                then ew\<lparr>er_Protocols := [''__dsse_transport_port_service__''],
                        er_ServiceTransportPorts := (case svc tenant (ru_ServiceID r) of Some m \<Rightarrow> Some m | None \<Rightarrow> Some [])\<rparr>
                else ew)
      in if ra_GrantTTLSeconds a > 0 then ew\<lparr>er_MaxTTLSeconds := ra_GrantTTLSeconds a\<rparr> else ew)"

definition CompileEastWest :: "subjects \<Rightarrow> subjects \<Rightarrow> service_ports \<Rightarrow> string \<Rightarrow> authored_rule list \<Rightarrow> east_west_rule list" where
  "CompileEastWest src dst svc tenant rules =
     map (compile_east_west_rule src dst svc tenant) (filter (east_west_applies tenant) rules)"

section \<open>Egress\<close>

definition transport_condition :: "transports \<Rightarrow> string \<Rightarrow> metadata list" where
  "transport_condition transports protocol =
     (let ports = sort (remdups (case map_of transports protocol of Some ps \<Rightarrow> ps | None \<Rightarrow> []))
      in case ports of
           [] \<Rightarrow> []
         | [p] \<Rightarrow> [[(''protocol'', AStr protocol), (''destination_port'', AInt p)]]
         | _ \<Rightarrow> [[(''protocol'', AStr protocol), (''destination_port'', AList (map AInt ports))]])"

definition valid_transport :: "string \<times> int list \<Rightarrow> bool" where
  "valid_transport = (\<lambda>(protocol, ports). (protocol = ''tcp'' \<or> protocol = ''udp'') \<and> ports \<noteq> [] \<and>
     list_all (\<lambda>p. 1 \<le> p \<and> p \<le> 65535) ports)"

definition egressServiceConditions :: "service_ports option \<Rightarrow> string \<Rightarrow> string \<Rightarrow> metadata list \<times> bool" where
  "egressServiceConditions svc tenant serviceID =
     (if serviceID = [] then ([[]], True)
      else
        let noMatch = [[(''protocol'', AList [])]]
        in case svc of
             None \<Rightarrow> (noMatch, False)
           | Some f \<Rightarrow>
               (let transports = (case f tenant serviceID of Some m \<Rightarrow> m | None \<Rightarrow> [])
                in if length transports = 0 \<or> \<not> list_all valid_transport transports then (noMatch, False)
                   else (concat (map (transport_condition transports) [''tcp'', ''udp'']), True)))"

definition EgressServiceUnresolved :: "service_ports option \<Rightarrow> string \<Rightarrow> string \<Rightarrow> bool" where
  "EgressServiceUnresolved svc tenant serviceID = (\<not> snd (egressServiceConditions svc tenant serviceID))"

text \<open>The decision and the step-up metadata of an access value; other values are skipped.\<close>

definition egress_decision :: "rule_action \<Rightarrow> (string \<times> metadata) option" where
  "egress_decision a =
     (if ra_Access a = ''allow'' then Some (''allow'', [])
      else if ra_Access a = ''deny'' then Some (''deny'', [])
      else if ra_Access a = ''authenticate'' then
        Some (''require_reauthentication'',
          puts [put_str ''required_idp_id'' (ra_RequiredIdPID a), put_str ''min_acr'' (ra_MinACR a),
                (length (ra_RequiredAMR a) > 0, ''required_amr'', AStr (Join (ra_RequiredAMR a) '','')),
                (ra_GrantTTLSeconds a > 0, ''grant_ttl_seconds'', AInt (ra_GrantTTLSeconds a)),
                (ra_MaxAgeSeconds a \<noteq> None, ''max_age_seconds'', AInt (the (ra_MaxAgeSeconds a)))] [])
      else None)"

definition is_identity :: "string \<Rightarrow> bool" where
  "is_identity s \<longleftrightarrow> IdentityGroupToken s \<noteq> None \<or> IdentityUserToken s \<noteq> None \<or> AgentToken s \<noteq> None"

definition identity_groups :: "string list \<Rightarrow> string list" where
  "identity_groups source = List.map_filter IdentityGroupToken source"

definition identity_users :: "string list \<Rightarrow> string list" where
  "identity_users source = List.map_filter IdentityUserToken (filter (\<lambda>s. IdentityGroupToken s = None) source)"

definition agent_ids :: "string list \<Rightarrow> string list" where
  "agent_ids source =
     List.map_filter AgentToken (filter (\<lambda>s. IdentityGroupToken s = None \<and> IdentityUserToken s = None) source)"

definition value_list :: "string list \<Rightarrow> any" where
  "value_list vs = AList (map AStr vs)"

definition source_conditions :: "subjects \<Rightarrow> string \<Rightarrow> string list \<Rightarrow> metadata list" where
  "source_conditions src tenant source =
     (if IsAnySubject source then [[]]
      else
        let deviceIDs = filter (\<lambda>s. \<not> is_identity s) source; devices = src tenant deviceIDs;
            conds =
              (if deviceIDs \<noteq> []
               then [[(''device_id'', value_list (if devices = [] then [sourceNoMatchSentinel] else devices))]] else []) @
              (if identity_groups source \<noteq> [] then [[(''user_groups'', value_list (identity_groups source))]] else []) @
              (if identity_users source \<noteq> [] then [[(''user_id'', value_list (identity_users source))]] else []) @
              (if agent_ids source \<noteq> [] then [[(''actor_nhi_id'', value_list (agent_ids source))]] else [])
        in if conds = [] then [[(''device_id'', value_list [sourceNoMatchSentinel])]] else conds)"

definition merge_conditions :: "metadata \<Rightarrow> metadata \<Rightarrow> metadata" where
  "merge_conditions m n = fold (\<lambda>(k, v). AList.update k v) n m"

definition risk_condition :: "authored_rule \<Rightarrow> metadata" where
  "risk_condition r =
     (let vs = RiskSeveritiesAtLeast (ru_RiskAtLeast r) in if vs \<noteq> [] then [(''risk_state_severity'', value_list vs)] else [])"

definition transport_suffix :: "metadata list \<Rightarrow> metadata \<Rightarrow> string" where
  "transport_suffix transports t =
     (if length transports > 1 then ''-'' @ (case map_of t ''protocol'' of Some (AStr p) \<Rightarrow> p | _ \<Rightarrow> []) else [])"

definition append_policy ::
  "string \<Rightarrow> authored_rule \<Rightarrow> string \<times> metadata \<Rightarrow> metadata list \<Rightarrow> metadata list \<Rightarrow> string \<Rightarrow> metadata \<Rightarrow> policy list" where
  "append_policy tenant r dec sourceConds transports idSuffix hostConditions =
     concat (map (\<lambda>(si, sc). map (\<lambda>transport.
       zero_policy\<lparr>
         pol_ID := ''rule-egress-'' @ ru_ID r @
           (if length sourceConds > 1 then idSuffix @ ''-s'' @ Itoa (int si) else idSuffix) @ transport_suffix transports transport,
         pol_TenantID := tenant, pol_Name := ''Authored egress rule '' @ ru_ID r, pol_Priority := ru_Priority r,
         pol_Status := ''active'',
         pol_Conditions := merge_conditions (merge_conditions (merge_conditions (merge_conditions [] hostConditions) sc) transport)
           (risk_condition r),
         pol_Action := \<lparr>pa_Decision = fst dec\<rparr>, pol_DLP := ra_DLP (ru_Action r), pol_AllowedToolIDs := ru_AllowedToolIDs r,
         pol_RequiredWorkloadAttestation := ra_RequireWorkloadAttestation (ru_Action r), pol_Metadata := snd dec\<rparr>)
       transports) (enumerate 0 sourceConds))"

definition host_conditions :: "subjects \<Rightarrow> string \<Rightarrow> string list \<Rightarrow> (string \<times> metadata) list" where
  "host_conditions addresses tenant destination =
     (if IsAnySubject destination then [(''-any'', [])]
      else
        let resolved = filter (\<lambda>(i, addr). TrimSpace addr \<noteq> []) (enumerate 0 (addresses tenant destination))
        in if resolved = [] then [(''-nomatch'', [(''fqdn'', AStr destinationNoMatchSentinel)])]
           else concat (map (\<lambda>(i, addr).
                  [(''-'' @ Itoa (int i) @ ''-fqdn'', [(''fqdn'', AStr addr)]),
                   (''-'' @ Itoa (int i) @ ''-sni'', [(''sni'', AStr addr)])]) resolved))"

definition egress_applies :: "string \<Rightarrow> authored_rule \<Rightarrow> bool" where
  "egress_applies tenant r \<longleftrightarrow>
     \<not> ((ru_TenantID r \<noteq> [] \<and> ru_TenantID r \<noteq> tenant) \<or> ru_Plane r \<noteq> ''egress'' \<or> ru_Status r \<noteq> ''active'')"

definition egress_transports :: "service_ports option \<Rightarrow> string \<Rightarrow> authored_rule \<Rightarrow> metadata list" where
  "egress_transports svc tenant r =
     (let (transports, resolved) = egressServiceConditions svc tenant (ru_ServiceID r)
      in if \<not> resolved \<and> ra_Access (ru_Action r) \<noteq> ''allow'' then [[]] else transports)"

definition compile_egress_rule :: "subjects \<Rightarrow> subjects \<Rightarrow> service_ports option \<Rightarrow> string \<Rightarrow> authored_rule \<Rightarrow> policy list" where
  "compile_egress_rule src addresses svc tenant r =
     (case egress_decision (ru_Action r) of
        None \<Rightarrow> []
      | Some dec \<Rightarrow>
          concat (map (\<lambda>(suffix, host).
            append_policy tenant r dec (source_conditions src tenant (ru_Source r)) (egress_transports svc tenant r) suffix host)
            (host_conditions addresses tenant (ru_Destination r))))"

definition CompileEgressPolicies ::
  "subjects \<Rightarrow> subjects \<Rightarrow> service_ports option \<Rightarrow> string \<Rightarrow> authored_rule list \<Rightarrow> policy list" where
  "CompileEgressPolicies src addresses svc tenant rules =
     concat (map (compile_egress_rule src addresses svc tenant) (filter (egress_applies tenant) rules))"

section \<open>Inspection hosts\<close>

definition InspectionSourceWarning :: "subjects option \<Rightarrow> string \<Rightarrow> authored_rule \<Rightarrow> string" where
  "InspectionSourceWarning src tenant r =
     (if ru_Plane r \<noteq> ''egress'' \<or> IsAnySubject (ru_Source r) \<or> ra_Access (ru_Action r) = ''deny'' then []
      else if list_ex (\<lambda>i. let i = TrimSpace i in HasPrefix i ''idgroup:'' \<or> HasPrefix i ''iduser:'' \<or> HasPrefix i ''nhi:'') (ru_Source r)
      then ''identity_context_unavailable''
      else if (case src of Some f \<Rightarrow> list_ex (\<lambda>d. d \<noteq> [] \<and> d = TrimSpace d) (f tenant (ru_Source r)) | None \<Rightarrow> False) then []
      else ''no_resolved_device'')"

definition inspectionServiceApplies ::
  "(string \<Rightarrow> string \<Rightarrow> string \<Rightarrow> int \<Rightarrow> bool) option \<Rightarrow> string \<Rightarrow> string \<Rightarrow> bool" where
  "inspectionServiceApplies includes tenant serviceID =
     (if serviceID = [] then True else case includes of Some f \<Rightarrow> f tenant serviceID ''tcp'' 443 | None \<Rightarrow> False)"

record inspection_host_selection =
  hs_AnySource :: "string list"
  hs_ByDevice :: "(string \<times> string list) list"

definition inspection_rule_applies ::
  "(string \<Rightarrow> string \<Rightarrow> string \<Rightarrow> int \<Rightarrow> bool) option \<Rightarrow> string \<Rightarrow> string \<Rightarrow> authored_rule \<Rightarrow> bool" where
  "inspection_rule_applies includes tenant inspection r \<longleftrightarrow>
     \<not> ((ru_TenantID r \<noteq> [] \<and> ru_TenantID r \<noteq> tenant) \<or> ru_Plane r \<noteq> ''egress'' \<or> ru_Status r \<noteq> ''active'' \<or>
        ra_Inspection (ru_Action r) \<noteq> inspection \<or> ra_Access (ru_Action r) = ''deny'' \<or>
        \<not> inspectionServiceApplies includes tenant (ru_ServiceID r))"

definition inspection_hosts :: "subjects \<Rightarrow> string \<Rightarrow> authored_rule \<Rightarrow> string list" where
  "inspection_hosts addresses tenant r =
     (if IsAnySubject (ru_Destination r) then [SubjectAny] else addresses tenant (ru_Destination r))"

definition inspection_any_source :: "subjects option \<Rightarrow> string \<Rightarrow> string \<Rightarrow> authored_rule \<Rightarrow> bool" where
  "inspection_any_source src tenant inspection r \<longleftrightarrow>
     IsAnySubject (ru_Source r) \<or> (inspection = ''inspect'' \<and> InspectionSourceWarning src tenant r \<noteq> [])"

definition inspection_devices :: "subjects option \<Rightarrow> string \<Rightarrow> authored_rule \<Rightarrow> string list" where
  "inspection_devices src tenant r =
     (case src of
        None \<Rightarrow> []
      | Some f \<Rightarrow>
          (let ids = filter (\<lambda>i. \<not> (i \<noteq> TrimSpace i \<or> i = [] \<or> HasPrefix i ''idgroup:'' \<or> HasPrefix i ''iduser:'' \<or> HasPrefix i ''nhi:''))
                 (ru_Source r)
           in if ids = [] then [] else filter (\<lambda>d. \<not> (d = [] \<or> d \<noteq> TrimSpace d)) (f tenant ids)))"

definition EgressInspectionHosts ::
  "subjects option \<Rightarrow> subjects \<Rightarrow> (string \<Rightarrow> string \<Rightarrow> string \<Rightarrow> int \<Rightarrow> bool) option \<Rightarrow> string \<Rightarrow> authored_rule list \<Rightarrow> string \<Rightarrow>
    inspection_host_selection" where
  "EgressInspectionHosts src addresses includes tenant rules inspection =
     (if inspection \<noteq> ''inspect'' \<and> inspection \<noteq> ''bypass'' then \<lparr>hs_AnySource = [], hs_ByDevice = []\<rparr>
      else
        let rs = filter (inspection_rule_applies includes tenant inspection) rules;
            anyRules = filter (inspection_any_source src tenant inspection) rs;
            deviceRules = filter (\<lambda>r. \<not> inspection_any_source src tenant inspection r) rs;
            pairs = concat (map (\<lambda>r. concat (map (\<lambda>d. map (Pair d) (inspection_hosts addresses tenant r))
                      (inspection_devices src tenant r))) deviceRules)
        in \<lparr>hs_AnySource = sort (remdups (concat (map (inspection_hosts addresses tenant) anyRules))),
            hs_ByDevice = map (\<lambda>d. (d, sort (remdups (map snd (filter (\<lambda>p. fst p = d) pairs))))) (remdups (map fst pairs))\<rparr>)"

definition EgressBypassFQDNs ::
  "subjects option \<Rightarrow> subjects \<Rightarrow> (string \<Rightarrow> string \<Rightarrow> string \<Rightarrow> int \<Rightarrow> bool) option \<Rightarrow> string \<Rightarrow> authored_rule list \<Rightarrow> string list" where
  "EgressBypassFQDNs src addresses includes tenant rules =
     hs_AnySource (EgressInspectionHosts src addresses includes tenant rules ''bypass'')"

definition EgressInspectFQDNs ::
  "subjects option \<Rightarrow> subjects \<Rightarrow> (string \<Rightarrow> string \<Rightarrow> string \<Rightarrow> int \<Rightarrow> bool) option \<Rightarrow> string \<Rightarrow> authored_rule list \<Rightarrow> string list" where
  "EgressInspectFQDNs src addresses includes tenant rules =
     hs_AnySource (EgressInspectionHosts src addresses includes tenant rules ''inspect'')"

end
