(* ===== verification/Catalog_Transactions.thy ===== *)
theory Catalog_Transactions
  imports Asset_Catalog
begin

text \<open>
  The public operations of the asset catalog (\<open>src/assetcatalog\<close>: \<open>transaction.go\<close>, \<open>enrolled.go\<close>,
  \<open>application.go\<close>, \<open>certpin.go\<close>, \<open>erasure.go\<close>, \<open>distribution.go\<close>).  Every authored change is applied
  to a candidate, saved, and published only when the save is confirmed.  What the store answers to a
  save is a parameter; the path through a shared database is not modelled.
\<close>

section \<open>The saved state\<close>

record persisted_catalog =
  pc_Generation :: "64 word"
  pc_EnrolledAliases :: "string tenant_map"
  pc_Seq :: int
  pc_Endpoints :: "endpoint tenant_map"
  pc_Groups :: "asset_group tenant_map"
  pc_Services :: "service tenant_map"
  pc_Aliases :: "string tenant_map"

definition authoredStateLocked :: "catalog \<Rightarrow> persisted_catalog" where
  "authoredStateLocked s =
     \<lparr>pc_Generation = ct_generation s, pc_EnrolledAliases = ct_enrolledAliases s, pc_Seq = ct_seq s,
      pc_Endpoints = fold (\<lambda>(t, i, e) m. if ep_Source e = ''enrolled'' then m else put_row t i e m) (all_rows (ct_endpoints s)) [],
      pc_Groups = ct_groups s, pc_Services = ct_services s,
      pc_Aliases = fold (\<lambda>(t, a, i) m.
        if HasPrefix i ''enrolled-'' \<and> (case row (ct_enrolledAliases s) t i of Some x \<Rightarrow> x | None \<Rightarrow> []) \<noteq> a
        then m else put_row t a i m)
        (all_rows (ct_aliases s)) []\<rparr>"

text \<open>An empty map of enrolled aliases is omitted from the saved text, so that loading it changes nothing.\<close>

definition loadLocked :: "persisted_catalog option \<Rightarrow> catalog \<Rightarrow> catalog" where
  "loadLocked snap s =
     (case snap of
        None \<Rightarrow> s
      | Some p \<Rightarrow>
          s\<lparr>ct_enrolledAliases := (if pc_EnrolledAliases p = [] then ct_enrolledAliases s else pc_EnrolledAliases p),
            ct_endpoints := pc_Endpoints p, ct_groups := pc_Groups p,
            ct_services := map (\<lambda>(t, r). (t, map (\<lambda>(i, svc). (i, loadServiceTransports svc)) r)) (pc_Services p),
            ct_aliases := pc_Aliases p,
            ct_generation := (if pc_Generation p > ct_generation s then pc_Generation p else ct_generation s),
            ct_seq := (if pc_Seq p > ct_seq s then pc_Seq p else ct_seq s)\<rparr>)"

datatype save_result = Saved | SaveFailed string | DurabilityUnconfirmed string

text \<open>The result of a public operation: the caller's answer and the live catalog afterwards.\<close>

definition mutateCatalog :: "(persisted_catalog \<Rightarrow> save_result) \<Rightarrow> 'a step \<Rightarrow> catalog \<Rightarrow> (string + 'a) \<times> catalog" where
  "mutateCatalog save apply s =
     (case apply s of
        Inl err \<Rightarrow> (Inl err, s)
      | Inr (result, n) \<Rightarrow>
          if ct_generation n = ct_generation s then (Inr result, s)
          else (case save (authoredStateLocked n) of
                  Saved \<Rightarrow> (Inr result, n)
                | SaveFailed e \<Rightarrow> (Inl (''asset catalog persistence was not confirmed: persist asset catalog: '' @ e), s)
                | DurabilityUnconfirmed e \<Rightarrow>
                    (Inl (''asset catalog persistence was not confirmed: persist asset catalog: '' @ e), n)))"

section \<open>Endpoints derived from the inventory\<close>

record enrolled_device =
  dv_Identity :: string
  dv_Name :: string
  dv_Platform :: string

definition enrolledEndpointID :: "string \<Rightarrow> string" where
  "enrolledEndpointID identity =
     ''enrolled-'' @ EncodeToString (take 10 (sha256 (map byte (ToLower (TrimSpace identity)))))"

definition syncEnrolledEndpoint :: "endpoint \<Rightarrow> endpoint step" where
  "syncEnrolledEndpoint e s =
     (let e = (case row (ct_endpoints s) (ep_TenantID e) (ep_ID e) of Some c \<Rightarrow> e\<lparr>ep_Alias := ep_Alias c\<rparr> | None \<Rightarrow> e);
          e = (case row (ct_enrolledAliases s) (ep_TenantID e) (ep_ID e) of Some a \<Rightarrow> e\<lparr>ep_Alias := a\<rparr> | None \<Rightarrow> e)
      in upsertEndpointLocked e s)"

definition enrolled_endpoint :: "string \<Rightarrow> enrolled_device \<Rightarrow> endpoint" where
  "enrolled_endpoint tenantID d =
     (let identity = TrimSpace (dv_Identity d); name = TrimSpace (dv_Name d)
      in zero_endpoint\<lparr>ep_ID := enrolledEndpointID identity, ep_TenantID := tenantID,
           ep_Alias := (if name = [] then identity else name), ep_Kind := ''steered_device'',
           ep_Platform := TrimSpace (dv_Platform d), ep_Steered := True, ep_Identity := identity,
           ep_Source := ''enrolled''\<rparr>)"

fun sync_devices :: "string \<Rightarrow> enrolled_device list \<Rightarrow> endpoint list \<Rightarrow> catalog \<Rightarrow> endpoint list \<times> catalog" where
  "sync_devices tenantID [] out s = (out, s)"
| "sync_devices tenantID (d # ds) out s =
     (if TrimSpace (dv_Identity d) = [] then sync_devices tenantID ds out s
      else case syncEnrolledEndpoint (enrolled_endpoint tenantID d) s of
             Inl _ \<Rightarrow> sync_devices tenantID ds out s
           | Inr (e, s) \<Rightarrow> sync_devices tenantID ds (out @ [e]) s)"

definition SyncEnrolledEndpoints :: "string \<Rightarrow> enrolled_device list \<Rightarrow> catalog \<Rightarrow> endpoint list \<times> catalog" where
  "SyncEnrolledEndpoints tenantID devices s =
     (if TrimSpace tenantID = [] then ([], s) else sync_devices (TrimSpace tenantID) devices [] s)"

section \<open>Ownership of endpoints\<close>

definition certPinEndpoint :: "endpoint \<Rightarrow> bool" where
  "certPinEndpoint e \<longleftrightarrow> ep_Source e = ''cert_pin'' \<or> HasPrefix (ep_ID e) ''certpin-ep-''"

definition ErrCertPinEndpointOwnership :: string where
  "ErrCertPinEndpointOwnership = ''cert-pin destinations must be managed through bypass review, not the endpoint catalog''"

definition ErrApplicationEndpointOwnership :: string where
  "ErrApplicationEndpointOwnership = ''application endpoint ownership requires endpoint write permission''"

definition rename_enrolled :: "endpoint \<Rightarrow> endpoint \<Rightarrow> endpoint step" where
  "rename_enrolled e current s =
     (if e\<lparr>ep_Alias := ep_Alias current\<rparr> \<noteq> current then Inl ''only the enrolled endpoint name may be changed''
      else case upsertEndpoint e s of
             Inl err \<Rightarrow> Inl err
           | Inr (saved, s) \<Rightarrow>
               Inr (saved, s\<lparr>ct_enrolledAliases := put_row (ep_TenantID e) (ep_ID e) (ep_Alias saved) (ct_enrolledAliases s),
                             ct_generation := ct_generation s + 1\<rparr>))"

definition upsert_authored :: "endpoint \<Rightarrow> endpoint step" where
  "upsert_authored e s =
     (let found = GetEndpoint s (ep_TenantID e) (ep_ID e);
          current_is = (\<lambda>P. case found of Some c \<Rightarrow> P c | None \<Rightarrow> False)
      in if certPinEndpoint e \<or> current_is certPinEndpoint then Inl ErrCertPinEndpointOwnership
         else if ep_Source e = ''application'' \<or> current_is (\<lambda>c. ep_Source c = ''application'')
         then Inl ErrApplicationEndpointOwnership
         else if ep_Source e = ''enrolled'' \<or> HasPrefix (ep_ID e) ''enrolled-'' \<or> current_is (\<lambda>c. ep_Source c = ''enrolled'')
         then (case found of
                 None \<Rightarrow> Inl ''enrolled endpoint must come from inventory''
               | Some c \<Rightarrow>
                   if ep_Source c \<noteq> ''enrolled'' \<or> ep_ID c \<noteq> enrolledEndpointID (ep_Identity c)
                   then Inl ''enrolled endpoint must come from inventory''
                   else rename_enrolled e c s)
         else upsertEndpoint e s)"

definition UpsertEndpointContext ::
  "(persisted_catalog \<Rightarrow> save_result) \<Rightarrow> endpoint \<Rightarrow> catalog \<Rightarrow> (string + endpoint) \<times> catalog" where
  "UpsertEndpointContext save e s = mutateCatalog save (upsert_authored e) s"

definition UpsertEndpoint ::
  "(persisted_catalog \<Rightarrow> save_result) \<Rightarrow> endpoint \<Rightarrow> catalog \<Rightarrow> (string + endpoint) \<times> catalog" where
  "UpsertEndpoint save e s =
     (if ep_Source e = ''enrolled''
      then (case upsertEndpoint e s of Inl err \<Rightarrow> (Inl err, s) | Inr (r, n) \<Rightarrow> (Inr r, n))
      else UpsertEndpointContext save e s)"

definition UpsertGroup ::
  "(persisted_catalog \<Rightarrow> save_result) \<Rightarrow> asset_group \<Rightarrow> catalog \<Rightarrow> (string + asset_group) \<times> catalog" where
  "UpsertGroup save g s = mutateCatalog save (upsertGroup g) s"

definition UpsertService ::
  "(persisted_catalog \<Rightarrow> save_result) \<Rightarrow> service \<Rightarrow> catalog \<Rightarrow> (string + service) \<times> catalog" where
  "UpsertService save svc s = mutateCatalog save (upsertService svc) s"

definition delete_authored :: "string \<Rightarrow> string \<Rightarrow> bool step" where
  "delete_authored tenant i s =
     (case GetEndpoint s tenant i of
        None \<Rightarrow> deleteEndpoint tenant i s
      | Some e \<Rightarrow>
          if HasPrefix i ''certpin-ep-'' \<or> certPinEndpoint e then Inl ErrCertPinEndpointOwnership
          else if ep_Source e = ''application'' then Inl ErrApplicationEndpointOwnership
          else if ep_Source e = ''enrolled'' then Inl ''enrolled endpoints are managed by inventory''
          else deleteEndpoint tenant i s)"

definition DeleteEndpoint ::
  "(persisted_catalog \<Rightarrow> save_result) \<Rightarrow> string \<Rightarrow> string \<Rightarrow> catalog \<Rightarrow> (string + bool) \<times> catalog" where
  "DeleteEndpoint save tenant i s = mutateCatalog save (delete_authored tenant i) s"

definition DeleteGroup ::
  "(persisted_catalog \<Rightarrow> save_result) \<Rightarrow> string \<Rightarrow> string \<Rightarrow> catalog \<Rightarrow> (string + bool) \<times> catalog" where
  "DeleteGroup save tenant i s = mutateCatalog save (deleteGroup tenant i) s"

definition DeleteService ::
  "(persisted_catalog \<Rightarrow> save_result) \<Rightarrow> string \<Rightarrow> string \<Rightarrow> catalog \<Rightarrow> (string + bool) \<times> catalog" where
  "DeleteService save tenant i s = mutateCatalog save (deleteService tenant i) s"

definition ApplicationEndpointWritable :: "endpoint \<Rightarrow> string \<Rightarrow> bool \<Rightarrow> bool" where
  "ApplicationEndpointWritable e applicationID allowManual =
     (if ep_BuiltIn e \<or> ep_ID e \<noteq> ''app-'' @ applicationID then False
      else ep_Source e = ''application'' \<or> (allowManual \<and> (ep_Source e = ''manual'' \<or> ep_Source e = [])))"

definition UpsertApplicationEndpoint ::
  "(persisted_catalog \<Rightarrow> save_result) \<Rightarrow> string \<Rightarrow> endpoint \<Rightarrow> bool \<Rightarrow> catalog \<Rightarrow> (string + endpoint) \<times> catalog" where
  "UpsertApplicationEndpoint save applicationID e allowManual s =
     (let applicationID = TrimSpace applicationID
      in if applicationID = [] then (Inl ErrApplicationEndpointOwnership, s)
         else let e = e\<lparr>ep_ID := ''app-'' @ applicationID, ep_Source := ''application''\<rparr>
              in mutateCatalog save (\<lambda>n.
                   case GetEndpoint n (ep_TenantID e) (ep_ID e) of
                     Some c \<Rightarrow> if \<not> ApplicationEndpointWritable c applicationID allowManual
                               then Inl ErrApplicationEndpointOwnership else upsertEndpoint e n
                   | None \<Rightarrow> upsertEndpoint e n) s)"

definition DeleteApplicationEndpoint ::
  "(persisted_catalog \<Rightarrow> save_result) \<Rightarrow> string \<Rightarrow> string \<Rightarrow> bool \<Rightarrow> catalog \<Rightarrow> (string + bool) \<times> catalog" where
  "DeleteApplicationEndpoint save tenant applicationID allowManual s =
     (let applicationID = TrimSpace applicationID
      in if applicationID = [] then (Inl ErrApplicationEndpointOwnership, s)
         else mutateCatalog save (\<lambda>n.
                case GetEndpoint n tenant (''app-'' @ applicationID) of
                  Some c \<Rightarrow> if \<not> ApplicationEndpointWritable c applicationID allowManual
                            then Inl ErrApplicationEndpointOwnership else deleteEndpoint tenant (''app-'' @ applicationID) n
                | None \<Rightarrow> deleteEndpoint tenant (''app-'' @ applicationID) n) s)"

definition RenameApplicationEndpoint ::
  "(persisted_catalog \<Rightarrow> save_result) \<Rightarrow> string \<Rightarrow> string \<Rightarrow> string \<Rightarrow> bool \<Rightarrow> catalog \<Rightarrow> (string + endpoint) \<times> catalog" where
  "RenameApplicationEndpoint save tenant applicationID alias allowManual s =
     mutateCatalog save (\<lambda>n.
       case GetEndpoint n tenant (''app-'' @ applicationID) of
         None \<Rightarrow> Inl ErrApplicationEndpointOwnership
       | Some c \<Rightarrow> if \<not> ApplicationEndpointWritable c applicationID allowManual
                   then Inl ErrApplicationEndpointOwnership else upsertEndpoint (c\<lparr>ep_Alias := alias\<rparr>) n) s"

definition UpsertCertPinEndpoint ::
  "(persisted_catalog \<Rightarrow> save_result) \<Rightarrow> string \<Rightarrow> endpoint \<Rightarrow> catalog \<Rightarrow> (string + endpoint) \<times> catalog" where
  "UpsertCertPinEndpoint save candidateID e s =
     (let candidateID = TrimSpace candidateID
      in if candidateID = [] then (Inl ErrCertPinEndpointOwnership, s)
         else let e = e\<lparr>ep_ID := ''certpin-ep-'' @ candidateID, ep_Source := ''cert_pin''\<rparr>
              in mutateCatalog save (\<lambda>n.
                   case GetEndpoint n (ep_TenantID e) (ep_ID e) of
                     None \<Rightarrow> upsertEndpoint e n
                   | Some c \<Rightarrow>
                       let legacy = (ep_Source c = ''manual'' \<or> ep_Source c = []) \<and> ep_Kind c = ''network'' \<and>
                             ep_Address c = ep_Address e \<and> \<not> ep_Steered c \<and> ep_Identity c = [] \<and> ep_Tags c = [''cert_pin'']
                       in if ep_BuiltIn c \<or> (ep_Source c \<noteq> ''cert_pin'' \<and> \<not> legacy) then Inl ErrCertPinEndpointOwnership
                          else upsertEndpoint e n) s)"

section \<open>Erasure\<close>

definition countTenantCatalogRecords :: "persisted_catalog \<Rightarrow> string \<Rightarrow> nat" where
  "countTenantCatalogRecords p tenant =
     length (rows (pc_Endpoints p) tenant) + length (rows (pc_Groups p) tenant) + length (rows (pc_Services p) tenant) +
     length (rows (pc_Aliases p) tenant) + length (rows (pc_EnrolledAliases p) tenant)"

definition remove_tenant :: "string \<Rightarrow> nat step" where
  "remove_tenant tenant n =
     (let count = countTenantCatalogRecords (authoredStateLocked n) tenant;
          changed = length (rows (ct_endpoints n) tenant) + length (rows (ct_groups n) tenant) +
            length (rows (ct_services n) tenant) + length (rows (ct_aliases n) tenant) +
            length (rows (ct_enrolledAliases n) tenant) > 0;
          n = n\<lparr>ct_endpoints := AList.delete tenant (ct_endpoints n), ct_groups := AList.delete tenant (ct_groups n),
                ct_services := AList.delete tenant (ct_services n), ct_aliases := AList.delete tenant (ct_aliases n),
                ct_enrolledAliases := AList.delete tenant (ct_enrolledAliases n)\<rparr>
      in Inr (count, if changed then n\<lparr>ct_generation := ct_generation n + 1\<rparr> else n))"

definition RemoveTenant ::
  "(persisted_catalog \<Rightarrow> save_result) \<Rightarrow> string \<Rightarrow> catalog \<Rightarrow> (string + nat) \<times> catalog" where
  "RemoveTenant save tenant s = mutateCatalog save (remove_tenant tenant) s"

section \<open>Distribution\<close>

definition AuthoredSnapshot :: "catalog \<Rightarrow> endpoint list \<times> asset_group list \<times> service list" where
  "AuthoredSnapshot s =
     (sort_key (\<lambda>e. (ep_TenantID e, ep_ID e)) (map (\<lambda>(t, i, e). e) (all_rows (ct_endpoints s))),
      sort_key (\<lambda>g. (gr_TenantID g, gr_ID g)) (map (\<lambda>(t, i, g). g) (all_rows (ct_groups s))),
      sort_key (\<lambda>v. (sv_TenantID v, sv_ID v)) (map (\<lambda>(t, i, v). v) (all_rows (ct_services s))))"

fun upsert_all :: "('a \<Rightarrow> 'a step) \<Rightarrow> 'a list \<Rightarrow> catalog \<Rightarrow> string + catalog" where
  "upsert_all up [] s = Inr s"
| "upsert_all up (x # xs) s = (case up x s of Inl err \<Rightarrow> Inl err | Inr (_, s) \<Rightarrow> upsert_all up xs s)"

fun delete_all :: "(string \<Rightarrow> string \<Rightarrow> bool step) \<Rightarrow> string \<Rightarrow> (string \<times> string) list \<Rightarrow> string list \<Rightarrow> catalog \<Rightarrow> string + string list \<times> catalog" where
  "delete_all del label [] removed s = Inr (removed, s)"
| "delete_all del label ((t, i) # rs) removed s =
     (case del t i s of
        Inl err \<Rightarrow> Inl err
      | Inr (ok, s) \<Rightarrow> delete_all del label rs (if ok then removed @ [label @ i] else removed) s)"

definition keep_key :: "string \<Rightarrow> string \<Rightarrow> string" where
  "keep_key tenant i = tenant @ [CHR 0x00] @ i"

definition dropped :: "'a tenant_map \<Rightarrow> ('a \<Rightarrow> bool) \<Rightarrow> string list \<Rightarrow> (string \<times> string) list" where
  "dropped m exempt keep = map (\<lambda>(t, i, x). (t, i)) (filter (\<lambda>(t, i, x). \<not> exempt x \<and> keep_key t i \<notin> set keep) (all_rows m))"

definition drop_absent :: "endpoint list \<Rightarrow> asset_group list \<Rightarrow> service list \<Rightarrow> string list step" where
  "drop_absent endpoints groups services s =
     (let keepE = map (\<lambda>e. keep_key (ep_TenantID e) (ep_ID e)) endpoints;
          keepG = map (\<lambda>g. keep_key (gr_TenantID g) (gr_ID g)) groups;
          keepS = map (\<lambda>v. keep_key (sv_TenantID v) (sv_ID v)) services;
          dropE = dropped (ct_endpoints s) (\<lambda>e. ep_Source e = ''enrolled'') keepE;
          dropG = dropped (ct_groups s) (\<lambda>g. False) keepG;
          dropS = dropped (ct_services s) (\<lambda>v. False) keepS
      in case delete_all deleteEndpoint ''endpoint:'' dropE [] s of
           Inl err \<Rightarrow> Inl err
         | Inr (removed, s) \<Rightarrow>
             (case delete_all deleteGroup ''group:'' dropG removed s of
                Inl err \<Rightarrow> Inl err
              | Inr (removed, s) \<Rightarrow>
                  (case delete_all deleteService ''service:'' dropS removed s of
                     Inl err \<Rightarrow> Inl err
                   | Inr (removed, s) \<Rightarrow> Inr (sort removed, s))))"

definition replaceAuthored :: "endpoint list \<Rightarrow> asset_group list \<Rightarrow> service list \<Rightarrow> string list step" where
  "replaceAuthored endpoints groups services s =
     (case upsert_all upsertEndpoint endpoints s of
        Inl err \<Rightarrow> Inl err
      | Inr s \<Rightarrow>
          (case upsert_all upsertGroup groups s of
             Inl err \<Rightarrow> Inl err
           | Inr s \<Rightarrow>
               (case upsert_all upsertService services s of
                  Inl err \<Rightarrow> Inl err
                | Inr s \<Rightarrow> drop_absent endpoints groups services s)))"

definition ReplaceAuthored ::
  "(persisted_catalog \<Rightarrow> save_result) \<Rightarrow> endpoint list \<Rightarrow> asset_group list \<Rightarrow> service list \<Rightarrow> catalog \<Rightarrow>
    (string + string list) \<times> catalog" where
  "ReplaceAuthored save endpoints groups services s =
     mutateCatalog save (\<lambda>n.
       case replaceAuthored endpoints groups services n of
         Inl err \<Rightarrow> Inl err
       | Inr (removed, n) \<Rightarrow> Inr (removed, n\<lparr>ct_generation := ct_generation n + 1\<rparr>)) s"

end
