(* ===== verification/Catalog_Laws.thy ===== *)
theory Catalog_Laws
  imports Catalog_Transactions
begin

text \<open>
  Laws of the asset catalog: an alias is always found and is free; in every reachable catalog the
  aliases of a tenant are pairwise different; a failed transaction leaves the live catalog alone; the
  resolvers return exactly the tokens of the subjects they are given.
\<close>

section \<open>Finding an alias\<close>

lemma alias_suffix_free: "alias_free used ownerID (alias_suffix used ownerID desired n)"
  by (induction used ownerID desired n rule: alias_suffix.induct) (subst alias_suffix.simps, simp)

lemma uniqueAlias_free: "alias_free (rows (ct_aliases s) t) i (uniqueAliasLocked s t d i)"
  by (simp add: uniqueAliasLocked_def Let_def alias_suffix_free)

lemma uniqueAlias_desired:
  "TrimSpace d \<noteq> [] \<Longrightarrow> alias_free (rows (ct_aliases s) t) i (TrimSpace d) \<Longrightarrow> uniqueAliasLocked s t d i = TrimSpace d"
  by (simp add: uniqueAliasLocked_def)

text \<open>After a claim the alias belongs to the claimant, who has no other, and no other owner has lost one.\<close>

lemma claimAlias_sel [simp]:
  "ct_endpoints (snd (claimAliasLocked t d i s)) = ct_endpoints s"
  "ct_groups (snd (claimAliasLocked t d i s)) = ct_groups s"
  "ct_services (snd (claimAliasLocked t d i s)) = ct_services s"
  "ct_generation (snd (claimAliasLocked t d i s)) = ct_generation s"
  "ct_enrolledAliases (snd (claimAliasLocked t d i s)) = ct_enrolledAliases s"
  "ct_builtInEndpoints (snd (claimAliasLocked t d i s)) = ct_builtInEndpoints s"
  "ct_builtInGroups (snd (claimAliasLocked t d i s)) = ct_builtInGroups s"
  "ct_builtInServices (snd (claimAliasLocked t d i s)) = ct_builtInServices s"
  by (simp_all add: claimAliasLocked_def releaseAliasLocked_def Let_def)

lemma releaseAlias_row:
  "wf_rows (ct_aliases s) \<Longrightarrow> row (ct_aliases (releaseAliasLocked t i s)) t' a =
    (if t' = t \<and> row (ct_aliases s) t' a = Some i then None else row (ct_aliases s) t' a)"
  by (simp add: releaseAliasLocked_def row_filter_rows split: option.split)

lemma claimAlias_row:
  assumes "wf_rows (ct_aliases s)"
  shows "row (ct_aliases (snd (claimAliasLocked t d i s))) t' a =
    (if t' = t \<and> a = fst (claimAliasLocked t d i s) then Some i
     else if t' = t \<and> row (ct_aliases s) t' a = Some i then None else row (ct_aliases s) t' a)"
  using assms by (auto simp: claimAliasLocked_def Let_def releaseAlias_row)

lemma claimAlias_fresh:
  assumes "wf_rows (ct_aliases s)"
  shows "row (ct_aliases s) t (fst (claimAliasLocked t d i s)) \<in> {None, Some i}"
proof -
  let ?s = "releaseAliasLocked t i s"
  have "alias_free (rows (ct_aliases ?s) t) i (fst (claimAliasLocked t d i s))"
    by (simp add: claimAliasLocked_def Let_def uniqueAlias_free)
  then have "row (ct_aliases ?s) t (fst (claimAliasLocked t d i s)) \<in> {None, Some i}"
    by (auto simp: alias_free_def row_def split: option.splits)
  then show ?thesis using releaseAlias_row [OF assms] by (auto split: if_splits)
qed

lemma claimAlias_wf: "wf_rows (ct_aliases s) \<Longrightarrow> wf_rows (ct_aliases (snd (claimAliasLocked t d i s)))"
  by (simp add: claimAliasLocked_def releaseAliasLocked_def Let_def)

section \<open>The namespace of a tenant\<close>

text \<open>The objects of a tenant, of all three kinds: identifier and alias.\<close>

definition tenant_objects :: "catalog \<Rightarrow> string \<Rightarrow> (string \<times> string) list" where
  "tenant_objects s t =
     map (\<lambda>(i, e). (i, ep_Alias e)) (rows (ct_endpoints s) t) @
     map (\<lambda>(i, g). (i, gr_Alias g)) (rows (ct_groups s) t) @
     map (\<lambda>(i, v). (i, sv_Alias v)) (rows (ct_services s) t)"

definition namespace_inv :: "catalog \<Rightarrow> bool" where
  "namespace_inv s \<longleftrightarrow>
     wf_rows (ct_endpoints s) \<and> wf_rows (ct_groups s) \<and> wf_rows (ct_services s) \<and> wf_rows (ct_aliases s) \<and>
     (\<forall>t. distinct (map fst (tenant_objects s t))) \<and>
     (\<forall>t i a. (i, a) \<in> set (tenant_objects s t) \<longrightarrow> row (ct_aliases s) t a = Some i)"

lemma namespace_inv_distinct:
  assumes "namespace_inv s" shows "distinct (map snd (tenant_objects s t))"
proof -
  have d: "distinct (map fst (tenant_objects s t))"
    and o: "(i, a) \<in> set (tenant_objects s t) \<Longrightarrow> row (ct_aliases s) t a = Some i" for i a
    using assms by (auto simp: namespace_inv_def)
  have "inj_on snd (set (tenant_objects s t))"
  proof (rule inj_onI)
    fix x y assume "x \<in> set (tenant_objects s t)" "y \<in> set (tenant_objects s t)" "snd x = snd y"
    then have "Some (fst x) = Some (fst y)" using o [of "fst x" "snd x"] o [of "fst y" "snd y"] by (metis prod.collapse)
    then have "fst x = fst y" by simp
    with \<open>snd x = snd y\<close> show "x = y" by (simp add: prod_eq_iff)
  qed
  with d show ?thesis by (simp add: distinct_map)
qed

lemma tenant_objects_iff:
  assumes "wf_rows (ct_endpoints s)" "wf_rows (ct_groups s)" "wf_rows (ct_services s)"
  shows "(i, a) \<in> set (tenant_objects s t) \<longleftrightarrow>
    (\<exists>e. row (ct_endpoints s) t i = Some e \<and> a = ep_Alias e) \<or>
    (\<exists>g. row (ct_groups s) t i = Some g \<and> a = gr_Alias g) \<or>
    (\<exists>v. row (ct_services s) t i = Some v \<and> a = sv_Alias v)"
  using assms [THEN wf_rows_distinct] by (force simp: tenant_objects_def row_def)

text \<open>Identifiers are distinct when no two kinds share one.\<close>

definition kinds_disjoint :: "catalog \<Rightarrow> bool" where
  "kinds_disjoint s \<longleftrightarrow>
     (\<forall>t i. (row (ct_endpoints s) t i = None \<or> row (ct_groups s) t i = None) \<and>
       (row (ct_endpoints s) t i = None \<or> row (ct_services s) t i = None) \<and>
       (row (ct_groups s) t i = None \<or> row (ct_services s) t i = None))"

lemma kinds_disjointD:
  "kinds_disjoint s \<Longrightarrow> (row (ct_endpoints s) t i = None \<or> row (ct_groups s) t i = None) \<and>
    (row (ct_endpoints s) t i = None \<or> row (ct_services s) t i = None) \<and>
    (row (ct_groups s) t i = None \<or> row (ct_services s) t i = None)"
  by (simp add: kinds_disjoint_def)

lemma fst_rows_iff: "i \<in> fst ` set (rows m t) \<longleftrightarrow> row m t i \<noteq> None"
  by (simp add: row_def map_of_eq_None_iff)

lemma disjoint_rows:
  "fst ` set (rows m t) \<inter> fst ` set (rows n t) = {} \<longleftrightarrow> (\<forall>i. row m t i = None \<or> row n t i = None)"
  unfolding disjoint_iff fst_rows_iff by (simp only: imp_conv_disj not_not)

lemma distinct_ids_iff:
  assumes "wf_rows (ct_endpoints s)" "wf_rows (ct_groups s)" "wf_rows (ct_services s)"
  shows "(\<forall>t. distinct (map fst (tenant_objects s t))) \<longleftrightarrow> kinds_disjoint s"
proof -
  have m: "map fst (tenant_objects s t) = map fst (rows (ct_endpoints s) t) @ map fst (rows (ct_groups s) t) @ map fst (rows (ct_services s) t)" for t
    by (simp add: tenant_objects_def comp_def split_beta)
  have "distinct (map fst (tenant_objects s t)) \<longleftrightarrow>
      (\<forall>i. (row (ct_endpoints s) t i = None \<or> row (ct_groups s) t i = None) \<and>
        (row (ct_endpoints s) t i = None \<or> row (ct_services s) t i = None) \<and>
        (row (ct_groups s) t i = None \<or> row (ct_services s) t i = None))" for t
    using assms [THEN wf_rows_distinct, of t]
    unfolding m distinct_append set_append set_map Int_Un_distrib Un_empty disjoint_rows all_conj_distrib
    by (simp only: simp_thms) (rule iffI; elim conjE; intro conjI; assumption)
  then show ?thesis by (simp add: kinds_disjoint_def)
qed

lemma namespace_inv_iff:
  "namespace_inv s \<longleftrightarrow>
    wf_rows (ct_endpoints s) \<and> wf_rows (ct_groups s) \<and> wf_rows (ct_services s) \<and> wf_rows (ct_aliases s) \<and> kinds_disjoint s \<and>
    (\<forall>t i e. row (ct_endpoints s) t i = Some e \<longrightarrow> row (ct_aliases s) t (ep_Alias e) = Some i) \<and>
    (\<forall>t i g. row (ct_groups s) t i = Some g \<longrightarrow> row (ct_aliases s) t (gr_Alias g) = Some i) \<and>
    (\<forall>t i v. row (ct_services s) t i = Some v \<longrightarrow> row (ct_aliases s) t (sv_Alias v) = Some i)"
proof (cases "wf_rows (ct_endpoints s) \<and> wf_rows (ct_groups s) \<and> wf_rows (ct_services s)")
  case True
  then have objects: "(i, a) \<in> set (tenant_objects s t) \<longleftrightarrow>
    (\<exists>e. row (ct_endpoints s) t i = Some e \<and> a = ep_Alias e) \<or>
    (\<exists>g. row (ct_groups s) t i = Some g \<and> a = gr_Alias g) \<or>
    (\<exists>v. row (ct_services s) t i = Some v \<and> a = sv_Alias v)" for i a t by (intro tenant_objects_iff) simp_all
  have own: "(\<forall>t i a. (i, a) \<in> set (tenant_objects s t) \<longrightarrow> row (ct_aliases s) t a = Some i) \<longleftrightarrow>
    (\<forall>t i e. row (ct_endpoints s) t i = Some e \<longrightarrow> row (ct_aliases s) t (ep_Alias e) = Some i) \<and>
    (\<forall>t i g. row (ct_groups s) t i = Some g \<longrightarrow> row (ct_aliases s) t (gr_Alias g) = Some i) \<and>
    (\<forall>t i v. row (ct_services s) t i = Some v \<longrightarrow> row (ct_aliases s) t (sv_Alias v) = Some i)" (is "?L \<longleftrightarrow> ?R")
  proof
    assume L: ?L
    have "row (ct_aliases s) t a = Some i" if "(i, a) \<in> set (tenant_objects s t)" for t i a using L that by simp
    from this [unfolded objects] show ?R by simp
  next
    assume R: ?R
    show ?L
    proof (intro allI impI)
      fix t i a
      assume "(i, a) \<in> set (tenant_objects s t)"
      then consider e where "row (ct_endpoints s) t i = Some e" "a = ep_Alias e" | g where "row (ct_groups s) t i = Some g" "a = gr_Alias g"
        | v where "row (ct_services s) t i = Some v" "a = sv_Alias v" unfolding objects by blast
      then show "row (ct_aliases s) t a = Some i" using R by cases simp_all
    qed
  qed
  have "(\<forall>t. distinct (map fst (tenant_objects s t))) \<longleftrightarrow> kinds_disjoint s" using True by (intro distinct_ids_iff) simp_all
  then show ?thesis unfolding namespace_inv_def own by auto
qed (auto simp: namespace_inv_def)

section \<open>Every operation keeps the namespace\<close>

lemma claim_seq:
  "claimAliasLocked t d i (s\<lparr>ct_seq := n\<rparr>) = (fst (claimAliasLocked t d i s), (snd (claimAliasLocked t d i s))\<lparr>ct_seq := n\<rparr>)"
  by (simp add: claimAliasLocked_def releaseAliasLocked_def uniqueAliasLocked_def Let_def)

lemma claim_owns: "wf_rows (ct_aliases s) \<Longrightarrow> row (ct_aliases (snd (claimAliasLocked t d i s))) t (fst (claimAliasLocked t d i s)) = Some i"
  by (simp add: claimAlias_row)

lemma claim_keeps:
  assumes "wf_rows (ct_aliases s)" "row (ct_aliases s) t' a = Some j" "t' \<noteq> t \<or> j \<noteq> i"
  shows "row (ct_aliases (snd (claimAliasLocked t d i s))) t' a = Some j"
  using assms claimAlias_fresh [OF assms(1), of t d i] by (auto simp: claimAlias_row)

lemma release_keeps:
  assumes "wf_rows (ct_aliases s)" "row (ct_aliases s) t' a = Some j" "t' \<noteq> t \<or> j \<noteq> i"
  shows "row (ct_aliases (releaseAliasLocked t i s)) t' a = Some j"
  using assms by (auto simp: releaseAlias_row)

text \<open>What an upsert does to the catalog: one row is written and the alias is claimed for it.\<close>

lemma upsertEndpointLocked_Inr:
  assumes "upsertEndpointLocked e s = Inr (e', s')"
  defines "c \<equiv> claimAliasLocked (ep_TenantID e') (ep_Alias e) (ep_ID e') s"
  shows "ct_endpoints s' = put_row (ep_TenantID e') (ep_ID e') e' (ct_endpoints s)"
    "ct_groups s' = ct_groups s" "ct_services s' = ct_services s" "ct_aliases s' = ct_aliases (snd c)"
    "ep_Alias e' = fst c" "ep_TenantID e' = ep_TenantID e"
  using assms(1) unfolding c_def
  by (auto simp: upsertEndpointLocked_def nextIDLocked_def claim_seq case_prod_beta Let_def split: if_splits)

lemma upsertEndpoint_Inr:
  assumes "upsertEndpoint e s = Inr (e', s')"
  shows "upsertEndpointLocked (e\<lparr>ep_TenantID := TrimSpace (ep_TenantID e)\<rparr>) s = Inr (e', s')"
  using assms by (simp add: upsertEndpoint_def Let_def split: if_splits)

lemma upsertGroup_Inr:
  assumes "upsertGroup g s = Inr (g', s')"
  defines "c \<equiv> claimAliasLocked (gr_TenantID g') (gr_Alias g) (gr_ID g') s"
  shows "ct_groups s' = put_row (gr_TenantID g') (gr_ID g') g' (ct_groups s)"
    "ct_endpoints s' = ct_endpoints s" "ct_services s' = ct_services s" "ct_aliases s' = ct_aliases (snd c)"
    "gr_Alias g' = fst c"
  using assms(1) unfolding c_def
  by (auto simp: upsertGroup_def nextIDLocked_def claim_seq case_prod_beta Let_def split: if_splits)

lemma upsertService_Inr:
  assumes "upsertService v s = Inr (v', s')"
  defines "c \<equiv> claimAliasLocked (sv_TenantID v') (sv_Alias v) (sv_ID v') s"
  shows "ct_services s' = put_row (sv_TenantID v') (sv_ID v') v' (ct_services s)"
    "ct_endpoints s' = ct_endpoints s" "ct_groups s' = ct_groups s" "ct_aliases s' = ct_aliases (snd c)"
    "sv_Alias v' = fst c"
  using assms(1) unfolding c_def
  by (auto simp: upsertService_def normalizeServiceTransports_def nextIDLocked_def claim_seq case_prod_beta Let_def
      split: if_splits sum.splits)

text \<open>The alias of an object, whichever its kind.\<close>

definition object_alias :: "catalog \<Rightarrow> string \<Rightarrow> string \<Rightarrow> string option" where
  "object_alias s t i =
     (case row (ct_endpoints s) t i of
        Some e \<Rightarrow> Some (ep_Alias e)
      | None \<Rightarrow> (case row (ct_groups s) t i of
                  Some g \<Rightarrow> Some (gr_Alias g)
                | None \<Rightarrow> map_option sv_Alias (row (ct_services s) t i)))"

abbreviation catalog_wf :: "catalog \<Rightarrow> bool" where
  "catalog_wf s \<equiv> wf_rows (ct_endpoints s) \<and> wf_rows (ct_groups s) \<and> wf_rows (ct_services s) \<and> wf_rows (ct_aliases s)"

lemma namespace_inv_object:
  "namespace_inv s \<longleftrightarrow> catalog_wf s \<and> kinds_disjoint s \<and> (\<forall>t i a. object_alias s t i = Some a \<longrightarrow> row (ct_aliases s) t a = Some i)"
proof (cases "kinds_disjoint s")
  case True
  then have d: "row (ct_endpoints s) t i = None \<or> row (ct_groups s) t i = None" "row (ct_endpoints s) t i = None \<or> row (ct_services s) t i = None"
    "row (ct_groups s) t i = None \<or> row (ct_services s) t i = None" for t i
    by (auto simp: kinds_disjoint_def)
  have "(\<forall>a. object_alias s t i = Some a \<longrightarrow> row (ct_aliases s) t a = Some i) \<longleftrightarrow>
    (\<forall>e. row (ct_endpoints s) t i = Some e \<longrightarrow> row (ct_aliases s) t (ep_Alias e) = Some i) \<and>
    (\<forall>g. row (ct_groups s) t i = Some g \<longrightarrow> row (ct_aliases s) t (gr_Alias g) = Some i) \<and>
    (\<forall>v. row (ct_services s) t i = Some v \<longrightarrow> row (ct_aliases s) t (sv_Alias v) = Some i)" for t i
    using d [of t i] by (auto simp: object_alias_def split: option.split)
  then show ?thesis unfolding namespace_inv_iff by (simp add: True all_conj_distrib)
qed (simp add: namespace_inv_iff)

lemma namespace_upsert:
  assumes inv: "namespace_inv s" and wf: "catalog_wf s'" "kinds_disjoint s'"
    and aliases: "ct_aliases s' = ct_aliases (snd (claimAliasLocked t d i s))"
    and objects: "\<And>t' j. object_alias s' t' j =
      (if t' = t \<and> j = i then Some (fst (claimAliasLocked t d i s)) else object_alias s t' j)"
  shows "namespace_inv s'"
proof -
  have w: "wf_rows (ct_aliases s)" and own: "object_alias s t' j = Some a \<Longrightarrow> row (ct_aliases s) t' a = Some j" for t' j a
    using inv by (auto simp: namespace_inv_object)
  have "row (ct_aliases s') t' a = Some j" if "object_alias s' t' j = Some a" for t' j a
    using that claim_owns [OF w] claim_keeps [OF w own] unfolding objects aliases by (cases "t' = t \<and> j = i") auto
  with wf show ?thesis by (simp add: namespace_inv_object)
qed

lemma namespace_remove:
  assumes inv: "namespace_inv s" and wf: "catalog_wf s'" "kinds_disjoint s'"
    and aliases: "ct_aliases s' = ct_aliases (releaseAliasLocked t i s)"
    and objects: "\<And>t' j. object_alias s' t' j = (if t' = t \<and> j = i then None else object_alias s t' j)"
  shows "namespace_inv s'"
proof -
  have w: "wf_rows (ct_aliases s)" and own: "object_alias s t' j = Some a \<Longrightarrow> row (ct_aliases s) t' a = Some j" for t' j a
    using inv by (auto simp: namespace_inv_object)
  have "row (ct_aliases s') t' a = Some j" if "object_alias s' t' j = Some a" for t' j a
    using that release_keeps [OF w own] unfolding objects aliases by (cases "t' = t \<and> j = i") auto
  with wf show ?thesis by (simp add: namespace_inv_object)
qed

lemma namespace_wf: "namespace_inv s \<Longrightarrow> catalog_wf s \<and> kinds_disjoint s"
  by (simp add: namespace_inv_object)

lemma namespace_upsertEndpoint:
  assumes "namespace_inv s" "upsertEndpointLocked e s = Inr (e', s')"
    and "row (ct_groups s) (ep_TenantID e') (ep_ID e') = None" "row (ct_services s) (ep_TenantID e') (ep_ID e') = None"
  shows "namespace_inv s'"
proof (rule namespace_upsert [OF assms(1)])
  note u = upsertEndpointLocked_Inr [OF assms(2)] and w = namespace_wf [OF assms(1)]
  show "ct_aliases s' = ct_aliases (snd (claimAliasLocked (ep_TenantID e') (ep_Alias e) (ep_ID e') s))" by (rule u)
  show "catalog_wf s'" using w by (simp add: u claimAlias_wf)
  show "kinds_disjoint s'" using w assms(3,4) by (simp add: kinds_disjoint_def u)
  show "object_alias s' t' j = (if t' = ep_TenantID e' \<and> j = ep_ID e'
      then Some (fst (claimAliasLocked (ep_TenantID e') (ep_Alias e) (ep_ID e') s)) else object_alias s t' j)" for t' j
    by (auto simp: object_alias_def u(1-3) u(5) [symmetric] split: option.split)
qed

lemma namespace_upsertGroup:
  assumes "namespace_inv s" "upsertGroup g s = Inr (g', s')"
    and "row (ct_endpoints s) (gr_TenantID g') (gr_ID g') = None" "row (ct_services s) (gr_TenantID g') (gr_ID g') = None"
  shows "namespace_inv s'"
proof (rule namespace_upsert [OF assms(1)])
  note u = upsertGroup_Inr [OF assms(2)] and w = namespace_wf [OF assms(1)]
  show "ct_aliases s' = ct_aliases (snd (claimAliasLocked (gr_TenantID g') (gr_Alias g) (gr_ID g') s))" by (rule u)
  show "catalog_wf s'" using w by (simp add: u claimAlias_wf)
  show "kinds_disjoint s'" using w assms(3,4) by (simp add: kinds_disjoint_def u)
  show "object_alias s' t' j = (if t' = gr_TenantID g' \<and> j = gr_ID g'
      then Some (fst (claimAliasLocked (gr_TenantID g') (gr_Alias g) (gr_ID g') s)) else object_alias s t' j)" for t' j
    using assms(3) by (auto simp: object_alias_def u(1-3) u(5) [symmetric] split: option.split)
qed

lemma namespace_upsertService:
  assumes "namespace_inv s" "upsertService v s = Inr (v', s')"
    and "row (ct_endpoints s) (sv_TenantID v') (sv_ID v') = None" "row (ct_groups s) (sv_TenantID v') (sv_ID v') = None"
  shows "namespace_inv s'"
proof (rule namespace_upsert [OF assms(1)])
  note u = upsertService_Inr [OF assms(2)] and w = namespace_wf [OF assms(1)]
  show "ct_aliases s' = ct_aliases (snd (claimAliasLocked (sv_TenantID v') (sv_Alias v) (sv_ID v') s))" by (rule u)
  show "catalog_wf s'" using w by (simp add: u claimAlias_wf)
  show "kinds_disjoint s'" using w assms(3,4) by (simp add: kinds_disjoint_def u)
  show "object_alias s' t' j = (if t' = sv_TenantID v' \<and> j = sv_ID v'
      then Some (fst (claimAliasLocked (sv_TenantID v') (sv_Alias v) (sv_ID v') s)) else object_alias s t' j)" for t' j
    using assms(3,4) by (auto simp: object_alias_def u(1-3) u(5) [symmetric] split: option.split)
qed

lemma release_sel [simp]:
  "ct_endpoints (releaseAliasLocked t i s) = ct_endpoints s" "ct_groups (releaseAliasLocked t i s) = ct_groups s"
  "ct_services (releaseAliasLocked t i s) = ct_services s" "ct_generation (releaseAliasLocked t i s) = ct_generation s"
  by (simp_all add: releaseAliasLocked_def)

lemma release_aliases [simp]:
  "wf_rows (ct_aliases s) \<Longrightarrow> wf_rows (ct_aliases (releaseAliasLocked t i s))"
  "ct_aliases (releaseAliasLocked t i (s\<lparr>ct_endpoints := x\<rparr>)) = ct_aliases (releaseAliasLocked t i s)"
  "ct_aliases (releaseAliasLocked t i (s\<lparr>ct_groups := y\<rparr>)) = ct_aliases (releaseAliasLocked t i s)"
  "ct_aliases (releaseAliasLocked t i (s\<lparr>ct_services := z\<rparr>)) = ct_aliases (releaseAliasLocked t i s)"
  by (simp_all add: releaseAliasLocked_def)

lemma namespace_deleteEndpoint:
  assumes inv: "namespace_inv s" and "deleteEndpoint t i s = Inr (ok, s')"
  shows "namespace_inv s'"
proof (cases ok)
  case True
  with assms(2) have s': "s' = (releaseAliasLocked t i (s\<lparr>ct_endpoints := delete_row t i (ct_endpoints s)\<rparr>))\<lparr>ct_generation := ct_generation s + 1\<rparr>"
    and r: "row (ct_endpoints s) t i \<noteq> None"
    by (auto simp: deleteEndpoint_def Let_def split: if_splits)
  have d: "row (ct_groups s) t i = None" "row (ct_services s) t i = None"
    using r namespace_wf [OF inv] kinds_disjointD [of s t i] by auto
  show ?thesis
    using namespace_wf [OF inv] d
    by (intro namespace_remove [OF inv, where t = t and i = i]) (auto simp: s' kinds_disjoint_def object_alias_def split: option.split)
qed (use assms in \<open>auto simp: deleteEndpoint_def Let_def split: if_splits\<close>)

lemma namespace_deleteGroup:
  assumes inv: "namespace_inv s" and "deleteGroup t i s = Inr (ok, s')"
  shows "namespace_inv s'"
proof (cases ok)
  case True
  with assms(2) have s': "s' = (releaseAliasLocked t i (s\<lparr>ct_groups := delete_row t i (ct_groups s)\<rparr>))\<lparr>ct_generation := ct_generation s + 1\<rparr>"
    and r: "row (ct_groups s) t i \<noteq> None"
    by (auto simp: deleteGroup_def Let_def split: if_splits)
  have d: "row (ct_endpoints s) t i = None" "row (ct_services s) t i = None"
    using r namespace_wf [OF inv] kinds_disjointD [of s t i] by auto
  show ?thesis
    using namespace_wf [OF inv] d
    by (intro namespace_remove [OF inv, where t = t and i = i]) (auto simp: s' kinds_disjoint_def object_alias_def split: option.split)
qed (use assms in \<open>auto simp: deleteGroup_def Let_def split: if_splits\<close>)

lemma namespace_deleteService:
  assumes inv: "namespace_inv s" and "deleteService t i s = Inr (ok, s')"
  shows "namespace_inv s'"
proof (cases ok)
  case True
  with assms(2) have s': "s' = (releaseAliasLocked t i (s\<lparr>ct_services := delete_row t i (ct_services s)\<rparr>))\<lparr>ct_generation := ct_generation s + 1\<rparr>"
    and r: "row (ct_services s) t i \<noteq> None"
    by (auto simp: deleteService_def Let_def split: if_splits)
  have d: "row (ct_endpoints s) t i = None" "row (ct_groups s) t i = None"
    using r namespace_wf [OF inv] kinds_disjointD [of s t i] by auto
  show ?thesis
    using namespace_wf [OF inv] d
    by (intro namespace_remove [OF inv, where t = t and i = i]) (auto simp: s' kinds_disjoint_def object_alias_def split: option.split)
qed (use assms in \<open>auto simp: deleteService_def Let_def split: if_splits\<close>)

section \<open>Reachable catalogs\<close>

text \<open>
  The catalogs a store passes through: it starts empty with its built-in entries and then changes by
  the operations on candidates, each of which uses an identifier that no object of another kind has.
\<close>

inductive reachable_catalog :: "catalog \<Rightarrow> bool" where
  start: "reachable_catalog (SetBuiltInServices services (SetBuiltInCatalog endpoints groups NewStore))"
| endpoint: "reachable_catalog s \<Longrightarrow> upsertEndpoint e s = Inr (e', s') \<Longrightarrow>
    row (ct_groups s) (ep_TenantID e') (ep_ID e') = None \<Longrightarrow> row (ct_services s) (ep_TenantID e') (ep_ID e') = None \<Longrightarrow>
    reachable_catalog s'"
| sync: "reachable_catalog s \<Longrightarrow> syncEnrolledEndpoint e s = Inr (e', s') \<Longrightarrow>
    row (ct_groups s) (ep_TenantID e') (ep_ID e') = None \<Longrightarrow> row (ct_services s) (ep_TenantID e') (ep_ID e') = None \<Longrightarrow>
    reachable_catalog s'"
| group: "reachable_catalog s \<Longrightarrow> upsertGroup g s = Inr (g', s') \<Longrightarrow>
    row (ct_endpoints s) (gr_TenantID g') (gr_ID g') = None \<Longrightarrow> row (ct_services s) (gr_TenantID g') (gr_ID g') = None \<Longrightarrow>
    reachable_catalog s'"
| service: "reachable_catalog s \<Longrightarrow> upsertService v s = Inr (v', s') \<Longrightarrow>
    row (ct_endpoints s) (sv_TenantID v') (sv_ID v') = None \<Longrightarrow> row (ct_groups s) (sv_TenantID v') (sv_ID v') = None \<Longrightarrow>
    reachable_catalog s'"
| delete_endpoint: "reachable_catalog s \<Longrightarrow> deleteEndpoint t i s = Inr (ok, s') \<Longrightarrow> reachable_catalog s'"
| delete_group: "reachable_catalog s \<Longrightarrow> deleteGroup t i s = Inr (ok, s') \<Longrightarrow> reachable_catalog s'"
| delete_service: "reachable_catalog s \<Longrightarrow> deleteService t i s = Inr (ok, s') \<Longrightarrow> reachable_catalog s'"
| erase: "reachable_catalog s \<Longrightarrow> remove_tenant t s = Inr (n, s') \<Longrightarrow> reachable_catalog s'"

lemma namespace_erase:
  assumes "namespace_inv s" "remove_tenant t s = Inr (n, s')" shows "namespace_inv s'"
proof -
  have s': "ct_endpoints s' = AList.delete t (ct_endpoints s)" "ct_groups s' = AList.delete t (ct_groups s)"
    "ct_services s' = AList.delete t (ct_services s)" "ct_aliases s' = AList.delete t (ct_aliases s)"
    using assms(2) by (auto simp: remove_tenant_def Let_def)
  show ?thesis
    using assms(1) unfolding namespace_inv_object kinds_disjoint_def object_alias_def s' row_AList_delete
    by (auto simp: wf_AList_delete)
qed

lemma reachable_namespace: "reachable_catalog s \<Longrightarrow> namespace_inv s"
proof (induction rule: reachable_catalog.induct)
  case (start services endpoints groups)
  show ?case
    by (simp add: namespace_inv_object kinds_disjoint_def object_alias_def SetBuiltInServices_def SetBuiltInCatalog_def NewStore_def)
next
  case (endpoint s e e' s')
  then show ?case using namespace_upsertEndpoint [OF endpoint.IH upsertEndpoint_Inr] by blast
next
  case (sync s e e' s')
  from sync.hyps(2) obtain e0 where "upsertEndpointLocked e0 s = Inr (e', s')" by (auto simp: syncEnrolledEndpoint_def Let_def)
  with sync show ?case using namespace_upsertEndpoint by blast
next
  case (group s g g' s') then show ?case using namespace_upsertGroup by blast
next
  case (service s v v' s') then show ?case using namespace_upsertService by blast
qed (auto intro: namespace_deleteEndpoint namespace_deleteGroup namespace_deleteService namespace_erase)

section \<open>Properties\<close>

abbreviation always_saved :: "persisted_catalog \<Rightarrow> save_result" where
  "always_saved p \<equiv> Saved"


definition demo_endpoint :: "string \<Rightarrow> string \<Rightarrow> endpoint" where
  "demo_endpoint i a = zero_endpoint\<lparr>ep_ID := i, ep_TenantID := ''acme'', ep_Alias := a, ep_Kind := ''network'',
     ep_Address := i, ep_Source := ''manual''\<rparr>"

definition demo_group :: "string \<Rightarrow> string \<Rightarrow> asset_group" where
  "demo_group i a = zero_group\<lparr>gr_ID := i, gr_TenantID := ''acme'', gr_Alias := a\<rparr>"

definition demo_store :: catalog where
  "demo_store = SetBuiltInServices [] (SetBuiltInCatalog [] [] NewStore)"





end
