(* ===== verification/Rule_Laws.thy ===== *)
theory Rule_Laws
  imports Policy_Rules Evaluator_Laws Catalog_Laws
begin

text \<open>
  What authored rules mean, and that their compiled form means the same.  The meaning of a rule is
  given on the rule itself: a request is selected by one of its source selectors, goes to one of its
  destinations, uses its service and carries enough risk.  The compilers are proved to implement
  this meaning for every resolver that keeps the promises of the interfaces below, and the asset
  catalog is shown to keep them.
\<close>

section \<open>What a resolver promises\<close>

locale subject_resolver =
  fixes resolve :: subjects
  assumes resolve_nonblank: "[] \<notin> set (resolve t ids)"
    and resolve_none: "resolve t [] = []"
    and resolve_append: "set (resolve t (xs @ ys)) = set (resolve t xs) \<union> set (resolve t ys)"
begin

lemma resolve_set: "set (resolve t ids) = (\<Union>i \<in> set ids. set (resolve t [i]))"
proof (induction ids)
  case (Cons i ids)
  have "set (resolve t (i # ids)) = set (resolve t [i]) \<union> set (resolve t ids)"
    using resolve_append [of t "[i]" ids] by simp
  with Cons.IH show ?case by simp
qed (simp add: resolve_none)

end

locale transport_resolver =
  fixes transports_of :: service_ports
  assumes transports_valid: "transports_of t i = Some m \<Longrightarrow> m \<noteq> [] \<and> list_all valid_transport m \<and> distinct (map fst m)"

locale egress_resolver = source: subject_resolver src + address: subject_resolver addresses + transport_resolver transports_of
  for src addresses :: subjects and transports_of :: service_ports

section \<open>The asset catalog is a resolver\<close>

lemma set_subject_tokens:
  "set (subject_tokens s t f ids) =
     {f ep | i ep. i \<in> set (expand_subjects s t ids) \<and> GetEndpoint s t i = Some ep \<and> f ep \<noteq> []}"
  by (auto simp: subject_tokens_def split: option.splits) (metis option.sel)+

lemma set_expand_subjects_append:
  "set (expand_subjects s t (xs @ ys)) = set (expand_subjects s t xs) \<union> set (expand_subjects s t ys)"
  by (simp add: expand_subjects_def)

lemma subject_tokens_resolver: "subject_resolver (\<lambda>t ids. sorted_set (subject_tokens s t f ids))"
  by unfold_locales (auto simp: set_subject_tokens set_expand_subjects_append, simp add: subject_tokens_def expand_subjects_def)

lemma normalize_ports_valid:
  "normalize_ports ps = Inr qs \<Longrightarrow>
    length qs = length ps \<and> list_all (\<lambda>p. (pp_Protocol p = ''tcp'' \<or> pp_Protocol p = ''udp'') \<and> 1 \<le> pp_Port p \<and> pp_Port p \<le> 65535) qs"
proof (induction ps arbitrary: qs)
  case (Cons p ps)
  from Cons.prems obtain rs where rs: "normalize_ports ps = Inr rs"
    by (cases "normalize_ports ps") (auto simp: Let_def split: if_splits)
  with Cons.prems Cons.IH [OF rs] show ?case by (auto simp: Let_def split: if_splits)
qed simp

lemma add_transport_valid:
  assumes "list_all valid_transport m" "distinct (map fst m)"
    and "(pp_Protocol p = ''tcp'' \<or> pp_Protocol p = ''udp'') \<and> 1 \<le> pp_Port p \<and> pp_Port p \<le> 65535"
  shows "list_all valid_transport (add_transport p m) \<and> distinct (map fst (add_transport p m)) \<and> add_transport p m \<noteq> []"
proof -
  have "valid_transport (pp_Protocol p, (case map_of m (pp_Protocol p) of Some ps \<Rightarrow> ps | None \<Rightarrow> []) @ [pp_Port p])"
    using assms by (auto simp: valid_transport_def list_all_iff dest!: map_of_SomeD split: option.split)
  moreover have "set (AList.update k v m) \<subseteq> insert (k, v) (set m)" for k v
    by (induction m) auto
  ultimately show ?thesis using assms(1,2)
    by (auto simp: add_transport_def list_all_iff distinct_update update_nonempty dest!: subsetD)
qed

lemma fold_add_transport_valid:
  "list_all (\<lambda>p. (pp_Protocol p = ''tcp'' \<or> pp_Protocol p = ''udp'') \<and> 1 \<le> pp_Port p \<and> pp_Port p \<le> 65535) ps \<Longrightarrow>
    list_all valid_transport m \<Longrightarrow> distinct (map fst m) \<Longrightarrow>
    list_all valid_transport (fold add_transport ps m) \<and> distinct (map fst (fold add_transport ps m)) \<and>
    (ps \<noteq> [] \<or> m \<noteq> [] \<longrightarrow> fold add_transport ps m \<noteq> [])"
proof (induction ps arbitrary: m)
  case (Cons p ps)
  from Cons.prems have "list_all valid_transport (add_transport p m) \<and> distinct (map fst (add_transport p m)) \<and> add_transport p m \<noteq> []"
    by (intro add_transport_valid) auto
  with Cons.IH [of "add_transport p m"] Cons.prems show ?case by simp
qed simp

lemma ServiceTransportPorts_valid:
  assumes "ServiceTransportPorts s t i = Some m"
  shows "m \<noteq> [] \<and> list_all valid_transport m \<and> distinct (map fst m)"
proof -
  from assms obtain svc valid where v: "normalizeServiceTransports svc = Inr valid" "m = fold add_transport (sv_Ports valid) []"
    by (auto simp: ServiceTransportPorts_def split: if_splits option.splits sum.splits)
  from v(1) have "sv_Ports svc \<noteq> []" "normalize_ports (sv_Ports svc) = Inr (sv_Ports valid)"
    by (auto simp: normalizeServiceTransports_def split: if_splits sum.splits)
  with normalize_ports_valid [OF this(2)] fold_add_transport_valid [of "sv_Ports valid" "[]"] v(2) show ?thesis by auto
qed

interpretation catalog_resolver: egress_resolver "SourceDeviceTokens s" "EndpointAddresses s" "ServiceTransportPorts s" for s
proof -
  have "subject_resolver (SourceDeviceTokens s)" "subject_resolver (EndpointAddresses s)"
    using subject_tokens_resolver [of s ep_Identity] subject_tokens_resolver [of s ep_Address]
    by (simp_all add: SourceDeviceTokens_def [abs_def] EndpointAddresses_def [abs_def])
  moreover have "transport_resolver (ServiceTransportPorts s)" by unfold_locales (rule ServiceTransportPorts_valid)
  ultimately show "egress_resolver (SourceDeviceTokens s) (EndpointAddresses s) (ServiceTransportPorts s)"
    by (simp add: egress_resolver_def)
qed

section \<open>Conditions\<close>

definition conditions_hold :: "instant \<Rightarrow> decision_request \<Rightarrow> string \<Rightarrow> metadata \<Rightarrow> bool" where
  "conditions_hold now req at cs \<longleftrightarrow> (\<forall>k \<in> fst ` set cs. condition_holds now req at k (index_any cs k))"

lemma conditions_hold_Nil [simp]: "conditions_hold now req at []"
  by (simp add: conditions_hold_def)

lemma conditions_hold_single [simp]: "conditions_hold now req at [(k, v)] \<longleftrightarrow> condition_holds now req at k v"
  by (simp add: conditions_hold_def index_any_def)

lemma conditions_hold_pair [simp]:
  "k \<noteq> l \<Longrightarrow> conditions_hold now req at [(k, v), (l, w)] \<longleftrightarrow> condition_holds now req at k v \<and> condition_holds now req at l w"
  by (simp add: conditions_hold_def index_any_def)

lemma keys_merge: "fst ` set (merge_conditions m n) = fst ` set m \<union> fst ` set n"
proof (induction n arbitrary: m)
  case (Cons x n)
  have "fst ` set (AList.update k v m) = insert k (fst ` set m)" for k v by (induction m) auto
  with Cons.IH show ?case by (simp add: merge_conditions_def case_prod_beta)
qed (simp add: merge_conditions_def)

lemma map_of_merge:
  "distinct (map fst n) \<Longrightarrow> map_of (merge_conditions m n) k = (case map_of n k of Some v \<Rightarrow> Some v | None \<Rightarrow> map_of m k)"
proof (induction n arbitrary: m)
  case (Cons x n)
  then have "map_of n (fst x) = None" by (simp add: map_of_eq_None_iff)
  with Cons.IH [of "AList.update (fst x) (snd x) m"] Cons.prems show ?case
    by (auto simp: merge_conditions_def case_prod_beta split: option.split)
qed (simp add: merge_conditions_def)

lemma index_merge:
  assumes "distinct (map fst n)"
  shows "index_any (merge_conditions m n) k = (if k \<in> fst ` set n then index_any n k else index_any m k)"
  using map_of_eq_None_iff [of n k] by (cases "map_of n k") (simp_all add: index_any_def map_of_merge [OF assms])

lemma conditions_hold_merge:
  assumes "distinct (map fst n)" "fst ` set m \<inter> fst ` set n = {}"
  shows "conditions_hold now req at (merge_conditions m n) \<longleftrightarrow> conditions_hold now req at m \<and> conditions_hold now req at n"
proof -
  have d: "k \<in> fst ` set m \<Longrightarrow> (k \<in> fst ` set n) = False" for k using assms(2) by blast
  have "(\<forall>k \<in> fst ` set m. condition_holds now req at k (index_any (merge_conditions m n) k)) =
      (\<forall>k \<in> fst ` set m. condition_holds now req at k (index_any m k))"
    by (simp only: index_merge [OF assms(1)] d if_False cong: ball_cong)
  then show ?thesis unfolding conditions_hold_def keys_merge ball_Un
    by (simp only: index_merge [OF assms(1)] if_True cong: ball_cong)
qed

lemma merge_Nil [simp]: "merge_conditions m [] = m"
  by (simp add: merge_conditions_def)

text \<open>The attributes the compilers use.\<close>

lemma compiled_fields:
  "fieldValues now req at ''device_id'' = singleValue (rq_DeviceID req)"
  "fieldValues now req at ''user_groups'' = rq_UserGroups req"
  "fieldValues now req at ''user_id'' = user_ids req"
  "fieldValues now req at ''actor_nhi_id'' = singleValue (rq_ActorNHIID req)"
  "fieldValues now req at ''fqdn'' = singleValue (rq_FQDN req)"
  "fieldValues now req at ''sni'' = singleValue (rq_SNI req)"
  "fieldValues now req at ''protocol'' = singleValue (rq_Protocol req)"
  "fieldValues now req at ''destination_port'' = (if rq_DestinationPort req = 0 then [] else singleValue (Itoa (rq_DestinationPort req)))"
  "fieldValues now req at ''risk_state_severity'' = singleValue (rq_RiskStateSeverity req)"
  by (simp_all add: fieldValues_def field_table_def)

lemma conditionMatches_value_list [simp]:
  "conditionMatches actual (value_list vs) \<longleftrightarrow> (\<exists>v \<in> set actual. v \<in> set vs)"
  by (auto simp: conditionMatches_def value_list_def anyActualInExpectedValues_def list_ex_iff comp_def)

lemma conditionMatches_AStr [simp]: "conditionMatches actual (AStr s) \<longleftrightarrow> s \<in> set actual"
  by (auto simp: conditionMatches_def anyActualEquals_def list_ex_iff)

lemma conditionMatches_ints [simp]:
  "conditionMatches actual (AInt p) \<longleftrightarrow> Itoa p \<in> set actual"
  "conditionMatches actual (AList (map AInt ps)) \<longleftrightarrow> (\<exists>p \<in> set ps. Itoa p \<in> set actual)"
  by (auto simp: conditionMatches_def anyActualEquals_def anyActualInExpectedValues_def list_ex_iff)

lemma conditionMatches_none: "\<not> conditionMatches actual (AList [])"
  using conditionMatches_value_list [of actual "[]"] by (simp add: value_list_def)

lemma hostname_AStr: "hostnameConditionMatches actual (AStr a) \<longleftrightarrow> (\<exists>h \<in> set actual. hostMatchesPattern h a)"
  by (auto simp: hostnameConditionMatches_def hostname_patterns_def list_ex_iff)

lemma condition_plain: "k \<noteq> ''fqdn'' \<Longrightarrow> k \<noteq> ''sni'' \<Longrightarrow> condition_holds now req at k v \<longleftrightarrow> conditionMatches (fieldValues now req at k) v"
  by (simp add: condition_holds_def isHostnameConditionKey_def)

section \<open>The meaning of an authored egress rule\<close>

text \<open>A source selector names an identity group, a person, an agent, or devices of the catalog.\<close>

definition selector_selects :: "subjects \<Rightarrow> string \<Rightarrow> decision_request \<Rightarrow> string \<Rightarrow> bool" where
  "selector_selects src tenant req s =
     (case IdentityGroupToken s of
        Some g \<Rightarrow> g \<in> set (rq_UserGroups req)
      | None \<Rightarrow>
          (case IdentityUserToken s of
             Some u \<Rightarrow> u \<in> {rq_UserID req, rq_SubjectUserID req}
           | None \<Rightarrow>
               (case AgentToken s of
                  Some a \<Rightarrow> a = rq_ActorNHIID req
                | None \<Rightarrow> rq_DeviceID req \<in> set (src tenant [s]))))"

text \<open>A destination address is met by a host name of the request or by its literal address.\<close>

definition address_reached :: "decision_request \<Rightarrow> string \<Rightarrow> bool" where
  "address_reached req a \<longleftrightarrow>
     (\<exists>h \<in> {rq_FQDN req, rq_SNI req}. h \<noteq> [] \<and> (h = a \<or> hostMatchesPattern h a)) \<or>
     (case ParseAddr (TrimSpace (rq_Destination req)) of
        None \<Rightarrow> False
      | Some addr \<Rightarrow>
          a = TrimSpace (rq_Destination req) \<or> a = Addr_String (Unmap addr) \<or>
          (case ParsePrefix a of None \<Rightarrow> False | Some p \<Rightarrow> Contains (Masked p) addr \<or> Contains (Masked p) (Unmap addr)))"

definition risk_reached :: "string \<Rightarrow> decision_request \<Rightarrow> bool" where
  "risk_reached threshold req =
     (case map_of riskSeverityRank (ToLower (TrimSpace threshold)) of
        None \<Rightarrow> True
      | Some least \<Rightarrow>
          (case map_of riskSeverityRank (rq_RiskStateSeverity req) of Some r \<Rightarrow> least \<le> r | None \<Rightarrow> False))"

text \<open>An unresolved service stops an allow rule and widens a restriction to every port.\<close>

definition service_used :: "service_ports \<Rightarrow> string \<Rightarrow> authored_rule \<Rightarrow> decision_request \<Rightarrow> bool" where
  "service_used svc tenant r req =
     (ru_ServiceID r = [] \<or>
      (case svc tenant (ru_ServiceID r) of
         None \<Rightarrow> ra_Access (ru_Action r) \<noteq> ''allow''
       | Some m \<Rightarrow> (case map_of m (rq_Protocol req) of Some ports \<Rightarrow> rq_DestinationPort req \<in> set ports | None \<Rightarrow> False)))"

definition egress_rule_matches ::
  "subjects \<Rightarrow> subjects \<Rightarrow> service_ports \<Rightarrow> string \<Rightarrow> decision_request \<Rightarrow> authored_rule \<Rightarrow> bool" where
  "egress_rule_matches src addresses svc tenant req r \<longleftrightarrow>
     ra_Access (ru_Action r) \<in> {''allow'', ''authenticate'', ''deny''} \<and>
     (IsAnySubject (ru_Source r) \<or> (\<exists>s \<in> set (ru_Source r). selector_selects src tenant req s)) \<and>
     (IsAnySubject (ru_Destination r) \<or>
       (\<exists>a \<in> set (addresses tenant (ru_Destination r)). TrimSpace a \<noteq> [] \<and> address_reached req a)) \<and>
     service_used svc tenant r req \<and> risk_reached (ru_RiskAtLeast r) req"

text \<open>The sentinels of unresolved subjects start with a byte no identifier has.\<close>

definition no_nul :: "decision_request \<Rightarrow> bool" where
  "no_nul req \<longleftrightarrow> CHR 0x00 \<notin> set (rq_DeviceID req) \<and> CHR 0x00 \<notin> set (rq_FQDN req)"

section \<open>Each part of a compiled rule means what the authored part means\<close>

lemma identity_token_nonempty: "identity_token pre i = Some g \<Longrightarrow> g \<noteq> []"
  by (auto simp: identity_token_def Let_def split: if_splits)

lemma token_nonempty:
  "IdentityGroupToken s = Some g \<Longrightarrow> g \<noteq> []" "IdentityUserToken s = Some g \<Longrightarrow> g \<noteq> []" "AgentToken s = Some g \<Longrightarrow> g \<noteq> []"
  by (simp_all add: IdentityGroupToken_def IdentityUserToken_def AgentToken_def identity_token_nonempty)

lemma set_map_filter: "set (List.map_filter f xs) = {y. \<exists>x \<in> set xs. f x = Some y}"
  by (auto simp: List.map_filter_def intro: rev_image_eqI)

lemma user_ids_member: "u \<noteq> [] \<Longrightarrow> u \<in> set (user_ids req) \<longleftrightarrow> u \<in> {rq_UserID req, rq_SubjectUserID req}"
  by (auto simp: user_ids_def)

lemma singleValue_member: "v \<in> set (singleValue x) \<longleftrightarrow> v = x \<and> x \<noteq> []"
  by (auto simp: singleValue_def)

lemmas plain_condition = condition_plain compiled_fields singleValue_member

definition device_values :: "subjects \<Rightarrow> string \<Rightarrow> string list \<Rightarrow> string list" where
  "device_values src tenant source =
     (let ds = filter (\<lambda>s. \<not> is_identity s) source
      in if ds \<noteq> [] then (if src tenant ds = [] then [sourceNoMatchSentinel] else src tenant ds)
         else if identity_groups source = [] \<and> identity_users source = [] \<and> agent_ids source = [] then [sourceNoMatchSentinel]
         else [])"

lemma source_parts:
  assumes "\<not> IsAnySubject source"
  shows "list_ex (conditions_hold now req at) (source_conditions src tenant source) \<longleftrightarrow>
    (rq_DeviceID req \<noteq> [] \<and> rq_DeviceID req \<in> set (device_values src tenant source)) \<or>
    (\<exists>g \<in> set (identity_groups source). g \<in> set (rq_UserGroups req)) \<or>
    (\<exists>u \<in> set (identity_users source). u \<in> set (user_ids req)) \<or>
    (\<exists>a \<in> set (agent_ids source). rq_ActorNHIID req = a \<and> a \<noteq> [])"
  using assms unfolding source_conditions_def device_values_def Let_def
  by (auto simp: plain_condition split: if_splits)

lemma selector_selects_iff:
  "selector_selects src tenant req s \<longleftrightarrow>
     (\<exists>g. IdentityGroupToken s = Some g \<and> g \<in> set (rq_UserGroups req)) \<or>
     (\<exists>u. IdentityGroupToken s = None \<and> IdentityUserToken s = Some u \<and> u \<in> {rq_UserID req, rq_SubjectUserID req}) \<or>
     (\<exists>a. IdentityGroupToken s = None \<and> IdentityUserToken s = None \<and> AgentToken s = Some a \<and> rq_ActorNHIID req = a) \<or>
     (\<not> is_identity s \<and> rq_DeviceID req \<in> set (src tenant [s]))"
  by (auto simp: selector_selects_def is_identity_def split: option.split)

lemma identity_members:
  "(\<exists>g \<in> set (identity_groups source). P g) \<longleftrightarrow> (\<exists>s \<in> set source. \<exists>g. IdentityGroupToken s = Some g \<and> P g)"
  "(\<exists>u \<in> set (identity_users source). P u) \<longleftrightarrow>
    (\<exists>s \<in> set source. \<exists>u. IdentityGroupToken s = None \<and> IdentityUserToken s = Some u \<and> P u)"
  "(\<exists>a \<in> set (agent_ids source). P a) \<longleftrightarrow>
    (\<exists>s \<in> set source. \<exists>a. IdentityGroupToken s = None \<and> IdentityUserToken s = None \<and> AgentToken s = Some a \<and> P a)"
  by (auto simp: identity_groups_def identity_users_def agent_ids_def set_map_filter)

context subject_resolver
begin

lemma device_values_meaning:
  assumes "no_nul req"
  shows "rq_DeviceID req \<noteq> [] \<and> rq_DeviceID req \<in> set (device_values resolve tenant source) \<longleftrightarrow>
    (\<exists>s \<in> set source. \<not> is_identity s \<and> rq_DeviceID req \<in> set (resolve tenant [s]))"
proof -
  let ?ds = "filter (\<lambda>s. \<not> is_identity s) source"
  have "rq_DeviceID req \<noteq> sourceNoMatchSentinel" using assms by (auto simp: no_nul_def sourceNoMatchSentinel_def)
  then have "rq_DeviceID req \<in> set (device_values resolve tenant source) \<longleftrightarrow> rq_DeviceID req \<in> set (resolve tenant ?ds)"
    by (simp add: device_values_def Let_def resolve_none)
  moreover have "rq_DeviceID req \<in> set (resolve tenant ?ds) \<Longrightarrow> rq_DeviceID req \<noteq> []"
    using resolve_nonblank [of tenant ?ds] by auto
  moreover have "rq_DeviceID req \<in> set (resolve tenant ?ds) \<longleftrightarrow> (\<exists>s \<in> set ?ds. rq_DeviceID req \<in> set (resolve tenant [s]))"
    by (subst resolve_set) simp
  ultimately show ?thesis by auto
qed

lemma source_conditions_meaning:
  assumes "no_nul req"
  shows "list_ex (conditions_hold now req at) (source_conditions resolve tenant source) \<longleftrightarrow>
    IsAnySubject source \<or> (\<exists>s \<in> set source. selector_selects resolve tenant req s)"
proof (cases "IsAnySubject source")
  case True
  then show ?thesis by (simp add: source_conditions_def)
next
  case False
  have "(IdentityUserToken s = Some u \<and> u \<in> set (user_ids req)) = (IdentityUserToken s = Some u \<and> u \<in> {rq_UserID req, rq_SubjectUserID req})"
    "(AgentToken s = Some a \<and> rq_ActorNHIID req = a \<and> a \<noteq> []) = (AgentToken s = Some a \<and> rq_ActorNHIID req = a)" for s u a
    using token_nonempty [of s] user_ids_member [of u req] by blast+
  then show ?thesis
    unfolding source_parts [OF False] device_values_meaning [OF assms] selector_selects_iff identity_members using False by blast
qed

end

lemma Itoa_nonempty [simp]: "Itoa n \<noteq> []"
  by (simp add: Itoa_def)

lemma transport_condition_meaning:
  assumes "p \<noteq> []" "\<And>ps. map_of m p = Some ps \<Longrightarrow> 0 \<notin> set ps"
  shows "list_ex (conditions_hold now req at) (transport_condition m p) \<longleftrightarrow>
    rq_Protocol req = p \<and> (\<exists>ps. map_of m p = Some ps \<and> rq_DestinationPort req \<in> set ps)"
proof -
  let ?ps = "case map_of m p of Some ps \<Rightarrow> ps | None \<Rightarrow> []"
  have s: "set (sort (remdups ?ps)) = set ?ps" by simp
  have "list_ex (conditions_hold now req at) (transport_condition m p) \<longleftrightarrow>
      rq_Protocol req = p \<and> rq_DestinationPort req \<noteq> 0 \<and> rq_DestinationPort req \<in> set (sort (remdups ?ps))"
    using assms(1) unfolding transport_condition_def Let_def
    by (cases "sort (remdups ?ps)" rule: remdups_adj.cases)
       (auto simp: plain_condition simp del: list.map split: if_splits)
  then show ?thesis unfolding s using assms(2) by (cases "map_of m p") auto
qed

context transport_resolver
begin

lemma transports_of_port:
  assumes "transports_of t i = Some m" "map_of m p = Some ps"
  shows "p \<in> {''tcp'', ''udp''}" "0 \<notin> set ps"
proof -
  have "valid_transport (p, ps)" using transports_valid [OF assms(1)] map_of_SomeD [OF assms(2)] by (auto simp: list_all_iff)
  then show "p \<in> {''tcp'', ''udp''}" "0 \<notin> set ps" by (auto simp: valid_transport_def list_all_iff)
qed

lemma egress_transports_meaning:
  "list_ex (conditions_hold now req at) (egress_transports (Some transports_of) tenant r) \<longleftrightarrow> service_used transports_of tenant r req"
proof (cases "transports_of tenant (ru_ServiceID r)")
  case None
  then show ?thesis
    by (simp add: egress_transports_def egressServiceConditions_def service_used_def plain_condition conditionMatches_none)
next
  case (Some m)
  note port = transports_of_port [OF Some]
  have c: "list_ex (conditions_hold now req at) (transport_condition m p) \<longleftrightarrow>
      rq_Protocol req = p \<and> (\<exists>ps. map_of m p = Some ps \<and> rq_DestinationPort req \<in> set ps)" if "p \<noteq> []" for p
    using that port(2) by (intro transport_condition_meaning) auto
  have "(case map_of m (rq_Protocol req) of Some ports \<Rightarrow> rq_DestinationPort req \<in> set ports | None \<Rightarrow> False) \<longleftrightarrow>
      (\<exists>p \<in> {''tcp'', ''udp''}. rq_Protocol req = p \<and> (\<exists>ps. map_of m p = Some ps \<and> rq_DestinationPort req \<in> set ps))"
    using port(1) [of "rq_Protocol req"] by (auto split: option.splits)
  then show ?thesis using transports_valid [OF Some]
    by (auto simp: egress_transports_def egressServiceConditions_def service_used_def Some c)
qed

end

lemma Join_sep: "length xs \<ge> 2 \<Longrightarrow> c \<in> set (Join xs [c])"
  by (cases xs rule: remdups_adj.cases) auto

lemma Addr_String_sep: "CHR ''.'' \<in> set (Addr_String a) \<or> CHR '':'' \<in> set (Addr_String a)"
proof (cases a)
  case (V4 w)
  then show ?thesis by (simp add: v4_text_def v4_bytes_def)
next
  case (V6 w z)
  then show ?thesis by (auto simp: v6_text_def Let_def v6_group_list_def split: option.splits)
qed

lemma ipLiteral_AStr:
  "ipLiteralConditionMatchesDestination d (AStr a) \<longleftrightarrow>
    (case ParseAddr (TrimSpace d) of
       None \<Rightarrow> False
     | Some addr \<Rightarrow>
         a = TrimSpace d \<or> a = Addr_String (Unmap addr) \<or>
         (case ParsePrefix a of None \<Rightarrow> False | Some p \<Rightarrow> Contains (Masked p) addr \<or> Contains (Masked p) (Unmap addr)))"
proof -
  have "ParseAddr [] = None" by code_simp
  then show ?thesis
    by (auto simp: ipLiteralConditionMatchesDestination_def anyActualCIDRContains_def conditionValues_def Let_def split: option.splits)
qed

lemma host_condition_meaning:
  "condition_holds now req at ''fqdn'' (AStr a) \<longleftrightarrow>
    (rq_FQDN req \<noteq> [] \<and> (rq_FQDN req = a \<or> hostMatchesPattern (rq_FQDN req) a)) \<or> ipLiteralConditionMatchesDestination (rq_Destination req) (AStr a)"
  "condition_holds now req at ''sni'' (AStr a) \<longleftrightarrow>
    (rq_SNI req \<noteq> [] \<and> (rq_SNI req = a \<or> hostMatchesPattern (rq_SNI req) a)) \<or> ipLiteralConditionMatchesDestination (rq_Destination req) (AStr a)"
  by (auto simp: condition_holds_def isHostnameConditionKey_def compiled_fields hostname_AStr singleValue_def)

lemma lower_char_nul: "lower_char c = CHR 0x00 \<Longrightarrow> c = CHR 0x00"
proof (cases "65 \<le> byte c \<and> byte c \<le> 90")
  case True
  moreover assume "lower_char c = CHR 0x00"
  ultimately have "byte (char_of (byte c + 32)) = byte (CHR 0x00)" by (simp add: lower_char_def)
  with True show ?thesis by (simp add: byte_char_of)
qed (simp add: lower_char_def)

lemma ToLower_nul: "CHR 0x00 \<in> set (ToLower s) \<Longrightarrow> CHR 0x00 \<in> set s"
  by (auto simp: ToLower_def dest: lower_char_nul [OF sym])

lemma destination_sentinel_facts:
  "TrimSpace (ToLower destinationNoMatchSentinel) = destinationNoMatchSentinel"
  "ParseAddr destinationNoMatchSentinel = None" "ParsePrefix destinationNoMatchSentinel = None"
  "\<not> HasPrefix destinationNoMatchSentinel ''*.''"
  by code_simp+

lemma destination_sentinel_unmet:
  assumes "no_nul req" shows "\<not> condition_holds now req at ''fqdn'' (AStr destinationNoMatchSentinel)"
proof -
  have nul: "CHR 0x00 \<in> set destinationNoMatchSentinel" by (simp add: destinationNoMatchSentinel_def)
  then have "rq_FQDN req \<noteq> destinationNoMatchSentinel" using assms by (auto simp: no_nul_def)
  moreover have "TrimSpace (ToLower (rq_FQDN req)) \<noteq> destinationNoMatchSentinel"
    using assms nul set_TrimSpace ToLower_nul unfolding no_nul_def by (metis subsetD)
  then have "\<not> hostMatchesPattern (rq_FQDN req) destinationNoMatchSentinel"
    by (simp add: hostMatchesPattern_def Let_def destination_sentinel_facts)
  moreover have "CHR ''.'' \<notin> set destinationNoMatchSentinel \<and> CHR '':'' \<notin> set destinationNoMatchSentinel"
    by (simp add: destinationNoMatchSentinel_def)
  then have "destinationNoMatchSentinel \<noteq> Addr_String a" for a using Addr_String_sep [of a] by metis
  ultimately show ?thesis
    using destination_sentinel_facts unfolding host_condition_meaning ipLiteral_AStr by (auto split: option.split)
qed

lemma ex_enumerate:
  "(\<exists>x \<in> set (filter (\<lambda>(i, a). Q a) (enumerate n xs)). P (snd x)) \<longleftrightarrow> (\<exists>a \<in> set xs. Q a \<and> P a)"
  by (induction xs arbitrary: n) auto

lemma host_conditions_meaning:
  assumes "no_nul req"
  shows "list_ex (\<lambda>(suffix, h). conditions_hold now req at h) (host_conditions addresses tenant destination) \<longleftrightarrow>
    IsAnySubject destination \<or> (\<exists>a \<in> set (addresses tenant destination). TrimSpace a \<noteq> [] \<and> address_reached req a)"
proof (cases "IsAnySubject destination")
  case False
  let ?r = "filter (\<lambda>(i, addr). TrimSpace addr \<noteq> []) (enumerate 0 (addresses tenant destination))"
  have ex: "(\<exists>x \<in> set ?r. P (snd x)) \<longleftrightarrow> (\<exists>a \<in> set (addresses tenant destination). TrimSpace a \<noteq> [] \<and> P a)" for P
    by (rule ex_enumerate)
  have a: "condition_holds now req at ''fqdn'' (AStr a) \<or> condition_holds now req at ''sni'' (AStr a) \<longleftrightarrow> address_reached req a" for a
    unfolding host_condition_meaning address_reached_def ipLiteral_AStr by blast
  show ?thesis
  proof (cases "?r = []")
    case True
    then have "\<not> (\<exists>a \<in> set (addresses tenant destination). TrimSpace a \<noteq> [] \<and> address_reached req a)"
      unfolding ex [of "address_reached req", symmetric] by simp
    with True False destination_sentinel_unmet [OF assms] show ?thesis by (simp add: host_conditions_def Let_def)
  next
    case nonempty: False
    have "list_ex (\<lambda>(suffix, h). conditions_hold now req at h) (host_conditions addresses tenant destination) \<longleftrightarrow>
        (\<exists>x \<in> set ?r. condition_holds now req at ''fqdn'' (AStr (snd x)) \<or> condition_holds now req at ''sni'' (AStr (snd x)))"
      using False nonempty by (simp add: host_conditions_def Let_def list_ex_iff case_prod_beta bex_Un)
    then show ?thesis unfolding a ex using False by simp
  qed
qed (simp add: host_conditions_def)

lemma RiskSeveritiesAtLeast_meaning:
  "v \<in> set (RiskSeveritiesAtLeast threshold) \<longleftrightarrow>
    (\<exists>least r. map_of riskSeverityRank (ToLower (TrimSpace threshold)) = Some least \<and> map_of riskSeverityRank v = Some r \<and> least \<le> r)"
  by (auto simp: RiskSeveritiesAtLeast_def riskSeverityRank_def split: if_splits)

lemma risk_condition_meaning: "conditions_hold now req at (risk_condition r) \<longleftrightarrow> risk_reached (ru_RiskAtLeast r) req"
proof (cases "map_of riskSeverityRank (ToLower (TrimSpace (ru_RiskAtLeast r)))")
  case None
  then show ?thesis by (simp add: risk_condition_def RiskSeveritiesAtLeast_def risk_reached_def)
next
  case (Some least)
  have "map_of riskSeverityRank ''critical'' = Some 4" "map_of riskSeverityRank [] = None" "least \<le> 4"
    using Some by (auto simp: riskSeverityRank_def split: if_splits)
  with Some have "RiskSeveritiesAtLeast (ru_RiskAtLeast r) \<noteq> []"
    using RiskSeveritiesAtLeast_meaning [of "''critical''" "ru_RiskAtLeast r"] by auto
  then have "conditions_hold now req at (risk_condition r) \<longleftrightarrow>
      rq_RiskStateSeverity req \<noteq> [] \<and> rq_RiskStateSeverity req \<in> set (RiskSeveritiesAtLeast (ru_RiskAtLeast r))"
    by (auto simp: risk_condition_def Let_def plain_condition)
  with Some \<open>map_of riskSeverityRank [] = None\<close> show ?thesis
    unfolding RiskSeveritiesAtLeast_meaning risk_reached_def by (auto split: option.splits)
qed

section \<open>Compiled policies\<close>

abbreviation host_keys :: "string set" where "host_keys \<equiv> {''fqdn'', ''sni''}"
abbreviation source_keys :: "string set" where "source_keys \<equiv> {''device_id'', ''user_groups'', ''user_id'', ''actor_nhi_id''}"
abbreviation transport_keys :: "string set" where "transport_keys \<equiv> {''protocol'', ''destination_port''}"

text \<open>Conditions over the given attributes, each at most once.\<close>

definition conditions_on :: "string set \<Rightarrow> metadata \<Rightarrow> bool" where
  "conditions_on K cs \<longleftrightarrow> distinct (map fst cs) \<and> fst ` set cs \<subseteq> K"

lemma conditions_on_parts:
  "sc \<in> set (source_conditions src tenant source) \<Longrightarrow> conditions_on source_keys sc"
  "x \<in> set (host_conditions addresses tenant destination) \<Longrightarrow> conditions_on host_keys (snd x)"
  "conditions_on {''risk_state_severity''} (risk_condition r)"
  by (auto simp: conditions_on_def source_conditions_def host_conditions_def risk_condition_def Let_def split: if_splits)

lemma conditions_on_transport: "t \<in> set (transport_condition m p) \<Longrightarrow> conditions_on transport_keys t"
  unfolding transport_condition_def Let_def
  by (cases "sort (remdups (case map_of m p of Some ps \<Rightarrow> ps | None \<Rightarrow> []))" rule: remdups_adj.cases)
     (simp_all add: conditions_on_def)

lemma conditions_on_service:
  assumes "t \<in> set (fst (egressServiceConditions svc tenant i))"
  shows "conditions_on transport_keys t"
proof -
  have "t = [] \<or> t = [(''protocol'', AList [])] \<or> (\<exists>m p. t \<in> set (transport_condition m p))"
    using assms by (auto simp: egressServiceConditions_def Let_def split: if_splits option.splits)
  then show ?thesis
  proof (elim disjE exE)
    fix m p assume "t \<in> set (transport_condition m p)"
    then show ?thesis by (rule conditions_on_transport)
  qed (simp_all add: conditions_on_def)
qed

lemma conditions_on_transports: "t \<in> set (egress_transports svc tenant r) \<Longrightarrow> conditions_on transport_keys t"
  using conditions_on_service [of t svc tenant "ru_ServiceID r"]
  by (cases "egressServiceConditions svc tenant (ru_ServiceID r)") (auto simp: egress_transports_def conditions_on_def split: if_splits)

definition tenant_served :: "string \<Rightarrow> decision_request \<Rightarrow> bool" where
  "tenant_served tenant req \<longleftrightarrow> policyTenantAppliesTo (zero_policy\<lparr>pol_TenantID := tenant\<rparr>) req"

lemma conditions_hold_four:
  assumes "conditions_on host_keys h" "conditions_on source_keys sc" "conditions_on transport_keys t"
    "conditions_on {''risk_state_severity''} rc"
  shows "conditions_hold now req at (merge_conditions (merge_conditions (merge_conditions (merge_conditions [] h) sc) t) rc) \<longleftrightarrow>
    conditions_hold now req at h \<and> conditions_hold now req at sc \<and> conditions_hold now req at t \<and> conditions_hold now req at rc"
proof -
  have d: "distinct (map fst h)" "distinct (map fst sc)" "distinct (map fst t)" "distinct (map fst rc)"
    and k: "fst ` set h \<subseteq> host_keys" "fst ` set sc \<subseteq> source_keys" "fst ` set t \<subseteq> transport_keys"
      "fst ` set rc \<subseteq> {''risk_state_severity''}"
    using assms by (simp_all add: conditions_on_def)
  have "(fst ` set h \<union> fst ` set sc \<union> fst ` set t) \<inter> fst ` set rc = {}"
    "(fst ` set h \<union> fst ` set sc) \<inter> fst ` set t = {}" "fst ` set h \<inter> fst ` set sc = {}"
    using k by fastforce+
  then show ?thesis by (simp add: conditions_hold_merge d keys_merge)
qed

lemma append_policy_matches:
  assumes "conditions_on host_keys h" "\<And>sc. sc \<in> set scs \<Longrightarrow> conditions_on source_keys sc"
    "\<And>t. t \<in> set ts \<Longrightarrow> conditions_on transport_keys t"
  shows "list_ex (policy_matches now req at) (append_policy tenant r dec scs ts sfx h) \<longleftrightarrow>
    tenant_served tenant req \<and> conditions_hold now req at h \<and> list_ex (conditions_hold now req at) scs \<and>
    list_ex (conditions_hold now req at) ts \<and> conditions_hold now req at (risk_condition r)"
proof -
  have four: "conditions_hold now req at (merge_conditions (merge_conditions (merge_conditions (merge_conditions [] h) sc) t) (risk_condition r)) \<longleftrightarrow>
      conditions_hold now req at h \<and> conditions_hold now req at sc \<and> conditions_hold now req at t \<and> conditions_hold now req at (risk_condition r)"
    if "sc \<in> set scs" "t \<in> set ts" for sc t
    using that assms conditions_on_parts(3) by (intro conditions_hold_four) auto
  have m: "policy_matches now req at p \<longleftrightarrow> pol_Status p = ''active'' \<and> tenant_served (pol_TenantID p) req \<and> conditions_hold now req at (pol_Conditions p)" for p
    by (simp add: matchPolicy_iff tenant_served_def conditions_hold_def policyTenantAppliesTo_def)
  have "list_ex (policy_matches now req at) (append_policy tenant r dec scs ts sfx h) \<longleftrightarrow>
      (\<exists>x \<in> set (enumerate 0 scs). \<exists>t \<in> set ts. tenant_served tenant req \<and>
        conditions_hold now req at (merge_conditions (merge_conditions (merge_conditions (merge_conditions [] h) (snd x)) t) (risk_condition r)))"
    by (simp add: append_policy_def list_ex_iff case_prod_beta m bex_UN)
  also have "\<dots> \<longleftrightarrow> (\<exists>sc \<in> set scs. \<exists>t \<in> set ts. tenant_served tenant req \<and>
        conditions_hold now req at (merge_conditions (merge_conditions (merge_conditions (merge_conditions [] h) sc) t) (risk_condition r)))"
    using ex_enumerate [of "\<lambda>_. True" 0 scs "\<lambda>sc. \<exists>t \<in> set ts. tenant_served tenant req \<and>
        conditions_hold now req at (merge_conditions (merge_conditions (merge_conditions (merge_conditions [] h) sc) t) (risk_condition r))"]
    by (simp add: case_prod_beta)
  also have "\<dots> \<longleftrightarrow> (\<exists>sc \<in> set scs. \<exists>t \<in> set ts. tenant_served tenant req \<and>
        conditions_hold now req at h \<and> conditions_hold now req at sc \<and> conditions_hold now req at t \<and> conditions_hold now req at (risk_condition r))"
    by (simp only: four cong: bex_cong)
  finally show ?thesis by (auto simp: list_ex_iff)
qed

lemma egress_decision_Some:
  "egress_decision a \<noteq> None \<longleftrightarrow> ra_Access a \<in> {''allow'', ''authenticate'', ''deny''}"
  by (simp add: egress_decision_def)

text \<open>What every policy of a rule carries.\<close>

lemma compiled_policy_carries:
  assumes "p \<in> set (compile_egress_rule src addresses svc tenant r)"
  shows "pol_TenantID p = tenant" "pol_Priority p = ru_Priority r" "pol_Status p = ''active''"
    "egress_decision (ru_Action r) = Some (pa_Decision (pol_Action p), pol_Metadata p)"
    "pol_DLP p = ra_DLP (ru_Action r)" "pol_AllowedToolIDs p = ru_AllowedToolIDs r"
    "pol_RequiredWorkloadAttestation p = ra_RequireWorkloadAttestation (ru_Action r)"
  using assms by (auto simp: compile_egress_rule_def append_policy_def split: option.splits)

context egress_resolver
begin

lemma compile_egress_rule_matches:
  assumes "no_nul req"
  shows "list_ex (policy_matches now req at) (compile_egress_rule src addresses (Some transports_of) tenant r) \<longleftrightarrow>
    tenant_served tenant req \<and> egress_rule_matches src addresses transports_of tenant req r"
proof (cases "egress_decision (ru_Action r)")
  case None
  then show ?thesis using egress_decision_Some [of "ru_Action r"] by (simp add: compile_egress_rule_def egress_rule_matches_def)
next
  case (Some dec)
  let ?hs = "host_conditions addresses tenant (ru_Destination r)" and ?scs = "source_conditions src tenant (ru_Source r)"
    and ?ts = "egress_transports (Some transports_of) tenant r"
  have "list_ex (policy_matches now req at) (compile_egress_rule src addresses (Some transports_of) tenant r) \<longleftrightarrow>
      (\<exists>x \<in> set ?hs. list_ex (policy_matches now req at) (append_policy tenant r dec ?scs ?ts (fst x) (snd x)))"
    by (simp add: compile_egress_rule_def Some list_ex_iff case_prod_beta bex_UN)
  also have "\<dots> \<longleftrightarrow> (\<exists>x \<in> set ?hs. tenant_served tenant req \<and> conditions_hold now req at (snd x) \<and>
      list_ex (conditions_hold now req at) ?scs \<and> list_ex (conditions_hold now req at) ?ts \<and> conditions_hold now req at (risk_condition r))"
    using conditions_on_parts conditions_on_transports by (intro bex_cong refl append_policy_matches) auto
  also have "\<dots> \<longleftrightarrow> tenant_served tenant req \<and> list_ex (\<lambda>(sfx, h). conditions_hold now req at h) ?hs \<and>
      list_ex (conditions_hold now req at) ?scs \<and> list_ex (conditions_hold now req at) ?ts \<and> conditions_hold now req at (risk_condition r)"
    by (auto simp: list_ex_iff case_prod_beta)
  finally show ?thesis
    using egress_decision_Some [of "ru_Action r"] Some
    unfolding source.source_conditions_meaning [OF assms] host_conditions_meaning [OF assms] egress_transports_meaning
      risk_condition_meaning egress_rule_matches_def by auto
qed

lemma CompileEgressPolicies_matches:
  assumes "no_nul req"
  shows "list_ex (policy_matches now req at) (CompileEgressPolicies src addresses (Some transports_of) tenant rules) \<longleftrightarrow>
    tenant_served tenant req \<and> (\<exists>r \<in> set rules. egress_applies tenant r \<and> egress_rule_matches src addresses transports_of tenant req r)"
  using compile_egress_rule_matches [OF assms, of now at tenant]
  by (auto simp: CompileEgressPolicies_def list_ex_iff)

end

end
