(* ===== verification/Rule_Compilation.thy ===== *)
theory Rule_Compilation
  imports Rule_Laws
begin

text \<open>
  The compiled rules decide as the authored rules do: the winner of the compiled egress policies is
  a matching authored rule of least rank, an authored denial is enforced by the engine, and a
  compiled east-west rule matches exactly the hops its authored rule names.
\<close>

section \<open>Egress\<close>

abbreviation compiled_egress :: "catalog \<Rightarrow> string \<Rightarrow> authored_rule list \<Rightarrow> policy list" where
  "compiled_egress s \<equiv> CompileEgressPolicies (SourceDeviceTokens s) (EndpointAddresses s) (Some (ServiceTransportPorts s))"

abbreviation egress_match :: "catalog \<Rightarrow> string \<Rightarrow> decision_request \<Rightarrow> authored_rule \<Rightarrow> bool" where
  "egress_match s tenant req r \<equiv>
     egress_applies tenant r \<and>
     egress_rule_matches (SourceDeviceTokens s) (EndpointAddresses s) (ServiceTransportPorts s) tenant req r"

definition rule_decision :: "authored_rule \<Rightarrow> string" where
  "rule_decision r = (case egress_decision (ru_Action r) of Some (d, _) \<Rightarrow> d | None \<Rightarrow> [])"

text \<open>The order in which an operator reads the rules: priority, then the more restrictive action.\<close>

definition rule_rank :: "authored_rule \<Rightarrow> int \<times> int" where
  "rule_rank r = (ru_Priority r, policyDecisionRestrictivenessRank (rule_decision r))"

lemma policy_rank_rule:
  assumes "p \<in> set (compile_egress_rule src addresses svc tenant r)"
  shows "policy_rank p = (fst (rule_rank r), snd (rule_rank r), pol_ID p)" "pa_Decision (pol_Action p) = rule_decision r"
  using compiled_policy_carries [OF assms] by (simp_all add: policy_rank_def rule_rank_def rule_decision_def)

lemma compiled_egress_member:
  "p \<in> set (CompileEgressPolicies src addresses svc tenant rules) \<longleftrightarrow>
    (\<exists>r \<in> set rules. egress_applies tenant r \<and> p \<in> set (compile_egress_rule src addresses svc tenant r))"
  by (auto simp: CompileEgressPolicies_def)

text \<open>A matching rule has a matching policy, and a matching policy comes from a matching rule.\<close>

lemma matching_rule_policy:
  assumes "no_nul req" "tenant_served tenant req" "r \<in> set rules" "egress_match s tenant req r"
  obtains p where "p \<in> set (compiled_egress s tenant rules)" "policy_matches now req at p"
    "p \<in> set (compile_egress_rule (SourceDeviceTokens s) (EndpointAddresses s) (Some (ServiceTransportPorts s)) tenant r)"
proof -
  have "list_ex (policy_matches now req at)
      (compile_egress_rule (SourceDeviceTokens s) (EndpointAddresses s) (Some (ServiceTransportPorts s)) tenant r)"
    unfolding catalog_resolver.compile_egress_rule_matches [OF assms(1)] using assms by simp
  then show thesis using that assms(3,4) unfolding compiled_egress_member list_ex_iff by blast
qed

lemma matching_policy_rule:
  assumes "no_nul req" "policy_matches now req at p"
    and "p \<in> set (compile_egress_rule (SourceDeviceTokens s) (EndpointAddresses s) (Some (ServiceTransportPorts s)) tenant r)"
  shows "egress_rule_matches (SourceDeviceTokens s) (EndpointAddresses s) (ServiceTransportPorts s) tenant req r"
  using assms(2,3) catalog_resolver.compile_egress_rule_matches [OF assms(1), of now at s tenant r] by (auto simp: list_ex_iff)

text \<open>C6. Compilation refines the authored rules.  Over the compiled policies of a tenant the engine's search finds
  nothing exactly when no active authored rule of the tenant matches the request; otherwise it finds
  a policy of a matching rule of least rank (priority, then the more restrictive action), carrying
  the decision and step-up metadata of that rule.\<close>

theorem egress_compilation_refines:
  assumes "no_nul req" "tenant_served tenant req"
  shows "case firstMatchedPolicy now (e\<lparr>ev_Policies := compiled_egress s tenant rules\<rparr>) req at of
      None \<Rightarrow> filter (egress_match s tenant req) rules = []
    | Some (p, ns) \<Rightarrow>
        (\<exists>r \<in> set (filter (egress_match s tenant req) rules).
          egress_decision (ru_Action r) = Some (pa_Decision (pol_Action p), pol_Metadata p) \<and>
          (\<forall>q \<in> set (filter (egress_match s tenant req) rules). rule_rank r \<le> rule_rank q))"
proof (cases "firstMatchedPolicy now (e\<lparr>ev_Policies := compiled_egress s tenant rules\<rparr>) req at")
  case None
  then have "\<not> list_ex (policy_matches now req at) (compiled_egress s tenant rules)"
    by (simp add: firstMatchedPolicy_None list_ex_iff)
  then show ?thesis
    unfolding catalog_resolver.CompileEgressPolicies_matches [OF assms(1)] using assms(2) by (auto simp: None filter_empty_conv)
next
  case (Some pn)
  obtain p ns where pn: "pn = (p, ns)" by force
  note w = firstMatchedPolicy_SomeD [OF Some [unfolded pn]]
  from w(1) obtain r where r: "r \<in> set rules" "egress_applies tenant r"
    "p \<in> set (compile_egress_rule (SourceDeviceTokens s) (EndpointAddresses s) (Some (ServiceTransportPorts s)) tenant r)"
    by (auto simp: compiled_egress_member)
  have least: "rule_rank r \<le> rule_rank q" if q: "q \<in> set rules" "egress_match s tenant req q" for q
  proof -
    obtain p' where p': "p' \<in> set (compiled_egress s tenant rules)" "policy_matches now req at p'"
      "p' \<in> set (compile_egress_rule (SourceDeviceTokens s) (EndpointAddresses s) (Some (ServiceTransportPorts s)) tenant q)"
      using matching_rule_policy [OF assms q] .
    have "policy_rank p \<le> policy_rank p'" using w(4) p'(1,2) by simp
    then show ?thesis unfolding policy_rank_rule(1) [OF r(3)] policy_rank_rule(1) [OF p'(3)]
      by (auto simp: less_eq_prod_def less_prod_def prod_eq_iff split: if_splits)
  qed
  have "r \<in> set (filter (egress_match s tenant req) rules)" using r w(2) matching_policy_rule [OF assms(1) _ r(3)] by simp
  then show ?thesis using compiled_policy_carries(4) [OF r(3)] least by (auto simp: Some pn)
qed

text \<open>A site with one laptop, one database and its service, and a rule that keeps the two apart.\<close>

definition site :: catalog where
  "site = NewStore
     \<lparr>ct_endpoints := [(''acme'',
        [(''laptop'', zero_endpoint\<lparr>ep_ID := ''laptop'', ep_TenantID := ''acme'', ep_Kind := ''steered_device'', ep_Identity := ''dev-1''\<rparr>),
         (''db'', zero_endpoint\<lparr>ep_ID := ''db'', ep_TenantID := ''acme'', ep_Kind := ''network'', ep_Address := ''db.example''\<rparr>)])],
      ct_services := [(''acme'', [(''pg'', zero_service\<lparr>sv_ID := ''pg'', sv_TenantID := ''acme'', sv_Alias := ''pg'',
        sv_Ports := [\<lparr>pp_Protocol = ''tcp'', pp_Port = 5432\<rparr>]\<rparr>)])]\<rparr>"

definition site_deny :: authored_rule where
  "site_deny = zero_rule\<lparr>ru_ID := ''r1'', ru_TenantID := ''acme'', ru_Plane := ''egress'', ru_Priority := 10,
     ru_Source := [''laptop''], ru_Destination := [''db''], ru_ServiceID := ''pg'',
     ru_Action := (ru_Action zero_rule)\<lparr>ra_Access := ''deny'', ra_Inspection := ''inspect''\<rparr>, ru_Status := ''active'', ru_Stage := ''enforce''\<rparr>"

definition site_allow :: authored_rule where
  "site_allow = site_deny\<lparr>ru_ID := ''r2'', ru_Priority := 20, ru_Source := [''*''],
     ru_Action := (ru_Action site_deny)\<lparr>ra_Access := ''allow''\<rparr>\<rparr>"

definition site_request :: decision_request where
  "site_request = zero_decision_request\<lparr>rq_TenantID := ''acme'', rq_DeviceID := ''dev-1'', rq_FQDN := ''db.example'',
     rq_Protocol := ''tcp'', rq_DestinationPort := 5432\<rparr>"

lemma site_facts:
  "no_nul site_request" "tenant_served ''acme'' site_request"
  "egress_match site ''acme'' site_request site_deny" "egress_match site ''acme'' site_request site_allow"
  by code_simp+

theorem egress_compilation_refines_witness:
  "map_option (\<lambda>(p, ns). pa_Decision (pol_Action p))
     (firstMatchedPolicy 0 (zero_evaluator\<lparr>ev_Policies := compiled_egress site ''acme'' [site_allow, site_deny]\<rparr>) site_request ''human'') =
   Some ''deny''"
proof -
  let ?w = "firstMatchedPolicy 0 (zero_evaluator\<lparr>ev_Policies := compiled_egress site ''acme'' [site_allow, site_deny]\<rparr>) site_request ''human''"
  have f: "filter (egress_match site ''acme'' site_request) [site_allow, site_deny] = [site_allow, site_deny]"
    using site_facts by simp
  have c: "case ?w of None \<Rightarrow> filter (egress_match site ''acme'' site_request) [site_allow, site_deny] = []
      | Some (p, ns) \<Rightarrow> (\<exists>r \<in> set (filter (egress_match site ''acme'' site_request) [site_allow, site_deny]).
          egress_decision (ru_Action r) = Some (pa_Decision (pol_Action p), pol_Metadata p) \<and>
          (\<forall>q \<in> set (filter (egress_match site ''acme'' site_request) [site_allow, site_deny]). rule_rank r \<le> rule_rank q))"
    by (rule egress_compilation_refines [OF site_facts(1,2)])
  have r: "\<not> rule_rank site_allow \<le> rule_rank site_deny" by code_simp
  have d: "map_option fst (egress_decision (ru_Action site_deny)) = Some ''deny''" by code_simp
  show ?thesis
  proof (cases ?w)
    case None
    with c f show ?thesis by simp
  next
    case (Some pn)
    with c f r d show ?thesis by (cases pn) auto
  qed
qed

lemma egress_rule_matches_enriched [simp]:
  "egress_rule_matches src addresses svc tenant (decisionRequestWithSaaSContext e req) r = egress_rule_matches src addresses svc tenant req r"
  "no_nul (decisionRequestWithSaaSContext e req) = no_nul req"
  "tenant_served tenant (decisionRequestWithSaaSContext e req) = tenant_served tenant req"
proof -
  have f: "rq_SNI (decisionRequestWithSaaSContext e req) = rq_SNI req" "rq_DeviceID (decisionRequestWithSaaSContext e req) = rq_DeviceID req"
    "rq_UserGroups (decisionRequestWithSaaSContext e req) = rq_UserGroups req" "rq_UserID (decisionRequestWithSaaSContext e req) = rq_UserID req"
    "rq_SubjectUserID (decisionRequestWithSaaSContext e req) = rq_SubjectUserID req"
    "rq_ActorNHIID (decisionRequestWithSaaSContext e req) = rq_ActorNHIID req"
    "rq_Protocol (decisionRequestWithSaaSContext e req) = rq_Protocol req"
    "rq_DestinationPort (decisionRequestWithSaaSContext e req) = rq_DestinationPort req"
    "rq_RiskStateSeverity (decisionRequestWithSaaSContext e req) = rq_RiskStateSeverity req"
    by (simp_all add: decisionRequestWithSaaSContext_def clearDecisionRequestSaaSContext_def Let_def split: option.split)
  have "selector_selects src tenant (decisionRequestWithSaaSContext e req) = selector_selects src tenant req"
    "address_reached (decisionRequestWithSaaSContext e req) = address_reached req"
    "service_used svc tenant r (decisionRequestWithSaaSContext e req) = service_used svc tenant r req"
    "risk_reached (ru_RiskAtLeast r) (decisionRequestWithSaaSContext e req) = risk_reached (ru_RiskAtLeast r) req"
    unfolding fun_eq_iff selector_selects_def address_reached_def service_used_def risk_reached_def f WithSaaSContext_frame by simp_all
  then show "egress_rule_matches src addresses svc tenant (decisionRequestWithSaaSContext e req) r = egress_rule_matches src addresses svc tenant req r"
    by (simp add: egress_rule_matches_def)
qed (simp_all add: no_nul_def tenant_served_def policyTenantAppliesTo_def
      decisionRequestWithSaaSContext_def clearDecisionRequestSaaSContext_def Let_def split: option.split)

lemma denied_by_compiled:
  fixes e req
  defines "q \<equiv> decisionRequestWithSaaSContext e req"
  assumes "set (compiled_egress s tenant rules) \<subseteq> set (ev_Policies e)"
    and r: "r \<in> set rules" "egress_match s tenant req r" "ra_Access (ru_Action r) = ''deny''"
    and "no_nul req" "tenant_served tenant req" "plane_of e q = PolicyPlane"
    and first: "\<forall>p \<in> set (ev_Policies e). policy_matches now q (actor q) p \<longrightarrow> ru_Priority r \<le> pol_Priority p"
  shows "dec_Decision (Evaluate now rnd e req) \<noteq> ''allow''"
proof -
  have q: "no_nul q" "tenant_served tenant q" "egress_match s tenant q r" using assms by (simp_all add: q_def)
  obtain d where d: "d \<in> set (compiled_egress s tenant rules)" "policy_matches now q (actor q) d"
    "d \<in> set (compile_egress_rule (SourceDeviceTokens s) (EndpointAddresses s) (Some (ServiceTransportPorts s)) tenant r)"
    using matching_rule_policy [OF q(1,2) r(1) q(3)] .
  have rank: "policy_rank d = (ru_Priority r, 0, pol_ID d)"
    using policy_rank_rule(1) [OF d(3)] r(3)
    by (simp add: rule_rank_def rule_decision_def egress_decision_def policyDecisionRestrictivenessRank_def)
  have "d \<in> set (ev_Policies e)" using d(1) assms(2) by blast
  then obtain p ns where p: "firstMatchedPolicy now e q (actor q) = Some (p, ns)"
    using d(2) firstMatchedPolicy_None [of now e q "actor q"] by (cases "firstMatchedPolicy now e q (actor q)") auto
  note w = firstMatchedPolicy_SomeD [OF p]
  have "policy_rank p \<le> policy_rank d" using w(4) \<open>d \<in> set (ev_Policies e)\<close> d(2) by blast
  moreover have "ru_Priority r \<le> pol_Priority p" using first w(1,2) by blast
  ultimately have "policyDecisionRestrictivenessRank (pa_Decision (pol_Action p)) \<le> 0"
    unfolding rank by (auto simp: policy_rank_def less_eq_prod_def less_prod_def)
  then have "pa_Decision (pol_Action p) = ''deny''" by (simp add: policyDecisionRestrictivenessRank_def split: if_splits)
  moreover have "TrimSpace ''deny'' = ''deny''" by code_simp
  ultimately have "\<not> policy_permits now p q" by (simp add: policy_permits_def)
  moreover have "final_state now e q = matched_branch now e q (actor q) p ns (initial_state q)"
    using \<open>plane_of e q = PolicyPlane\<close> p by (rule final_state_matched)
  ultimately show ?thesis by (simp add: Evaluate_sel q_def [symmetric] matched_branch_allow)
qed

text \<open>C15. An authored denial is enforced.  When the engine's policies include the compiled rules of a tenant, one of
  those rules denies and matches the request, and no matching policy has a smaller priority number,
  the engine does not allow the request, whatever else is configured on the policy plane.\<close>

theorem authored_deny_enforced:
  fixes e req
  defines "q \<equiv> decisionRequestWithSaaSContext e req"
  assumes "set (compiled_egress s tenant rules) \<subseteq> set (ev_Policies e)"
    and r: "r \<in> set rules" "egress_match s tenant req r" "ra_Access (ru_Action r) = ''deny''"
    and "no_nul req" "tenant_served tenant req" "plane_of e q = PolicyPlane"
    and first: "\<forall>p \<in> set (ev_Policies e). policy_matches now q (actor q) p \<longrightarrow> ru_Priority r \<le> pol_Priority p"
  shows "dec_Decision (Evaluate now rnd e req) \<noteq> ''allow''"
  using assms(2-) unfolding q_def by (rule denied_by_compiled)

definition site_engine :: evaluator where
  "site_engine = zero_evaluator\<lparr>ev_Policies := compiled_egress site ''acme'' [site_allow, site_deny]\<rparr>"

theorem authored_deny_enforced_witness:
  "dec_Decision (Evaluate 0 (Random (replicate 16 0)) site_engine site_request) \<noteq> ''allow''"
proof -
  have q: "decisionRequestWithSaaSContext site_engine site_request = site_request" by code_simp
  have "list_all (\<lambda>p. ru_Priority site_deny \<le> pol_Priority p) (ev_Policies site_engine)" by code_simp
  then have "\<forall>p \<in> set (ev_Policies site_engine). policy_matches 0 site_request (actor site_request) p \<longrightarrow> ru_Priority site_deny \<le> pol_Priority p"
    by (simp add: list_all_iff)
  moreover have "plane_of site_engine site_request = PolicyPlane" "ra_Access (ru_Action site_deny) = ''deny''" by code_simp+
  moreover have "set (compiled_egress site ''acme'' [site_allow, site_deny]) \<subseteq> set (ev_Policies site_engine)"
    by (simp add: site_engine_def)
  ultimately show ?thesis
    using authored_deny_enforced [of site "''acme''" "[site_allow, site_deny]" site_engine site_deny site_request 0 "Random (replicate 16 0)"]
      site_facts by (simp add: q)
qed

section \<open>East-west\<close>

text \<open>The hops an authored east-west rule names.  A source or destination that resolves to nothing names no hop.\<close>

definition hop_rule_matches :: "subjects \<Rightarrow> subjects \<Rightarrow> service_ports \<Rightarrow> string \<Rightarrow> decision_request \<Rightarrow> authored_rule \<Rightarrow> bool" where
  "hop_rule_matches src dst svc tenant req r \<longleftrightarrow>
     (IsAnySubject (ru_Source r) \<or>
       (\<exists>d \<in> set (src tenant (ru_Source r)). TrimSpace d \<noteq> [] \<and> TrimSpace d = AuthoritativeDeviceIdentity req)) \<and>
     (IsAnySubject (ru_Destination r) \<or>
       (\<exists>d \<in> set (dst tenant (ru_Destination r)).
         eastWestDestinationMatches [d] [rq_Destination req, rq_ApplicationID req, rq_FQDN req])) \<and>
     (ru_ServiceID r = [] \<or>
       (case svc tenant (ru_ServiceID r) of
          None \<Rightarrow> False
        | Some m \<Rightarrow>
            (case map_of m (ToLower (TrimSpace (rq_Protocol req))) of
               None \<Rightarrow> False
             | Some ports \<Rightarrow> rq_DestinationPort req \<in> set ports \<and> 0 < rq_DestinationPort req))) \<and>
     risk_reached (ru_RiskAtLeast r) (req\<lparr>rq_RiskStateSeverity := TrimSpace (rq_RiskStateSeverity req)\<rparr>)"

definition hop_no_nul :: "decision_request \<Rightarrow> bool" where
  "hop_no_nul req \<longleftrightarrow> CHR 0x00 \<notin> set (AuthoritativeDeviceIdentity req) \<and>
     list_all (\<lambda>s. CHR 0x00 \<notin> set s) [rq_Destination req, rq_ApplicationID req, rq_FQDN req]"

lemma sentinels_trimmed:
  "TrimSpace sourceNoMatchSentinel = sourceNoMatchSentinel" "TrimSpace destinationNoMatchSentinel = destinationNoMatchSentinel"
  "ParseAddr destinationNoMatchSentinel = None"
  by code_simp+

lemma TrimSpace_device [simp]: "TrimSpace (AuthoritativeDeviceIdentity req) = AuthoritativeDeviceIdentity req"
  by (simp add: AuthoritativeDeviceIdentity_def Let_def)

lemma selector_list: "xs \<noteq> [] \<Longrightarrow> eastWestSelectorMatches xs cs \<longleftrightarrow> (\<exists>x \<in> set xs. eastWestSelectorMatches [x] cs)"
  by (auto simp: eastWestSelectorMatches_def list_ex_iff)

lemma destination_list: "xs \<noteq> [] \<Longrightarrow> eastWestDestinationMatches xs cs \<longleftrightarrow> (\<exists>x \<in> set xs. eastWestDestinationMatches [x] cs)"
  using selector_list [of xs cs] by (auto simp: eastWestDestinationMatches_def list_ex_iff split: if_splits)

lemma destination_sentinel_hop:
  assumes "list_all (\<lambda>s. CHR 0x00 \<notin> set s) cs" shows "\<not> eastWestDestinationMatches [destinationNoMatchSentinel] cs"
proof -
  have "destinationNoMatchSentinel \<noteq> TrimSpace c" if "c \<in> set cs" for c
    using assms that set_TrimSpace [of c] by (fastforce simp: list_all_iff destinationNoMatchSentinel_def)
  then show ?thesis
    by (auto simp: eastWestDestinationMatches_def eastWestSelectorMatches_def list_ex_iff sentinels_trimmed Let_def)
qed

lemma compiled_source_matches:
  assumes "hop_no_nul req"
  shows "rule_source_matches (compile_east_west_rule src dst svc tenant r) req \<longleftrightarrow>
    IsAnySubject (ru_Source r) \<or>
    (\<exists>d \<in> set (src tenant (ru_Source r)). TrimSpace d \<noteq> [] \<and> TrimSpace d = AuthoritativeDeviceIdentity req)"
proof -
  let ?c = "compile_east_west_rule src dst svc tenant r"
  have s: "er_SourceUsers ?c = []" "er_SourceGroups ?c = []"
    "er_SourceDevices ?c = resolved_or_sentinel (ru_Source r) (src tenant (ru_Source r)) sourceNoMatchSentinel"
    by (simp_all add: compile_east_west_rule_def Let_def zero_east_west_rule_def split: option.split)
  have "AuthoritativeDeviceIdentity req \<noteq> sourceNoMatchSentinel" using assms by (auto simp: hop_no_nul_def sourceNoMatchSentinel_def)
  then show ?thesis
    by (auto simp: rule_source_matches_def s resolved_or_sentinel_def eastWestSelectorMatches_def list_ex_iff sentinels_trimmed Let_def)
qed

lemma compiled_destination_matches:
  assumes "hop_no_nul req"
  shows "eastWestDestinationMatches (er_Destinations (compile_east_west_rule src dst svc tenant r)) [rq_Destination req, rq_ApplicationID req, rq_FQDN req] \<longleftrightarrow>
    IsAnySubject (ru_Destination r) \<or>
    (\<exists>d \<in> set (dst tenant (ru_Destination r)). eastWestDestinationMatches [d] [rq_Destination req, rq_ApplicationID req, rq_FQDN req])"
proof -
  have s: "er_Destinations (compile_east_west_rule src dst svc tenant r) =
      resolved_or_sentinel (ru_Destination r) (dst tenant (ru_Destination r)) destinationNoMatchSentinel"
    by (simp add: compile_east_west_rule_def Let_def zero_east_west_rule_def split: option.split)
  have any: "eastWestDestinationMatches [] cs" for cs by (simp add: eastWestDestinationMatches_def eastWestSelectorMatches_def)
  have n: "\<not> eastWestDestinationMatches [destinationNoMatchSentinel] [rq_Destination req, rq_ApplicationID req, rq_FQDN req]"
    using assms unfolding hop_no_nul_def by (intro destination_sentinel_hop) simp
  show ?thesis
  proof (cases "IsAnySubject (ru_Destination r) \<or> dst tenant (ru_Destination r) = []")
    case True
    then show ?thesis unfolding s resolved_or_sentinel_def using any n by auto
  next
    case False
    then show ?thesis unfolding s resolved_or_sentinel_def
      by (subst destination_list) auto
  qed
qed

lemma compiled_service_matches:
  "rule_service_matches (compile_east_west_rule src dst svc tenant r) req \<longleftrightarrow>
    ru_ServiceID r = [] \<or>
    (case svc tenant (ru_ServiceID r) of
       None \<Rightarrow> False
     | Some m \<Rightarrow>
         (case map_of m (ToLower (TrimSpace (rq_Protocol req))) of
            None \<Rightarrow> False
          | Some ports \<Rightarrow> rq_DestinationPort req \<in> set ports \<and> 0 < rq_DestinationPort req))"
proof -
  let ?c = "compile_east_west_rule src dst svc tenant r"
  have s: "er_Protocols ?c = (if ru_ServiceID r = [] then [] else [''__dsse_transport_port_service__''])"
    "er_ServiceTransportPorts ?c =
      (if ru_ServiceID r = [] then None else case svc tenant (ru_ServiceID r) of Some m \<Rightarrow> Some m | None \<Rightarrow> Some [])"
    by (cases "ra_MaxAgeSeconds (ru_Action r)"; simp add: compile_east_west_rule_def Let_def zero_east_west_rule_def)+
  show ?thesis
  proof (cases "ru_ServiceID r = []")
    case True
    then show ?thesis by (simp add: rule_service_matches_def s eastWestSelectorMatches_def)
  next
    case False
    then show ?thesis
      by (cases "svc tenant (ru_ServiceID r)") (auto simp: rule_service_matches_def s list_ex_iff split: option.split)
  qed
qed

lemma compiled_risk_matches:
  "eastWestSelectorMatches (er_RiskSeverities (compile_east_west_rule src dst svc tenant r)) [rq_RiskStateSeverity req] \<longleftrightarrow>
    risk_reached (ru_RiskAtLeast r) (req\<lparr>rq_RiskStateSeverity := TrimSpace (rq_RiskStateSeverity req)\<rparr>)"
proof -
  have s: "er_RiskSeverities (compile_east_west_rule src dst svc tenant r) = RiskSeveritiesAtLeast (ru_RiskAtLeast r)"
    by (simp add: compile_east_west_rule_def Let_def zero_east_west_rule_def split: option.split)
  have t: "TrimSpace v = v \<and> v \<noteq> []" if "v \<in> set (RiskSeveritiesAtLeast x)" for v x
  proof -
    have "list_all (\<lambda>v. TrimSpace v = v \<and> v \<noteq> []) (map fst riskSeverityRank)" by code_simp
    moreover have "v \<in> fst ` set riskSeverityRank"
      using that unfolding RiskSeveritiesAtLeast_meaning by (auto dest!: map_of_SomeD intro: rev_image_eqI)
    ultimately show ?thesis by (auto simp: list_all_iff)
  qed
  have "eastWestSelectorMatches (RiskSeveritiesAtLeast x) [y] \<longleftrightarrow> RiskSeveritiesAtLeast x = [] \<or> TrimSpace y \<in> set (RiskSeveritiesAtLeast x)" for x y
    using t [of _ x] by (auto simp: eastWestSelectorMatches_def list_ex_iff Let_def)
  moreover have "RiskSeveritiesAtLeast x = [] \<longleftrightarrow> map_of riskSeverityRank (ToLower (TrimSpace x)) = None" for x
    by (auto simp: RiskSeveritiesAtLeast_def riskSeverityRank_def split: if_splits)
  ultimately show ?thesis unfolding s RiskSeveritiesAtLeast_meaning risk_reached_def by (auto split: option.splits)
qed

lemma compile_east_west_rule_matches:
  "hop_no_nul req \<Longrightarrow> rule_matches (compile_east_west_rule src dst svc tenant r) req \<longleftrightarrow> hop_rule_matches src dst svc tenant req r"
  unfolding rule_matches_def compiled_service_matches compiled_risk_matches hop_rule_matches_def
  by (simp add: compiled_source_matches compiled_destination_matches)

lemma sort_key_map: "sort_key f (map c xs) = map c (sort_key (f \<circ> c) xs)"
proof -
  have "insort_key f (c x) (map c ys) = map c (insort_key (f \<circ> c) x ys)" for x ys by (induction ys) auto
  then show ?thesis by (induction xs) auto
qed

lemma find_map: "List.find P (map c xs) = map_option c (List.find (P \<circ> c) xs)"
  by (induction xs) auto

text \<open>C7. East-west compilation.  The rule the engine applies to a hop is the compiled form of the first active
  outbound authored rule of the tenant, in order of priority number, that names the hop.\<close>

theorem east_west_compilation_refines:
  assumes "hop_no_nul req"
  shows "MatchedEastWestRule (CompileEastWest src dst svc tenant rules) req =
    map_option (compile_east_west_rule src dst svc tenant)
      (List.find (hop_rule_matches src dst svc tenant req) (sort_key ru_Priority (filter (east_west_applies tenant) rules)))"
proof -
  have p: "er_Priority \<circ> compile_east_west_rule src dst svc tenant = ru_Priority"
    by (simp add: fun_eq_iff compile_east_west_rule_def Let_def zero_east_west_rule_def split: option.split)
  have m: "(\<lambda>r. rule_matches r req) \<circ> compile_east_west_rule src dst svc tenant = hop_rule_matches src dst svc tenant req"
    using compile_east_west_rule_matches [OF assms] by (simp add: fun_eq_iff)
  show ?thesis unfolding MatchedEastWestRule_def CompileEastWest_def sort_key_map find_map p m ..
qed

definition site_hop :: authored_rule where
  "site_hop = site_deny\<lparr>ru_Plane := ''east_west'', ru_Direction := ''outbound''\<rparr>"

theorem east_west_compilation_refines_witness:
  "map_option er_ID (MatchedEastWestRule
     (CompileEastWest (SourceDeviceTokens site) (DestinationTokens site) (ServiceTransportPorts site) ''acme'' [site_hop]) site_request) =
   Some ''r1''"
proof -
  have n: "hop_no_nul site_request" by code_simp
  show ?thesis unfolding east_west_compilation_refines [OF n] by code_simp
qed

end
