(* ===== verification/Rule_Store.thy ===== *)
theory Rule_Store
  imports Policy_Rules Catalog_Transactions
begin

text \<open>
  The store of authored rules (\<open>src/policyrule\<close>: \<open>store.go\<close>, \<open>persistence.go\<close>, \<open>shared.go\<close>,
  \<open>distribution.go\<close>) and what validation guarantees of a rule.  The medium behind the store is an
  argument: none, a file with its answer to a save, or a shared row with its content and its answer to
  a conditional update.  The JSON text of a snapshot is the snapshot.  Copies are the identity.
\<close>

section \<open>The store\<close>

record rule_store =
  rs_seq :: int
  rs_rules :: "authored_rule tenant_map"
  rs_generation :: "64 word"

definition new_rule_store :: rule_store where
  "new_rule_store = \<lparr>rs_seq = 0, rs_rules = [], rs_generation = 0\<rparr>"

record persisted_rules =
  pr_Seq :: int
  pr_Rules :: "authored_rule tenant_map"

datatype shared_row = AbsentRow | UnreadableRow | Row persisted_rules

datatype rule_medium =
    Unsaved
  | SavedFile "persisted_rules \<Rightarrow> save_result"
  | SharedRow shared_row "persisted_rules \<Rightarrow> bool"

datatype rule_error = Invalid string | Persistence | Unconfirmed

text \<open>\<open>reflect.DeepEqual\<close> on two maps of maps: the same tenants, and the same rules of each.\<close>

definition same_rules :: "authored_rule tenant_map \<Rightarrow> authored_rule tenant_map \<Rightarrow> bool" where
  "same_rules m n \<longleftrightarrow>
     list_all (\<lambda>t. (t \<in> set (map fst m)) = (t \<in> set (map fst n)) \<and>
       list_all (\<lambda>k. row m t k = row n t k) (map fst (rows m t) @ map fst (rows n t))) (map fst m @ map fst n)"

text \<open>The medium of a candidate: what it answers to the save of a snapshot.\<close>

definition saveCandidateLocked ::
  "(persisted_rules \<Rightarrow> save_result) option \<Rightarrow> authored_rule tenant_map \<Rightarrow> int \<Rightarrow> rule_store \<Rightarrow> rule_error option \<times> rule_store" where
  "saveCandidateLocked save nxt seq s =
     (let publish = s\<lparr>rs_rules := nxt, rs_seq := seq,
            rs_generation := (if same_rules (rs_rules s) nxt then rs_generation s else rs_generation s + 1)\<rparr>
      in case save of
           None \<Rightarrow> (None, publish)
         | Some f \<Rightarrow>
             (case f \<lparr>pr_Seq = seq, pr_Rules = nxt\<rparr> of
                Saved \<Rightarrow> (None, publish)
              | SaveFailed _ \<Rightarrow> (Some Persistence, s)
              | DurabilityUnconfirmed _ \<Rightarrow> (Some Unconfirmed, publish)))"

definition rule_id :: "int \<Rightarrow> string" where
  "rule_id n = ''rule-'' @ Itoa n"

lemma rule_id_inj [simp]: "rule_id m = rule_id n \<longleftrightarrow> m = n"
  by (simp add: rule_id_def)

text \<open>The loop over sequence numbers ends because a tenant has finitely many rules.\<close>

function fresh_seq :: "(string \<times> authored_rule) list \<Rightarrow> int \<Rightarrow> int" where
  "fresh_seq existing seq =
     (if map_of existing (rule_id (seq + 1)) = None then seq + 1 else fresh_seq existing (seq + 1))"
  by pat_completeness auto

termination
proof (relation "measure (\<lambda>(existing, seq). card {i \<in> fst ` set existing. \<exists>m>seq. i = rule_id m})")
  fix existing :: "(string \<times> authored_rule) list" and seq :: int
  assume "map_of existing (rule_id (seq + 1)) \<noteq> None"
  then have "rule_id (seq + 1) \<in> {i \<in> fst ` set existing. \<exists>m>seq. i = rule_id m}"
    by (auto simp: map_of_eq_None_iff)
  moreover have "rule_id (seq + 1) \<notin> {i \<in> fst ` set existing. \<exists>m>seq + 1. i = rule_id m}" by simp
  moreover have "{i \<in> fst ` set existing. \<exists>m>seq + 1. i = rule_id m} \<subseteq> {i \<in> fst ` set existing. \<exists>m>seq. i = rule_id m}"
    by auto
  ultimately have "{i \<in> fst ` set existing. \<exists>m>seq + 1. i = rule_id m} \<subset> {i \<in> fst ` set existing. \<exists>m>seq. i = rule_id m}"
    by blast
  then show "((existing, seq + 1), existing, seq) \<in> measure (\<lambda>(existing, seq). card {i \<in> fst ` set existing. \<exists>m>seq. i = rule_id m})"
    by (simp add: psubset_card_mono)
qed simp

declare fresh_seq.simps [simp del]

section \<open>Operations on a candidate\<close>

type_synonym 'a edit = "(persisted_rules \<Rightarrow> save_result) option \<Rightarrow> rule_store \<Rightarrow> (rule_error + 'a) \<times> rule_store"

definition upsert_rule :: "authored_rule \<Rightarrow> authored_rule edit" where
  "upsert_rule r save s =
     (case normalizeAndValidate r of
        Inl err \<Rightarrow> (Inl (Invalid err), s)
      | Inr r \<Rightarrow>
          (let existing = rows (rs_rules s) (ru_TenantID r);
               seq = (if TrimSpace (ru_ID r) = [] then fresh_seq existing (rs_seq s) else rs_seq s);
               r = (if TrimSpace (ru_ID r) = [] then r\<lparr>ru_ID := rule_id seq\<rparr> else r)
           in case saveCandidateLocked save (put_row (ru_TenantID r) (ru_ID r) r (rs_rules s)) seq s of
                (Some err, s) \<Rightarrow> (Inl err, s)
              | (None, s) \<Rightarrow> (Inr r, s)))"

definition delete_rule :: "string \<Rightarrow> string \<Rightarrow> bool edit" where
  "delete_rule tenantID i save s =
     (if row (rs_rules s) tenantID i = None then (Inr False, s)
      else case saveCandidateLocked save (delete_row tenantID i (rs_rules s)) (rs_seq s) s of
             (Some err, s) \<Rightarrow> (Inl err, s)
           | (None, s) \<Rightarrow> (Inr True, s))"

definition removeTenantChecked :: "string \<Rightarrow> nat edit" where
  "removeTenantChecked tenantID save s =
     (let tenantID = TrimSpace tenantID; removed = length (rows (rs_rules s) tenantID)
      in if tenantID = [] \<or> removed = 0 then (Inr 0, s)
         else case saveCandidateLocked save (AList.delete tenantID (rs_rules s)) (rs_seq s) s of
                (Some err, s) \<Rightarrow> (Inl err, s)
              | (None, s) \<Rightarrow> (Inr removed, s))"

fun collect_rules :: "authored_rule list \<Rightarrow> authored_rule tenant_map \<Rightarrow> string + authored_rule tenant_map" where
  "collect_rules [] nxt = Inr nxt"
| "collect_rules (r # rs) nxt =
     (case normalizeAndValidate r of
        Inl err \<Rightarrow> Inl (''rule '' @ ru_ID r @ '' (tenant '' @ TrimSpace (ru_TenantID r) @ ''): '' @ err)
      | Inr r \<Rightarrow>
          if ru_ID r = [] then Inl (''a distributed rule set may not contain a rule without an id (tenant '' @ ru_TenantID r @ '')'')
          else if row nxt (ru_TenantID r) (ru_ID r) \<noteq> None then Inl ''duplicate distributed rule id''
          else collect_rules rs (put_row (ru_TenantID r) (ru_ID r) r nxt))"

definition replaceAll :: "authored_rule list \<Rightarrow> bool edit" where
  "replaceAll rules save s =
     (case collect_rules rules [] of
        Inl err \<Rightarrow> (Inl (Invalid err), s)
      | Inr nxt \<Rightarrow>
          (case saveCandidateLocked save nxt (rs_seq s) s of
             (Some err, s) \<Rightarrow> (Inl err, s)
           | (None, s) \<Rightarrow> (Inr True, s)))"

section \<open>Transactions\<close>

definition row_valid :: "string \<times> string \<times> authored_rule \<Rightarrow> bool" where
  "row_valid = (\<lambda>(tenant, i, r). tenant \<noteq> [] \<and> i \<noteq> [] \<and> ru_TenantID r = tenant \<and> ru_ID r = i \<and> \<not> isl (normalizeAndValidate r))"

definition sharedCandidateLocked :: "shared_row \<Rightarrow> rule_store \<Rightarrow> rule_store option" where
  "sharedCandidateLocked raw s =
     (case raw of
        AbsentRow \<Rightarrow> if rs_rules s \<noteq> [] then None else Some (new_rule_store\<lparr>rs_generation := rs_generation s\<rparr>)
      | UnreadableRow \<Rightarrow> None
      | Row snap \<Rightarrow>
          if pr_Seq snap < 0 \<or> \<not> list_all row_valid (all_rows (pr_Rules snap)) then None
          else Some \<lparr>rs_seq = pr_Seq snap,
            rs_rules = map (\<lambda>(t, rs). (t, map (\<lambda>(i, r). (i, projr (normalizeAndValidate r))) rs)) (pr_Rules snap),
            rs_generation = rs_generation s\<rparr>)"

definition adopt_rules :: "rule_store \<Rightarrow> rule_store \<Rightarrow> rule_store" where
  "adopt_rules n s =
     s\<lparr>rs_rules := rs_rules n, rs_seq := rs_seq n,
       rs_generation := (if same_rules (rs_rules s) (rs_rules n) then rs_generation s else rs_generation s + 1)\<rparr>"

definition mutateRules :: "rule_medium \<Rightarrow> 'a edit \<Rightarrow> rule_store \<Rightarrow> (rule_error + 'a) \<times> rule_store" where
  "mutateRules medium edit s =
     (let local = (\<lambda>save. case edit save s of
            (Inl Unconfirmed, n) \<Rightarrow> (Inl Unconfirmed, adopt_rules n s)
          | (Inl err, n) \<Rightarrow> (Inl err, s)
          | (Inr result, n) \<Rightarrow> (Inr result, adopt_rules n s))
      in case medium of
           Unsaved \<Rightarrow> local None
         | SavedFile save \<Rightarrow> local (Some save)
         | SharedRow raw commit \<Rightarrow>
             (case sharedCandidateLocked raw s of
                None \<Rightarrow> (Inl Persistence, s)
              | Some n \<Rightarrow>
                  (case edit None n of
                     (Inl err, n) \<Rightarrow> (Inl err, s)
                   | (Inr result, n) \<Rightarrow>
                       if commit \<lparr>pr_Seq = rs_seq n, pr_Rules = rs_rules n\<rparr> then (Inr result, adopt_rules n s)
                       else (Inl Persistence, s))))"

definition Upsert_rule :: "rule_medium \<Rightarrow> authored_rule \<Rightarrow> rule_store \<Rightarrow> (rule_error + authored_rule) \<times> rule_store" where
  "Upsert_rule medium r s = mutateRules medium (upsert_rule r) s"

definition Delete_rule :: "rule_medium \<Rightarrow> string \<Rightarrow> string \<Rightarrow> rule_store \<Rightarrow> (rule_error + bool) \<times> rule_store" where
  "Delete_rule medium tenant i s = mutateRules medium (delete_rule tenant i) s"

definition RemoveTenantChecked :: "rule_medium \<Rightarrow> string \<Rightarrow> rule_store \<Rightarrow> (rule_error + nat) \<times> rule_store" where
  "RemoveTenantChecked medium tenant s = mutateRules medium (removeTenantChecked tenant) s"

definition ReplaceAll :: "rule_medium \<Rightarrow> authored_rule list \<Rightarrow> rule_store \<Rightarrow> (rule_error + bool) \<times> rule_store" where
  "ReplaceAll medium rules s = mutateRules medium (replaceAll rules) s"

definition RefreshShared :: "rule_medium \<Rightarrow> rule_store \<Rightarrow> rule_error option \<times> rule_store" where
  "RefreshShared medium s =
     (case medium of
        SharedRow raw _ \<Rightarrow> (case sharedCandidateLocked raw s of None \<Rightarrow> (Some Persistence, s) | Some n \<Rightarrow> (None, adopt_rules n s))
      | _ \<Rightarrow> (None, s))"

text \<open>Loading the snapshot of a file when the store is opened; its rules are taken as they are.\<close>

definition load_rules :: "persisted_rules option \<Rightarrow> rule_store \<Rightarrow> rule_store" where
  "load_rules snap s =
     (case snap of
        None \<Rightarrow> s
      | Some p \<Rightarrow> s\<lparr>rs_rules := pr_Rules p, rs_seq := (if pr_Seq p > rs_seq s then pr_Seq p else rs_seq s)\<rparr>)"

section \<open>Reading\<close>

definition Get_rule :: "rule_store \<Rightarrow> string \<Rightarrow> string \<Rightarrow> authored_rule option" where
  "Get_rule s tenantID i = row (rs_rules s) tenantID i"

definition Tenants :: "rule_store \<Rightarrow> string list" where
  "Tenants s = sort (map fst (rs_rules s))"

definition List_rules :: "rule_store \<Rightarrow> string \<Rightarrow> string \<Rightarrow> authored_rule list" where
  "List_rules s tenantID plane =
     (let plane = ToLower (TrimSpace plane)
      in sort_key (\<lambda>r. (ru_Priority r, ru_ID r))
           (filter (\<lambda>r. plane = [] \<or> ru_Plane r = plane) (map snd (rows (rs_rules s) tenantID))))"

definition Snapshot :: "rule_store \<Rightarrow> authored_rule list" where
  "Snapshot s = sort_key (\<lambda>r. (ru_TenantID r, ru_Priority r, ru_ID r)) (map (\<lambda>(t, i, r). r) (all_rows (rs_rules s)))"

section \<open>Receivers of inbound rules\<close>

definition InboundReceiversNeedingPlatform :: "authored_rule \<Rightarrow> string list" where
  "InboundReceiversNeedingPlatform r =
     (if ru_Plane r \<noteq> ''east_west'' \<or> ru_Direction r \<noteq> ''inbound'' then [] else ru_Destination r)"

definition ErrMacOSInboundUnsupported :: string where
  "ErrMacOSInboundUnsupported =
     ''east-west inbound is unsupported on macOS receivers (enforce on the source's outbound rule, or target Windows receivers)''"

definition ValidateInboundReceiverPlatforms :: "authored_rule \<Rightarrow> string list \<Rightarrow> string list \<Rightarrow> string + string" where
  "ValidateInboundReceiverPlatforms r platforms macReceivers =
     (if ru_Plane r \<noteq> ''east_west'' \<or> ru_Direction r \<noteq> ''inbound'' then Inr []
      else
        let ps = map (\<lambda>p. ToLower (TrimSpace p)) platforms; hasWindows = ''windows'' \<in> set ps; hasMac = ''macos'' \<in> set ps
        in if hasMac \<and> \<not> hasWindows then Inl ErrMacOSInboundUnsupported
           else if hasMac \<and> hasWindows \<and> length macReceivers > 0
           then Inr (''inbound enforces on Windows only; these macOS receivers are not covered: '' @ Join macReceivers '', '')
           else Inr [])"

section \<open>What validation guarantees\<close>

definition wf_action :: "rule_action \<Rightarrow> bool" where
  "wf_action a \<longleftrightarrow>
     ra_Access a \<in> set [''allow'', ''authenticate'', ''deny''] \<and> ra_Inspection a \<in> set [''inspect'', ''bypass''] \<and>
     \<not> (ra_Access a = ''deny'' \<and> ra_Inspection a = ''bypass'') \<and> 0 \<le> ra_GrantTTLSeconds a \<and>
     (case ra_MaxAgeSeconds a of Some m \<Rightarrow> 0 \<le> m \<and> m \<le> 86400 | None \<Rightarrow> True)"

definition wf_subject :: "string list \<Rightarrow> bool" where
  "wf_subject ids \<longleftrightarrow> ids \<noteq> [] \<and> list_all (\<lambda>i. TrimSpace i \<noteq> []) ids \<and> (IsAnySubject ids \<longrightarrow> ids = [SubjectAny])"

definition wf_rule :: "authored_rule \<Rightarrow> bool" where
  "wf_rule r \<longleftrightarrow>
     ru_TenantID r \<noteq> [] \<and> TrimSpace (ru_TenantID r) = ru_TenantID r \<and>
     (ru_Plane r = ''east_west'' \<and> ru_Direction r \<in> set [''outbound'', ''inbound''] \<or>
      ru_Plane r = ''egress'' \<and> TrimSpace (ru_Direction r) = []) \<and>
     wf_action (ru_Action r) \<and> wf_subject (ru_Source r) \<and> wf_subject (ru_Destination r) \<and>
     (ru_RiskAtLeast r = [] \<or> ru_RiskAtLeast r \<in> fst ` set riskSeverityRank) \<and>
     ru_Status r \<in> set [''active'', ''disabled''] \<and> ru_Stage r \<in> set [''enforce'', ''warn''] \<and>
     (ru_Stage r = ''warn'' \<longrightarrow> ru_Plane r = ''east_west'')"

text \<open>The words of the rule language are in normal form.\<close>

definition canonical :: "string \<Rightarrow> bool" where
  "canonical w \<longleftrightarrow> ToLower (TrimSpace w) = w"

lemma canonical_words:
  "list_all canonical [''east_west'', ''egress'', ''outbound'', ''inbound'', ''allow'', ''authenticate'', ''deny'', ''inspect'',
     ''bypass'', ''low'', ''medium'', ''high'', ''critical'', ''active'', ''disabled'', ''enforce'', ''warn'', []]"
  by code_simp

lemma validate_action_wf: "validate_action a = Inr b \<Longrightarrow> wf_action b"
  by (auto simp: validate_action_def wf_action_def Let_def split: if_splits option.splits)

lemma wf_subject_any: "wf_subject [SubjectAny]"
  by code_simp

definition canonical_subject :: "string list \<Rightarrow> string list" where
  "canonical_subject ids = (if IsAnySubject ids then [SubjectAny] else ids)"

definition canonical_or :: "string \<Rightarrow> string \<Rightarrow> string" where
  "canonical_or d x = (if ToLower (TrimSpace x) = [] then d else ToLower (TrimSpace x))"

definition canonical_risk :: "string \<Rightarrow> string" where
  "canonical_risk x = (if ToLower (TrimSpace x) = ''none'' then [] else ToLower (TrimSpace x))"

definition blank_free :: "string list \<Rightarrow> bool" where
  "blank_free ids \<longleftrightarrow> ids \<noteq> [] \<and> \<not> list_ex (\<lambda>i. TrimSpace i = []) ids"

lemma validate_subjects_Inr:
  "validate_subjects r = Inr r' \<longleftrightarrow> blank_free (ru_Source r) \<and> blank_free (ru_Destination r) \<and>
    r' = r\<lparr>ru_Source := canonical_subject (ru_Source r), ru_Destination := canonical_subject (ru_Destination r)\<rparr>"
  unfolding validate_subjects_def blank_free_def canonical_subject_def [symmetric] by auto

lemma validate_lifecycle_Inr:
  "validate_lifecycle r = Inr r' \<longleftrightarrow>
    (canonical_risk (ru_RiskAtLeast r) = [] \<or> map_of riskSeverityRank (canonical_risk (ru_RiskAtLeast r)) \<noteq> None) \<and>
    canonical_or ''active'' (ru_Status r) \<in> {''active'', ''disabled''} \<and>
    canonical_or ''enforce'' (ru_Stage r) \<in> {''enforce'', ''warn''} \<and>
    (canonical_or ''enforce'' (ru_Stage r) = ''warn'' \<longrightarrow> ru_Plane r = ''east_west'') \<and>
    r' = r\<lparr>ru_RiskAtLeast := canonical_risk (ru_RiskAtLeast r), ru_Status := canonical_or ''active'' (ru_Status r),
           ru_Stage := canonical_or ''enforce'' (ru_Stage r)\<rparr>"
  unfolding validate_lifecycle_def Let_def canonical_risk_def [symmetric] canonical_or_def [symmetric] by auto

lemma validate_plane_Inr:
  "validate_plane r = Inr r' \<longleftrightarrow>
    (ToLower (TrimSpace (ru_Plane r)) = ''east_west'' \<and> canonical_or ''outbound'' (ru_Direction r) \<in> {''outbound'', ''inbound''} \<and>
      r' = r\<lparr>ru_Plane := ''east_west'', ru_Direction := canonical_or ''outbound'' (ru_Direction r)\<rparr>) \<or>
    (ToLower (TrimSpace (ru_Plane r)) = ''egress'' \<and> TrimSpace (ru_Direction r) = [] \<and> r' = r\<lparr>ru_Plane := ''egress''\<rparr>)"
  unfolding validate_plane_def Let_def canonical_or_def by auto

lemma wf_subject_canonical: "wf_subject (canonical_subject ids) \<longleftrightarrow> IsAnySubject ids \<or> blank_free ids"
  using wf_subject_any by (auto simp: canonical_subject_def wf_subject_def blank_free_def list_all_iff list_ex_iff)

lemma wf_subject_fixed: "wf_subject ids \<Longrightarrow> blank_free ids \<and> canonical_subject ids = ids"
  by (auto simp: canonical_subject_def wf_subject_def blank_free_def list_all_iff list_ex_iff)

lemma normalizeAndValidate_Inr:
  "normalizeAndValidate r = Inr r' \<longleftrightarrow>
    TrimSpace (ru_TenantID r) \<noteq> [] \<and>
    (\<exists>p a q. validate_plane (r\<lparr>ru_TenantID := TrimSpace (ru_TenantID r)\<rparr>) = Inr p \<and> validate_action (ru_Action p) = Inr a \<and>
      validate_subjects (p\<lparr>ru_Action := a\<rparr>) = Inr q \<and> validate_lifecycle q = Inr r')"
  by (auto simp: normalizeAndValidate_def Let_def split: sum.split)

lemma canonical_word: "w \<in> set [''east_west'', ''egress'', ''outbound'', ''inbound'', ''allow'', ''authenticate'', ''deny'', ''inspect'',
     ''bypass'', ''low'', ''medium'', ''high'', ''critical'', ''active'', ''disabled'', ''enforce'', ''warn'', []] \<Longrightarrow> ToLower (TrimSpace w) = w"
  using canonical_words unfolding list_all_iff canonical_def by blast

lemma canonical_or_word: "ToLower (TrimSpace w) = w \<Longrightarrow> w \<noteq> [] \<Longrightarrow> canonical_or d w = w"
  by (simp add: canonical_or_def)

lemma validate_action_fixed:
  assumes "wf_action a" shows "validate_action a = Inr a"
proof -
  have "ToLower (TrimSpace (ra_Access a)) = ra_Access a" "ToLower (TrimSpace (ra_Inspection a)) = ra_Inspection a"
    using assms by (intro canonical_word; auto simp: wf_action_def)+
  moreover have "(case ra_MaxAgeSeconds a of Some m \<Rightarrow> m < 0 \<or> m > 86400 | None \<Rightarrow> False) = False" "ra_Inspection a \<noteq> []"
    using assms by (auto simp: wf_action_def split: option.splits)
  ultimately show ?thesis using assms by (simp add: validate_action_def wf_action_def Let_def)
qed

lemma validated_wf:
  assumes "normalizeAndValidate x = Inr y" shows "wf_rule y"
proof -
  from assms obtain p a q where t: "TrimSpace (ru_TenantID x) \<noteq> []"
    and p: "validate_plane (x\<lparr>ru_TenantID := TrimSpace (ru_TenantID x)\<rparr>) = Inr p"
    and a: "validate_action (ru_Action p) = Inr a" and q: "validate_subjects (p\<lparr>ru_Action := a\<rparr>) = Inr q"
    and y: "validate_lifecycle q = Inr y"
    unfolding normalizeAndValidate_Inr by blast
  have "ru_TenantID p = TrimSpace (ru_TenantID x)"
    and d: "ru_Plane p = ''east_west'' \<and> ru_Direction p \<in> set [''outbound'', ''inbound''] \<or> ru_Plane p = ''egress'' \<and> TrimSpace (ru_Direction p) = []"
    using p unfolding validate_plane_Inr by auto
  moreover have "ru_TenantID q = ru_TenantID p" "ru_Plane q = ru_Plane p" "ru_Direction q = ru_Direction p" "ru_Action q = a"
    "wf_subject (ru_Source q)" "wf_subject (ru_Destination q)"
    using q unfolding validate_subjects_Inr by (auto simp: wf_subject_canonical)
  moreover have "ru_TenantID y = ru_TenantID q" "ru_Plane y = ru_Plane q" "ru_Direction y = ru_Direction q" "ru_Action y = ru_Action q"
    "ru_Source y = ru_Source q" "ru_Destination y = ru_Destination q"
    and l: "ru_RiskAtLeast y = [] \<or> map_of riskSeverityRank (ru_RiskAtLeast y) \<noteq> None" "ru_Status y \<in> set [''active'', ''disabled'']"
      "ru_Stage y \<in> set [''enforce'', ''warn'']" "ru_Stage y = ''warn'' \<longrightarrow> ru_Plane y = ''east_west''"
    using y unfolding validate_lifecycle_Inr by auto
  ultimately show ?thesis
    using t d validate_action_wf [OF a] unfolding wf_rule_def map_of_eq_None_iff by simp
qed

lemma wf_validated:
  assumes "wf_rule r" shows "normalizeAndValidate r = Inr r"
proof -
  note w = assms [unfolded wf_rule_def]
  have "ru_RiskAtLeast r \<in> set [''low'', ''medium'', ''high'', ''critical'', []]" using w by (auto simp: riskSeverityRank_def)
  then have "ToLower (TrimSpace (ru_RiskAtLeast r)) = ru_RiskAtLeast r" by (intro canonical_word) auto
  moreover have "ru_RiskAtLeast r \<noteq> ''none''" using w by (auto simp: riskSeverityRank_def)
  ultimately have risk: "canonical_risk (ru_RiskAtLeast r) = ru_RiskAtLeast r" by (simp add: canonical_risk_def)
  have c: "ToLower (TrimSpace (ru_Status r)) = ru_Status r" "ToLower (TrimSpace (ru_Stage r)) = ru_Stage r"
    "ToLower (TrimSpace (ru_Plane r)) = ru_Plane r"
    using w by (intro canonical_word; auto)+
  moreover have "ru_Status r \<noteq> []" "ru_Stage r \<noteq> []" using w by auto
  ultimately have "canonical_or ''active'' (ru_Status r) = ru_Status r" "canonical_or ''enforce'' (ru_Stage r) = ru_Stage r"
    by (simp_all add: canonical_or_word)
  with risk have l: "validate_lifecycle r = Inr r" using w unfolding validate_lifecycle_Inr map_of_eq_None_iff by simp
  have d: "canonical_or ''outbound'' (ru_Direction r) = ru_Direction r" if "ru_Direction r \<in> set [''outbound'', ''inbound'']"
    using that by (intro canonical_or_word canonical_word) auto
  have p: "validate_plane r = Inr r"
    using w d c(3) unfolding validate_plane_Inr by (elim conjE disjE) simp_all
  have "validate_subjects r = Inr r" using w wf_subject_fixed [of "ru_Source r"] wf_subject_fixed [of "ru_Destination r"]
    unfolding validate_subjects_Inr by simp
  then show ?thesis
    using w p l unfolding normalizeAndValidate_Inr
    by (intro conjI exI [of _ r] exI [of _ "ru_Action r"]) (simp_all add: validate_action_fixed)
qed

text \<open>C27. Validation.  A rule that passes validation is well formed (known plane, direction, action, risk, status and
  stage; no blank selector; an explicit wildcard alone; no denial that bypasses inspection; lifetimes
  in range) and is stored in a form that validation leaves unchanged; the rules it leaves unchanged are
  exactly the well-formed ones.\<close>

theorem validation_normal_form:
  "(normalizeAndValidate r = Inr r' \<longrightarrow> wf_rule r') \<and> (wf_rule r \<longleftrightarrow> normalizeAndValidate r = Inr r)"
  using validated_wf wf_validated by blast

end
