(* ===== verification/Rule_Store_Laws.thy ===== *)
theory Rule_Store_Laws
  imports Rule_Store "HOL-Library.Multiset"
begin

text \<open>
  The store of authored rules keeps only validated rules under their own keys, allocates identifiers
  that are not in use, publishes a change only as its medium answered, and is reproduced on another
  node by its snapshot.
\<close>

section \<open>Identifiers\<close>

lemma fresh_seq_unused: "map_of existing (rule_id (fresh_seq existing seq)) = None"
  by (induction existing seq rule: fresh_seq.induct) (subst fresh_seq.simps, simp)

lemma fresh_seq_above: "seq < fresh_seq existing seq"
proof (induction existing seq rule: fresh_seq.induct)
  case (1 existing seq)
  then show ?case by (subst fresh_seq.simps) auto
qed

text \<open>Every number the loop passed over is in use.\<close>

lemma fresh_seq_skipped: "seq < m \<Longrightarrow> m < fresh_seq existing seq \<Longrightarrow> rule_id m \<in> fst ` set existing"
proof (induction existing seq rule: fresh_seq.induct)
  case (1 existing seq)
  show ?case
  proof (cases "map_of existing (rule_id (seq + 1)) = None")
    case True
    then have "fresh_seq existing seq = seq + 1" by (subst fresh_seq.simps) simp
    with "1.prems" show ?thesis by simp
  next
    case False
    then have f: "fresh_seq existing seq = fresh_seq existing (seq + 1)" by (subst fresh_seq.simps) (rule if_not_P)
    show ?thesis
    proof (cases "m = seq + 1")
      case True
      with False show ?thesis by (simp add: map_of_eq_None_iff)
    next
      case False': False
      with "1.IH" [OF False] "1.prems" f show ?thesis by simp
    qed
  qed
qed

text \<open>C36. Allocation of rule identifiers ends.  The search for an unused number stops after at most one step more than
  the tenant has rules, above the last number, at a number whose identifier no rule of the tenant has.\<close>

theorem rule_identifier_allocation:
  "map_of existing (rule_id (fresh_seq existing seq)) = None \<and>
   seq < fresh_seq existing seq \<and> fresh_seq existing seq \<le> seq + int (length existing) + 1"
proof -
  let ?n = "fresh_seq existing seq"
  have "rule_id ` {seq + 1..<?n} \<subseteq> fst ` set existing" using fresh_seq_skipped [of seq _ existing] by (intro image_subsetI) simp
  then have "card (rule_id ` {seq + 1..<?n}) \<le> card (fst ` set existing)" by (intro card_mono) auto
  also have "\<dots> \<le> length existing" by (metis card_length length_map list.set_map)
  finally have "card {seq + 1..<?n} \<le> length existing" by (simp add: card_image inj_on_def)
  then show ?thesis using fresh_seq_unused fresh_seq_above [of seq existing] by auto
qed

section \<open>Invariant\<close>

definition keyed_rule :: "string \<Rightarrow> string \<Rightarrow> authored_rule \<Rightarrow> bool" where
  "keyed_rule t i r \<longleftrightarrow> ru_TenantID r = t \<and> ru_ID r = i \<and> i \<noteq> [] \<and> wf_rule r"

abbreviation store_inv :: "rule_store \<Rightarrow> bool" where
  "store_inv s \<equiv> rows_satisfy keyed_rule (rs_rules s)"

lemma wf_rule_ID [simp]: "wf_rule (r\<lparr>ru_ID := i\<rparr>) = wf_rule r"
  by (simp add: wf_rule_def)

lemma rule_id_nonempty [simp]: "rule_id n \<noteq> []"
  by (simp add: rule_id_def)

lemma saveCandidateLocked_rules:
  "rs_rules (snd (saveCandidateLocked save nxt seq s)) \<in> {rs_rules s, nxt}"
  by (auto simp: saveCandidateLocked_def Let_def split: option.split save_result.split)

text \<open>An edit keeps the invariant whatever its medium answers.\<close>

definition edit_keeps :: "'a edit \<Rightarrow> bool" where
  "edit_keeps edit \<longleftrightarrow> (\<forall>save s. store_inv s \<longrightarrow> store_inv (snd (edit save s)))"

lemma save_keeps:
  assumes "store_inv s" "rows_satisfy keyed_rule nxt"
  shows "store_inv (snd (case saveCandidateLocked save nxt seq s of (Some err, s) \<Rightarrow> (Inl err, s) | (None, s) \<Rightarrow> (Inr x, s)))"
  using saveCandidateLocked_rules [of save nxt seq s] assms
  by (cases "saveCandidateLocked save nxt seq s") (auto split: option.split)

lemma upsert_keeps: "edit_keeps (upsert_rule r)"
  unfolding edit_keeps_def
proof (intro allI impI)
  fix save and s :: rule_store assume s: "store_inv s"
  show "store_inv (snd (upsert_rule r save s))"
  proof (cases "normalizeAndValidate r")
    case (Inr q)
    then have "wf_rule q" by (rule validated_wf)
    moreover have "ru_ID q \<noteq> []" if "TrimSpace (ru_ID q) \<noteq> []" using that by auto
    ultimately show ?thesis using s
      unfolding upsert_rule_def Inr sum.case Let_def by (intro save_keeps rows_satisfy_put) (auto simp: keyed_rule_def)
  qed (simp add: upsert_rule_def s)
qed

lemma delete_keeps: "edit_keeps (delete_rule t i)"
  unfolding edit_keeps_def delete_rule_def by (auto intro!: save_keeps)

lemma remove_keeps: "edit_keeps (removeTenantChecked t)"
  unfolding edit_keeps_def removeTenantChecked_def Let_def by (auto intro!: save_keeps)

lemma collect_keeps: "collect_rules rules nxt = Inr m \<Longrightarrow> rows_satisfy keyed_rule nxt \<Longrightarrow> rows_satisfy keyed_rule m"
proof (induction rules nxt rule: collect_rules.induct)
  case (2 r rs nxt)
  then obtain q where q: "normalizeAndValidate r = Inr q" "ru_ID q \<noteq> []"
    "row nxt (ru_TenantID q) (ru_ID q) = None" "collect_rules rs (put_row (ru_TenantID q) (ru_ID q) q nxt) = Inr m"
    by (auto split: sum.splits if_splits)
  moreover have "keyed_rule (ru_TenantID q) (ru_ID q) q" using validated_wf [OF q(1)] q(2) by (simp add: keyed_rule_def)
  ultimately show ?case using "2.IH" [of q] "2.prems"(2) by auto
qed simp

lemma replace_keeps: "edit_keeps (replaceAll rules)"
  unfolding edit_keeps_def replaceAll_def
  by (auto intro!: save_keeps dest: collect_keeps split: sum.split)

text \<open>A shared row decodes to a map, and its tenants are written as the store writes them, without padding.\<close>

definition row_ok :: "shared_row \<Rightarrow> bool" where
  "row_ok raw = (case raw of Row snap \<Rightarrow> wf_rows (pr_Rules snap) \<and> list_all (\<lambda>t. TrimSpace t = t) (map fst (pr_Rules snap)) | _ \<Rightarrow> True)"

definition medium_ok :: "rule_medium \<Rightarrow> bool" where
  "medium_ok medium = (case medium of SharedRow raw _ \<Rightarrow> row_ok raw | _ \<Rightarrow> True)"

lemma row_tenant: "row m t i = Some r \<Longrightarrow> t \<in> fst ` set m"
  by (auto simp: row_def rows_def split: option.splits dest!: map_of_SomeD intro: rev_image_eqI)

lemma shared_keeps:
  assumes "sharedCandidateLocked raw s = Some n" "row_ok raw"
  shows "store_inv n"
proof (cases raw)
  case (Row snap)
  let ?f = "\<lambda>(t, rs). (t, map (\<lambda>(i, r). (i, projr (normalizeAndValidate r))) rs)"
  have wf: "wf_rows (pr_Rules snap)" and trimmed: "t \<in> fst ` set (pr_Rules snap) \<Longrightarrow> TrimSpace t = t" for t
    using assms(2) Row by (auto simp: row_ok_def list_all_iff)
  have n: "list_all row_valid (all_rows (pr_Rules snap))" "rs_rules n = map ?f (pr_Rules snap)"
    using assms(1) by (auto simp: sharedCandidateLocked_def Row split: if_splits)
  have "wf_rows (map ?f m)" if "wf_rows m" for m :: "authored_rule tenant_map"
    using that by (auto simp: wf_rows_def list_all_iff comp_def case_prod_beta)
  moreover have "row (map ?f m) t i = map_option (\<lambda>r. projr (normalizeAndValidate r)) (row m t i)" for m t i
  proof -
    have "rows (map ?f m) t = map (\<lambda>(i, r). (i, projr (normalizeAndValidate r))) (rows m t)"
      by (induction m) (auto simp: rows_def split: option.splits)
    then show ?thesis by (simp add: row_def map_of_map)
  qed
  moreover have "keyed_rule t i (projr (normalizeAndValidate r))" if "row (pr_Rules snap) t i = Some r" for t i r
  proof -
    have "row_valid (t, i, r)" using n(1) that all_rows_iff [OF wf] by (auto simp: list_all_iff)
    then obtain q where q: "normalizeAndValidate r = Inr q" "t \<noteq> []" "i \<noteq> []" "ru_TenantID r = t" "ru_ID r = i"
      unfolding row_valid_def by (cases "normalizeAndValidate r") auto
    moreover have "ru_TenantID q = TrimSpace (ru_TenantID r) \<and> ru_ID q = ru_ID r"
      using q(1) unfolding normalizeAndValidate_Inr validate_plane_Inr validate_subjects_Inr validate_lifecycle_Inr by auto
    ultimately show ?thesis using validated_wf [OF q(1)] trimmed [OF row_tenant [OF that]] by (simp add: keyed_rule_def)
  qed
  ultimately show ?thesis using wf by (auto simp: rows_satisfy_def n(2))
qed (use assms in \<open>auto simp: sharedCandidateLocked_def new_rule_store_def split: if_splits\<close>)

lemma adopt_rules_sel [simp]: "rs_rules (adopt_rules n s) = rs_rules n"
  by (simp add: adopt_rules_def)

lemma mutateRules_keeps:
  assumes "edit_keeps edit" "medium_ok medium" "store_inv s"
  shows "store_inv (snd (mutateRules medium edit s))"
proof -
  have local: "store_inv (snd (edit save s))" for save using assms(1,3) by (simp add: edit_keeps_def)
  show ?thesis
  proof (cases medium)
    case Unsaved
    then show ?thesis using local [of None] assms(3) by (auto simp: mutateRules_def Let_def split: prod.split sum.split rule_error.split)
  next
    case (SavedFile save)
    then show ?thesis using local [of "Some save"] assms(3) by (auto simp: mutateRules_def Let_def split: prod.split sum.split rule_error.split)
  next
    case (SharedRow raw commit)
    have "store_inv (snd (edit None n))" if "sharedCandidateLocked raw s = Some n" for n
      using shared_keeps [OF that] assms(1,2) SharedRow by (simp add: medium_ok_def edit_keeps_def)
    then show ?thesis using assms(3) SharedRow by (auto simp: mutateRules_def Let_def split: option.split prod.split sum.split)
  qed
qed

section \<open>Reachable stores\<close>

inductive reachable_rules :: "rule_store \<Rightarrow> bool" where
  start: "reachable_rules new_rule_store"
| upsert: "reachable_rules s \<Longrightarrow> medium_ok m \<Longrightarrow> reachable_rules (snd (Upsert_rule m r s))"
| delete: "reachable_rules s \<Longrightarrow> medium_ok m \<Longrightarrow> reachable_rules (snd (Delete_rule m t i s))"
| remove: "reachable_rules s \<Longrightarrow> medium_ok m \<Longrightarrow> reachable_rules (snd (RemoveTenantChecked m t s))"
| replace: "reachable_rules s \<Longrightarrow> medium_ok m \<Longrightarrow> reachable_rules (snd (ReplaceAll m rules s))"
| refresh: "reachable_rules s \<Longrightarrow> medium_ok m \<Longrightarrow> reachable_rules (snd (RefreshShared m s))"

lemma reachable_store_inv: "reachable_rules s \<Longrightarrow> store_inv s"
proof (induction rule: reachable_rules.induct)
  case (refresh s m)
  then show ?case using shared_keeps [of _ s]
    by (auto simp: RefreshShared_def medium_ok_def split: rule_medium.splits option.splits)
qed (simp_all add: new_rule_store_def Upsert_rule_def Delete_rule_def RemoveTenantChecked_def ReplaceAll_def mutateRules_keeps
    upsert_keeps delete_keeps remove_keeps replace_keeps)

text \<open>C20. Only validated rules are stored.  In every store reached from the empty one by edits, erasures, replacements and
  refreshes, whatever the medium answered, the rule found under a tenant and an identifier belongs to
  that tenant, has that identifier, and is one that validation leaves unchanged.\<close>

theorem stored_rules_validated:
  assumes "reachable_rules s" "Get_rule s t i = Some r"
  shows "ru_TenantID r = t \<and> ru_ID r = i \<and> normalizeAndValidate r = Inr r"
  using reachable_store_inv [OF assms(1)] assms(2) wf_validated
  by (auto simp: rows_satisfy_def keyed_rule_def Get_rule_def)

section \<open>Distribution\<close>

lemma collect_rules_wf:
  assumes "list_all (\<lambda>r. wf_rule r \<and> ru_ID r \<noteq> []) rules"
    and "distinct (map (\<lambda>r. (ru_TenantID r, ru_ID r)) rules)"
    and "list_all (\<lambda>r. row nxt (ru_TenantID r) (ru_ID r) = None) rules"
  shows "\<exists>m. collect_rules rules nxt = Inr m \<and>
    (\<forall>t i. row m t i = (case List.find (\<lambda>r. ru_TenantID r = t \<and> ru_ID r = i) rules of Some r \<Rightarrow> Some r | None \<Rightarrow> row nxt t i))"
  using assms
proof (induction rules arbitrary: nxt)
  case (Cons r rules)
  let ?nxt = "put_row (ru_TenantID r) (ru_ID r) r nxt"
  have r: "normalizeAndValidate r = Inr r" "ru_ID r \<noteq> []" "row nxt (ru_TenantID r) (ru_ID r) = None"
    using Cons.prems by (simp_all add: wf_validated)
  have other: "\<not> (ru_TenantID q = ru_TenantID r \<and> ru_ID q = ru_ID r)" if "q \<in> set rules" for q
    using Cons.prems(2) imageI [OF that, of "\<lambda>r. (ru_TenantID r, ru_ID r)"] by auto
  then have "list_all (\<lambda>q. row ?nxt (ru_TenantID q) (ru_ID q) = None) rules"
    using Cons.prems(3) by (auto simp: list_all_iff)
  with Cons.IH [of ?nxt] Cons.prems obtain m where m: "collect_rules rules ?nxt = Inr m"
    "\<And>t i. row m t i = (case List.find (\<lambda>r. ru_TenantID r = t \<and> ru_ID r = i) rules of Some r \<Rightarrow> Some r | None \<Rightarrow> row ?nxt t i)"
    by auto
  have "List.find (\<lambda>q. ru_TenantID q = ru_TenantID r \<and> ru_ID q = ru_ID r) rules = None"
    using other by (auto simp: find_None_iff)
  then have "row m t i = (case List.find (\<lambda>r. ru_TenantID r = t \<and> ru_ID r = i) (r # rules) of Some r \<Rightarrow> Some r | None \<Rightarrow> row nxt t i)" for t i
    unfolding m(2) by (auto split: option.split)
  with m(1) r show ?case by simp
qed simp

lemma Snapshot_member:
  assumes "store_inv s"
  shows "r \<in> set (Snapshot s) \<longleftrightarrow> Get_rule s (ru_TenantID r) (ru_ID r) = Some r"
proof -
  have wf: "wf_rows (rs_rules s)" using assms by (simp add: rows_satisfy_def)
  have "r \<in> set (Snapshot s) \<longleftrightarrow> (\<exists>t i. row (rs_rules s) t i = Some r)"
    using all_rows_iff [OF wf] by (force simp: Snapshot_def)
  then show ?thesis using assms by (auto simp: Get_rule_def rows_satisfy_def keyed_rule_def)
qed

lemma Snapshot_keys:
  assumes "store_inv s" shows "distinct (map (\<lambda>r. (ru_TenantID r, ru_ID r)) (Snapshot s))"
proof -
  have wf: "wf_rows (rs_rules s)" using assms by (simp add: rows_satisfy_def)
  have "map (\<lambda>r. (ru_TenantID r, ru_ID r)) (map (\<lambda>(t, i, r). r) (all_rows (rs_rules s))) = map (\<lambda>(t, i, r). (t, i)) (all_rows (rs_rules s))"
    using assms all_rows_iff [OF wf] by (auto simp: rows_satisfy_def keyed_rule_def)
  then have d: "distinct (map (\<lambda>r. (ru_TenantID r, ru_ID r)) (map (\<lambda>(t, i, r). r) (all_rows (rs_rules s))))"
    using all_rows_distinct [OF wf] by (simp only:)
  have "mset (map (\<lambda>r. (ru_TenantID r, ru_ID r)) (Snapshot s)) = mset (map (\<lambda>r. (ru_TenantID r, ru_ID r)) (map (\<lambda>(t, i, r). r) (all_rows (rs_rules s))))"
    by (simp only: Snapshot_def mset_map mset_sort)
  from mset_eq_imp_distinct_iff [OF this] d show ?thesis by (rule iffD2)
qed

lemma find_unique:
  assumes "distinct (map f xs)" "x \<in> set xs" shows "List.find (\<lambda>y. f y = f x) xs = Some x"
  using assms by (induction xs) (auto simp: rev_image_eqI)

lemma Snapshot_lookup:
  assumes "store_inv s"
  shows "List.find (\<lambda>r. ru_TenantID r = t \<and> ru_ID r = i) (Snapshot s) = Get_rule s t i"
proof (cases "Get_rule s t i")
  case None
  then show ?thesis using Snapshot_member [OF assms] by (auto simp: find_None_iff)
next
  case (Some r)
  then have "ru_TenantID r = t" "ru_ID r = i" using assms by (auto simp: Get_rule_def rows_satisfy_def keyed_rule_def)
  with Some have "r \<in> set (Snapshot s)" using Snapshot_member [OF assms] by simp
  from find_unique [OF Snapshot_keys [OF assms] this] show ?thesis
    using Some \<open>ru_TenantID r = t\<close> \<open>ru_ID r = i\<close> by simp
qed

lemma ReplaceAll_Snapshot:
  assumes "store_inv s"
  shows "\<exists>m. collect_rules (Snapshot s) [] = Inr m \<and> (\<forall>t i. row m t i = Get_rule s t i)"
proof -
  have "wf_rule r \<and> ru_ID r \<noteq> []" if "r \<in> set (Snapshot s)" for r
  proof -
    have "row (rs_rules s) (ru_TenantID r) (ru_ID r) = Some r" using that Snapshot_member [OF assms] by (simp add: Get_rule_def)
    with assms have "keyed_rule (ru_TenantID r) (ru_ID r) r" unfolding rows_satisfy_def by blast
    then show ?thesis by (simp add: keyed_rule_def)
  qed
  then have w: "list_all (\<lambda>r. wf_rule r \<and> ru_ID r \<noteq> []) (Snapshot s)" by (simp add: list_all_iff)
  have n: "list_all (\<lambda>r. row [] (ru_TenantID r) (ru_ID r) = None) (Snapshot s)" by (simp add: list_all_iff)
  have "(case x of Some r \<Rightarrow> Some r | None \<Rightarrow> row [] t i) = x" for x :: "authored_rule option" and t i by (simp split: option.split)
  with collect_rules_wf [OF w Snapshot_keys [OF assms] n] show ?thesis unfolding Snapshot_lookup [OF assms] by simp
qed

lemma distributed_lookup:
  assumes "store_inv s" "medium = Unsaved \<or> medium = SavedFile (\<lambda>_. Saved)"
  shows "case ReplaceAll medium (Snapshot s) edge of
    (answer, edge') \<Rightarrow> answer = Inr True \<and> (\<forall>t i. Get_rule edge' t i = Get_rule s t i)"
proof -
  obtain m where m: "collect_rules (Snapshot s) [] = Inr m" "\<And>t i. row m t i = Get_rule s t i"
    using ReplaceAll_Snapshot [OF assms(1)] by auto
  then have "replaceAll (Snapshot s) save edge = (Inr True, snd (saveCandidateLocked save m (rs_seq edge) edge))"
      "rs_rules (snd (saveCandidateLocked save m (rs_seq edge) edge)) = m"
    if "save = None \<or> save = Some (\<lambda>_. Saved)" for save
    using that by (auto simp: replaceAll_def saveCandidateLocked_def Let_def)
  then show ?thesis using assms(2) m(2)
    by (auto simp: ReplaceAll_def mutateRules_def Let_def Get_rule_def)
qed

text \<open>C19. Distribution reproduces the rules.  A node that replaces its rules by the snapshot of a reachable store, on a
  medium that confirms the save, answers every later lookup as that store does, whatever rules it
  held before; rules the store no longer has are gone.\<close>

theorem distribution_round_trip:
  assumes "reachable_rules s" "medium = Unsaved \<or> medium = SavedFile (\<lambda>_. Saved)"
  shows "case ReplaceAll medium (Snapshot s) edge of
    (answer, edge') \<Rightarrow> answer = Inr True \<and> (\<forall>t i. Get_rule edge' t i = Get_rule s t i)"
  using reachable_store_inv [OF assms(1)] assms(2) by (rule distributed_lookup)

lemma set_List_rules:
  assumes "store_inv s" "plane \<noteq> []" "ToLower (TrimSpace plane) = plane"
  shows "r \<in> set (List_rules s t plane) \<longleftrightarrow> (\<exists>i. Get_rule s t i = Some r) \<and> ru_Plane r = plane"
proof -
  have "distinct (map fst (rows (rs_rules s) t))" using assms(1) by (simp add: rows_satisfy_def wf_rows_distinct)
  then have "r \<in> snd ` set (rows (rs_rules s) t) \<longleftrightarrow> (\<exists>i. Get_rule s t i = Some r)"
    by (force simp: Get_rule_def row_def)
  then show ?thesis using assms(2,3) by (auto simp: List_rules_def)
qed

section \<open>Instances\<close>

definition draft_rule :: authored_rule where
  "draft_rule = zero_rule\<lparr>ru_TenantID := '' acme'', ru_Plane := ''Egress '', ru_Source := [''laptop'', '' * ''], ru_Destination := [''db''],
     ru_Action := (ru_Action zero_rule)\<lparr>ra_Access := ''DENY''\<rparr>\<rparr>"

definition draft_store :: rule_store where
  "draft_store = snd (Upsert_rule Unsaved draft_rule new_rule_store)"

definition stale_store :: rule_store where
  "stale_store = snd (Upsert_rule Unsaved (draft_rule\<lparr>ru_ID := ''old''\<rparr>) new_rule_store)"

lemma draft_reachable: "reachable_rules draft_store"
  unfolding draft_store_def by (rule reachable_rules.upsert [OF reachable_rules.start]) (simp add: medium_ok_def)

theorem validation_normal_form_witness:
  "wf_rule (projr (normalizeAndValidate draft_rule)) \<and> ru_Source (projr (normalizeAndValidate draft_rule)) = [''*'']"
proof -
  have "normalizeAndValidate draft_rule = Inr (projr (normalizeAndValidate draft_rule))"
    "ru_Source (projr (normalizeAndValidate draft_rule)) = [''*'']" by code_simp+
  with validation_normal_form [of draft_rule "projr (normalizeAndValidate draft_rule)"] show ?thesis by blast
qed

theorem stored_rules_validated_witness:
  "normalizeAndValidate (the (Get_rule draft_store ''acme'' ''rule-1'')) = Inr (the (Get_rule draft_store ''acme'' ''rule-1''))"
proof -
  have "Get_rule draft_store ''acme'' ''rule-1'' = Some (the (Get_rule draft_store ''acme'' ''rule-1''))" by code_simp
  from stored_rules_validated [OF draft_reachable this] show ?thesis by simp
qed

theorem distribution_round_trip_witness:
  "Get_rule stale_store ''acme'' ''old'' \<noteq> None \<and>
   Get_rule (snd (ReplaceAll Unsaved (Snapshot draft_store) stale_store)) ''acme'' ''old'' = None"
proof -
  have "Get_rule stale_store ''acme'' ''old'' \<noteq> None" "Get_rule draft_store ''acme'' ''old'' = None" by code_simp+
  with distribution_round_trip [OF draft_reachable, of Unsaved stale_store] show ?thesis by (simp add: case_prod_beta)
qed

end
