(* ===== verification/Tenant_Restriction.thy ===== *)
theory Tenant_Restriction
  imports Model_Types Domains Go_Netip
begin

text \<open>
  Sign-in restrictions of SaaS providers: \<open>src/tenantrestriction/config.go\<close>.  A setting names the
  organizations of a provider that people may sign in to.  The theory holds the provider table, the
  references under which the values of a setting are distributed, and validation with its three
  regular expressions written out as predicates.  The lemmas show that references identify tenant and
  provider, and that what validation returns it accepts unchanged.
\<close>

section \<open>Data\<close>

record setting =
  se_AllowedValue :: string
  se_ContextTenantID :: string
  se_Enabled :: bool

definition zero_setting :: setting where
  "zero_setting = \<lparr>se_AllowedValue = [], se_ContextTenantID = [], se_Enabled = False\<rparr>"

record provider =
  pv_ID :: string
  pv_AppID :: string
  pv_Name :: string
  pv_Header :: string
  pv_Kind :: string
  pv_Hosts :: "string list"

definition Providers :: "provider list" where
  "Providers =
     [\<lparr>pv_ID = ''google_workspace'', pv_AppID = ''saas_google_workspace'', pv_Name = ''Google Workspace'',
       pv_Header = ''X-GoogApps-Allowed-Domains'', pv_Kind = ''allowed_domains'',
       pv_Hosts = [''google.com'', ''*.google.com'', ''googleapis.com'', ''*.googleapis.com'',
                   ''googleusercontent.com'', ''*.googleusercontent.com'']\<rparr>,
      \<lparr>pv_ID = ''microsoft_365'', pv_AppID = ''saas_microsoft_365'', pv_Name = ''Microsoft 365'',
       pv_Header = ''Restrict-Access-To-Tenants'', pv_Kind = ''allowed_tenant_ids'',
       pv_Hosts = [''login.microsoftonline.com'', ''login.microsoft.com'', ''login.windows.net'']\<rparr>,
      \<lparr>pv_ID = ''anthropic_claude'', pv_AppID = ''saas_anthropic_claude'', pv_Name = ''Anthropic Claude'',
       pv_Header = ''anthropic-allowed-org-ids'', pv_Kind = ''allowed_org_ids'',
       pv_Hosts = [''claude.ai'', ''*.claude.ai'', ''claude.com'', ''*.claude.com'', ''anthropic.com'', ''*.anthropic.com'']\<rparr>,
      \<lparr>pv_ID = ''openai_chatgpt'', pv_AppID = ''saas_openai_chatgpt'', pv_Name = ''OpenAI ChatGPT'',
       pv_Header = ''chatgpt-allowed-workspace-id'', pv_Kind = ''allowed_workspace_id'',
       pv_Hosts = [''chatgpt.com'', ''*.chatgpt.com'', ''chat.openai.com'']\<rparr>]"

definition Lookup :: "string \<Rightarrow> provider option" where
  "Lookup i = List.find (\<lambda>p. pv_ID p = i) Providers"

text \<open>\<open>url.PathEscape\<close>: every byte that may not stand in a path segment as a percent sign and two
  hexadecimal digits.\<close>

definition path_byte :: "char \<Rightarrow> bool" where
  "path_byte c \<longleftrightarrow>
     is_digit c \<or> (65 \<le> byte c \<and> byte c \<le> 90) \<or> (97 \<le> byte c \<and> byte c \<le> 122) \<or> c \<in> set ''-_.~$&+:=@''"

definition upper_hex :: "int \<Rightarrow> char" where
  "upper_hex n = (if n < 10 then char_of (n + 48) else char_of (n + 55))"

definition PathEscape :: "string \<Rightarrow> string" where
  "PathEscape s =
     concat (map (\<lambda>c. if path_byte c then [c] else [CHR ''%'', upper_hex (byte c div 16), upper_hex (byte c mod 16)]) s)"

definition Ref :: "string \<Rightarrow> string \<Rightarrow> string" where
  "Ref tenant provider = ''operator_config_ref:tenant_restriction/'' @ PathEscape tenant @ ''/'' @ provider"

definition Rule :: "string \<Rightarrow> provider \<Rightarrow> setting \<Rightarrow> swg_tenant_restriction_rule" where
  "Rule tenant p s =
     \<lparr>tr_ID = ''tr/'' @ PathEscape tenant @ ''/'' @ pv_ID p, tr_TenantID = tenant, tr_SaaSApplicationID = pv_AppID p,
      tr_Provider = pv_ID p, tr_HeaderName = pv_Header p, tr_HeaderValueRef = Ref tenant (pv_ID p),
      tr_HeaderValueKind = pv_Kind p, tr_EnforcementMode = ''header_injection'',
      tr_Status = (if se_Enabled s then ''active'' else ''inactive''),
      tr_Metadata =
        (if pv_ID p = ''microsoft_365'' then [(''restriction_context_ref'', AStr (Ref tenant (pv_ID p) @ ''/context''))] else [])\<rparr>"

definition Catalog :: "string \<Rightarrow> provider \<Rightarrow> saas_catalog_entry" where
  "Catalog tenant p =
     zero_saas_catalog_entry\<lparr>sc_TenantID := tenant, sc_SaaSApplicationID := pv_AppID p, sc_Name := pv_Name p,
       sc_Provider := pv_ID p, sc_Category := ''saas'', sc_DomainPatterns := pv_Hosts p\<rparr>"

section \<open>Validation\<close>

text \<open>Under the flag \<open>(?i)\<close> the classes of letters also contain the two runes above ASCII whose case
  folding is an ASCII letter; they are read as that letter.\<close>

fun fold_runes :: "string \<Rightarrow> string" where
  "fold_runes (a # b # c # cs) =
     (if a = CHR 0xC5 \<and> b = CHR 0xBF then CHR ''s'' # fold_runes (c # cs)
      else if a = CHR 0xE2 \<and> b = CHR 0x84 \<and> c = CHR 0xAA then CHR ''k'' # fold_runes cs
      else a # fold_runes (b # c # cs))"
| "fold_runes [a, b] = (if a = CHR 0xC5 \<and> b = CHR 0xBF then [CHR ''s''] else [a, b])"
| "fold_runes [a] = [a]"
| "fold_runes [] = []"

definition is_alnum :: "char \<Rightarrow> bool" where
  "is_alnum c \<longleftrightarrow> is_digit c \<or> (65 \<le> byte c \<and> byte c \<le> 90) \<or> (97 \<le> byte c \<and> byte c \<le> 122)"

definition is_hex :: "char \<Rightarrow> bool" where
  "is_hex c \<longleftrightarrow> is_digit c \<or> (65 \<le> byte c \<and> byte c \<le> 70) \<or> (97 \<le> byte c \<and> byte c \<le> 102)"

definition guid :: "string \<Rightarrow> bool" where
  "guid v \<longleftrightarrow> map length (Split v (CHR ''-'')) = [8, 4, 4, 4, 12] \<and> list_all (list_all is_hex) (Split v (CHR ''-''))"

definition workspace :: "string \<Rightarrow> bool" where
  "workspace v \<longleftrightarrow> 1 \<le> length v \<and> length v \<le> 256 \<and> list_all (\<lambda>c. is_alnum c \<or> c \<in> set ''_-'') v"

definition domain_label :: "string \<Rightarrow> bool" where
  "domain_label l \<longleftrightarrow>
     1 \<le> length l \<and> length l \<le> 63 \<and> list_all (\<lambda>c. is_alnum c \<or> c = CHR ''-'') l \<and> is_alnum (hd l) \<and> is_alnum (last l)"

definition domain :: "string \<Rightarrow> bool" where
  "domain v \<longleftrightarrow> (let ls = Split (fold_runes v) (CHR ''.'') in 2 \<le> length ls \<and> list_all domain_label ls)"

definition valid_value :: "string \<Rightarrow> string \<Rightarrow> string \<Rightarrow> bool" where
  "valid_value provider allowed v =
     (if provider = ''google_workspace'' then length v \<le> 253 \<and> domain v
      else if provider = ''microsoft_365'' then guid v \<or> (length v \<le> 253 \<and> domain v)
      else if provider = ''anthropic_claude'' then guid v
      else if provider = ''openai_chatgpt'' then workspace v \<and> CHR '','' \<notin> set allowed
      else False)"

fun allowed_values :: "string \<Rightarrow> string \<Rightarrow> string list \<Rightarrow> string list \<Rightarrow> string + string list" where
  "allowed_values provider allowed [] values = Inr values"
| "allowed_values provider allowed (raw # raws) values =
     (let v = TrimSpace raw;
          v = (if provider \<noteq> ''openai_chatgpt'' then ToLower v else v)
      in if v = []
         then (if TrimSpace allowed \<noteq> [] then Inl ''empty item in allowed list''
               else allowed_values provider allowed raws values)
         else if \<not> valid_value provider allowed v then Inl (''invalid allowed value for '' @ provider)
         else allowed_values provider allowed raws (if v \<in> set values then values else values @ [v]))"

definition Validate :: "string \<Rightarrow> setting \<Rightarrow> string + setting" where
  "Validate provider s =
     (if Lookup provider = None then Inl ''unknown SaaS provider''
      else if length (se_AllowedValue s) > 8192 \<or>
              list_ex (\<lambda>c. c \<in> set [CHR 0x0D, CHR 0x0A, CHR 0x00]) (se_AllowedValue s)
      then Inl ''invalid allowed value''
      else case allowed_values provider (se_AllowedValue s) (Split (se_AllowedValue s) (CHR '','')) [] of
             Inl err \<Rightarrow> Inl err
           | Inr values \<Rightarrow>
               (let s = s\<lparr>se_AllowedValue := Join values '','', se_ContextTenantID := ToLower (TrimSpace (se_ContextTenantID s))\<rparr>
                in if se_ContextTenantID s \<noteq> [] \<and> (provider \<noteq> ''microsoft_365'' \<or> \<not> guid (se_ContextTenantID s))
                   then Inl ''context tenant must be a Microsoft Entra directory ID''
                   else if se_Enabled s \<and> (se_AllowedValue s = [] \<or> (provider = ''microsoft_365'' \<and> se_ContextTenantID s = []))
                   then Inl ''configure allowed values and the required context tenant before enabling''
                   else Inr s))"

section \<open>References identify tenant and provider\<close>

lemma path_byte_no: "path_byte c \<Longrightarrow> c \<noteq> CHR ''%'' \<and> c \<noteq> CHR ''/''"
  by (auto simp: path_byte_def is_digit_def)

lemma upper_hex_byte: "0 \<le> n \<Longrightarrow> n < 16 \<Longrightarrow> byte (upper_hex n) = (if n < 10 then n + 48 else n + 55)"
  by (simp add: upper_hex_def)

lemma upper_hex_inj: "0 \<le> m \<Longrightarrow> m < 16 \<Longrightarrow> 0 \<le> n \<Longrightarrow> n < 16 \<Longrightarrow> upper_hex m = upper_hex n \<longleftrightarrow> m = n"
proof -
  assume r: "0 \<le> m" "m < 16" "0 \<le> n" "n < 16"
  have "m = n" if "upper_hex m = upper_hex n"
  proof -
    have "(if m < 10 then m + 48 else m + 55) = (if n < 10 then n + 48 else n + 55)"
      using upper_hex_byte [OF r(1,2)] upper_hex_byte [OF r(3,4)] that by metis
    then show ?thesis using r by (simp split: if_splits)
  qed
  then show ?thesis by blast
qed

lemma upper_hex_slash: "0 \<le> n \<Longrightarrow> n < 16 \<Longrightarrow> upper_hex n \<noteq> CHR ''/''"
  using upper_hex_byte [of n] by (cases "n < 10") auto

lemma PathEscape_Cons:
  "PathEscape (c # s) =
    (if path_byte c then [c] else [CHR ''%'', upper_hex (byte c div 16), upper_hex (byte c mod 16)]) @ PathEscape s"
  by (simp add: PathEscape_def)

lemma nibbles: "0 \<le> byte c div 16 \<and> byte c div 16 < 16 \<and> 0 \<le> byte c mod 16 \<and> byte c mod 16 < 16"
  using byte_range [of c] by presburger

lemma PathEscape_slash: "CHR ''/'' \<notin> set (PathEscape s)"
proof (induction s)
  case (Cons c s)
  then show ?case
    using upper_hex_slash [of "byte c div 16"] upper_hex_slash [of "byte c mod 16"] nibbles [of c] path_byte_no [of c]
    by (auto simp: PathEscape_Cons)
qed (simp add: PathEscape_def)

lemma PathEscape_inj: "PathEscape s = PathEscape t \<Longrightarrow> s = t"
proof (induction s arbitrary: t)
  case Nil
  then show ?case by (cases t) (auto simp: PathEscape_def split: if_splits)
next
  case (Cons c s)
  then obtain d u where t: "t = d # u" by (cases t) (auto simp: PathEscape_def split: if_splits)
  have "c = d" if "byte c div 16 = byte d div 16" "byte c mod 16 = byte d mod 16"
    using that by (metis div_mod_decomp_int of_char_eq_iff)
  with Cons.prems have "c = d \<and> PathEscape s = PathEscape u"
    using path_byte_no [of c] path_byte_no [of d] upper_hex_inj nibbles [of c] nibbles [of d]
    by (auto simp: t PathEscape_Cons split: if_splits)
  then show ?case using Cons.IH t by auto
qed

lemma append_sep_eq:
  "c \<notin> set a \<Longrightarrow> c \<notin> set b \<Longrightarrow> a @ c # x = b @ c # y \<longleftrightarrow> a = b \<and> x = y"
  by (induction a arbitrary: b) (case_tac b; force)+

lemma Ref_eq_iff: "Ref t p = Ref u q \<longleftrightarrow> t = u \<and> p = q"
  using append_sep_eq [OF PathEscape_slash PathEscape_slash, of t p u q] PathEscape_inj [of t u]
  by (auto simp: Ref_def)

lemma Ref_context: "CHR ''/'' \<notin> set p \<Longrightarrow> Ref t p \<noteq> Ref u q @ ''/context''"
  using append_sep_eq [OF PathEscape_slash PathEscape_slash, of t p u "q @ ''/context''"] by (auto simp: Ref_def)

lemma Ref_context_eq: "Ref t p @ ''/context'' = Ref u q @ ''/context'' \<longleftrightarrow> t = u \<and> p = q"
  by (simp add: Ref_eq_iff)

section \<open>Validation is stable\<close>

text \<open>The room a list of items takes, with one separator each.\<close>

definition room :: "string list \<Rightarrow> nat" where
  "room vs = sum_list (map (\<lambda>v. length v + 1) vs)"

lemma room_simps [simp]: "room [] = 0" "room (v # vs) = length v + 1 + room vs" "room (vs @ ws) = room vs + room ws"
  by (simp_all add: room_def)

lemma room_Split: "room (Split s c) = length s + 1"
proof (induction s)
  case (Cons a s)
  then show ?case by (cases "Split s c") auto
qed simp

lemma room_Join: "vs \<noteq> [] \<Longrightarrow> length (Join vs [c]) + 1 = room vs"
proof (induction vs)
  case (Cons v vs)
  then show ?case by (cases vs) auto
qed simp

text \<open>An item as validation leaves it.\<close>

definition item :: "string \<Rightarrow> string \<Rightarrow> string" where
  "item provider raw = (if provider \<noteq> ''openai_chatgpt'' then ToLower (TrimSpace raw) else TrimSpace raw)"

lemma item_idem [simp]: "item provider (item provider raw) = item provider raw"
  by (simp add: item_def TrimSpace_ToLower)

lemma length_item: "length (item provider raw) \<le> length raw"
  using length_TrimSpace [of raw] by (simp add: item_def ToLower_def)

lemma item_avoids: "byte x < 65 \<Longrightarrow> x \<notin> set raw \<Longrightarrow> x \<notin> set (item provider raw)"
  using set_TrimSpace [of raw] by (auto simp: item_def ToLower_def image_iff lower_char_low eq_commute [of x])

lemma allowed_values_Cons:
  "allowed_values provider allowed (raw # raws) values =
    (if item provider raw = []
     then (if TrimSpace allowed \<noteq> [] then Inl ''empty item in allowed list'' else allowed_values provider allowed raws values)
     else if \<not> valid_value provider allowed (item provider raw) then Inl (''invalid allowed value for '' @ provider)
     else allowed_values provider allowed raws
            (if item provider raw \<in> set values then values else values @ [item provider raw]))"
  by (simp add: item_def Let_def)

declare allowed_values.simps(2) [simp del]

lemma allowed_values_Inr:
  assumes "allowed_values provider allowed raws acc = Inr vs"
  shows "(\<forall>v \<in> set vs. v \<in> set acc \<or> v \<noteq> [] \<and> valid_value provider allowed v \<and> v \<in> item provider ` set raws) \<and>
    (distinct acc \<longrightarrow> distinct vs) \<and> room vs \<le> room acc + room raws"
  using assms
proof (induction raws arbitrary: acc)
  case (Cons raw raws)
  define v where "v = item provider raw"
  consider "v = []" "allowed_values provider allowed raws acc = Inr vs"
    | "v \<noteq> []" "valid_value provider allowed v" "allowed_values provider allowed raws (if v \<in> set acc then acc else acc @ [v]) = Inr vs"
    using Cons.prems by (auto simp: allowed_values_Cons v_def split: if_splits)
  then show ?case
  proof cases
    case 1
    from Cons.IH [OF 1(2)] show ?thesis by auto
  next
    case 2
    have "length v \<le> length raw" by (simp add: v_def length_item)
    with Cons.IH [OF 2(3)] 2(1,2) show ?thesis by (auto simp: v_def split: if_splits)
  qed
qed simp

lemma allowed_values_fixed:
  "\<forall>v \<in> set vs. v \<noteq> [] \<and> item provider v = v \<and> valid_value provider allowed v \<Longrightarrow> distinct (acc @ vs) \<Longrightarrow>
    allowed_values provider allowed vs acc = Inr (acc @ vs)"
  by (induction vs arbitrary: acc) (simp_all add: allowed_values_Cons)

lemma valid_value_allowed:
  "valid_value provider allowed v \<Longrightarrow> (CHR '','' \<in> set allowed' \<Longrightarrow> CHR '','' \<in> set allowed) \<Longrightarrow> valid_value provider allowed' v"
  by (auto simp: valid_value_def split: if_splits)

lemma single_item:
  assumes "c \<notin> set allowed" "byte c < 65" "allowed_values provider allowed (Split allowed c) [] = Inr vs"
  shows "c \<notin> set (Join vs [c])"
  using assms item_avoids [of c allowed provider]
  by (auto simp: Split_no_sep allowed_values_Cons split: if_splits)

text \<open>What is stored is exactly what a node accepts when it arrives in a bundle: validation is the
  identity on its own results.\<close>

definition control :: "char \<Rightarrow> bool" where
  "control c \<longleftrightarrow> c \<in> set [CHR 0x0D, CHR 0x0A, CHR 0x00]"

lemma Validate_Inr:
  "Validate provider s = Inr s' \<longleftrightarrow>
    Lookup provider \<noteq> None \<and> length (se_AllowedValue s) \<le> 8192 \<and> \<not> list_ex control (se_AllowedValue s) \<and>
    (\<exists>vs. allowed_values provider (se_AllowedValue s) (Split (se_AllowedValue s) (CHR '','')) [] = Inr vs \<and>
      s' = s\<lparr>se_AllowedValue := Join vs '','', se_ContextTenantID := ToLower (TrimSpace (se_ContextTenantID s))\<rparr>) \<and>
    (se_ContextTenantID s' \<noteq> [] \<longrightarrow> provider = ''microsoft_365'' \<and> guid (se_ContextTenantID s')) \<and>
    (se_Enabled s' \<longrightarrow> se_AllowedValue s' \<noteq> [] \<and> (provider = ''microsoft_365'' \<longrightarrow> se_ContextTenantID s' \<noteq> []))"
  unfolding Validate_def control_def
  by (auto simp: Let_def split: sum.splits if_splits)

lemma revalidate_values:
  assumes "allowed_values provider a (Split a (CHR '','')) [] = Inr vs" "length a \<le> 8192" "\<not> list_ex control a"
  shows "allowed_values provider (Join vs '','') (Split (Join vs '','') (CHR '','')) [] = Inr vs \<and>
    length (Join vs '','') \<le> 8192 \<and> \<not> list_ex control (Join vs '','')"
proof (cases "vs = []")
  case True
  then show ?thesis by (simp add: allowed_values_Cons item_def)
next
  case False
  note r = allowed_values_Inr [OF assms(1)]
  have item: "\<exists>raw \<in> set (Split a (CHR '','')). v = item provider raw" if "v \<in> set vs" for v using r that by auto
  have avoids: "c \<notin> set v" if v: "v \<in> set vs" and c: "byte c < 65" "c = CHR '','' \<or> c \<notin> set a" for v c
  proof -
    obtain raw where "raw \<in> set (Split a (CHR '',''))" "v = item provider raw" using item [OF v] by blast
    moreover from this have "c \<notin> set raw" using Split_avoids [of raw a "CHR '',''"] c(2) by blast
    ultimately show ?thesis using item_avoids [OF c(1)] by simp
  qed
  have clean: "\<not> control c" if "v \<in> set vs" "c \<in> set v" for v c
  proof
    assume c: "control c"
    then have "c \<notin> set a" using assms(3) unfolding list_ex_iff by blast
    moreover have "byte c < 65" using c by (auto simp: control_def)
    ultimately show False using avoids [OF that(1)] that(2) by blast
  qed
  have "valid_value provider (Join vs '','') v" if "v \<in> set vs" for v
    by (rule valid_value_allowed [of provider a]) (use r that single_item [OF _ _ assms(1)] in auto)
  moreover have "item provider v = v" if "v \<in> set vs" for v using item [OF that] by auto
  moreover have "v \<noteq> []" if "v \<in> set vs" for v using r that by auto
  ultimately have "\<forall>v \<in> set vs. v \<noteq> [] \<and> item provider v = v \<and> valid_value provider (Join vs '','') v" by blast
  from allowed_values_fixed [OF this, of "[]"] have "allowed_values provider (Join vs '','') vs [] = Inr vs"
    using r by simp
  moreover have "Split (Join vs '','') (CHR '','') = vs" using False avoids [of _ "CHR '',''"] by (intro Split_Join) auto
  moreover have "length (Join vs '','') \<le> 8192"
    using room_Join [OF False, of "CHR '',''"] r room_Split [of a "CHR '',''"] assms(2) by simp
  moreover have "\<not> list_ex control (Join vs '','')"
    using set_Join [of vs "CHR '',''"] clean by (auto simp: list_ex_iff control_def)
  ultimately show ?thesis by simp
qed

lemma Validate_stable: "Validate provider s = Inr s' \<Longrightarrow> Validate provider s' = Inr s'"
  unfolding Validate_Inr
  using revalidate_values [of provider "se_AllowedValue s"] by (auto simp: TrimSpace_ToLower)

end
