(* ===== verification/Policy_Store.thy ===== *)
theory Policy_Store
  imports Tenant_Restriction East_West Server_Initiated Catalog_Transactions
begin

text \<open>
  The store behind the live decision path (\<open>src/policy\<close>): policies seeded from a bundle, the overlay
  of runtime controls an administrator authors, what the rule compilers derive, and the grants of the
  east-west plane.  \<open>RuntimeEvaluator\<close> turns its state into the configuration of the engine.

  The eleven maps of the durable overlay are one record, \<open>runtime_state\<close>, the decoded form of the
  document of \<open>adminPolicyRuntimeStateFile\<close>; the store holds the overlay in the same form.  The
  medium behind the store is an argument: none, a local file with its answer to a save, or a shared
  document with its content and its answer to a conditional update.  A save that is not atomic counts
  as saved, as in the code.  Fields of the document the program does not know are kept there by the
  code and are not part of the record.  Copies are the identity.
\<close>

section \<open>State\<close>

text \<open>Reading a Go map: the zero value where the key is absent.\<close>

definition get_or :: "'v \<Rightarrow> (string \<times> 'v) list \<Rightarrow> string \<Rightarrow> 'v" where
  "get_or z m k = (case map_of m k of Some v \<Rightarrow> v | None \<Rightarrow> z)"

record runtime_state =
  rf_UpstreamTLSModes :: "(string \<times> string) list"
  rf_SaaSTenantRestrictions :: "setting tenant_map"
  rf_TenantRestrictionRuleStatus :: "(string \<times> string) list"
  rf_PolicyStatusOverride :: "string tenant_map"
  rf_EastWestEnabled :: "(string \<times> bool) list"
  rf_EastWestAllowUnmatched :: "(string \<times> bool) list"
  rf_EastWestRules :: "(string \<times> east_west_rule list) list"
  rf_EastWestMaxGrantTTL :: "(string \<times> int) list"
  rf_ServerInitiatedEnabled :: "(string \<times> bool) list"
  rf_LegacyExceptions :: "(string \<times> legacy_exception_record list) list"
  rf_AdminAuthoredPolicies :: "policy tenant_map"

definition zero_runtime_state :: runtime_state where
  "zero_runtime_state =
     \<lparr>rf_UpstreamTLSModes = [], rf_SaaSTenantRestrictions = [], rf_TenantRestrictionRuleStatus = [],
      rf_PolicyStatusOverride = [], rf_EastWestEnabled = [], rf_EastWestAllowUnmatched = [], rf_EastWestRules = [],
      rf_EastWestMaxGrantTTL = [], rf_ServerInitiatedEnabled = [], rf_LegacyExceptions = [],
      rf_AdminAuthoredPolicies = []\<rparr>"

record policy_store =
  ps_policies :: "policy tenant_map"
  ps_cachedPolicies :: "policy list"
  ps_cachedPolicyIDs :: "string list"
  ps_overlay :: runtime_state
  ps_eastWestInternalNetworks :: "(string \<times> internal_networks) list"
  ps_compiledEastWestRules :: "(string \<times> east_west_rule list) list"
  ps_compiledPolicies :: "(string \<times> policy list) list"
  ps_eastWestGrants :: "(string \<times> east_west_grant list) list"
  ps_runtimeAuthorityKnown :: bool
  ps_runtimeBasePolicies :: "policy tenant_map"
  ps_generation :: "64 word"

definition empty_policy_store :: policy_store where
  "empty_policy_store =
     \<lparr>ps_policies = [], ps_cachedPolicies = [], ps_cachedPolicyIDs = [], ps_overlay = zero_runtime_state,
      ps_eastWestInternalNetworks = [], ps_compiledEastWestRules = [], ps_compiledPolicies = [],
      ps_eastWestGrants = [], ps_runtimeAuthorityKnown = False, ps_runtimeBasePolicies = [], ps_generation = 0\<rparr>"

datatype store_error = Refused string | NotSaved

datatype shared_document = NoDocument | BadDocument | Document runtime_state

datatype runtime_medium =
    NoMedium
  | LocalFile "runtime_state \<Rightarrow> save_result"
  | SharedStore shared_document "runtime_state \<Rightarrow> bool"

definition no_medium :: "runtime_medium \<Rightarrow> bool" where
  "no_medium medium = (case medium of NoMedium \<Rightarrow> True | _ \<Rightarrow> False)"

definition shared_medium :: "runtime_medium \<Rightarrow> bool" where
  "shared_medium medium = (case medium of SharedStore _ _ \<Rightarrow> True | _ \<Rightarrow> False)"

section \<open>Policies\<close>

definition normalizedStringList :: "string list \<Rightarrow> string list" where
  "normalizedStringList values =
     foldl (\<lambda>result value. let n = TrimSpace value in if n = [] \<or> n \<in> set result then result else result @ [n]) [] values"

definition validAdminPolicyStatus :: "string \<Rightarrow> bool" where
  "validAdminPolicyStatus status \<longleftrightarrow> status \<in> set [''active'', ''draft'', ''disabled'']"

definition validAdminPolicyDecision :: "string \<Rightarrow> bool" where
  "validAdminPolicyDecision d \<longleftrightarrow> d \<in> set [''allow'', ''deny'', ''require_reauthentication'', ''require_workload_attestation'']"

text \<open>A zero time stands for the clock.\<close>

definition normalizeAdminPolicy :: "instant \<Rightarrow> policy \<Rightarrow> string \<Rightarrow> instant \<Rightarrow> string + policy" where
  "normalizeAdminPolicy clock p tenantID now =
     (let tenantID = TrimSpace tenantID; ident = TrimSpace (pol_ID p);
          tenant = TrimSpace (pol_TenantID p); tenant = (if tenant = [] then tenantID else tenant);
          name = TrimSpace (pol_Name p); name = (if name = [] then ident else name);
          status = TrimSpace (pol_Status p); status = (if status = [] then ''draft'' else status);
          decision = TrimSpace (pa_Decision (pol_Action p));
          now = (if now = zero_time then clock else now)
      in if tenantID = [] then Inl ''tenant_id is required''
         else if ident = [] then Inl ''policy id is required''
         else if CHR ''/'' \<in> set ident then Inl ''policy id cannot contain slash''
         else if tenant \<noteq> tenantID
         then Inl (''policy tenant_id '' @ tenant @ '' does not match authenticated tenant_id '' @ tenantID)
         else if \<not> validAdminPolicyStatus status then Inl (''policy status '' @ status @ '' is invalid'')
         else if decision = [] then Inl ''policy action.decision is required''
         else if \<not> validAdminPolicyDecision decision then Inl (''policy action.decision '' @ decision @ '' is invalid'')
         else if pol_Conditions p = [] then Inl ''policy conditions must contain at least one condition''
         else Inr (p\<lparr>pol_ID := ident, pol_TenantID := tenant, pol_Name := name, pol_Status := status,
                pol_Action := (pol_Action p)\<lparr>pa_Decision := decision\<rparr>,
                pol_AllowedTaskPurposes := normalizedStringList (pol_AllowedTaskPurposes p),
                pol_AllowedToolIDs := normalizedStringList (pol_AllowedToolIDs p),
                pol_AllowedToolActions := normalizedStringList (pol_AllowedToolActions p),
                pol_AllowedContextScopeIDs := normalizedStringList (pol_AllowedContextScopeIDs p),
                pol_AllowedMemoryScopeIDs := normalizedStringList (pol_AllowedMemoryScopeIDs p),
                pol_AllowedDataClassifications := normalizedStringList (pol_AllowedDataClassifications p),
                pol_UpdatedAt := Some (Format now)\<rparr>))"

definition SortPolicies :: "policy list \<Rightarrow> policy list" where
  "SortPolicies ps = sort_key (\<lambda>p. (pol_Priority p, pol_ID p)) ps"

definition activeAdminPolicyIDs :: "policy list \<Rightarrow> string list" where
  "activeAdminPolicyIDs ps = map pol_ID (filter (\<lambda>p. pol_Status p = ''active'') ps)"

definition putLocked :: "policy \<Rightarrow> policy tenant_map \<Rightarrow> policy tenant_map" where
  "putLocked p m = put_row (pol_TenantID p) (pol_ID p) p m"

definition rebuildPolicyCacheLocked :: "policy_store \<Rightarrow> policy_store" where
  "rebuildPolicyCacheLocked s =
     (let ps = SortPolicies (map (\<lambda>(t, i, p). p) (all_rows (ps_policies s)))
      in s\<lparr>ps_cachedPolicies := ps, ps_cachedPolicyIDs := activeAdminPolicyIDs ps\<rparr>)"

definition seed_policies :: "instant \<Rightarrow> policy list \<Rightarrow> policy tenant_map" where
  "seed_policies clock seed =
     foldl (\<lambda>m p. let tenantID = TrimSpace (pol_TenantID p)
                  in if tenantID = [] then m
                     else case normalizeAdminPolicy clock p tenantID clock of Inl _ \<Rightarrow> m | Inr n \<Rightarrow> putLocked n m) [] seed"

definition NewPolicyStore :: "instant \<Rightarrow> policy list \<Rightarrow> policy_store" where
  "NewPolicyStore clock seed =
     (let m = seed_policies clock seed
      in rebuildPolicyCacheLocked (empty_policy_store\<lparr>ps_policies := m, ps_runtimeBasePolicies := m\<rparr>))"

section \<open>Overlays on the policies of the bundle\<close>

text \<open>A status override applies to a policy that is there and creates none.\<close>

definition override_status :: "string \<Rightarrow> (string \<times> string) list \<Rightarrow> policy tenant_map \<Rightarrow> policy tenant_map" where
  "override_status tenantID overrides m =
     foldl (\<lambda>m (policyID, status).
              case row m tenantID policyID of
                None \<Rightarrow> m
              | Some p \<Rightarrow> put_row tenantID policyID (p\<lparr>pol_Status := status\<rparr>) m) m overrides"

definition applyPolicyStatusOverridesLocked :: "policy_store \<Rightarrow> policy_store" where
  "applyPolicyStatusOverridesLocked s =
     s\<lparr>ps_policies :=
         foldl (\<lambda>m (tenantID, overrides). override_status tenantID overrides m) (ps_policies s)
           (rf_PolicyStatusOverride (ps_overlay s))\<rparr>"

definition reapplyRuntimeOverlaysLocked :: "string \<Rightarrow> policy_store \<Rightarrow> policy_store" where
  "reapplyRuntimeOverlaysLocked tenantID s =
     (let authored = rows (rf_AdminAuthoredPolicies (ps_overlay s)) tenantID;
          overrides = rows (rf_PolicyStatusOverride (ps_overlay s)) tenantID
      in s\<lparr>ps_policies := override_status tenantID overrides (foldl (\<lambda>m (i, p). putLocked p m) (ps_policies s) authored)\<rparr>)"

definition fresh_policies :: "instant \<Rightarrow> string \<Rightarrow> policy list \<Rightarrow> instant \<Rightarrow> (string \<times> policy) list" where
  "fresh_policies clock tenantID policies now =
     foldl (\<lambda>fresh p. case normalizeAdminPolicy clock (p\<lparr>pol_TenantID := tenantID\<rparr>) tenantID now of
                        Inl _ \<Rightarrow> fresh
                      | Inr n \<Rightarrow> AList.update (pol_ID n) n fresh) [] policies"

definition replacePoliciesLocked :: "instant \<Rightarrow> string \<Rightarrow> policy list \<Rightarrow> instant \<Rightarrow> policy_store \<Rightarrow> nat \<times> policy_store" where
  "replacePoliciesLocked clock tenantID policies now s =
     (let fresh = fresh_policies clock tenantID policies now
      in (length fresh,
          reapplyRuntimeOverlaysLocked tenantID
            (s\<lparr>ps_runtimeBasePolicies := AList.update tenantID fresh (ps_runtimeBasePolicies s),
               ps_policies := AList.update tenantID fresh (ps_policies s)\<rparr>)))"

definition ReplaceTenant :: "instant \<Rightarrow> string \<Rightarrow> policy list \<Rightarrow> instant \<Rightarrow> policy_store \<Rightarrow> nat \<times> policy_store" where
  "ReplaceTenant clock tenantID policies now s =
     (let tenantID = TrimSpace tenantID
      in if tenantID = [] then (0, s)
         else let (n, s) = replacePoliciesLocked clock tenantID policies now s
              in (n, rebuildPolicyCacheLocked (s\<lparr>ps_generation := ps_generation s + 1\<rparr>)))"

section \<open>The configuration of a tenant\<close>

text \<open>A map that the control plane did not include is \<open>None\<close>.\<close>

record tenant_config =
  tc_UpstreamTLSMode :: string
  tc_SaaSTenantRestrictions :: "(string \<times> setting) list option"
  tc_EastWestEnabled :: bool
  tc_EastWestAllowUnmatched :: bool
  tc_EastWestRules :: "east_west_rule list"
  tc_EastWestMaxGrantTTL :: int
  tc_ServerInitiatedEnabled :: bool
  tc_LegacyExceptions :: "legacy_exception_record list"
  tc_TenantRestrictionRuleStatus :: "(string \<times> string) list option"

definition zero_tenant_config :: tenant_config where
  "zero_tenant_config =
     \<lparr>tc_UpstreamTLSMode = [], tc_SaaSTenantRestrictions = None, tc_EastWestEnabled = False,
      tc_EastWestAllowUnmatched = False, tc_EastWestRules = [], tc_EastWestMaxGrantTTL = 0,
      tc_ServerInitiatedEnabled = False, tc_LegacyExceptions = [], tc_TenantRestrictionRuleStatus = None\<rparr>"

definition UpstreamTLSDefault :: string where
  "UpstreamTLSDefault = ''browser_compatible''"

definition validAuthoredUpstreamTLSMode :: "string \<Rightarrow> bool" where
  "validAuthoredUpstreamTLSMode mode \<longleftrightarrow> mode = ''strict'' \<or> mode = ''browser_compatible''"

definition ValidateUpstreamTLSMode :: "string \<Rightarrow> bool" where
  "ValidateUpstreamTLSMode mode \<longleftrightarrow> \<not> (mode \<noteq> [] \<and> \<not> validAuthoredUpstreamTLSMode mode)"

definition EffectiveUpstreamTLSMode :: "string \<Rightarrow> string" where
  "EffectiveUpstreamTLSMode mode = (if mode = [] then UpstreamTLSDefault else mode)"

definition ValidateTenantRestrictions :: "(string \<times> setting) list \<Rightarrow> bool" where
  "ValidateTenantRestrictions settings \<longleftrightarrow>
     list_all (\<lambda>(i, s). case Validate i s of Inl _ \<Rightarrow> False | Inr n \<Rightarrow> n = s) settings"

definition ValidateTenantConfig :: "tenant_config \<Rightarrow> bool" where
  "ValidateTenantConfig cfg \<longleftrightarrow>
     ValidateUpstreamTLSMode (tc_UpstreamTLSMode cfg) \<and>
     ValidateTenantRestrictions (case tc_SaaSTenantRestrictions cfg of Some m \<Rightarrow> m | None \<Rightarrow> [])"

definition applyTenantConfigLocked :: "string \<Rightarrow> tenant_config \<Rightarrow> runtime_state \<Rightarrow> runtime_state" where
  "applyTenantConfigLocked tenantID cfg f =
     f\<lparr>rf_UpstreamTLSModes := AList.update tenantID (EffectiveUpstreamTLSMode (tc_UpstreamTLSMode cfg)) (rf_UpstreamTLSModes f),
       rf_SaaSTenantRestrictions :=
         (case tc_SaaSTenantRestrictions cfg of
            None \<Rightarrow> rf_SaaSTenantRestrictions f
          | Some m \<Rightarrow> AList.update tenantID m (rf_SaaSTenantRestrictions f)),
       rf_EastWestEnabled := AList.update tenantID (tc_EastWestEnabled cfg) (rf_EastWestEnabled f),
       rf_EastWestAllowUnmatched := AList.update tenantID (tc_EastWestAllowUnmatched cfg) (rf_EastWestAllowUnmatched f),
       rf_EastWestRules := AList.update tenantID (tc_EastWestRules cfg) (rf_EastWestRules f),
       rf_EastWestMaxGrantTTL := AList.update tenantID (tc_EastWestMaxGrantTTL cfg) (rf_EastWestMaxGrantTTL f),
       rf_ServerInitiatedEnabled := AList.update tenantID (tc_ServerInitiatedEnabled cfg) (rf_ServerInitiatedEnabled f),
       rf_LegacyExceptions := AList.update tenantID (tc_LegacyExceptions cfg) (rf_LegacyExceptions f),
       rf_TenantRestrictionRuleStatus :=
         (case tc_TenantRestrictionRuleStatus cfg of None \<Rightarrow> rf_TenantRestrictionRuleStatus f | Some m \<Rightarrow> m)\<rparr>"

definition ApplyBundle ::
  "instant \<Rightarrow> string \<Rightarrow> policy list \<Rightarrow> tenant_config \<Rightarrow> instant \<Rightarrow> policy_store \<Rightarrow> nat \<times> policy_store" where
  "ApplyBundle clock tenantID policies cfg now s =
     (if \<not> ValidateTenantConfig cfg then (0, s)
      else let tenantID = TrimSpace tenantID
           in if tenantID = [] then (0, s)
              else let (n, s) = replacePoliciesLocked clock tenantID policies now s
                   in (n, rebuildPolicyCacheLocked
                            (s\<lparr>ps_overlay := applyTenantConfigLocked tenantID cfg (ps_overlay s),
                               ps_generation := ps_generation s + 1\<rparr>)))"

definition SnapshotTenantConfig :: "policy_store \<Rightarrow> string \<Rightarrow> tenant_config" where
  "SnapshotTenantConfig s tenantID =
     (let tenantID = TrimSpace tenantID; f = ps_overlay s
      in if tenantID = [] then zero_tenant_config
         else \<lparr>tc_UpstreamTLSMode = EffectiveUpstreamTLSMode (get_or [] (rf_UpstreamTLSModes f) tenantID),
               tc_SaaSTenantRestrictions = Some (rows (rf_SaaSTenantRestrictions f) tenantID),
               tc_EastWestEnabled = get_or False (rf_EastWestEnabled f) tenantID,
               tc_EastWestAllowUnmatched = get_or False (rf_EastWestAllowUnmatched f) tenantID,
               tc_EastWestRules = get_or [] (rf_EastWestRules f) tenantID,
               tc_EastWestMaxGrantTTL = get_or 0 (rf_EastWestMaxGrantTTL f) tenantID,
               tc_ServerInitiatedEnabled = get_or False (rf_ServerInitiatedEnabled f) tenantID,
               tc_LegacyExceptions = get_or [] (rf_LegacyExceptions f) tenantID,
               tc_TenantRestrictionRuleStatus =
                 (if rf_TenantRestrictionRuleStatus f \<noteq> [] then Some (rf_TenantRestrictionRuleStatus f) else None)\<rparr>)"

definition Snapshot_policies :: "policy_store \<Rightarrow> string \<Rightarrow> policy list" where
  "Snapshot_policies s tenantID =
     (let tenantID = TrimSpace tenantID
      in if tenantID = [] then []
         else SortPolicies (map snd (rows (ps_policies s) tenantID) @ get_or [] (ps_compiledPolicies s) tenantID))"

section \<open>The durable overlay\<close>

text \<open>\<open>decodeRuntimeState\<close> refuses a document whose modes or restrictions are not canonical.\<close>

definition decodeRuntimeState :: "runtime_state \<Rightarrow> bool" where
  "decodeRuntimeState f \<longleftrightarrow>
     list_all (\<lambda>(tenant, mode). tenant \<noteq> [] \<and> TrimSpace tenant = tenant \<and> validAuthoredUpstreamTLSMode mode)
       (rf_UpstreamTLSModes f) \<and>
     list_all (\<lambda>(tenant, settings). ValidateTenantRestrictions settings) (rf_SaaSTenantRestrictions f)"

definition adoptRuntimeLocked :: "runtime_state \<Rightarrow> policy_store \<Rightarrow> policy_store" where
  "adoptRuntimeLocked f s =
     (let s = s\<lparr>ps_overlay := f, ps_policies := ps_runtimeBasePolicies s\<rparr>;
          s = foldl (\<lambda>s tenant. reapplyRuntimeOverlaysLocked tenant s) s (map fst (rf_AdminAuthoredPolicies f))
      in rebuildPolicyCacheLocked (applyPolicyStatusOverridesLocked s))"

type_synonym 'a runtime_edit = "runtime_state \<Rightarrow> string + 'a \<times> runtime_state"

text \<open>The callback \<open>build\<close>: decode the latest document, edit it, and decode the result.\<close>

definition build_runtime :: "'a runtime_edit \<Rightarrow> runtime_state \<Rightarrow> store_error + 'a \<times> runtime_state" where
  "build_runtime edit f =
     (if \<not> decodeRuntimeState f then Inl NotSaved
      else case edit f of
             Inl err \<Rightarrow> Inl (Refused err)
           | Inr (r, n) \<Rightarrow> if \<not> decodeRuntimeState n then Inl NotSaved else Inr (r, n))"

definition publish :: "bool \<Rightarrow> runtime_state \<Rightarrow> policy_store \<Rightarrow> policy_store" where
  "publish known n s =
     (let s = adoptRuntimeLocked n s
      in s\<lparr>ps_generation := ps_generation s + 1, ps_runtimeAuthorityKnown := known \<or> ps_runtimeAuthorityKnown s\<rparr>)"

definition editRuntimeLocked ::
  "runtime_medium \<Rightarrow> 'a runtime_edit \<Rightarrow> policy_store \<Rightarrow> (store_error + 'a) \<times> policy_store" where
  "editRuntimeLocked medium edit s =
     (case medium of
        NoMedium \<Rightarrow>
          (case build_runtime edit (ps_overlay s) of
             Inl err \<Rightarrow> (Inl err, s)
           | Inr (r, n) \<Rightarrow> (Inr r, publish False n s))
      | LocalFile save \<Rightarrow>
          (case build_runtime edit (ps_overlay s) of
             Inl err \<Rightarrow> (Inl err, s)
           | Inr (r, n) \<Rightarrow>
               (case save n of
                  Saved \<Rightarrow> (Inr r, publish True n s)
                | DurabilityUnconfirmed _ \<Rightarrow> (Inl NotSaved, publish True n s)
                | SaveFailed _ \<Rightarrow> (Inl NotSaved, s)))
      | SharedStore doc commit \<Rightarrow>
          (let latest = (case doc of
                 NoDocument \<Rightarrow> if ps_runtimeAuthorityKnown s then None else Some (ps_overlay s)
               | BadDocument \<Rightarrow> None
               | Document f \<Rightarrow> Some f)
           in case latest of
                None \<Rightarrow> (Inl NotSaved, s)
              | Some f \<Rightarrow>
                  (case build_runtime edit f of
                     Inl err \<Rightarrow> (Inl err, s)
                   | Inr (r, n) \<Rightarrow> if commit n then (Inr r, publish True n s) else (Inl NotSaved, s))))"

text \<open>\<open>reflect.DeepEqual\<close> on maps, and on maps of maps.\<close>

definition same_map :: "(string \<times> 'v) list \<Rightarrow> (string \<times> 'v) list \<Rightarrow> bool" where
  "same_map m n \<longleftrightarrow> list_all (\<lambda>k. map_of m k = map_of n k) (map fst m @ map fst n)"

definition same_tenants :: "'v tenant_map \<Rightarrow> 'v tenant_map \<Rightarrow> bool" where
  "same_tenants m n \<longleftrightarrow>
     list_all (\<lambda>t. t \<in> set (map fst m) \<and> t \<in> set (map fst n) \<and> same_map (rows m t) (rows n t)) (map fst m @ map fst n)"

definition same_runtime :: "runtime_state \<Rightarrow> runtime_state \<Rightarrow> bool" where
  "same_runtime f g \<longleftrightarrow>
     same_map (rf_UpstreamTLSModes f) (rf_UpstreamTLSModes g) \<and>
     same_tenants (rf_SaaSTenantRestrictions f) (rf_SaaSTenantRestrictions g) \<and>
     same_map (rf_TenantRestrictionRuleStatus f) (rf_TenantRestrictionRuleStatus g) \<and>
     same_tenants (rf_PolicyStatusOverride f) (rf_PolicyStatusOverride g) \<and>
     same_map (rf_EastWestEnabled f) (rf_EastWestEnabled g) \<and>
     same_map (rf_EastWestAllowUnmatched f) (rf_EastWestAllowUnmatched g) \<and>
     same_map (rf_EastWestRules f) (rf_EastWestRules g) \<and>
     same_map (rf_EastWestMaxGrantTTL f) (rf_EastWestMaxGrantTTL g) \<and>
     same_map (rf_ServerInitiatedEnabled f) (rf_ServerInitiatedEnabled g) \<and>
     same_map (rf_LegacyExceptions f) (rf_LegacyExceptions g) \<and>
     same_tenants (rf_AdminAuthoredPolicies f) (rf_AdminAuthoredPolicies g)"

definition RefreshSharedRuntime :: "runtime_medium \<Rightarrow> policy_store \<Rightarrow> bool \<times> policy_store" where
  "RefreshSharedRuntime medium s =
     (case medium of
        SharedStore doc _ \<Rightarrow>
          (case doc of
             NoDocument \<Rightarrow> (\<not> ps_runtimeAuthorityKnown s, s)
           | BadDocument \<Rightarrow> (False, s)
           | Document f \<Rightarrow>
               if \<not> decodeRuntimeState f then (False, s)
               else (True,
                     (if same_runtime (ps_overlay s) f then s
                      else let s = adoptRuntimeLocked f s in s\<lparr>ps_generation := ps_generation s + 1\<rparr>)
                       \<lparr>ps_runtimeAuthorityKnown := True\<rparr>))
      | _ \<Rightarrow> (True, s))"

text \<open>Opening a medium: \<open>None\<close> is no medium, otherwise what loading it gives.  The result says
  whether the store could be used; if not, nothing changes.\<close>

definition SetRuntimeStatePersister :: "shared_document option \<Rightarrow> policy_store \<Rightarrow> bool \<times> policy_store" where
  "SetRuntimeStatePersister loaded s =
     (case loaded of
        None \<Rightarrow> (True, s\<lparr>ps_runtimeAuthorityKnown := False\<rparr>)
      | Some NoDocument \<Rightarrow> (True, s\<lparr>ps_runtimeAuthorityKnown := False\<rparr>)
      | Some BadDocument \<Rightarrow> (False, s)
      | Some (Document f) \<Rightarrow>
          if \<not> decodeRuntimeState f then (False, s)
          else (True, (adoptRuntimeLocked f s)\<lparr>ps_runtimeAuthorityKnown := True\<rparr>))"

text \<open>A bundle that a node received: live controls are applied even when the node's own cache cannot be
  saved; the flag of the answer says whether the cache was confirmed.\<close>

definition ApplyReceivedBundle ::
  "runtime_medium \<Rightarrow> instant \<Rightarrow> string \<Rightarrow> policy list \<Rightarrow> tenant_config \<Rightarrow> instant \<Rightarrow> policy_store \<Rightarrow>
    (store_error + nat \<times> bool) \<times> policy_store" where
  "ApplyReceivedBundle medium clock tenant policies cfg now s =
     (let tenant = TrimSpace tenant
      in if tenant = [] then (Inl (Refused ''received bundle tenant is required''), s)
         else if \<not> ValidateTenantConfig cfg then (Inl (Refused ''invalid tenant configuration''), s)
         else if shared_medium medium
         then (Inl (Refused ''received runtime controls require a node-local cache''), s)
         else if \<not> decodeRuntimeState (ps_overlay s) then (Inl (Refused ''invalid runtime state''), s)
         else
           (let confirmed = (case medium of
                   LocalFile save \<Rightarrow> save (applyTenantConfigLocked tenant cfg (ps_overlay s)) = Saved
                 | _ \<Rightarrow> True);
                (n, s) = replacePoliciesLocked clock tenant policies now s
            in (Inr (n, confirmed),
                rebuildPolicyCacheLocked
                  (s\<lparr>ps_overlay := applyTenantConfigLocked tenant cfg (ps_overlay s),
                     ps_generation := ps_generation s + 1\<rparr>))))"

section \<open>Authored policies\<close>

record list_response =
  lr_Policies :: "policy list"
  lr_Count :: nat
  lr_Limit :: int

definition List_policies :: "policy_store \<Rightarrow> string \<Rightarrow> string \<Rightarrow> int \<Rightarrow> string + list_response" where
  "List_policies s tenantID status limit =
     (let tenantID = TrimSpace tenantID; status = TrimSpace status; limit = (if limit \<le> 0 then 100 else limit)
      in if tenantID = [] then Inl ''tenant_id is required''
         else if status \<noteq> [] \<and> \<not> validAdminPolicyStatus status then Inl (''policy status '' @ status @ '' is invalid'')
         else (let rs = SortPolicies (filter (\<lambda>p. status = [] \<or> pol_Status p = status) (map snd (rows (ps_policies s) tenantID)))
               in Inr \<lparr>lr_Policies = take (nat limit) rs, lr_Count = length rs, lr_Limit = limit\<rparr>))"

definition Get_policy :: "policy_store \<Rightarrow> string \<Rightarrow> string \<Rightarrow> string + policy option" where
  "Get_policy s tenantID policyID =
     (let tenantID = TrimSpace tenantID; policyID = TrimSpace policyID
      in if tenantID = [] then Inl ''tenant_id is required''
         else if policyID = [] then Inl ''policy_id is required''
         else Inr (row (ps_policies s) tenantID policyID))"

definition Upsert_policy ::
  "runtime_medium \<Rightarrow> instant \<Rightarrow> policy \<Rightarrow> string \<Rightarrow> instant \<Rightarrow> policy_store \<Rightarrow> (store_error + policy) \<times> policy_store" where
  "Upsert_policy medium clock p tenantID now s =
     (case normalizeAdminPolicy clock p tenantID now of
        Inl err \<Rightarrow> (Inl (Refused err), s)
      | Inr n \<Rightarrow>
          editRuntimeLocked medium
            (\<lambda>f. Inr (n, f\<lparr>rf_AdminAuthoredPolicies := put_row (pol_TenantID n) (pol_ID n) n (rf_AdminAuthoredPolicies f)\<rparr>)) s)"

definition Delete_policy ::
  "runtime_medium \<Rightarrow> string \<Rightarrow> string \<Rightarrow> policy_store \<Rightarrow> (store_error + policy option) \<times> policy_store" where
  "Delete_policy medium tenantID policyID s =
     (let tenantID = TrimSpace tenantID; policyID = TrimSpace policyID
      in if tenantID = [] \<or> policyID = [] then (Inl (Refused ''tenant_id and policy_id are required''), s)
         else editRuntimeLocked medium
           (\<lambda>f. case row (rf_AdminAuthoredPolicies f) tenantID policyID of
                  None \<Rightarrow>
                    if row (ps_runtimeBasePolicies s) tenantID policyID \<noteq> None
                    then Inl (''policy '' @ policyID @ '' comes from the policy bundle, not the Admin API'')
                    else Inr (None, f)
                | Some p \<Rightarrow>
                    Inr (Some p, f\<lparr>rf_AdminAuthoredPolicies := delete_row tenantID policyID (rf_AdminAuthoredPolicies f),
                                   rf_PolicyStatusOverride := delete_row tenantID policyID (rf_PolicyStatusOverride f)\<rparr>)) s)"

definition SetPolicyStatusContext ::
  "runtime_medium \<Rightarrow> string \<Rightarrow> string \<Rightarrow> string \<Rightarrow> policy_store \<Rightarrow> (store_error + bool) \<times> policy_store" where
  "SetPolicyStatusContext medium tenantID policyID status s =
     (let tenantID = TrimSpace tenantID; policyID = TrimSpace policyID; status = ToLower (TrimSpace status)
      in if status \<noteq> ''active'' \<and> status \<noteq> ''disabled'' then (Inl (Refused ''invalid policy status''), s)
         else editRuntimeLocked medium
           (\<lambda>f. if row (rf_AdminAuthoredPolicies f) tenantID policyID \<noteq> None \<or>
                   row (ps_runtimeBasePolicies s) tenantID policyID \<noteq> None
                then Inr (True, f\<lparr>rf_PolicyStatusOverride := put_row tenantID policyID status (rf_PolicyStatusOverride f)\<rparr>)
                else Inr (False, f)) s)"

section \<open>Controls of a tenant\<close>

definition ApplyEastWestUpdateContext ::
  "runtime_medium \<Rightarrow> string \<Rightarrow> east_west_rule list option \<Rightarrow> int option \<Rightarrow> bool option \<Rightarrow> bool option \<Rightarrow> policy_store \<Rightarrow>
    (store_error + unit) \<times> policy_store" where
  "ApplyEastWestUpdateContext medium tenant rules ttl enabled unmatched s =
     (let tenant = TrimSpace tenant; put = (\<lambda>v m. case v of None \<Rightarrow> m | Some x \<Rightarrow> AList.update tenant x m)
      in editRuntimeLocked medium
           (\<lambda>f. Inr ((), f\<lparr>rf_EastWestRules := (case rules of None \<Rightarrow> rf_EastWestRules f | Some rs \<Rightarrow> AList.update tenant rs (rf_EastWestRules f)),
              rf_EastWestMaxGrantTTL := (case ttl of None \<Rightarrow> rf_EastWestMaxGrantTTL f | Some n \<Rightarrow> AList.update tenant (max 0 n) (rf_EastWestMaxGrantTTL f)),
              rf_EastWestEnabled := put enabled (rf_EastWestEnabled f),
              rf_EastWestAllowUnmatched := put unmatched (rf_EastWestAllowUnmatched f)\<rparr>)) s)"

definition SetServerInitiatedEnabledContext ::
  "runtime_medium \<Rightarrow> string \<Rightarrow> bool \<Rightarrow> policy_store \<Rightarrow> (store_error + unit) \<times> policy_store" where
  "SetServerInitiatedEnabledContext medium tenant enabled s =
     editRuntimeLocked medium
       (\<lambda>f. Inr ((), f\<lparr>rf_ServerInitiatedEnabled := AList.update (TrimSpace tenant) enabled (rf_ServerInitiatedEnabled f)\<rparr>)) s"

fun replace_exception :: "string \<Rightarrow> legacy_exception_record \<Rightarrow> legacy_exception_record list \<Rightarrow> legacy_exception_record list" where
  "replace_exception i c [] = [c]"
| "replace_exception i c (x # xs) = (if lx_ID x = i then c # xs else x # replace_exception i c xs)"

fun remove_exception :: "string \<Rightarrow> legacy_exception_record list \<Rightarrow> legacy_exception_record list" where
  "remove_exception i [] = []"
| "remove_exception i (x # xs) = (if lx_ID x = i then xs else x # remove_exception i xs)"

definition MutateLegacyExceptionContext ::
  "runtime_medium \<Rightarrow> string \<Rightarrow> string \<Rightarrow> (legacy_exception_record \<Rightarrow> string + legacy_exception_record) \<Rightarrow> policy_store \<Rightarrow>
    (store_error + legacy_exception_record) \<times> policy_store" where
  "MutateLegacyExceptionContext medium tenant i edit s =
     (let tenant = TrimSpace tenant
      in editRuntimeLocked medium
           (\<lambda>f. let xs = get_or [] (rf_LegacyExceptions f) tenant;
                    current = (case List.find (\<lambda>x. lx_ID x = i) xs of
                        Some x \<Rightarrow> x
                      | None \<Rightarrow> zero_legacy_exception_record\<lparr>lx_ID := i, lx_TenantID := tenant, lx_Status := ''active''\<rparr>)
                in case edit current of
                     Inl err \<Rightarrow> Inl err
                   | Inr c \<Rightarrow>
                       if lx_ID c \<noteq> i then Inl ''exception identity cannot change during update''
                       else (let c = c\<lparr>lx_TenantID := tenant\<rparr>
                             in Inr (c, f\<lparr>rf_LegacyExceptions :=
                                  AList.update tenant (replace_exception i c xs) (rf_LegacyExceptions f)\<rparr>))) s)"

definition RemoveLegacyExceptionContext ::
  "runtime_medium \<Rightarrow> string \<Rightarrow> string \<Rightarrow> policy_store \<Rightarrow> (store_error + bool) \<times> policy_store" where
  "RemoveLegacyExceptionContext medium tenant i s =
     (let tenant = TrimSpace tenant; i = TrimSpace i
      in editRuntimeLocked medium
           (\<lambda>f. let xs = get_or [] (rf_LegacyExceptions f) tenant
                in if list_ex (\<lambda>x. lx_ID x = i) xs
                   then Inr (True, f\<lparr>rf_LegacyExceptions := AList.update tenant (remove_exception i xs) (rf_LegacyExceptions f)\<rparr>)
                   else Inr (False, f)) s)"

definition SetTenantRestrictionRuleStatusesContext ::
  "runtime_medium \<Rightarrow> (string \<times> string) list \<Rightarrow> policy_store \<Rightarrow> (store_error + unit) \<times> policy_store" where
  "SetTenantRestrictionRuleStatusesContext medium statuses s =
     editRuntimeLocked medium
       (\<lambda>f. Inr ((), f\<lparr>rf_TenantRestrictionRuleStatus :=
          foldl (\<lambda>m (i, status). AList.update i status m) (rf_TenantRestrictionRuleStatus f) statuses\<rparr>)) s"

definition updateTenantRestrictionsLocked ::
  "runtime_medium \<Rightarrow> string \<Rightarrow> ((string \<times> setting) list \<Rightarrow> string + 'a \<times> (string \<times> setting) list) \<Rightarrow> policy_store \<Rightarrow>
    (store_error + 'a) \<times> policy_store" where
  "updateTenantRestrictionsLocked medium tenant edit s =
     (if no_medium medium then (Inl NotSaved, s)
      else editRuntimeLocked medium
             (\<lambda>f. case edit (rows (rf_SaaSTenantRestrictions f) tenant) of
                    Inl err \<Rightarrow> Inl err
                  | Inr (r, n) \<Rightarrow> Inr (r, f\<lparr>rf_SaaSTenantRestrictions := AList.update tenant n (rf_SaaSTenantRestrictions f)\<rparr>)) s)"

record restriction_patch =
  rp_AllowedValue :: "string option"
  rp_ContextTenantID :: "string option"
  rp_Enabled :: "bool option"

definition patched_setting :: "restriction_patch \<Rightarrow> setting \<Rightarrow> setting" where
  "patched_setting patch s =
     \<lparr>se_AllowedValue = (case rp_AllowedValue patch of Some v \<Rightarrow> v | None \<Rightarrow> se_AllowedValue s),
      se_ContextTenantID = (case rp_ContextTenantID patch of Some v \<Rightarrow> v | None \<Rightarrow> se_ContextTenantID s),
      se_Enabled = (case rp_Enabled patch of Some v \<Rightarrow> v | None \<Rightarrow> se_Enabled s)\<rparr>"

definition SaveTenantRestrictionContext ::
  "runtime_medium \<Rightarrow> string \<Rightarrow> string \<Rightarrow> restriction_patch \<Rightarrow> policy_store \<Rightarrow> (store_error + unit) \<times> policy_store" where
  "SaveTenantRestrictionContext medium tenant provider patch s =
     (let tenant = TrimSpace tenant
      in if tenant = [] then (Inl (Refused ''select an organization before configuring SaaS restriction''), s)
         else updateTenantRestrictionsLocked medium tenant
                (\<lambda>m. case Validate provider (patched_setting patch (get_or zero_setting m provider)) of
                       Inl err \<Rightarrow> Inl err
                     | Inr v \<Rightarrow> Inr ((), AList.update provider v m)) s)"

definition RemoveTenantRestrictionsContext ::
  "runtime_medium \<Rightarrow> string \<Rightarrow> policy_store \<Rightarrow> (store_error + nat) \<times> policy_store" where
  "RemoveTenantRestrictionsContext medium tenant s =
     (if \<not> shared_medium medium \<and> rows (rf_SaaSTenantRestrictions (ps_overlay s)) tenant = []
      then (Inr 0, s)
      else updateTenantRestrictionsLocked medium tenant (\<lambda>m. Inr (length m, [])) s)"

definition UpstreamTLSModeFor :: "policy_store \<Rightarrow> string \<Rightarrow> string" where
  "UpstreamTLSModeFor s tenantID = EffectiveUpstreamTLSMode (get_or [] (rf_UpstreamTLSModes (ps_overlay s)) (TrimSpace tenantID))"

definition SetUpstreamTLSModeContext ::
  "runtime_medium \<Rightarrow> string \<Rightarrow> string \<Rightarrow> policy_store \<Rightarrow> (store_error + unit) \<times> policy_store" where
  "SetUpstreamTLSModeContext medium tenantID mode s =
     (let tenantID = TrimSpace tenantID
      in if tenantID = [] then (Inl (Refused ''select a tenant before configuring upstream TLS''), s)
         else if \<not> validAuthoredUpstreamTLSMode mode
         then (Inl (Refused ''upstream TLS mode must be strict or browser_compatible''), s)
         else if no_medium medium then (Inl NotSaved, s)
         else editRuntimeLocked medium
                (\<lambda>f. Inr ((), f\<lparr>rf_UpstreamTLSModes := AList.update tenantID mode (rf_UpstreamTLSModes f)\<rparr>)) s)"

definition RemoveUpstreamTLSSettingsContext ::
  "runtime_medium \<Rightarrow> string \<Rightarrow> policy_store \<Rightarrow> (store_error + nat) \<times> policy_store" where
  "RemoveUpstreamTLSSettingsContext medium tenant s =
     editRuntimeLocked medium
       (\<lambda>f. let mode = get_or [] (rf_UpstreamTLSModes f) tenant
            in Inr (if mode \<noteq> [] \<and> mode \<noteq> UpstreamTLSDefault then 1 else 0,
                    f\<lparr>rf_UpstreamTLSModes := AList.update tenant UpstreamTLSDefault (rf_UpstreamTLSModes f)\<rparr>)) s"

definition SetEastWestInternalNetworks :: "string \<Rightarrow> internal_networks \<Rightarrow> policy_store \<Rightarrow> policy_store" where
  "SetEastWestInternalNetworks tenantID networks s =
     s\<lparr>ps_eastWestInternalNetworks := AList.update (TrimSpace tenantID) networks (ps_eastWestInternalNetworks s)\<rparr>"

definition SetCompiledEastWestRules :: "string \<Rightarrow> east_west_rule list \<Rightarrow> policy_store \<Rightarrow> policy_store" where
  "SetCompiledEastWestRules tenantID rules s =
     s\<lparr>ps_compiledEastWestRules := AList.update (TrimSpace tenantID) rules (ps_compiledEastWestRules s),
       ps_generation := ps_generation s + 1\<rparr>"

definition SetCompiledPolicies :: "string \<Rightarrow> policy list \<Rightarrow> policy_store \<Rightarrow> policy_store" where
  "SetCompiledPolicies tenantID policies s =
     (let key = TrimSpace tenantID
      in s\<lparr>ps_compiledPolicies :=
             (if policies = [] then AList.delete key (ps_compiledPolicies s)
              else AList.update key policies (ps_compiledPolicies s)),
           ps_generation := ps_generation s + 1\<rparr>)"

definition CompiledRuleTenants :: "policy_store \<Rightarrow> string list" where
  "CompiledRuleTenants s =
     (let a = sort (map fst (ps_compiledPolicies s)); b = sort (map fst (ps_compiledEastWestRules s))
      in a @ filter (\<lambda>t. t \<notin> set a) b)"

definition EastWestRulesFor :: "policy_store \<Rightarrow> string \<Rightarrow> east_west_rule list" where
  "EastWestRulesFor s tenantID = get_or [] (rf_EastWestRules (ps_overlay s)) (TrimSpace tenantID)"

definition EffectiveEastWestRules :: "policy_store \<Rightarrow> string \<Rightarrow> east_west_rule list" where
  "EffectiveEastWestRules s tenantID =
     get_or [] (rf_EastWestRules (ps_overlay s)) (TrimSpace tenantID) @
     get_or [] (ps_compiledEastWestRules s) (TrimSpace tenantID)"

definition EastWestMaxGrantTTL :: "policy_store \<Rightarrow> string \<Rightarrow> int" where
  "EastWestMaxGrantTTL s tenantID = get_or 0 (rf_EastWestMaxGrantTTL (ps_overlay s)) (TrimSpace tenantID)"

definition EastWestIsEnabled :: "policy_store \<Rightarrow> string \<Rightarrow> bool" where
  "EastWestIsEnabled s tenantID = get_or False (rf_EastWestEnabled (ps_overlay s)) (TrimSpace tenantID)"

definition EastWestAllowsUnmatched :: "policy_store \<Rightarrow> string \<Rightarrow> bool" where
  "EastWestAllowsUnmatched s tenantID = get_or False (rf_EastWestAllowUnmatched (ps_overlay s)) (TrimSpace tenantID)"

definition Tenants_policy :: "policy_store \<Rightarrow> string list" where
  "Tenants_policy s =
     sort (remdups (map fst (rf_UpstreamTLSModes (ps_overlay s)) @ map fst (rf_SaaSTenantRestrictions (ps_overlay s)) @
       filter (\<lambda>t. t \<noteq> []) (map (\<lambda>(t, r). TrimSpace t) (ps_policies s)) @
       filter (\<lambda>t. t \<noteq> []) (map (\<lambda>(t, b). TrimSpace t) (rf_EastWestEnabled (ps_overlay s)))))"

section \<open>Grants of the east-west plane\<close>

definition IssueEastWestGrant :: "string \<Rightarrow> east_west_grant \<Rightarrow> policy_store \<Rightarrow> policy_store" where
  "IssueEastWestGrant tenantID grant s =
     (let tenantID = TrimSpace tenantID
      in s\<lparr>ps_eastWestGrants := AList.update tenantID (get_or [] (ps_eastWestGrants s) tenantID @ [grant]) (ps_eastWestGrants s)\<rparr>)"

definition grant_in_scope :: "string \<Rightarrow> string \<Rightarrow> east_west_grant \<Rightarrow> bool" where
  "grant_in_scope scopeType scopeID g \<longleftrightarrow>
     (scopeType = ''device'' \<and> eg_DeviceID g = scopeID) \<or> (scopeType = ''user'' \<and> eg_SubjectUserID g = scopeID)"

definition revokeEastWestGrantsForScopeLocked :: "string \<Rightarrow> string \<Rightarrow> string \<Rightarrow> policy_store \<Rightarrow> nat \<times> policy_store" where
  "revokeEastWestGrantsForScopeLocked tenantID scopeType scopeID s =
     (let grants = get_or [] (ps_eastWestGrants s) tenantID
      in if scopeID = [] \<or> grants = [] then (0, s)
         else (length (filter (grant_in_scope scopeType scopeID) grants),
               s\<lparr>ps_eastWestGrants :=
                   AList.update tenantID (filter (\<lambda>g. \<not> grant_in_scope scopeType scopeID g) grants) (ps_eastWestGrants s)\<rparr>))"

definition revokeEastWestGrantsForTenantLocked :: "string \<Rightarrow> policy_store \<Rightarrow> nat \<times> policy_store" where
  "revokeEastWestGrantsForTenantLocked tenantID s =
     (length (get_or [] (ps_eastWestGrants s) tenantID),
      s\<lparr>ps_eastWestGrants := AList.delete tenantID (ps_eastWestGrants s)\<rparr>)"

definition RevokeEastWestGrants :: "string \<Rightarrow> string \<Rightarrow> string \<Rightarrow> policy_store \<Rightarrow> nat \<times> policy_store" where
  "RevokeEastWestGrants tenantID scopeType scopeID s =
     (let tenantID = TrimSpace tenantID; scopeType = TrimSpace scopeType; scopeID = TrimSpace scopeID
      in if scopeType = [] \<or> scopeType = ''tenant'' then revokeEastWestGrantsForTenantLocked tenantID s
         else revokeEastWestGrantsForScopeLocked tenantID scopeType scopeID s)"

text \<open>The idle timer restarts for the grants that match the request; the device compared here is the
  one the request claims.\<close>

definition touches :: "decision_request \<Rightarrow> east_west_grant \<Rightarrow> bool" where
  "touches req g =
     (if eg_IdleTTLSeconds g \<le> 0 then False
      else if eg_Protocol g \<noteq> [] \<and> \<not> EqualFold (eg_Protocol g) (TrimSpace (rq_ServiceFamily req)) then False
      else if eg_SubjectUserID g \<noteq> [] \<and> eg_SubjectUserID g \<noteq> rq_SubjectUserID req \<and> eg_SubjectUserID g \<noteq> rq_UserID req
      then False
      else if eg_DeviceID g \<noteq> [] \<and> eg_DeviceID g \<noteq> rq_DeviceID req then False
      else if eg_Destination g \<noteq> [] \<and> eg_Destination g \<noteq> rq_Destination req \<and> eg_Destination g \<noteq> rq_ApplicationID req
      then False
      else True)"

text \<open>The loop writes into the tenant's slice; without an entry there is nothing to write.\<close>

definition TouchEastWestGrant :: "string \<Rightarrow> decision_request \<Rightarrow> instant \<Rightarrow> policy_store \<Rightarrow> policy_store" where
  "TouchEastWestGrant tenantID req now s =
     (case map_of (ps_eastWestGrants s) (TrimSpace tenantID) of
        None \<Rightarrow> s
      | Some grants \<Rightarrow>
          s\<lparr>ps_eastWestGrants :=
              AList.update (TrimSpace tenantID)
                (map (\<lambda>g. if touches req g then g\<lparr>eg_LastUsedAt := now\<rparr> else g) grants) (ps_eastWestGrants s)\<rparr>)"

definition EastWestGrantsFor :: "policy_store \<Rightarrow> string \<Rightarrow> instant \<Rightarrow> east_west_grant list" where
  "EastWestGrantsFor s tenantID now =
     filter (\<lambda>g. now < eg_ExpiresAt g) (get_or [] (ps_eastWestGrants s) (TrimSpace tenantID))"

section \<open>The live engine\<close>

text \<open>One rule and one catalog entry for every setting of every tenant, in the order of the tenants
  and of the provider table; the values a setting names, under their references.\<close>

definition restriction_settings :: "setting tenant_map \<Rightarrow> (string \<times> provider \<times> setting) list" where
  "restriction_settings m =
     concat (map (\<lambda>tenant. List.map_filter (\<lambda>p. map_option (\<lambda>s. (tenant, p, s)) (row m tenant (pv_ID p))) Providers)
       (sort (map fst m)))"

definition restriction_values :: "(string \<times> provider \<times> setting) list \<Rightarrow> (string \<times> string) list" where
  "restriction_values settings =
     foldl (\<lambda>values (tenant, p, s).
       let values = (if se_AllowedValue s \<noteq> [] then AList.update (Ref tenant (pv_ID p)) (se_AllowedValue s) values else values)
       in if se_ContextTenantID s \<noteq> [] then AList.update (Ref tenant (pv_ID p) @ ''/context'') (se_ContextTenantID s) values
          else values) [] settings"

definition compileTenantRestrictionsLocked :: "policy_store \<Rightarrow> evaluator \<Rightarrow> evaluator" where
  "compileTenantRestrictionsLocked s base =
     (let m = rf_SaaSTenantRestrictions (ps_overlay s); settings = restriction_settings m; b = ev_PolicyBundle base
      in if m = [] then base
         else base\<lparr>ev_PolicyBundle :=
                b\<lparr>pb_SWGTenantRestrictionRules :=
                    pb_SWGTenantRestrictionRules b @ map (\<lambda>(tenant, p, s). Rule tenant p s) settings,
                  pb_SaaSCatalog := pb_SaaSCatalog b @ map (\<lambda>(tenant, p, s). Catalog tenant p) settings\<rparr>,
              ev_TenantRestrictionHeaderValues := restriction_values settings\<rparr>)"

definition override_rule_status :: "(string \<times> string) list \<Rightarrow> swg_tenant_restriction_rule \<Rightarrow> swg_tenant_restriction_rule" where
  "override_rule_status statuses r =
     (case map_of statuses (tr_ID r) of Some status \<Rightarrow> r\<lparr>tr_Status := status\<rparr> | None \<Rightarrow> r)"

fun merge_policies :: "(string \<times> string) set \<Rightarrow> policy list \<Rightarrow> policy list" where
  "merge_policies present [] = []"
| "merge_policies present (p # ps) =
     (if (pol_TenantID p, pol_ID p) \<in> present then merge_policies present ps
      else p # merge_policies (insert (pol_TenantID p, pol_ID p) present) ps)"

definition compiled_in_order :: "policy_store \<Rightarrow> policy list" where
  "compiled_in_order s =
     concat (map (\<lambda>owner. get_or [] (ps_compiledPolicies s) owner) (sort (map fst (ps_compiledPolicies s))))"

definition RuntimeEvaluator :: "policy_store \<Rightarrow> evaluator \<Rightarrow> evaluator" where
  "RuntimeEvaluator s base =
     (let f = ps_overlay s;
          base = base\<lparr>ev_Policies := ps_cachedPolicies s,
                      ev_PolicyBundle := (ev_PolicyBundle base)\<lparr>pb_PolicyIDs := ps_cachedPolicyIDs s\<rparr>\<rparr>;
          base = compileTenantRestrictionsLocked s base;
          b = ev_PolicyBundle base;
          base = base\<lparr>ev_PolicyBundle :=
            b\<lparr>pb_SWGTenantRestrictionRules :=
                map (override_rule_status (rf_TenantRestrictionRuleStatus f)) (pb_SWGTenantRestrictionRules b)\<rparr>\<rparr>;
          tenantID = TrimSpace (pb_TenantID b);
          base = base\<lparr>ev_Policies :=
            ev_Policies base @
            merge_policies (set (map (\<lambda>p. (pol_TenantID p, pol_ID p)) (ev_Policies base))) (compiled_in_order s)\<rparr>;
          rules = get_or [] (rf_EastWestRules f) tenantID @ get_or [] (ps_compiledEastWestRules s) tenantID;
          grants = get_or [] (ps_eastWestGrants s) tenantID
      in base\<lparr>ev_EastWestEnabled := get_or False (rf_EastWestEnabled f) tenantID \<or> ev_EastWestEnabled base,
              ev_EastWestInternalNetworks :=
                get_or \<lparr>in_CIDRs = [], in_Domains = []\<rparr> (ps_eastWestInternalNetworks s) tenantID,
              ev_EastWestAllowUnmatched := get_or False (rf_EastWestAllowUnmatched f) tenantID,
              ev_EastWestMaxGrantTTLSeconds := get_or 0 (rf_EastWestMaxGrantTTL f) tenantID,
              ev_EastWestRules := (if rules \<noteq> [] then rules else ev_EastWestRules base),
              ev_EastWestGrants := (if grants \<noteq> [] then grants else ev_EastWestGrants base),
              ev_ServerInitiatedEnabled :=
                (case map_of (rf_ServerInitiatedEnabled f) tenantID of
                   Some enabled \<Rightarrow> enabled | None \<Rightarrow> ev_ServerInitiatedEnabled base),
              ev_LegacyExceptions :=
                (case map_of (rf_LegacyExceptions f) tenantID of
                   Some exs \<Rightarrow> LegacyExceptionsFromModel exs | None \<Rightarrow> ev_LegacyExceptions base)\<rparr>)"

end
