(* ===== verification/Eastwest_Grants.thy ===== *)
theory Eastwest_Grants
  imports Policy_Store
begin

text \<open>
  Holding a hop until its user has proved an identity: \<open>src/eastwest\<close> (\<open>challenge.go\<close>, \<open>grant.go\<close>,
  \<open>admin.go\<close>).  A held flow becomes a pending challenge; the ceremony in the browser completes the
  challenge and issues a grant into the policy store; the grant releases the hop until it expires or
  is revoked.  The bytes of a random identifier are an argument, \<open>None\<close> where the system has none.
  The challenge store is an association list; an operation returns the stores it changed.
\<close>

section \<open>Challenges\<close>

definition AuthChallengeTTL :: int where
  "AuthChallengeTTL = 5 * 60 * nanos"

definition RequiresAuthentication :: "string \<Rightarrow> bool" where
  "RequiresAuthentication decisionValue \<longleftrightarrow> decisionValue = ''authenticate_required''"

record auth_challenge =
  ac_ID :: string
  ac_TenantID :: string
  ac_SubjectUserID :: string
  ac_DeviceID :: string
  ac_Destination :: string
  ac_ApplicationID :: string
  ac_Protocol :: string
  ac_Status :: string
  ac_CreatedAt :: string
  ac_ExpiresAt :: string

definition BuildAuthChallenge :: "decision_request \<Rightarrow> auth_challenge" where
  "BuildAuthChallenge req =
     \<lparr>ac_ID = [], ac_TenantID = TrimSpace (rq_TenantID req),
      ac_SubjectUserID = TrimSpace (valueOrDefault (rq_SubjectUserID req) (rq_UserID req)),
      ac_DeviceID = AuthoritativeDeviceIdentity req,
      ac_Destination = TrimSpace (valueOrDefault (rq_Destination req) (rq_ApplicationID req)),
      ac_ApplicationID = TrimSpace (rq_ApplicationID req), ac_Protocol = ToLower (TrimSpace (rq_ServiceFamily req)),
      ac_Status = [], ac_CreatedAt = [], ac_ExpiresAt = []\<rparr>"

type_synonym challenge_store = "(string \<times> auth_challenge) list"

definition newID :: "int list option \<Rightarrow> string" where
  "newID buf = (case buf of None \<Rightarrow> ''ewc_fallback'' | Some bs \<Rightarrow> ''ewc_'' @ EncodeToString bs)"

definition Create_challenge :: "int list option \<Rightarrow> auth_challenge \<Rightarrow> instant \<Rightarrow> challenge_store \<Rightarrow> auth_challenge \<times> challenge_store" where
  "Create_challenge buf c now cs =
     (let c = c\<lparr>ac_ID := newID buf, ac_Status := ''pending'', ac_CreatedAt := Format now,
                ac_ExpiresAt := Format (now + AuthChallengeTTL)\<rparr>
      in (c, AList.update (ac_ID c) c cs))"

text \<open>Open until the time of expiry, which has whole seconds; a time that cannot be read is past.\<close>

definition challenge_open :: "auth_challenge \<Rightarrow> instant \<Rightarrow> bool" where
  "challenge_open c now = (case Parse (ac_ExpiresAt c) of None \<Rightarrow> False | Some t \<Rightarrow> now < t)"

definition Complete :: "string \<Rightarrow> instant \<Rightarrow> challenge_store \<Rightarrow> auth_challenge option \<times> challenge_store" where
  "Complete i now cs =
     (case map_of cs (TrimSpace i) of
        None \<Rightarrow> (None, cs)
      | Some c \<Rightarrow>
          if ac_Status c \<noteq> ''pending'' then (None, cs)
          else if \<not> challenge_open c now then (None, cs)
          else (let c = c\<lparr>ac_Status := ''completed''\<rparr> in (Some c, AList.update (ac_ID c) c cs)))"

definition Get_challenge :: "string \<Rightarrow> challenge_store \<Rightarrow> auth_challenge option" where
  "Get_challenge i cs = map_of cs (TrimSpace i)"

definition ListPending :: "string \<Rightarrow> instant \<Rightarrow> challenge_store \<Rightarrow> auth_challenge list" where
  "ListPending tenantID now cs =
     filter (\<lambda>c. ac_TenantID c = TrimSpace tenantID \<and> ac_Status c = ''pending'' \<and> challenge_open c now) (map snd cs)"

definition Count :: "challenge_store \<Rightarrow> nat" where
  "Count cs = length cs"

section \<open>Grants\<close>

definition eastWestGrantDefaultTTL :: int where
  "eastWestGrantDefaultTTL = 24 * 60 * 60 * nanos"

text \<open>The request that a binding stands for when its governing rule is looked up.\<close>

definition binding_request :: "east_west_grant \<Rightarrow> decision_request" where
  "binding_request g =
     zero_decision_request\<lparr>rq_SubjectUserID := eg_SubjectUserID g, rq_UserID := eg_SubjectUserID g, rq_DeviceID := eg_DeviceID g,
       rq_Destination := eg_Destination g, rq_ApplicationID := eg_Destination g, rq_ServiceFamily := eg_Protocol g\<rparr>"

definition EffectiveTTL :: "policy_store \<Rightarrow> string \<Rightarrow> east_west_grant \<Rightarrow> int \<Rightarrow> int" where
  "EffectiveTTL s tenantID binding requested =
     (let cap = (\<lambda>seconds ttl. if seconds > 0 \<and> seconds_duration seconds < ttl then seconds_duration seconds else ttl);
          ttl = (case MatchedEastWestRule (EastWestRulesFor s tenantID) (binding_request binding) of
                   Some rule \<Rightarrow> cap (er_MaxTTLSeconds rule) requested
                 | None \<Rightarrow> requested)
      in cap (EastWestMaxGrantTTL s tenantID) ttl)"

definition RevokeGrants :: "string \<Rightarrow> string \<Rightarrow> string \<Rightarrow> policy_store \<Rightarrow> nat \<times> policy_store" where
  "RevokeGrants tenantID scopeType scopeID s = RevokeEastWestGrants tenantID scopeType scopeID s"

record grant_response =
  gr_TenantID :: string
  gr_SubjectUserID :: string
  gr_DeviceID :: string
  gr_Destination :: string
  gr_Protocol :: string
  gr_ExpiresAt :: string

definition grantResponseFrom :: "string \<Rightarrow> east_west_grant \<Rightarrow> grant_response" where
  "grantResponseFrom tenantID g =
     \<lparr>gr_TenantID = tenantID, gr_SubjectUserID = eg_SubjectUserID g, gr_DeviceID = eg_DeviceID g,
      gr_Destination = eg_Destination g, gr_Protocol = eg_Protocol g, gr_ExpiresAt = Format (eg_ExpiresAt g)\<rparr>"

text \<open>The grant of a challenge that is completed at \<open>now\<close>.\<close>

definition challenge_grant :: "policy_store \<Rightarrow> auth_challenge \<Rightarrow> instant \<Rightarrow> east_west_grant" where
  "challenge_grant s c now =
     (let g = \<lparr>eg_SubjectUserID = ac_SubjectUserID c, eg_DeviceID = ac_DeviceID c, eg_Destination = ac_Destination c,
               eg_Protocol = ac_Protocol c, eg_ExpiresAt = zero_time, eg_LastUsedAt = now, eg_IdleTTLSeconds = 0\<rparr>
      in g\<lparr>eg_ExpiresAt := now + EffectiveTTL s (ac_TenantID c) g eastWestGrantDefaultTTL\<rparr>)"

definition issueGrantFromChallenge ::
  "string \<Rightarrow> instant \<Rightarrow> policy_store \<times> challenge_store \<Rightarrow> (string + grant_response) \<times> policy_store \<times> challenge_store" where
  "issueGrantFromChallenge i now = (\<lambda>(s, cs).
     case Complete i now cs of
       (None, cs) \<Rightarrow> (Inl ''challenge is not a pending, unexpired challenge'', s, cs)
     | (Some c, cs) \<Rightarrow>
         (let g = challenge_grant s c now
          in (Inr (grantResponseFrom (ac_TenantID c) g), IssueEastWestGrant (ac_TenantID c) g s, cs)))"

record grant_request =
  gq_SubjectUserID :: string
  gq_DeviceID :: string
  gq_Destination :: string
  gq_Protocol :: string
  gq_TTLSeconds :: int
  gq_IdleTTLSeconds :: int

definition IssueGrantDirect ::
  "string \<Rightarrow> grant_request \<Rightarrow> instant \<Rightarrow> policy_store \<Rightarrow> (string + grant_response) \<times> policy_store" where
  "IssueGrantDirect tenantID req now s =
     (if \<not> IsEastWestProtocol (gq_Protocol req)
      then (Inl (''protocol '' @ Quote (gq_Protocol req) @ '' is not an east-west protocol''), s)
      else if TrimSpace (gq_Destination req) = [] then (Inl ''destination is required'', s)
      else
        (let requested = (if gq_TTLSeconds req > 0 then seconds_duration (gq_TTLSeconds req) else eastWestGrantDefaultTTL);
             g = \<lparr>eg_SubjectUserID = TrimSpace (gq_SubjectUserID req), eg_DeviceID = TrimSpace (gq_DeviceID req),
                  eg_Destination = TrimSpace (gq_Destination req), eg_Protocol = ToLower (TrimSpace (gq_Protocol req)),
                  eg_ExpiresAt = zero_time, eg_LastUsedAt = now, eg_IdleTTLSeconds = gq_IdleTTLSeconds req\<rparr>;
             g = g\<lparr>eg_ExpiresAt := now + EffectiveTTL s tenantID g requested\<rparr>
         in (Inr (grantResponseFrom tenantID g), IssueEastWestGrant tenantID g s)))"

definition CompleteCeremony ::
  "string \<Rightarrow> string \<Rightarrow> string \<Rightarrow> instant \<Rightarrow> policy_store \<times> challenge_store \<Rightarrow>
    (string + grant_response) \<times> policy_store \<times> challenge_store" where
  "CompleteCeremony i authenticatedTenantID authenticatedUserID now = (\<lambda>(s, cs).
     case Get_challenge i cs of
       None \<Rightarrow> (Inl ''challenge is not a pending challenge'', s, cs)
     | Some c \<Rightarrow>
         if ac_Status c \<noteq> ''pending'' then (Inl ''challenge is not a pending challenge'', s, cs)
         else if TrimSpace authenticatedTenantID = [] \<or> ac_TenantID c \<noteq> authenticatedTenantID
         then (Inl ''authenticated tenant does not match the held flow'', s, cs)
         else if ac_SubjectUserID c \<noteq> [] \<and> ac_SubjectUserID c \<noteq> authenticatedUserID
         then (Inl ''authenticated identity does not match the held flow'', s, cs)
         else issueGrantFromChallenge i now (s, cs))"

definition TouchGrantIfSatisfied ::
  "decision_request \<Rightarrow> access_decision \<Rightarrow> instant \<Rightarrow> policy_store \<Rightarrow> policy_store" where
  "TouchGrantIfSatisfied req dec now s =
     (if dec_Decision dec \<noteq> ''allow'' then s
      else if ''east_west_grant_satisfied'' \<notin> set (dec_ReasonCodes dec) then s
      else TouchEastWestGrant (dec_TenantID dec) req now s)"

definition AdminGrants :: "policy_store \<Rightarrow> string \<Rightarrow> instant \<Rightarrow> grant_response list" where
  "AdminGrants s tenantID now = map (grantResponseFrom tenantID) (EastWestGrantsFor s tenantID now)"

section \<open>Administration\<close>

definition modeFor :: "bool \<Rightarrow> bool \<Rightarrow> string" where
  "modeFor enabled allowUnmatched =
     (if \<not> enabled then ''observe'' else if allowUnmatched then ''partial'' else ''full'')"

record admin_rule =
  ar_ID :: string
  ar_Priority :: int
  ar_SourceUsers :: "string list"
  ar_SourceGroups :: "string list"
  ar_Destinations :: "string list"
  ar_Protocols :: "string list"
  ar_Mode :: string
  ar_MaxTTLSeconds :: int
  ar_DeviceAttestedAuto :: bool

definition adminRuleFromModel :: "east_west_rule \<Rightarrow> admin_rule" where
  "adminRuleFromModel r =
     \<lparr>ar_ID = er_ID r, ar_Priority = er_Priority r, ar_SourceUsers = er_SourceUsers r, ar_SourceGroups = er_SourceGroups r,
      ar_Destinations = er_Destinations r, ar_Protocols = er_Protocols r, ar_Mode = er_Mode r,
      ar_MaxTTLSeconds = er_MaxTTLSeconds r, ar_DeviceAttestedAuto = er_DeviceAttestedAuto r\<rparr>"

definition adminRuleToModel :: "admin_rule \<Rightarrow> string + east_west_rule" where
  "adminRuleToModel r =
     (let mode = ToLower (TrimSpace (ar_Mode r))
      in if mode \<notin> set [''allow'', ''authenticate'', ''deny'']
         then Inl (''invalid mode '' @ Quote (ar_Mode r) @ '' (want allow|authenticate|deny)'')
         else case List.find (\<lambda>p. \<not> IsEastWestProtocol p) (ar_Protocols r) of
                Some p \<Rightarrow> Inl (''protocol '' @ Quote p @ '' is not an east-west protocol'')
              | None \<Rightarrow>
                  Inr (zero_east_west_rule\<lparr>er_ID := TrimSpace (ar_ID r), er_Priority := ar_Priority r,
                    er_SourceUsers := ar_SourceUsers r, er_SourceGroups := ar_SourceGroups r,
                    er_Destinations := ar_Destinations r, er_Protocols := ar_Protocols r, er_Mode := mode,
                    er_MaxTTLSeconds := ar_MaxTTLSeconds r, er_DeviceAttestedAuto := ar_DeviceAttestedAuto r\<rparr>))"

record admin_status =
  as_TenantID :: string
  as_Enabled :: bool
  as_AllowUnmatched :: bool
  as_Mode :: string
  as_Rules :: "admin_rule list"
  as_MaxGrantTTLSeconds :: int

definition AdminStatus :: "policy_store \<Rightarrow> string \<Rightarrow> admin_status" where
  "AdminStatus s tenantID =
     \<lparr>as_TenantID = tenantID, as_Enabled = EastWestIsEnabled s tenantID, as_AllowUnmatched = EastWestAllowsUnmatched s tenantID,
      as_Mode = modeFor (EastWestIsEnabled s tenantID) (EastWestAllowsUnmatched s tenantID),
      as_Rules = map adminRuleFromModel (EastWestRulesFor s tenantID), as_MaxGrantTTLSeconds = EastWestMaxGrantTTL s tenantID\<rparr>"

record admin_update =
  up_Mode :: "string option"
  up_Enabled :: "bool option"
  up_Rules :: "admin_rule list option"
  up_MaxGrantTTLSeconds :: "int option"

fun parse_rules :: "nat \<Rightarrow> admin_rule list \<Rightarrow> string + east_west_rule list" where
  "parse_rules i [] = Inr []"
| "parse_rules i (raw # raws) =
     (case adminRuleToModel raw of
        Inl err \<Rightarrow> Inl (''rule['' @ Itoa (int i) @ '']: '' @ err)
      | Inr rule \<Rightarrow> (case parse_rules (i + 1) raws of Inl err \<Rightarrow> Inl err | Inr rules \<Rightarrow> Inr (rule # rules)))"

text \<open>The posture flags an update asks for.\<close>

definition update_flags :: "admin_update \<Rightarrow> string + bool option \<times> bool option" where
  "update_flags req =
     (case up_Mode req of
        Some m \<Rightarrow>
          (let mode = ToLower (TrimSpace m)
           in if mode = ''observe'' then Inr (Some False, None)
              else if mode = ''partial'' then Inr (Some True, Some True)
              else if mode = ''full'' then Inr (Some True, Some False)
              else Inl (''invalid mode '' @ Quote m @ '' (want observe|partial|full)''))
      | None \<Rightarrow> Inr (up_Enabled req, if up_Enabled req = Some True then Some False else None))"

definition ApplyAdminUpdateContext ::
  "runtime_medium \<Rightarrow> string \<Rightarrow> admin_update \<Rightarrow> policy_store \<Rightarrow> (store_error + admin_status) \<times> policy_store" where
  "ApplyAdminUpdateContext medium tenantID req s =
     (case (case up_Rules req of None \<Rightarrow> Inr None | Some raws \<Rightarrow> map_sum id Some (parse_rules 0 raws)) of
        Inl err \<Rightarrow> (Inl (Refused err), s)
      | Inr rules \<Rightarrow>
          (case update_flags req of
             Inl err \<Rightarrow> (Inl (Refused err), s)
           | Inr (enabled, unmatched) \<Rightarrow>
               (case ApplyEastWestUpdateContext medium tenantID rules (up_MaxGrantTTLSeconds req) enabled unmatched s of
                  (Inl err, s) \<Rightarrow> (Inl err, s)
                | (Inr _, s) \<Rightarrow> (Inr (AdminStatus s tenantID), s))))"

end
