(* ===== verification/Policy_Store_Laws.thy ===== *)
theory Policy_Store_Laws
  imports Policy_Store Evaluator_Laws
begin

text \<open>
  What the policy store guarantees.  The states a store can reach are an inductive predicate over its
  operations, with arbitrary callbacks in place of the individual controls, over any medium; the
  invariant \<open>policy_inv\<close> holds in all of them.  From it follow: every policy the engine is given has one
  definition, a policy an administrator disabled decides nothing however often bundles, refreshes and
  restarts rebuild the set, a confirmed edit is what a restart restores, and a node that applies the
  bundle of a tenant has that tenant's controls.
\<close>

section \<open>Maps of policies\<close>

definition keyed :: "string \<Rightarrow> string \<Rightarrow> policy \<Rightarrow> bool" where
  "keyed t i p \<longleftrightarrow> pol_TenantID p = t \<and> pol_ID p = i"

lemma keyed_putLocked [intro]: "rows_satisfy keyed m \<Longrightarrow> rows_satisfy keyed (putLocked p m)"
  unfolding putLocked_def by (rule rows_satisfy_put) (simp_all add: keyed_def)

lemma keyed_foldl:
  assumes "\<And>m x. rows_satisfy keyed m \<Longrightarrow> rows_satisfy keyed (f m x)" "rows_satisfy keyed m"
  shows "rows_satisfy keyed (foldl f m xs)"
  using assms(2) by (induction xs arbitrary: m) (simp_all add: assms(1))

lemma override_status_Nil [simp]: "override_status t [] m = m"
  by (simp add: override_status_def)

lemma override_status_Cons [simp]:
  "override_status t ((i, st) # os) m =
    override_status t os (case row m t i of None \<Rightarrow> m | Some p \<Rightarrow> put_row t i (p\<lparr>pol_Status := st\<rparr>) m)"
  by (simp add: override_status_def)

lemma keyed_override [intro]: "rows_satisfy keyed m \<Longrightarrow> rows_satisfy keyed (override_status t os m)"
proof (induction os arbitrary: m)
  case (Cons a os)
  obtain i st where a: "a = (i, st)" by force
  have "rows_satisfy keyed (case row m t i of None \<Rightarrow> m | Some p \<Rightarrow> put_row t i (p\<lparr>pol_Status := st\<rparr>) m)"
    using Cons.prems by (auto split: option.split simp: rows_satisfy_def keyed_def)
  from Cons.IH [OF this] show ?case by (simp add: a)
qed simp

lemma row_override:
  "distinct (map fst os) \<Longrightarrow>
    row (override_status t os m) t' i =
      (if t' = t then map_option (\<lambda>p. case map_of os i of Some st \<Rightarrow> p\<lparr>pol_Status := st\<rparr> | None \<Rightarrow> p) (row m t i)
       else row m t' i)"
proof (induction os arbitrary: m)
  case Nil
  then show ?case by (simp add: option.map_id0 option.map_ident)
next
  case (Cons a os)
  obtain j st where a: "a = (j, st)" by force
  have j: "map_of os j = None" using Cons.prems by (simp add: a map_of_eq_None_iff)
  show ?case
  proof (cases "row m t j")
    case None
    with Cons show ?thesis by (auto simp: a)
  next
    case (Some p)
    with Cons j show ?thesis by (auto simp: a)
  qed
qed

lemma rows_AList_update: "rows (AList.update t r m) t' = (if t' = t then r else rows m t')"
  by (simp add: rows_def update_conv')

lemma keyed_replace:
  assumes "rows_satisfy keyed m" "distinct (map fst r)" "\<And>i p. (i, p) \<in> set r \<Longrightarrow> keyed t i p"
  shows "rows_satisfy keyed (AList.update t r m)"
proof -
  have "set (AList.update t r m) \<subseteq> insert (t, r) (set m)" by (induction m) auto
  then have "wf_rows (AList.update t r m)"
    using assms(1,2) by (fastforce simp: rows_satisfy_def wf_rows_def list_all_iff intro!: distinct_update)
  moreover have "keyed t' i p" if "row (AList.update t r m) t' i = Some p" for t' i p
    using that assms(1,3) by (auto simp: row_def rows_AList_update rows_satisfy_def split: if_splits dest: map_of_SomeD)
  ultimately show ?thesis by (simp add: rows_satisfy_def)
qed

lemma normalizeAdminPolicy_keys:
  "normalizeAdminPolicy clock p tenantID now = Inr n \<Longrightarrow>
    pol_TenantID n = TrimSpace tenantID \<and> pol_ID n = TrimSpace (pol_ID p) \<and> pol_ID n \<noteq> [] \<and>
    pol_TenantID n \<noteq> [] \<and> validAdminPolicyStatus (pol_Status n)"
  by (auto simp: normalizeAdminPolicy_def Let_def split: if_splits)

lemma fresh_policies_keyed:
  assumes "TrimSpace tenantID = tenantID"
  shows "distinct (map fst (fresh_policies clock tenantID policies now)) \<and>
    (\<forall>(i, p) \<in> set (fresh_policies clock tenantID policies now). keyed tenantID i p)"
proof -
  have "distinct (map fst acc) \<and> (\<forall>(i, p) \<in> set acc. keyed tenantID i p) \<Longrightarrow>
    (let r = foldl (\<lambda>fresh p. case normalizeAdminPolicy clock (p\<lparr>pol_TenantID := tenantID\<rparr>) tenantID now of
                        Inl _ \<Rightarrow> fresh
                      | Inr n \<Rightarrow> AList.update (pol_ID n) n fresh) acc policies
     in distinct (map fst r) \<and> (\<forall>(i, p) \<in> set r. keyed tenantID i p))" for acc
  proof (induction policies arbitrary: acc)
    case (Cons p policies)
    show ?case
    proof (cases "normalizeAdminPolicy clock (p\<lparr>pol_TenantID := tenantID\<rparr>) tenantID now")
      case (Inl err)
      with Cons show ?thesis by simp
    next
      case (Inr n)
      have "set (AList.update (pol_ID n) n acc) \<subseteq> insert (pol_ID n, n) (set acc)" by (induction acc) auto
      moreover have "keyed tenantID (pol_ID n) n" using normalizeAdminPolicy_keys [OF Inr] assms by (simp add: keyed_def)
      ultimately have "distinct (map fst (AList.update (pol_ID n) n acc)) \<and>
          (\<forall>(i, p) \<in> set (AList.update (pol_ID n) n acc). keyed tenantID i p)"
        using Cons.prems by (auto intro: distinct_update)
      from Cons.IH [OF this] show ?thesis by (simp add: Inr)
    qed
  qed simp
  from this [of "[]"] show ?thesis by (simp add: fresh_policies_def Let_def)
qed

lemma keyed_seed: "rows_satisfy keyed (seed_policies clock seed)"
  unfolding seed_policies_def
  by (rule keyed_foldl) (auto simp: Let_def split: sum.split)

section \<open>The set of policies as a function of the bundle and the overlay\<close>

definition overlay_tenant :: "runtime_state \<Rightarrow> string \<Rightarrow> policy tenant_map \<Rightarrow> policy tenant_map" where
  "overlay_tenant f t m =
     override_status t (rows (rf_PolicyStatusOverride f) t)
       (foldl (\<lambda>m (i, p). putLocked p m) m (rows (rf_AdminAuthoredPolicies f) t))"

definition overlaid :: "runtime_state \<Rightarrow> policy tenant_map \<Rightarrow> policy tenant_map" where
  "overlaid f base =
     foldl (\<lambda>m (t, os). override_status t os m)
       (foldl (\<lambda>m t. overlay_tenant f t m) base (map fst (rf_AdminAuthoredPolicies f))) (rf_PolicyStatusOverride f)"

lemma reapply_eq: "reapplyRuntimeOverlaysLocked t s = s\<lparr>ps_policies := overlay_tenant (ps_overlay s) t (ps_policies s)\<rparr>"
  by (simp add: reapplyRuntimeOverlaysLocked_def overlay_tenant_def Let_def)

lemma reapply_foldl:
  "foldl (\<lambda>s t. reapplyRuntimeOverlaysLocked t s) s ts =
    s\<lparr>ps_policies := foldl (\<lambda>m t. overlay_tenant (ps_overlay s) t m) (ps_policies s) ts\<rparr>"
  by (induction ts arbitrary: s) (simp_all add: reapply_eq)

lemma adopt_eq:
  "adoptRuntimeLocked f s =
    rebuildPolicyCacheLocked (s\<lparr>ps_overlay := f, ps_policies := overlaid f (ps_runtimeBasePolicies s)\<rparr>)"
  by (simp add: adoptRuntimeLocked_def Let_def reapply_foldl applyPolicyStatusOverridesLocked_def overlaid_def)

lemma keyed_overlay_tenant [intro]: "rows_satisfy keyed m \<Longrightarrow> rows_satisfy keyed (overlay_tenant f t m)"
  unfolding overlay_tenant_def by (intro keyed_override keyed_foldl) auto

lemma keyed_overlaid: "rows_satisfy keyed base \<Longrightarrow> rows_satisfy keyed (overlaid f base)"
  unfolding overlaid_def by (intro keyed_foldl) (auto intro: keyed_foldl)

text \<open>The tables of a document are Go maps, and its authored policies are filed under their own tenant
  and identifier, as \<open>Upsert\<close> files them.\<close>

definition wf_runtime :: "runtime_state \<Rightarrow> bool" where
  "wf_runtime f \<longleftrightarrow>
     wf_rows (rf_PolicyStatusOverride f) \<and> wf_rows (rf_SaaSTenantRestrictions f) \<and> rows_satisfy keyed (rf_AdminAuthoredPolicies f)"

text \<open>Every policy that has a status override carries that status.\<close>

definition overridden :: "runtime_state \<Rightarrow> policy tenant_map \<Rightarrow> bool" where
  "overridden f m \<longleftrightarrow>
     (\<forall>t i p st. row m t i = Some p \<longrightarrow> row (rf_PolicyStatusOverride f) t i = Some st \<longrightarrow> pol_Status p = st)"

lemma row_override_all:
  "wf_rows os \<Longrightarrow>
    row (foldl (\<lambda>m (t, os). override_status t os m) m os) t i =
      map_option (\<lambda>p. case row os t i of Some st \<Rightarrow> p\<lparr>pol_Status := st\<rparr> | None \<Rightarrow> p) (row m t i)"
proof (induction os arbitrary: m)
  case Nil
  then show ?case by (simp add: option.map_id0 option.map_ident)
next
  case (Cons a os)
  obtain u o' where a: "a = (u, o')" by force
  have wf: "wf_rows os" "distinct (map fst o')" "map_of os u = None"
    using Cons.prems by (auto simp: a wf_rows_def map_of_eq_None_iff)
  have "row os u i = None" using wf(3) by (simp add: row_def rows_def)
  moreover have "row (a # os) t i = (if t = u then map_of o' i else row os t i)" by (simp add: a row_def rows_def)
  ultimately show ?case
    by (simp add: a Cons.IH [OF wf(1)] row_override [OF wf(2)] option.map_comp comp_def)
qed

lemma overridden_overlaid: "wf_runtime f \<Longrightarrow> overridden f (overlaid f base)"
  by (auto simp: overridden_def overlaid_def wf_runtime_def row_override_all)

lemma row_foldl_put_other:
  "\<forall>(i, p) \<in> set ps. pol_TenantID p = t \<Longrightarrow> t' \<noteq> t \<Longrightarrow> row (foldl (\<lambda>m (i, p). putLocked p m) m ps) t' i = row m t' i"
  by (induction ps arbitrary: m) (auto simp: putLocked_def split: prod.split)

lemma row_overlay_tenant_other:
  assumes "wf_runtime f" "t' \<noteq> t"
  shows "row (overlay_tenant f t m) t' i = row m t' i"
proof -
  have "\<forall>(i, p) \<in> set (rows (rf_AdminAuthoredPolicies f) t). pol_TenantID p = t"
    using assms(1) wf_rows_distinct [of "rf_AdminAuthoredPolicies f" t]
    by (auto simp: wf_runtime_def rows_satisfy_def keyed_def row_def)
  moreover have "distinct (map fst (rows (rf_PolicyStatusOverride f) t))"
    using assms(1) by (intro wf_rows_distinct) (simp add: wf_runtime_def)
  ultimately show ?thesis using assms(2) by (simp add: overlay_tenant_def row_override row_foldl_put_other)
qed

lemma overridden_overlay_tenant:
  assumes "wf_runtime f" "\<And>t' i p st. t' \<noteq> t \<Longrightarrow> row m t' i = Some p \<Longrightarrow> row (rf_PolicyStatusOverride f) t' i = Some st \<Longrightarrow> pol_Status p = st"
  shows "overridden f (overlay_tenant f t m)"
proof -
  have d: "distinct (map fst (rows (rf_PolicyStatusOverride f) t))"
    using assms(1) by (intro wf_rows_distinct) (simp add: wf_runtime_def)
  have "pol_Status p = st"
    if "row (overlay_tenant f t m) t' i = Some p" "row (rf_PolicyStatusOverride f) t' i = Some st" for t' i p st
  proof (cases "t' = t")
    case True
    then have "map_of (rows (rf_PolicyStatusOverride f) t) i = Some st" using that(2) by (simp add: row_def)
    with that(1) True show ?thesis by (auto simp: overlay_tenant_def row_override [OF d])
  next
    case False
    with that show ?thesis using assms(2) row_overlay_tenant_other [OF assms(1) False] by metis
  qed
  then show ?thesis by (auto simp: overridden_def)
qed

section \<open>The invariant\<close>

definition policy_inv :: "policy_store \<Rightarrow> bool" where
  "policy_inv s \<longleftrightarrow>
     rows_satisfy keyed (ps_policies s) \<and> rows_satisfy keyed (ps_runtimeBasePolicies s) \<and>
     wf_runtime (ps_overlay s) \<and> decodeRuntimeState (ps_overlay s) \<and> overridden (ps_overlay s) (ps_policies s) \<and>
     ps_cachedPolicies s = SortPolicies (map (\<lambda>(t, i, p). p) (all_rows (ps_policies s)))"

text \<open>The fields of a store that none of the operations on policies and controls change.\<close>

lemma rebuild_sel [simp]:
  "ps_policies (rebuildPolicyCacheLocked s) = ps_policies s"
  "ps_overlay (rebuildPolicyCacheLocked s) = ps_overlay s"
  "ps_runtimeBasePolicies (rebuildPolicyCacheLocked s) = ps_runtimeBasePolicies s"
  "ps_compiledPolicies (rebuildPolicyCacheLocked s) = ps_compiledPolicies s"
  "ps_compiledEastWestRules (rebuildPolicyCacheLocked s) = ps_compiledEastWestRules s"
  "ps_eastWestGrants (rebuildPolicyCacheLocked s) = ps_eastWestGrants s"
  "ps_eastWestInternalNetworks (rebuildPolicyCacheLocked s) = ps_eastWestInternalNetworks s"
  "ps_cachedPolicies (rebuildPolicyCacheLocked s) = SortPolicies (map (\<lambda>(t, i, p). p) (all_rows (ps_policies s)))"
  by (simp_all add: rebuildPolicyCacheLocked_def Let_def)

lemma adopt_sel [simp]:
  "ps_policies (adoptRuntimeLocked f s) = overlaid f (ps_runtimeBasePolicies s)"
  "ps_overlay (adoptRuntimeLocked f s) = f"
  "ps_runtimeBasePolicies (adoptRuntimeLocked f s) = ps_runtimeBasePolicies s"
  "ps_compiledPolicies (adoptRuntimeLocked f s) = ps_compiledPolicies s"
  "ps_compiledEastWestRules (adoptRuntimeLocked f s) = ps_compiledEastWestRules s"
  "ps_eastWestGrants (adoptRuntimeLocked f s) = ps_eastWestGrants s"
  "ps_eastWestInternalNetworks (adoptRuntimeLocked f s) = ps_eastWestInternalNetworks s"
  "ps_cachedPolicies (adoptRuntimeLocked f s) = SortPolicies (map (\<lambda>(t, i, p). p) (all_rows (overlaid f (ps_runtimeBasePolicies s))))"
  by (simp_all add: adopt_eq)

lemma publish_sel [simp]:
  "ps_policies (publish k f s) = overlaid f (ps_runtimeBasePolicies s)"
  "ps_overlay (publish k f s) = f"
  "ps_runtimeBasePolicies (publish k f s) = ps_runtimeBasePolicies s"
  "ps_compiledPolicies (publish k f s) = ps_compiledPolicies s"
  "ps_compiledEastWestRules (publish k f s) = ps_compiledEastWestRules s"
  "ps_eastWestGrants (publish k f s) = ps_eastWestGrants s"
  "ps_eastWestInternalNetworks (publish k f s) = ps_eastWestInternalNetworks s"
  "ps_cachedPolicies (publish k f s) = SortPolicies (map (\<lambda>(t, i, p). p) (all_rows (overlaid f (ps_runtimeBasePolicies s))))"
  by (simp_all add: publish_def Let_def)

lemma policy_inv_adopt: "policy_inv s \<Longrightarrow> wf_runtime f \<Longrightarrow> decodeRuntimeState f \<Longrightarrow> policy_inv (adoptRuntimeLocked f s)"
  by (simp add: policy_inv_def keyed_overlaid overridden_overlaid)

lemma policy_inv_publish: "policy_inv s \<Longrightarrow> wf_runtime f \<Longrightarrow> decodeRuntimeState f \<Longrightarrow> policy_inv (publish k f s)"
  by (simp add: policy_inv_def keyed_overlaid overridden_overlaid)

lemma policy_inv_cong:
  "policy_inv s \<Longrightarrow> ps_policies s' = ps_policies s \<Longrightarrow> ps_runtimeBasePolicies s' = ps_runtimeBasePolicies s \<Longrightarrow>
    ps_overlay s' = ps_overlay s \<Longrightarrow> ps_cachedPolicies s' = ps_cachedPolicies s \<Longrightarrow> policy_inv s'"
  by (simp add: policy_inv_def)

definition wf_edit :: "'a runtime_edit \<Rightarrow> bool" where
  "wf_edit edit \<longleftrightarrow> (\<forall>f r n. wf_runtime f \<longrightarrow> edit f = Inr (r, n) \<longrightarrow> wf_runtime n)"

definition wf_medium :: "runtime_medium \<Rightarrow> bool" where
  "wf_medium medium \<longleftrightarrow> (\<forall>f commit. medium = SharedStore (Document f) commit \<longrightarrow> wf_runtime f)"

lemma build_runtime_Inr:
  "build_runtime edit f = Inr (r, n) \<longleftrightarrow> decodeRuntimeState f \<and> edit f = Inr (r, n) \<and> decodeRuntimeState n"
  by (auto simp: build_runtime_def split: sum.splits if_splits)

text \<open>An edit either leaves the store as it was, or publishes the result of the callback on the latest
  document; it answers success only in the second case.\<close>

lemma editRuntimeLocked_cases:
  assumes "wf_medium medium" "wf_edit edit" "wf_runtime (ps_overlay s)"
  obtains (kept) err where "editRuntimeLocked medium edit s = (Inl err, s)"
  | (published) f r n k where "edit f = Inr (r, n)" "wf_runtime n" "decodeRuntimeState n"
      "snd (editRuntimeLocked medium edit s) = publish k n s"
      "fst (editRuntimeLocked medium edit s) = Inr r \<or>
        (fst (editRuntimeLocked medium edit s) = Inl NotSaved \<and> (\<exists>save e. medium = LocalFile save \<and> save n = DurabilityUnconfirmed e))"
proof -
  have local: ?thesis
    if e: "editRuntimeLocked medium edit s = (case build_runtime edit f of Inl err \<Rightarrow> (Inl err, s) | Inr (r, n) \<Rightarrow> g r n)"
      and wf: "wf_runtime f"
      and g: "\<And>r n. g r n = (Inl NotSaved, s) \<or> (\<exists>k. snd (g r n) = publish k n s \<and> (fst (g r n) = Inr r \<or>
        (fst (g r n) = Inl NotSaved \<and> (\<exists>save e. medium = LocalFile save \<and> save n = DurabilityUnconfirmed e))))" for f g
  proof (cases "build_runtime edit f")
    case (Inl err)
    with e show ?thesis by (intro kept) simp
  next
    case (Inr rn)
    obtain r n where rn: "rn = (r, n)" by force
    then have n: "edit f = Inr (r, n)" "decodeRuntimeState n" using Inr by (simp_all add: build_runtime_Inr)
    have "wf_runtime n" using assms(2) wf n(1) by (auto simp: wf_edit_def)
    moreover have "editRuntimeLocked medium edit s = g r n" using e Inr rn by simp
    ultimately show ?thesis using g [of r n] n kept published by metis
  qed
  show ?thesis
  proof (cases medium)
    case NoMedium
    show ?thesis
      by (rule local [where f = "ps_overlay s" and g = "\<lambda>r n. (Inr r, publish False n s)"])
        (use assms(3) NoMedium in \<open>auto simp: editRuntimeLocked_def\<close>)
  next
    case (LocalFile save)
    show ?thesis
      by (rule local [where f = "ps_overlay s" and g = "\<lambda>r n. case save n of Saved \<Rightarrow> (Inr r, publish True n s)
            | DurabilityUnconfirmed _ \<Rightarrow> (Inl NotSaved, publish True n s) | SaveFailed _ \<Rightarrow> (Inl NotSaved, s)"])
        (use assms(3) LocalFile in \<open>auto simp: editRuntimeLocked_def split: save_result.split\<close>)
  next
    case (SharedStore doc commit)
    define latest where "latest = (case doc of
                 NoDocument \<Rightarrow> if ps_runtimeAuthorityKnown s then None else Some (ps_overlay s)
               | BadDocument \<Rightarrow> None | Document f \<Rightarrow> Some f)"
    have e: "editRuntimeLocked medium edit s = (case latest of None \<Rightarrow> (Inl NotSaved, s) | Some f \<Rightarrow>
        (case build_runtime edit f of Inl err \<Rightarrow> (Inl err, s)
         | Inr (r, n) \<Rightarrow> if commit n then (Inr r, publish True n s) else (Inl NotSaved, s)))"
      by (simp add: editRuntimeLocked_def SharedStore latest_def Let_def)
    show ?thesis
    proof (cases latest)
      case None
      with e show ?thesis by (intro kept) simp
    next
      case (Some f)
      then have "wf_runtime f"
        using assms(1,3) by (auto simp: latest_def wf_medium_def SharedStore split: shared_document.splits if_splits)
      with Some e show ?thesis
        by (intro local [where f = f and g = "\<lambda>r n. if commit n then (Inr r, publish True n s) else (Inl NotSaved, s)"]) auto
    qed
  qed
qed

section \<open>Reachable stores\<close>

definition wf_config :: "tenant_config \<Rightarrow> bool" where
  "wf_config cfg \<longleftrightarrow> (\<forall>m. tc_SaaSTenantRestrictions cfg = Some m \<longrightarrow> distinct (map fst m))"

text \<open>The operations, in any order.  A control is an edit with an arbitrary callback; what loading a
  medium gives is arbitrary too.\<close>

inductive reachable_store :: "policy_store \<Rightarrow> bool" where
  new: "reachable_store (NewPolicyStore clock seed)"
| edit: "reachable_store s \<Longrightarrow> wf_medium medium \<Longrightarrow> wf_edit e \<Longrightarrow>
    reachable_store (snd (editRuntimeLocked medium (e :: unit runtime_edit) s))"
| refresh: "reachable_store s \<Longrightarrow> wf_medium medium \<Longrightarrow> reachable_store (snd (RefreshSharedRuntime medium s))"
| opened: "reachable_store s \<Longrightarrow> (\<And>f. loaded = Some (Document f) \<Longrightarrow> wf_runtime f) \<Longrightarrow>
    reachable_store (snd (SetRuntimeStatePersister loaded s))"
| replaced: "reachable_store s \<Longrightarrow> reachable_store (snd (ReplaceTenant clock tenantID policies now s))"
| applied: "reachable_store s \<Longrightarrow> wf_config cfg \<Longrightarrow> reachable_store (snd (ApplyBundle clock tenantID policies cfg now s))"
| received: "reachable_store s \<Longrightarrow> wf_config cfg \<Longrightarrow>
    reachable_store (snd (ApplyReceivedBundle medium clock tenantID policies cfg now s))"
| networks: "reachable_store s \<Longrightarrow> reachable_store (SetEastWestInternalNetworks tenantID nets s)"
| compiled_rules: "reachable_store s \<Longrightarrow> reachable_store (SetCompiledEastWestRules tenantID rules s)"
| compiled_policies: "reachable_store s \<Longrightarrow> reachable_store (SetCompiledPolicies tenantID policies s)"
| issued: "reachable_store s \<Longrightarrow> reachable_store (IssueEastWestGrant tenantID grant s)"
| revoked: "reachable_store s \<Longrightarrow> reachable_store (snd (RevokeEastWestGrants tenantID scopeType scopeID s))"
| touched: "reachable_store s \<Longrightarrow> reachable_store (TouchEastWestGrant tenantID req now s)"

lemma set_AList_update: "set (AList.update k v m) \<subseteq> insert (k, v) (set m)"
  by (induction m) auto

lemma list_all_AList_update: "list_all P m \<Longrightarrow> P (k, v) \<Longrightarrow> list_all P (AList.update k v m)"
  using set_AList_update [of k v m] by (auto simp: list_all_iff)

lemma wf_rows_AList_update: "wf_rows m \<Longrightarrow> distinct (map fst r) \<Longrightarrow> wf_rows (AList.update t r m)"
  unfolding wf_rows_def by (auto intro: distinct_update list_all_AList_update)

lemma EffectiveUpstreamTLSMode_valid: "ValidateUpstreamTLSMode m \<Longrightarrow> validAuthoredUpstreamTLSMode (EffectiveUpstreamTLSMode m)"
  by (auto simp: ValidateUpstreamTLSMode_def EffectiveUpstreamTLSMode_def UpstreamTLSDefault_def validAuthoredUpstreamTLSMode_def)

lemma applyTenantConfigLocked_sel [simp]:
  "rf_PolicyStatusOverride (applyTenantConfigLocked t cfg f) = rf_PolicyStatusOverride f"
  "rf_AdminAuthoredPolicies (applyTenantConfigLocked t cfg f) = rf_AdminAuthoredPolicies f"
  by (simp_all add: applyTenantConfigLocked_def)

lemma wf_applyTenantConfig: "wf_runtime f \<Longrightarrow> wf_config cfg \<Longrightarrow> wf_runtime (applyTenantConfigLocked t cfg f)"
  by (auto simp: wf_runtime_def wf_config_def applyTenantConfigLocked_def wf_rows_AList_update split: option.split)

lemma decode_applyTenantConfig:
  assumes "decodeRuntimeState f" "ValidateTenantConfig cfg" "t \<noteq> []" "TrimSpace t = t"
  shows "decodeRuntimeState (applyTenantConfigLocked t cfg f)"
proof -
  have "list_all (\<lambda>(tenant, settings). ValidateTenantRestrictions settings) (AList.update t m (rf_SaaSTenantRestrictions f))"
    if "tc_SaaSTenantRestrictions cfg = Some m" for m
    using assms that by (intro list_all_AList_update) (simp_all add: decodeRuntimeState_def ValidateTenantConfig_def)
  moreover have "list_all (\<lambda>(tenant, mode). tenant \<noteq> [] \<and> TrimSpace tenant = tenant \<and> validAuthoredUpstreamTLSMode mode)
      (AList.update t (EffectiveUpstreamTLSMode (tc_UpstreamTLSMode cfg)) (rf_UpstreamTLSModes f))"
    using assms by (intro list_all_AList_update)
      (simp_all add: decodeRuntimeState_def ValidateTenantConfig_def EffectiveUpstreamTLSMode_valid)
  ultimately show ?thesis
    using assms(1) by (auto simp: decodeRuntimeState_def applyTenantConfigLocked_def split: option.split)
qed

lemma replacePolicies_snd:
  "snd (replacePoliciesLocked clock t policies now s) =
    s\<lparr>ps_runtimeBasePolicies := AList.update t (fresh_policies clock t policies now) (ps_runtimeBasePolicies s),
      ps_policies := overlay_tenant (ps_overlay s) t (AList.update t (fresh_policies clock t policies now) (ps_policies s))\<rparr>"
  by (simp add: replacePoliciesLocked_def Let_def reapply_eq)

lemma policy_inv_bundle:
  assumes "policy_inv s" "TrimSpace t = t" "wf_runtime f" "decodeRuntimeState f"
    "rf_PolicyStatusOverride f = rf_PolicyStatusOverride (ps_overlay s)"
  shows "policy_inv (rebuildPolicyCacheLocked
    ((snd (replacePoliciesLocked clock t policies now s))\<lparr>ps_overlay := f, ps_generation := g\<rparr>))"
proof -
  let ?r = "fresh_policies clock t policies now"
  note fresh = fresh_policies_keyed [OF assms(2), of clock policies now]
  have keyed: "rows_satisfy keyed (AList.update t ?r (ps_policies s))"
    "rows_satisfy keyed (AList.update t ?r (ps_runtimeBasePolicies s))"
    using assms(1) fresh by (auto simp: policy_inv_def intro!: keyed_replace)
  have wf: "wf_runtime (ps_overlay s)" using assms(1) by (simp add: policy_inv_def)
  have "overridden (ps_overlay s) (overlay_tenant (ps_overlay s) t (AList.update t ?r (ps_policies s)))"
    using assms(1) by (intro overridden_overlay_tenant [OF wf])
      (auto simp: policy_inv_def overridden_def row_def rows_AList_update)
  then show ?thesis
    using assms keyed by (auto simp: policy_inv_def replacePolicies_snd overridden_def)
qed

lemma policy_inv_ReplaceTenant: "policy_inv s \<Longrightarrow> policy_inv (snd (ReplaceTenant clock t policies now s))"
proof -
  assume inv: "policy_inv s"
  have "snd (ReplaceTenant clock t policies now s) =
      (if TrimSpace t = [] then s
       else rebuildPolicyCacheLocked ((snd (replacePoliciesLocked clock (TrimSpace t) policies now s))
         \<lparr>ps_overlay := ps_overlay s, ps_generation := ps_generation s + 1\<rparr>))"
    by (auto simp: ReplaceTenant_def Let_def replacePolicies_snd split: prod.split dest!: arg_cong [where f = snd])
  then show ?thesis using inv policy_inv_bundle [OF inv, of "TrimSpace t" "ps_overlay s"] by (auto simp: policy_inv_def)
qed

lemma ApplyBundle_snd:
  "snd (ApplyBundle clock t policies cfg now s) =
    (if \<not> ValidateTenantConfig cfg \<or> TrimSpace t = [] then s
     else rebuildPolicyCacheLocked ((snd (replacePoliciesLocked clock (TrimSpace t) policies now s))
       \<lparr>ps_overlay := applyTenantConfigLocked (TrimSpace t) cfg (ps_overlay s), ps_generation := ps_generation s + 1\<rparr>))"
  by (auto simp: ApplyBundle_def Let_def replacePolicies_snd split: prod.split dest!: arg_cong [where f = snd])

lemma ApplyReceivedBundle_snd:
  "snd (ApplyReceivedBundle medium clock t policies cfg now s) \<in> {s, snd (ApplyBundle clock t policies cfg now s)}"
  by (auto simp: ApplyReceivedBundle_def ApplyBundle_def Let_def split: prod.split)

lemma policy_inv_ApplyBundle: "policy_inv s \<Longrightarrow> wf_config cfg \<Longrightarrow> policy_inv (snd (ApplyBundle clock t policies cfg now s))"
proof -
  assume inv: "policy_inv s" and cfg: "wf_config cfg"
  show ?thesis
  proof (cases "\<not> ValidateTenantConfig cfg \<or> TrimSpace t = []")
    case False
    then have "wf_runtime (applyTenantConfigLocked (TrimSpace t) cfg (ps_overlay s))"
      "decodeRuntimeState (applyTenantConfigLocked (TrimSpace t) cfg (ps_overlay s))"
      using inv cfg by (simp_all add: policy_inv_def wf_applyTenantConfig decode_applyTenantConfig)
    from policy_inv_bundle [OF inv _ this] False show ?thesis by (simp add: ApplyBundle_snd)
  qed (use inv in \<open>auto simp: ApplyBundle_snd\<close>)
qed

lemma policy_inv_NewPolicyStore: "policy_inv (NewPolicyStore clock seed)"
  by (simp add: policy_inv_def NewPolicyStore_def Let_def keyed_seed empty_policy_store_def zero_runtime_state_def wf_runtime_def
      decodeRuntimeState_def overridden_def)

lemma policy_inv_edit:
  assumes "policy_inv s" "wf_medium medium" "wf_edit e"
  shows "policy_inv (snd (editRuntimeLocked medium e s))"
proof -
  have wf: "wf_runtime (ps_overlay s)" using assms(1) by (simp add: policy_inv_def)
  show ?thesis
    using assms(2,3) wf
  proof (cases rule: editRuntimeLocked_cases)
    case (kept err)
    then show ?thesis using assms(1) by simp
  next
    case (published f r n k)
    then show ?thesis using policy_inv_publish [OF assms(1)] by simp
  qed
qed

lemma policy_inv_known: "policy_inv (s\<lparr>ps_runtimeAuthorityKnown := b\<rparr>) = policy_inv s"
  "policy_inv (s\<lparr>ps_generation := g\<rparr>) = policy_inv s"
  by (simp_all add: policy_inv_def)

lemma policy_inv_refresh: "policy_inv s \<Longrightarrow> wf_medium medium \<Longrightarrow> policy_inv (snd (RefreshSharedRuntime medium s))"
  by (auto simp: RefreshSharedRuntime_def wf_medium_def policy_inv_known policy_inv_adopt Let_def
      split: runtime_medium.split shared_document.split)

lemma policy_inv_open:
  "policy_inv s \<Longrightarrow> (\<And>f. loaded = Some (Document f) \<Longrightarrow> wf_runtime f) \<Longrightarrow> policy_inv (snd (SetRuntimeStatePersister loaded s))"
  by (auto simp: SetRuntimeStatePersister_def policy_inv_known policy_inv_adopt split: option.split shared_document.split)

lemma reachable_policy_inv: "reachable_store s \<Longrightarrow> policy_inv s"
proof (induction rule: reachable_store.induct)
  case (received s cfg medium clock tenantID policies now)
  then show ?case
    using ApplyReceivedBundle_snd [of medium clock tenantID policies cfg now s] policy_inv_ApplyBundle by auto
next
  case (revoked s tenantID scopeType scopeID)
  then show ?case
    by (auto elim!: policy_inv_cong simp: RevokeEastWestGrants_def revokeEastWestGrantsForTenantLocked_def
        revokeEastWestGrantsForScopeLocked_def Let_def)
next
  case (touched s tenantID req now)
  then show ?case by (auto elim!: policy_inv_cong simp: TouchEastWestGrant_def split: option.split)
qed (auto simp: policy_inv_NewPolicyStore policy_inv_edit policy_inv_refresh policy_inv_open policy_inv_ReplaceTenant policy_inv_ApplyBundle
    SetEastWestInternalNetworks_def SetCompiledEastWestRules_def SetCompiledPolicies_def IssueEastWestGrant_def Let_def
    elim!: policy_inv_cong)

section \<open>Every control is such an edit\<close>

lemma editRuntimeLocked_unit:
  "snd (editRuntimeLocked medium e s) =
    snd (editRuntimeLocked medium (\<lambda>f. case e f of Inl err \<Rightarrow> Inl err | Inr (r, n) \<Rightarrow> Inr ((), n)) s)"
proof -
  have "build_runtime (\<lambda>f. case e f of Inl err \<Rightarrow> Inl err | Inr (r, n) \<Rightarrow> Inr ((), n)) f =
      (case build_runtime e f of Inl err \<Rightarrow> Inl err | Inr (r, n) \<Rightarrow> Inr ((), n))" for f
    by (auto simp: build_runtime_def split: sum.split prod.split)
  then show ?thesis
    by (simp add: editRuntimeLocked_def Let_def case_prod_beta split: runtime_medium.split sum.split option.split save_result.split)
qed

lemma reachable_edit:
  assumes "reachable_store s" "wf_medium medium" "wf_edit e"
  shows "reachable_store (snd (editRuntimeLocked medium e s))"
proof -
  have "wf_edit (\<lambda>f. case e f of Inl err \<Rightarrow> Inl err | Inr (r, n) \<Rightarrow> Inr ((), n))"
    using assms(3) unfolding wf_edit_def by (auto split: sum.splits)
  from reachable_store.edit [OF assms(1,2) this] show ?thesis by (simp only: editRuntimeLocked_unit [of medium e])
qed

lemma wf_edit_keeps:
  "(\<And>f. e f = Inr (r f, n f)) \<Longrightarrow> (\<And>f. wf_runtime f \<Longrightarrow> wf_runtime (n f)) \<Longrightarrow> wf_edit e"
  by (simp add: wf_edit_def)

lemma reachable_controls:
  assumes "reachable_store s" "wf_medium medium"
  shows "reachable_store (snd (Upsert_policy medium clock p tenantID now s))"
    "reachable_store (snd (Delete_policy medium tenantID policyID s))"
    "reachable_store (snd (SetPolicyStatusContext medium tenantID policyID status s))"
    "reachable_store (snd (ApplyEastWestUpdateContext medium tenantID rules ttl enabled unmatched s))"
    "reachable_store (snd (SetServerInitiatedEnabledContext medium tenantID on s))"
    "reachable_store (snd (MutateLegacyExceptionContext medium tenantID i change s))"
    "reachable_store (snd (RemoveLegacyExceptionContext medium tenantID i s))"
    "reachable_store (snd (SetTenantRestrictionRuleStatusesContext medium statuses s))"
    "reachable_store (snd (SaveTenantRestrictionContext medium tenantID provider patch s))"
    "reachable_store (snd (RemoveTenantRestrictionsContext medium tenantID s))"
    "reachable_store (snd (SetUpstreamTLSModeContext medium tenantID mode s))"
    "reachable_store (snd (RemoveUpstreamTLSSettingsContext medium tenantID s))"
proof -
  note edit = reachable_edit [OF assms]
  show "reachable_store (snd (Upsert_policy medium clock p tenantID now s))"
    using assms by (auto simp: Upsert_policy_def wf_edit_def wf_runtime_def keyed_def intro!: edit rows_satisfy_put split: sum.split)
  show "reachable_store (snd (Delete_policy medium tenantID policyID s))"
    using assms by (auto simp: Delete_policy_def wf_edit_def wf_runtime_def Let_def intro!: edit split: option.splits if_splits)
  show "reachable_store (snd (SetPolicyStatusContext medium tenantID policyID status s))"
    using assms by (auto simp: SetPolicyStatusContext_def wf_edit_def wf_runtime_def Let_def intro!: edit split: if_splits)
  show "reachable_store (snd (ApplyEastWestUpdateContext medium tenantID rules ttl enabled unmatched s))"
    "reachable_store (snd (SetServerInitiatedEnabledContext medium tenantID on s))"
    "reachable_store (snd (SetTenantRestrictionRuleStatusesContext medium statuses s))"
    "reachable_store (snd (RemoveUpstreamTLSSettingsContext medium tenantID s))"
    using assms by (auto simp: ApplyEastWestUpdateContext_def SetServerInitiatedEnabledContext_def
      SetTenantRestrictionRuleStatusesContext_def RemoveUpstreamTLSSettingsContext_def wf_edit_def wf_runtime_def Let_def intro!: edit)
  show "reachable_store (snd (SetUpstreamTLSModeContext medium tenantID mode s))"
    using assms by (auto simp: SetUpstreamTLSModeContext_def wf_edit_def wf_runtime_def Let_def intro!: edit)
  show "reachable_store (snd (MutateLegacyExceptionContext medium tenantID i change s))"
    using assms by (auto simp: MutateLegacyExceptionContext_def wf_edit_def wf_runtime_def Let_def intro!: edit split: sum.splits if_splits)
  show "reachable_store (snd (RemoveLegacyExceptionContext medium tenantID i s))"
    using assms by (auto simp: RemoveLegacyExceptionContext_def wf_edit_def wf_runtime_def Let_def intro!: edit split: if_splits)
  have restrictions: "reachable_store (snd (updateTenantRestrictionsLocked medium t change s))"
    if d: "\<And>m r n. distinct (map fst m) \<Longrightarrow> change m = Inr (r, n) \<Longrightarrow> distinct (map fst n)" for t and change :: "_ \<Rightarrow> string + 'c \<times> _"
  proof -
    have "wf_rows (AList.update t n (rf_SaaSTenantRestrictions f))"
      if "wf_rows (rf_SaaSTenantRestrictions f)" "change (rows (rf_SaaSTenantRestrictions f) t) = Inr (r, n)" for f r n
      by (rule wf_rows_AList_update [OF that(1) d [OF wf_rows_distinct [OF that(1)] that(2)]])
    then have "wf_edit (\<lambda>f. case change (rows (rf_SaaSTenantRestrictions f) t) of Inl err \<Rightarrow> Inl err
        | Inr (r, n) \<Rightarrow> Inr (r, f\<lparr>rf_SaaSTenantRestrictions := AList.update t n (rf_SaaSTenantRestrictions f)\<rparr>))"
      by (auto simp: wf_edit_def wf_runtime_def split: sum.splits)
    then show ?thesis using assms by (auto simp: updateTenantRestrictionsLocked_def intro!: edit)
  qed
  show "reachable_store (snd (SaveTenantRestrictionContext medium tenantID provider patch s))"
    using assms by (auto simp: SaveTenantRestrictionContext_def Let_def intro!: restrictions distinct_update split: sum.splits)
  show "reachable_store (snd (RemoveTenantRestrictionsContext medium tenantID s))"
    using assms by (auto simp: RemoveTenantRestrictionsContext_def intro!: restrictions)
qed

section \<open>What the engine is given\<close>

abbreviation policy_key :: "policy \<Rightarrow> string \<times> string" where
  "policy_key p \<equiv> (pol_TenantID p, pol_ID p)"

lemma merge_policies_laws:
  "distinct (map policy_key (merge_policies present ps)) \<and> policy_key ` set (merge_policies present ps) = policy_key ` set ps - present \<and>
    set (merge_policies present ps) \<subseteq> set ps"
proof (induction ps arbitrary: present)
  case (Cons p ps)
  from Cons.IH [of present] Cons.IH [of "insert (policy_key p) present"] show ?case
    by (auto simp: image_iff)
qed simp

lemma RuntimeEvaluator_policies:
  "ev_Policies (RuntimeEvaluator s base) =
    ps_cachedPolicies s @ merge_policies (policy_key ` set (ps_cachedPolicies s)) (compiled_in_order s)"
  by (simp add: RuntimeEvaluator_def Let_def compileTenantRestrictionsLocked_def)

lemma cached_iff:
  assumes "policy_inv s"
  shows "p \<in> set (ps_cachedPolicies s) \<longleftrightarrow> row (ps_policies s) (pol_TenantID p) (pol_ID p) = Some p"
proof -
  have wf: "wf_rows (ps_policies s)" and k: "\<And>t i p. row (ps_policies s) t i = Some p \<Longrightarrow> keyed t i p"
    using assms by (auto simp: policy_inv_def rows_satisfy_def)
  have "p \<in> set (ps_cachedPolicies s) \<longleftrightarrow> (\<exists>t i. (t, i, p) \<in> set (all_rows (ps_policies s)))"
    using assms by (force simp: policy_inv_def SortPolicies_def)
  also have "\<dots> \<longleftrightarrow> (\<exists>t i. row (ps_policies s) t i = Some p)" by (simp add: all_rows_iff [OF wf])
  also have "\<dots> \<longleftrightarrow> row (ps_policies s) (pol_TenantID p) (pol_ID p) = Some p" using k by (auto simp: keyed_def)
  finally show ?thesis .
qed

lemma cached_distinct: "policy_inv s \<Longrightarrow> distinct (map policy_key (ps_cachedPolicies s))"
proof -
  assume inv: "policy_inv s"
  let ?rows = "all_rows (ps_policies s)"
  have wf: "wf_rows (ps_policies s)" using inv by (simp add: policy_inv_def rows_satisfy_def)
  have "policy_key p = (t, i)" if "(t, i, p) \<in> set ?rows" for t i p
    using that inv by (auto simp: all_rows_iff [OF wf] policy_inv_def rows_satisfy_def keyed_def)
  then have "map policy_key (map (\<lambda>(t, i, p). p) ?rows) = map (\<lambda>(t, i, p). (t, i)) ?rows" by auto
  then have "distinct (map policy_key (map (\<lambda>(t, i, p). p) ?rows))" using all_rows_distinct [OF wf] by (simp only:)
  then have "distinct (map policy_key (SortPolicies (map (\<lambda>(t, i, p). p) ?rows)))"
    by (simp only: SortPolicies_def distinct_map distinct_sort set_sort)
  then show ?thesis using inv by (simp add: policy_inv_def)
qed

text \<open>C16. Each policy once.  Whatever operations led to the state of a store, the engine is given at most one policy of
  a tenant and identifier: every stored policy, and every policy compiled from authored rules whose identifier no
  stored policy of that tenant has.\<close>

theorem runtime_policies_once:
  assumes "reachable_store s"
  shows "distinct (map policy_key (ev_Policies (RuntimeEvaluator s base))) \<and>
    set (ps_cachedPolicies s) \<subseteq> set (ev_Policies (RuntimeEvaluator s base)) \<and>
    policy_key ` set (ev_Policies (RuntimeEvaluator s base)) =
      policy_key ` set (ps_cachedPolicies s) \<union> policy_key ` set (compiled_in_order s)"
proof -
  note merged = merge_policies_laws [of "policy_key ` set (ps_cachedPolicies s)" "compiled_in_order s"]
  show ?thesis
    unfolding RuntimeEvaluator_policies map_append distinct_append set_append image_Un set_map
    using cached_distinct [OF reachable_policy_inv [OF assms]] merged by blast
qed

text \<open>C4. A disabled policy decides nothing.  While the overlay of a store, however reached, has a status other than
  active for a policy of the store, every decision is the one the engine takes without that policy: pulling a bundle,
  refreshing from the shared document, restarting and recompiling do not bring it back.\<close>

theorem disabled_policy_decides_nothing:
  assumes "reachable_store s" "row (ps_policies s) t i \<noteq> None"
    "row (rf_PolicyStatusOverride (ps_overlay s)) t i = Some st" "st \<noteq> ''active''" "rq_TenantID req \<noteq> []"
  shows "Evaluate now r (RuntimeEvaluator s base) req =
    Evaluate now r ((RuntimeEvaluator s base)\<lparr>ev_Policies :=
      filter (\<lambda>p. policy_key p \<noteq> (t, i)) (ev_Policies (RuntimeEvaluator s base))\<rparr>) req"
proof -
  let ?e = "RuntimeEvaluator s base"
  have inv: "policy_inv s" by (rule reachable_policy_inv [OF assms(1)])
  obtain p where p: "row (ps_policies s) t i = Some p" using assms(2) by blast
  have key: "policy_key p = (t, i)" using inv p by (auto simp: policy_inv_def rows_satisfy_def keyed_def)
  then have cached: "p \<in> set (ps_cachedPolicies s)" using p by (simp add: cached_iff [OF inv])
  have "pol_Status q \<noteq> ''active''" if "q \<in> set (ev_Policies ?e)" "policy_key q = (t, i)" for q
  proof -
    have "q = p"
      using that cached key cached_iff [OF inv, of q] p
        merge_policies_laws [of "policy_key ` set (ps_cachedPolicies s)" "compiled_in_order s"]
      unfolding RuntimeEvaluator_policies set_append by (auto simp: image_iff)
    then show ?thesis using inv p assms(3,4) by (auto simp: policy_inv_def overridden_def)
  qed
  then have "filter (relevant req) (filter (\<lambda>p. policy_key p \<noteq> (t, i)) (ev_Policies ?e)) = filter (relevant req) (ev_Policies ?e)"
    unfolding filter_filter by (intro filter_cong) auto
  from Evaluate_relevant [OF assms(5) this [symmetric], of now r ?e] show ?thesis by simp
qed

text \<open>Two stores that derive from the same bundle and the same compiled rules, and hold the same grants.\<close>

definition same_sources :: "policy_store \<Rightarrow> policy_store \<Rightarrow> bool" where
  "same_sources s s' \<longleftrightarrow>
     ps_runtimeBasePolicies s = ps_runtimeBasePolicies s' \<and> ps_compiledPolicies s = ps_compiledPolicies s' \<and>
     ps_compiledEastWestRules s = ps_compiledEastWestRules s' \<and> ps_eastWestInternalNetworks s = ps_eastWestInternalNetworks s' \<and>
     ps_eastWestGrants s = ps_eastWestGrants s'"

lemma RuntimeEvaluator_cong:
  assumes "ps_cachedPolicies s = ps_cachedPolicies s'" "ps_cachedPolicyIDs s = ps_cachedPolicyIDs s'" "ps_overlay s = ps_overlay s'"
    "same_sources s s'"
  shows "RuntimeEvaluator s base = RuntimeEvaluator s' base"
  using assms by (simp add: RuntimeEvaluator_def Let_def compileTenantRestrictionsLocked_def compiled_in_order_def same_sources_def)

lemma RuntimeEvaluator_adopt:
  assumes "same_sources s s'"
  shows "RuntimeEvaluator (publish k n s) base = RuntimeEvaluator ((adoptRuntimeLocked n s')\<lparr>ps_runtimeAuthorityKnown := b\<rparr>) base"
  using assms
  by (intro RuntimeEvaluator_cong) (simp_all add: same_sources_def publish_def Let_def adopt_eq rebuildPolicyCacheLocked_def)


section \<open>Distribution of a tenant's controls\<close>

lemma ValidateTenantConfig_snapshot: "policy_inv s \<Longrightarrow> ValidateTenantConfig (SnapshotTenantConfig s t)"
proof -
  assume inv: "policy_inv s"
  have "ValidateTenantRestrictions (rows (rf_SaaSTenantRestrictions (ps_overlay s)) u)" for u
  proof (cases "map_of (rf_SaaSTenantRestrictions (ps_overlay s)) u")
    case (Some m)
    then have "(u, m) \<in> set (rf_SaaSTenantRestrictions (ps_overlay s))" by (rule map_of_SomeD)
    moreover have "list_all (\<lambda>(tenant, settings). ValidateTenantRestrictions settings) (rf_SaaSTenantRestrictions (ps_overlay s))"
      using inv by (simp add: policy_inv_def decodeRuntimeState_def)
    ultimately show ?thesis unfolding list_all_iff using Some by (auto simp: rows_def)
  qed (simp add: rows_def ValidateTenantRestrictions_def)
  moreover have "ValidateUpstreamTLSMode (EffectiveUpstreamTLSMode (get_or [] (rf_UpstreamTLSModes (ps_overlay s)) u))" for u
    using inv by (auto simp: policy_inv_def decodeRuntimeState_def list_all_iff get_or_def ValidateUpstreamTLSMode_def
        EffectiveUpstreamTLSMode_def UpstreamTLSDefault_def validAuthoredUpstreamTLSMode_def split: option.split dest: map_of_SomeD)
  ultimately show ?thesis
    by (simp add: ValidateTenantConfig_def SnapshotTenantConfig_def Let_def zero_tenant_config_def ValidateUpstreamTLSMode_def
        ValidateTenantRestrictions_def)
qed

lemma get_or_update: "get_or z (AList.update k v m) k' = (if k' = k then v else get_or z m k')"
  by (simp add: get_or_def update_conv')

lemma EffectiveUpstreamTLSMode_idem [simp]: "EffectiveUpstreamTLSMode (EffectiveUpstreamTLSMode m) = EffectiveUpstreamTLSMode m"
  by (simp add: EffectiveUpstreamTLSMode_def UpstreamTLSDefault_def)


section \<open>Values of sign-in restrictions\<close>

definition setting_of :: "(string \<times> provider \<times> setting) list \<Rightarrow> string \<Rightarrow> string \<Rightarrow> setting option" where
  "setting_of L t i = map_of (map (\<lambda>(t, p, s). ((t, pv_ID p), s)) L) (t, i)"

definition nonempty :: "string \<Rightarrow> string option" where
  "nonempty v = (if v = [] then None else Some v)"

lemma restriction_values_map:
  assumes "distinct (map (\<lambda>(t, p, s). (t, pv_ID p)) L)" "\<forall>(t, p, s) \<in> set L. CHR ''/'' \<notin> set (pv_ID p)" "CHR ''/'' \<notin> set i"
  shows "map_of (restriction_values L) (Ref t i) = Option.bind (setting_of L t i) (\<lambda>s. nonempty (se_AllowedValue s)) \<and>
    map_of (restriction_values L) (Ref t i @ ''/context'') = Option.bind (setting_of L t i) (\<lambda>s. nonempty (se_ContextTenantID s))"
  using assms(1,2)
proof (induction L rule: rev_induct)
  case Nil
  then show ?case by (simp add: restriction_values_def setting_of_def)
next
  case (snoc x L)
  obtain u p s where x: "x = (u, p, s)" by (cases x) auto
  have IH: "map_of (restriction_values L) (Ref t i) = Option.bind (setting_of L t i) (\<lambda>s. nonempty (se_AllowedValue s))"
    "map_of (restriction_values L) (Ref t i @ ''/context'') = Option.bind (setting_of L t i) (\<lambda>s. nonempty (se_ContextTenantID s))"
    using snoc by auto
  have new: "setting_of L u (pv_ID p) = None"
    using snoc.prems(1) by (auto simp: setting_of_def x map_of_eq_None_iff image_iff case_prod_beta)
  have step: "setting_of (L @ [x]) t i = (if (t, i) = (u, pv_ID p) then Some s else setting_of L t i)"
    using new by (auto simp: setting_of_def x map_add_def split: option.split)
  have slash: "CHR ''/'' \<notin> set (pv_ID p)" using snoc.prems(2) by (simp add: x)
  have ne: "Ref t i \<noteq> Ref u (pv_ID p) @ ''/context''" "Ref t i @ ''/context'' \<noteq> Ref u (pv_ID p)"
    using Ref_context [OF assms(3)] Ref_context [OF slash] by metis+
  have vals: "restriction_values (L @ [x]) =
      (let v = (if se_AllowedValue s \<noteq> [] then AList.update (Ref u (pv_ID p)) (se_AllowedValue s) (restriction_values L)
                else restriction_values L)
       in if se_ContextTenantID s \<noteq> [] then AList.update (Ref u (pv_ID p) @ ''/context'') (se_ContextTenantID s) v else v)"
    by (simp add: restriction_values_def x)
  show ?case
    using IH new ne unfolding vals step Let_def
    by (auto simp: update_conv' Ref_eq_iff nonempty_def)
qed

lemma provider_ids: "distinct (map pv_ID Providers)" "\<forall>p \<in> set Providers. CHR ''/'' \<notin> set (pv_ID p)"
  by (simp_all add: Providers_def)

abbreviation tenant_settings :: "setting tenant_map \<Rightarrow> string \<Rightarrow> provider list \<Rightarrow> (string \<times> provider \<times> setting) list" where
  "tenant_settings m t ps \<equiv> List.map_filter (\<lambda>p. map_option (\<lambda>s. (t, p, s)) (row m t (pv_ID p))) ps"

lemma tenant_settings_mem:
  "(u, p, s) \<in> set (tenant_settings m t ps) \<longleftrightarrow> u = t \<and> p \<in> set ps \<and> row m t (pv_ID p) = Some s"
  by (auto simp: List.map_filter_def image_iff)

lemma tenant_settings_distinct:
  "distinct (map pv_ID ps) \<Longrightarrow> distinct (map (\<lambda>(t, p, s). (t, pv_ID p)) (tenant_settings m t ps))"
proof (induction ps)
  case (Cons p ps)
  have "(t, pv_ID p) \<notin> set (map (\<lambda>(t, p, s). (t, pv_ID p)) (tenant_settings m t ps))"
    using Cons.prems by (auto simp: tenant_settings_mem)
  with Cons show ?case by (auto simp: map_filter_simps split: option.split)
qed (simp add: map_filter_simps)

lemma restriction_settings_mem:
  assumes "wf_rows m"
  shows "(t, p, s) \<in> set (restriction_settings m) \<longleftrightarrow> p \<in> set Providers \<and> row m t (pv_ID p) = Some s"
proof -
  have "t \<in> fst ` set m" if "row m t i = Some s" for i
    using that by (auto simp: row_def rows_def image_iff split: option.splits dest: map_of_SomeD) (metis fst_conv map_of_SomeD)
  then show ?thesis by (auto simp: restriction_settings_def tenant_settings_mem)
qed

lemma restriction_settings_distinct:
  assumes "wf_rows m"
  shows "distinct (map (\<lambda>(t, p, s). (t, pv_ID p)) (restriction_settings m))"
proof -
  have "distinct ts \<Longrightarrow> distinct (map (\<lambda>(t, p, s). (t, pv_ID p)) (concat (map (\<lambda>t. tenant_settings m t Providers) ts)))" for ts
  proof (induction ts)
    case (Cons t ts)
    have "u \<noteq> t" if "(u, p, s) \<in> set (concat (map (\<lambda>t. tenant_settings m t Providers) ts))" for u p s
      using that Cons.prems by (auto simp: tenant_settings_mem)
    then show ?case using Cons tenant_settings_distinct [OF provider_ids(1), where m = m and t = t] by (auto simp: tenant_settings_mem)
  qed simp
  then show ?thesis using assms by (simp add: restriction_settings_def wf_rows_def)
qed

lemma setting_of_settings:
  assumes "wf_rows m" "p \<in> set Providers"
  shows "setting_of (restriction_settings m) t (pv_ID p) = row m t (pv_ID p)"
proof (cases "row m t (pv_ID p)")
  case None
  then have "(t, pv_ID p) \<notin> fst ` set (map (\<lambda>(t, p, s). ((t, pv_ID p), s)) (restriction_settings m))"
    using restriction_settings_mem [OF assms(1)] by auto
  then show ?thesis using None by (simp add: setting_of_def map_of_eq_None_iff)
next
  case (Some s)
  have "((t, pv_ID p), s) \<in> set (map (\<lambda>(t, p, s). ((t, pv_ID p), s)) (restriction_settings m))"
    using Some assms(2) restriction_settings_mem [OF assms(1), of t p s] by force
  moreover have "distinct (map fst (map (\<lambda>(t, p, s). ((t, pv_ID p), s)) (restriction_settings m)))"
    using restriction_settings_distinct [OF assms(1)] unfolding map_map comp_def case_prod_beta fst_conv .
  ultimately show ?thesis using Some by (simp only: setting_of_def map_of_is_SomeI)
qed

text \<open>C23. A restriction carries its own organization's value.  In any reachable state of the store with restrictions, a
  reference of a tenant and a provider resolves, in the engine, to the value that this tenant configured for this
  provider, and to nothing if it configured none; no other tenant's value can appear there.\<close>

theorem restriction_values_isolated:
  assumes "reachable_store s" "rf_SaaSTenantRestrictions (ps_overlay s) \<noteq> []" "p \<in> set Providers"
  shows "map_of (ev_TenantRestrictionHeaderValues (RuntimeEvaluator s base)) (tr_HeaderValueRef (Rule t p st)) =
      Option.bind (row (rf_SaaSTenantRestrictions (ps_overlay s)) t (pv_ID p)) (\<lambda>s. nonempty (se_AllowedValue s)) \<and>
    map_of (ev_TenantRestrictionHeaderValues (RuntimeEvaluator s base)) (tr_HeaderValueRef (Rule t p st) @ ''/context'') =
      Option.bind (row (rf_SaaSTenantRestrictions (ps_overlay s)) t (pv_ID p)) (\<lambda>s. nonempty (se_ContextTenantID s))"
proof -
  let ?m = "rf_SaaSTenantRestrictions (ps_overlay s)"
  have wf: "wf_rows ?m" using reachable_policy_inv [OF assms(1)] by (simp add: policy_inv_def wf_runtime_def)
  have "ev_TenantRestrictionHeaderValues (RuntimeEvaluator s base) = restriction_values (restriction_settings ?m)"
    using assms(2) by (simp add: RuntimeEvaluator_def Let_def compileTenantRestrictionsLocked_def)
  moreover have "\<forall>(t, p, s) \<in> set (restriction_settings ?m). CHR ''/'' \<notin> set (pv_ID p)"
    using provider_ids(2) restriction_settings_mem [OF wf] by auto
  ultimately show ?thesis
    using restriction_values_map [OF restriction_settings_distinct [OF wf] _ bspec [OF provider_ids(2) assms(3)], of t]
    by (simp add: Rule_def setting_of_settings [OF wf assms(3)])
qed

section \<open>Witnesses\<close>

definition lab_policy :: policy where
  "lab_policy = zero_policy\<lparr>pol_ID := ''p1'', pol_TenantID := ''t1'', pol_Status := ''active'', pol_Priority := 10,
     pol_Action := zero_policy_action\<lparr>pa_Decision := ''deny''\<rparr>, pol_Conditions := [(''user_id'', AStr ''alice'')]\<rparr>"

definition lab_store :: policy_store where
  "lab_store = NewPolicyStore 0 [lab_policy]"

definition lab_disabled :: policy_store where
  "lab_disabled = snd (SetPolicyStatusContext NoMedium ''t1'' ''p1'' ''disabled'' lab_store)"

definition lab_compiled :: policy_store where
  "lab_compiled = SetCompiledPolicies ''t1'' [lab_policy, lab_policy\<lparr>pol_ID := ''p2''\<rparr>] lab_store"

definition lab_restriction :: restriction_patch where
  "lab_restriction = \<lparr>rp_AllowedValue = Some ''Example.com'', rp_ContextTenantID = None, rp_Enabled = Some True\<rparr>"

definition lab_restricted :: policy_store where
  "lab_restricted = snd (SaveTenantRestrictionContext (LocalFile (\<lambda>f. Saved)) ''t1'' ''google_workspace'' lab_restriction lab_store)"

lemma lab_reachable: "reachable_store lab_store" "reachable_store lab_disabled" "reachable_store lab_compiled" "reachable_store lab_restricted"
proof -
  show r: "reachable_store lab_store" by (simp add: lab_store_def reachable_store.new)
  have m: "wf_medium NoMedium" "wf_medium (LocalFile save)" for save by (simp_all add: wf_medium_def)
  show "reachable_store lab_disabled" "reachable_store lab_restricted"
    using reachable_controls [OF r] m by (simp_all add: lab_disabled_def lab_restricted_def)
  show "reachable_store lab_compiled" using r by (simp add: lab_compiled_def reachable_store.compiled_policies)
qed

theorem runtime_policies_once_witness:
  "distinct (map policy_key (ev_Policies (RuntimeEvaluator lab_compiled zero_evaluator))) \<and>
   map policy_key (compiled_in_order lab_compiled) = [(''t1'', ''p1''), (''t1'', ''p2'')] \<and>
   map policy_key (ev_Policies (RuntimeEvaluator lab_compiled zero_evaluator)) = [(''t1'', ''p1''), (''t1'', ''p2'')]"
proof -
  have "map policy_key (compiled_in_order lab_compiled) = [(''t1'', ''p1''), (''t1'', ''p2'')]"
    "map policy_key (ev_Policies (RuntimeEvaluator lab_compiled zero_evaluator)) = [(''t1'', ''p1''), (''t1'', ''p2'')]"
    by code_simp+
  then show ?thesis using runtime_policies_once [OF lab_reachable(3), of zero_evaluator] by simp
qed

theorem disabled_policy_decides_nothing_witness:
  "row (rf_PolicyStatusOverride (ps_overlay lab_disabled)) ''t1'' ''p1'' = Some ''disabled'' \<and>
   map pol_ID (ev_Policies (RuntimeEvaluator lab_disabled zero_evaluator)) = [''p1''] \<and>
   Evaluate 0 (Random []) (RuntimeEvaluator lab_disabled zero_evaluator) (zero_decision_request\<lparr>rq_TenantID := ''t1'', rq_UserID := ''alice''\<rparr>) =
     Evaluate 0 (Random []) ((RuntimeEvaluator lab_disabled zero_evaluator)\<lparr>ev_Policies :=
       filter (\<lambda>p. policy_key p \<noteq> (''t1'', ''p1'')) (ev_Policies (RuntimeEvaluator lab_disabled zero_evaluator))\<rparr>)
       (zero_decision_request\<lparr>rq_TenantID := ''t1'', rq_UserID := ''alice''\<rparr>)"
proof -
  have o: "row (rf_PolicyStatusOverride (ps_overlay lab_disabled)) ''t1'' ''p1'' = Some ''disabled''"
    and l: "map pol_ID (ev_Policies (RuntimeEvaluator lab_disabled zero_evaluator)) = [''p1'']"
    and p: "row (ps_policies lab_disabled) ''t1'' ''p1'' \<noteq> None" by code_simp+
  have "''disabled'' \<noteq> ''active''" "rq_TenantID (zero_decision_request\<lparr>rq_TenantID := ''t1'', rq_UserID := ''alice''\<rparr>) \<noteq> []" by simp_all
  from disabled_policy_decides_nothing [OF lab_reachable(2) p o this, of 0 "Random []" zero_evaluator] o l show ?thesis by blast
qed



theorem restriction_values_isolated_witness:
  "map_of (ev_TenantRestrictionHeaderValues (RuntimeEvaluator lab_restricted zero_evaluator))
     (tr_HeaderValueRef (Rule ''t1'' (hd Providers) zero_setting)) = Some ''example.com'' \<and>
   map_of (ev_TenantRestrictionHeaderValues (RuntimeEvaluator lab_restricted zero_evaluator))
     (tr_HeaderValueRef (Rule ''t2'' (hd Providers) zero_setting)) = None"
proof -
  have n: "rf_SaaSTenantRestrictions (ps_overlay lab_restricted) \<noteq> []" "hd Providers \<in> set Providers" by code_simp+
  have "Option.bind (row (rf_SaaSTenantRestrictions (ps_overlay lab_restricted)) ''t1'' (pv_ID (hd Providers))) (\<lambda>s. nonempty (se_AllowedValue s)) =
      Some ''example.com''"
    "Option.bind (row (rf_SaaSTenantRestrictions (ps_overlay lab_restricted)) ''t2'' (pv_ID (hd Providers))) (\<lambda>s. nonempty (se_AllowedValue s)) = None"
    by code_simp+
  then show ?thesis
    using restriction_values_isolated [OF lab_reachable(4) n, of zero_evaluator "''t1''" zero_setting]
      restriction_values_isolated [OF lab_reachable(4) n, of zero_evaluator "''t2''" zero_setting] by simp
qed

end
