(* ===== verification/Eastwest_Laws.thy ===== *)
theory Eastwest_Laws
  imports Eastwest_Grants Policy_Store_Laws
begin

text \<open>
  What a ceremony achieves and what it cannot.  The grants of a store are an interface, the locale
  \<open>grant_ledger\<close>: issuing appends, revoking removes the scope; the policy store provides it.  The
  properties: a ceremony issues one grant, for the tenant and the identity that were proved, and no
  longer than a day or the tenant's limit; a challenge is redeemed at most once; a hop that was held is
  released after its ceremony; a revoked grant releases nothing.
\<close>

section \<open>The ledger of grants\<close>

locale grant_ledger =
  fixes held :: "'s \<Rightarrow> string \<Rightarrow> east_west_grant list"
    and issue :: "string \<Rightarrow> east_west_grant \<Rightarrow> 's \<Rightarrow> 's"
    and revoke :: "string \<Rightarrow> string \<Rightarrow> string \<Rightarrow> 's \<Rightarrow> nat \<times> 's"
  assumes held_issue: "held (issue t g s) u = (if TrimSpace u = TrimSpace t then held s u @ [g] else held s u)"
    and held_revoke: "sc \<in> {''device'', ''user''} \<Longrightarrow> TrimSpace i \<noteq> [] \<Longrightarrow>
      held (snd (revoke t sc i s)) u =
        (if TrimSpace u = TrimSpace t then filter (\<lambda>g. \<not> grant_in_scope sc (TrimSpace i) g) (held s u) else held s u)"
    and count_revoke: "sc \<in> {''device'', ''user''} \<Longrightarrow> TrimSpace i \<noteq> [] \<Longrightarrow>
      fst (revoke t sc i s) = length (filter (grant_in_scope sc (TrimSpace i)) (held s t))"
begin

text \<open>What the ledger of a tenant releases at a time.\<close>

definition releases :: "'s \<Rightarrow> string \<Rightarrow> decision_request \<Rightarrow> instant \<Rightarrow> bool" where
  "releases s t req now \<longleftrightarrow> (\<exists>g \<in> set (held s t). grant_matches g req now)"

lemma releases_issue: "releases (issue t g s) t req now \<longleftrightarrow> grant_matches g req now \<or> releases s t req now"
  by (auto simp: releases_def held_issue)

lemma releases_revoke:
  "sc \<in> {''device'', ''user''} \<Longrightarrow> TrimSpace i \<noteq> [] \<Longrightarrow>
    releases (snd (revoke t sc i s)) t req now \<longleftrightarrow>
      (\<exists>g \<in> set (held s t). grant_matches g req now \<and> \<not> grant_in_scope sc (TrimSpace i) g)"
  by (auto simp: releases_def held_revoke)

lemma revoke_reissue:
  "sc \<in> {''device'', ''user''} \<Longrightarrow> TrimSpace i \<noteq> [] \<Longrightarrow> grant_in_scope sc (TrimSpace i) g \<Longrightarrow>
    held (snd (revoke t sc i (issue t g s))) u = held (snd (revoke t sc i s)) u"
  by (simp add: held_revoke held_issue)

end

definition grants_held :: "policy_store \<Rightarrow> string \<Rightarrow> east_west_grant list" where
  "grants_held s tenantID = get_or [] (ps_eastWestGrants s) (TrimSpace tenantID)"

lemma words_trimmed: "TrimSpace ''device'' = ''device''" "TrimSpace ''user'' = ''user''"
  by code_simp+

interpretation ledger: grant_ledger grants_held IssueEastWestGrant RevokeEastWestGrants
proof
  show "grants_held (IssueEastWestGrant t g s) u = (if TrimSpace u = TrimSpace t then grants_held s u @ [g] else grants_held s u)"
    for t g s u
    by (simp add: grants_held_def IssueEastWestGrant_def Let_def get_or_update)
  fix sc i t s u
  assume sc: "sc \<in> {''device'', ''user''}" and i: "TrimSpace i \<noteq> []"
  have r: "RevokeEastWestGrants t sc i s = revokeEastWestGrantsForScopeLocked (TrimSpace t) sc (TrimSpace i) s"
    using sc words_trimmed by (auto simp: RevokeEastWestGrants_def Let_def)
  show "grants_held (snd (RevokeEastWestGrants t sc i s)) u =
      (if TrimSpace u = TrimSpace t then filter (\<lambda>g. \<not> grant_in_scope sc (TrimSpace i) g) (grants_held s u) else grants_held s u)"
    using i by (simp add: r revokeEastWestGrantsForScopeLocked_def Let_def grants_held_def get_or_update)
  show "fst (RevokeEastWestGrants t sc i s) = length (filter (grant_in_scope sc (TrimSpace i)) (grants_held s t))"
    using i by (simp add: r revokeEastWestGrantsForScopeLocked_def Let_def grants_held_def)
qed

section \<open>Grants in the live engine\<close>

abbreviation served_tenant :: "evaluator \<Rightarrow> string" where
  "served_tenant base \<equiv> pb_TenantID (ev_PolicyBundle base)"

lemma RuntimeEvaluator_grants:
  "ev_EastWestGrants (RuntimeEvaluator s base) =
    (if grants_held s (served_tenant base) \<noteq> [] then grants_held s (served_tenant base) else ev_EastWestGrants base)"
  by (simp add: RuntimeEvaluator_def Let_def grants_held_def compileTenantRestrictionsLocked_def)

text \<open>The configuration of the engine without its grants.\<close>

lemma RuntimeEvaluator_grants_only:
  assumes "s' = s\<lparr>ps_eastWestGrants := gs\<rparr>"
  shows "RuntimeEvaluator s' base = (RuntimeEvaluator s base)\<lparr>ev_EastWestGrants := ev_EastWestGrants (RuntimeEvaluator s' base)\<rparr>"
  unfolding assms by (simp add: RuntimeEvaluator_def Let_def compileTenantRestrictionsLocked_def compiled_in_order_def)

lemma IssueEastWestGrant_eq:
  "IssueEastWestGrant t g s =
    s\<lparr>ps_eastWestGrants := AList.update (TrimSpace t) (get_or [] (ps_eastWestGrants s) (TrimSpace t) @ [g]) (ps_eastWestGrants s)\<rparr>"
  by (simp add: IssueEastWestGrant_def Let_def)

lemma hasValid_runtime:
  "ev_EastWestGrants base = [] \<Longrightarrow>
    hasValidEastWestGrant (RuntimeEvaluator s base) req now \<longleftrightarrow> ledger.releases s (served_tenant base) req now"
  by (auto simp: hasValidEastWestGrant_def RuntimeEvaluator_grants ledger.releases_def list_ex_iff)

lemma Evaluate_east_west:
  assumes "plane_of e (decisionRequestWithSaaSContext e req) = EastWestPlane"
  shows "dec_Decision (Evaluate now r e req) = fst (eastWestDecisionFor e (decisionRequestWithSaaSContext e req) now)"
  using final_state_east_west [OF assms, of now]
  by (simp add: Evaluate_sel decision_of_state_def east_west_branch_def case_prod_beta)

lemma grants_frame:
  "decisionRequestWithSaaSContext (e\<lparr>ev_EastWestGrants := gs\<rparr>) = decisionRequestWithSaaSContext e"
  "plane_of (e\<lparr>ev_EastWestGrants := gs\<rparr>) req = plane_of e req"
  by (simp_all add: fun_eq_iff decisionRequestWithSaaSContext_def plane_of_def isEastWestFlow_def)

text \<open>A hold that asks for no federated proof is released by any valid grant.\<close>

lemma grant_releases_hold:
  assumes "fst (eastWestDecisionFor e q now) = ''authenticate_required''"
    "MatchedEastWestRule (ev_EastWestRules e) q = Some rule" "\<not> requiresFederatedProof rule"
    "hasValidEastWestGrant (e\<lparr>ev_EastWestGrants := gs\<rparr>) q later"
  shows "fst (eastWestDecisionFor (e\<lparr>ev_EastWestGrants := gs\<rparr>) q later) = ''allow''"
  using assms by (auto simp: eastWestDecisionFor_def eastWestAuthenticate_def Let_def split: if_splits)

section \<open>Lifetimes\<close>

lemma EffectiveTTL_le:
  "EffectiveTTL s t g requested \<le> requested \<and>
    (0 < EastWestMaxGrantTTL s t \<longrightarrow> EffectiveTTL s t g requested \<le> seconds_duration (EastWestMaxGrantTTL s t))"
  by (auto simp: EffectiveTTL_def Let_def split: option.split)

lemma challenge_grant_sel [simp]:
  "eg_SubjectUserID (challenge_grant s c now) = ac_SubjectUserID c" "eg_DeviceID (challenge_grant s c now) = ac_DeviceID c"
  "eg_Destination (challenge_grant s c now) = ac_Destination c" "eg_Protocol (challenge_grant s c now) = ac_Protocol c"
  "eg_IdleTTLSeconds (challenge_grant s c now) = 0"
  by (simp_all add: challenge_grant_def Let_def)

lemma challenge_grant_lifetime:
  "eg_ExpiresAt (challenge_grant s c now) \<le> now + eastWestGrantDefaultTTL \<and>
    (0 < EastWestMaxGrantTTL s (ac_TenantID c) \<longrightarrow>
      eg_ExpiresAt (challenge_grant s c now) \<le> now + seconds_duration (EastWestMaxGrantTTL s (ac_TenantID c)))"
  using EffectiveTTL_le [of s "ac_TenantID c" _ eastWestGrantDefaultTTL] by (simp add: challenge_grant_def Let_def)

section \<open>The outcome of a ceremony\<close>

text \<open>A challenge that the proof of a tenant and a user completes.\<close>

definition admits :: "auth_challenge \<Rightarrow> string \<Rightarrow> string \<Rightarrow> instant \<Rightarrow> bool" where
  "admits c t u now \<longleftrightarrow>
     ac_Status c = ''pending'' \<and> challenge_open c now \<and> TrimSpace t \<noteq> [] \<and> ac_TenantID c = t \<and>
     (ac_SubjectUserID c = [] \<or> ac_SubjectUserID c = u)"

lemma challenge_grant_completed: "challenge_grant s (c\<lparr>ac_Status := st\<rparr>) now = challenge_grant s c now"
  by (simp add: challenge_grant_def)

lemma CompleteCeremony_eq:
  "CompleteCeremony i t u now (s, cs) =
    (case map_of cs (TrimSpace i) of
       Some c \<Rightarrow>
         if admits c t u now
         then (Inr (grantResponseFrom t (challenge_grant s c now)), IssueEastWestGrant t (challenge_grant s c now) s,
               AList.update (ac_ID c) (c\<lparr>ac_Status := ''completed''\<rparr>) cs)
         else (fst (CompleteCeremony i t u now (s, cs)), s, cs)
     | None \<Rightarrow> (fst (CompleteCeremony i t u now (s, cs)), s, cs))"
  by (auto simp: CompleteCeremony_def Get_challenge_def issueGrantFromChallenge_def Complete_def admits_def Let_def
      challenge_grant_completed split: option.splits)

lemma CompleteCeremony_Inr:
  "(\<exists>resp. fst (CompleteCeremony i t u now (s, cs)) = Inr resp) \<longleftrightarrow> (\<exists>c. map_of cs (TrimSpace i) = Some c \<and> admits c t u now)"
  by (auto simp: CompleteCeremony_def Get_challenge_def issueGrantFromChallenge_def Complete_def admits_def Let_def
      split: option.splits)

text \<open>C8. What a ceremony does.  It succeeds exactly for a pending challenge inside its window whose tenant is the
  authenticated one and whose subject, if the held flow claimed one, is the authenticated user.  Success adds one grant
  to that tenant, bound to the subject, device, destination and protocol of the held flow, that lives at most a day and
  at most the tenant's limit; the challenge is completed and no other tenant's grants change.  Failure changes nothing.\<close>

theorem ceremony_outcome:
  "case CompleteCeremony i t u now (s, cs) of
     (Inl err, s', cs') \<Rightarrow>
       s' = s \<and> cs' = cs \<and> (\<nexists>c. map_of cs (TrimSpace i) = Some c \<and> admits c t u now)
   | (Inr resp, s', cs') \<Rightarrow>
       (\<exists>c g. map_of cs (TrimSpace i) = Some c \<and> admits c t u now \<and>
         eg_SubjectUserID g = ac_SubjectUserID c \<and> eg_DeviceID g = ac_DeviceID c \<and>
         eg_Destination g = ac_Destination c \<and> eg_Protocol g = ac_Protocol c \<and> eg_IdleTTLSeconds g = 0 \<and>
         eg_ExpiresAt g \<le> now + eastWestGrantDefaultTTL \<and>
         (0 < EastWestMaxGrantTTL s t \<longrightarrow> eg_ExpiresAt g \<le> now + seconds_duration (EastWestMaxGrantTTL s t)) \<and>
         (\<forall>v. grants_held s' v = (if TrimSpace v = TrimSpace t then grants_held s v @ [g] else grants_held s v)) \<and>
         map_of cs' = (map_of cs)(ac_ID c \<mapsto> c\<lparr>ac_Status := ''completed''\<rparr>))"
proof -
  show ?thesis
  proof (cases "\<exists>c. map_of cs (TrimSpace i) = Some c \<and> admits c t u now")
    case True
    then obtain c where c: "map_of cs (TrimSpace i) = Some c" "admits c t u now" by blast
    then have t: "ac_TenantID c = t" by (simp add: admits_def)
    have e: "CompleteCeremony i t u now (s, cs) =
        (Inr (grantResponseFrom t (challenge_grant s c now)), IssueEastWestGrant t (challenge_grant s c now) s,
         AList.update (ac_ID c) (c\<lparr>ac_Status := ''completed''\<rparr>) cs)"
      by (subst CompleteCeremony_eq) (simp add: c)
    show ?thesis
      unfolding e prod.case sum.case
      by (rule exI [of _ c], rule exI [of _ "challenge_grant s c now"])
        (use c challenge_grant_lifetime [of s c now] in \<open>simp add: t ledger.held_issue update_conv'\<close>)
  next
    case False
    then obtain err where "fst (CompleteCeremony i t u now (s, cs)) = Inl err"
      using CompleteCeremony_Inr [of i t u now s cs] by (cases "fst (CompleteCeremony i t u now (s, cs))") auto
    moreover have "snd (CompleteCeremony i t u now (s, cs)) = (s, cs)"
      using False by (subst CompleteCeremony_eq) (simp split: option.split)
    ultimately have "CompleteCeremony i t u now (s, cs) = (Inl err, s, cs)" by (metis surjective_pairing)
    with False show ?thesis by simp
  qed
qed

section \<open>A challenge is redeemed once\<close>

text \<open>Runs of the two stores.  The second argument lists the identifiers redeemed so far.  Random
  identifiers do not repeat; the policy store may change in any way between ceremonies.\<close>

inductive ceremony_run :: "string list \<Rightarrow> policy_store \<Rightarrow> challenge_store \<Rightarrow> bool" where
  start: "ceremony_run [] s []"
| hold: "ceremony_run ids s cs \<Longrightarrow> map_of cs (newID buf) = None \<Longrightarrow>
    ceremony_run ids s (snd (Create_challenge buf (BuildAuthChallenge req) now cs))"
| ceremony: "ceremony_run ids s cs \<Longrightarrow> CompleteCeremony i t u now (s, cs) = (result, s', cs') \<Longrightarrow>
    ceremony_run (ids @ (case result of Inr _ \<Rightarrow> [TrimSpace i] | Inl _ \<Rightarrow> [])) s' cs'"
| other: "ceremony_run ids s cs \<Longrightarrow> ceremony_run ids s' cs"

definition filed :: "challenge_store \<Rightarrow> bool" where
  "filed cs \<longleftrightarrow> (\<forall>k c. map_of cs k = Some c \<longrightarrow> ac_ID c = k)"

definition completed :: "challenge_store \<Rightarrow> string \<Rightarrow> bool" where
  "completed cs k \<longleftrightarrow> (\<exists>c. map_of cs k = Some c \<and> ac_Status c = ''completed'')"

lemma ceremony_run_inv: "ceremony_run ids s cs \<Longrightarrow> filed cs \<and> distinct ids \<and> (\<forall>k \<in> set ids. completed cs k)"
proof (induction rule: ceremony_run.induct)
  case (start s)
  then show ?case by (simp add: filed_def)
next
  case (hold ids s cs buf req now)
  have "newID buf \<notin> set ids" using hold by (auto simp: completed_def)
  with hold show ?case by (auto simp: Create_challenge_def Let_def filed_def completed_def update_conv')
next
  case (ceremony ids s cs i t u now result s' cs')
  show ?case
  proof (cases "\<exists>c. map_of cs (TrimSpace i) = Some c \<and> admits c t u now")
    case True
    then obtain c where c: "map_of cs (TrimSpace i) = Some c" "admits c t u now" by blast
    then have "\<exists>resp. result = Inr resp" and cs': "cs' = AList.update (ac_ID c) (c\<lparr>ac_Status := ''completed''\<rparr>) cs"
      using ceremony.hyps(2) by (auto simp: CompleteCeremony_eq [of i t u now])
    moreover have "ac_ID c = TrimSpace i" using ceremony.IH c by (auto simp: filed_def)
    moreover have "TrimSpace i \<notin> set ids" using ceremony.IH c by (auto simp: completed_def admits_def)
    ultimately show ?thesis using ceremony.IH by (auto simp: filed_def completed_def update_conv')
  next
    case False
    then have "\<nexists>resp. result = Inr resp" using CompleteCeremony_Inr [of i t u now s cs] ceremony.hyps(2) by auto
    moreover have "cs' = cs"
      using False arg_cong [OF ceremony.hyps(2), of snd] by (subst (asm) CompleteCeremony_eq) (auto split: option.splits)
    ultimately show ?thesis using ceremony.IH by (cases result) auto
  qed
qed simp

text \<open>C9. A challenge is redeemed at most once.  In any run of holds, ceremonies and other changes of the policy
  store in which random identifiers do not repeat, no identifier is redeemed twice: each ceremony that succeeds, and so
  each grant a ceremony issues, belongs to a challenge of its own, which is completed from then on.\<close>

theorem challenge_redeemed_once:
  assumes "ceremony_run ids s cs"
  shows "distinct ids \<and> (\<forall>k \<in> set ids. completed cs k)"
  using ceremony_run_inv [OF assms] by blast

section \<open>A held hop is released\<close>

text \<open>Fields that the challenge would trim are already trimmed.\<close>

definition trimmed_flow :: "decision_request \<Rightarrow> bool" where
  "trimmed_flow req \<longleftrightarrow>
     list_all (\<lambda>v. TrimSpace v = v) [rq_SubjectUserID req, rq_UserID req, rq_Destination req, rq_ApplicationID req, rq_TenantID req]"

text \<open>A year with four digits, as the text of a time of expiry needs.\<close>

definition four_digit_year :: "instant \<Rightarrow> bool" where
  "four_digit_year t = (case civil_of_days (t div nanos div 86400 + unix_day) of (y, m, d) \<Rightarrow> 0 \<le> y \<and> y < 10000)"

lemma challenge_open_created:
  assumes "four_digit_year (now + AuthChallengeTTL)" "now' + nanos \<le> now + AuthChallengeTTL"
  shows "challenge_open (fst (Create_challenge buf c now cs)) now'"
proof -
  let ?t = "now + AuthChallengeTTL"
  have "Parse (Format ?t) = Some (?t div nanos * nanos)"
    using assms(1) Parse_Format [of ?t] by (cases "civil_of_days (?t div nanos div 86400 + unix_day)") (auto simp: four_digit_year_def)
  moreover have "?t < ?t div nanos * nanos + nanos"
    using div_mult_mod_eq [of ?t nanos] pos_mod_bound [of nanos ?t] by (simp add: nanos_def)
  ultimately show ?thesis using assms(2) by (simp add: Create_challenge_def Let_def challenge_open_def)
qed

lemma challenge_grant_matches:
  assumes "trimmed_flow req" "c = fst (Create_challenge buf (BuildAuthChallenge req) now cs)"
    "later < eg_ExpiresAt (challenge_grant s c now')"
    "rq_SubjectUserID q = rq_SubjectUserID req" "rq_UserID q = rq_UserID req" "rq_Destination q = rq_Destination req"
    "rq_ApplicationID q = rq_ApplicationID req" "rq_ServiceFamily q = rq_ServiceFamily req"
    "AuthoritativeDeviceIdentity q = AuthoritativeDeviceIdentity req"
  shows "grant_matches (challenge_grant s c now') q later"
  using assms
  by (auto simp: grant_matches_def Create_challenge_def BuildAuthChallenge_def Let_def trimmed_flow_def valueOrDefault_def EqualFold_def)

lemma SaaS_frame_flow:
  "rq_SubjectUserID (decisionRequestWithSaaSContext e r) = rq_SubjectUserID r"
  "rq_UserID (decisionRequestWithSaaSContext e r) = rq_UserID r"
  "rq_ApplicationID (decisionRequestWithSaaSContext e r) = rq_ApplicationID r"
  "AuthoritativeDeviceIdentity (decisionRequestWithSaaSContext e r) = AuthoritativeDeviceIdentity r"
  by (simp_all add: AuthoritativeDeviceIdentity_def decisionRequestWithSaaSContext_def clearDecisionRequestSaaSContext_def
      Let_def split: option.split)

lemma newID_trimmed: "TrimSpace (newID buf) = newID buf"
proof -
  have plain: "TrimSpace s = s" if "\<forall>c \<in> set s. byte c < 128 \<and> \<not> is_ascii_space c" for s
  proof (rule TrimSpace_id)
    show "skip_space wide_spaces s = None" using that by (cases s) auto
    show "skip_space (map rev wide_spaces) (rev s) = None"
      using that by (cases s rule: rev_cases) auto
  qed
  have hex: "byte (hex_char n) < 128 \<and> \<not> is_ascii_space (hex_char n)" if "0 \<le> n" "n < 16" for n
    using that by (auto simp: hex_char_def is_ascii_space_def)
  have "byte c < 128 \<and> \<not> is_ascii_space c" if "c \<in> set (EncodeToString bs)" for c bs
    using that hex by (auto simp: EncodeToString_def)
  then show ?thesis by (intro plain) (auto simp: newID_def is_ascii_space_def split: option.splits)
qed


section \<open>Revocation\<close>

text \<open>C10. Revocation takes effect.  After the grants of a device or of a user are revoked for a tenant, a hop is
  released exactly by the grants of that tenant that matched it before and are not of that scope, and the answer counts
  the grants that were removed; the grants of other tenants are untouched.\<close>

theorem revocation_effective:
  assumes "sc \<in> {''device'', ''user''}" "TrimSpace i \<noteq> []" "ev_EastWestGrants base = []"
    "RevokeGrants (served_tenant base) sc i s = (n, s')"
  shows "(hasValidEastWestGrant (RuntimeEvaluator s' base) req now \<longleftrightarrow>
      (\<exists>g \<in> set (grants_held s (served_tenant base)). grant_matches g req now \<and> \<not> grant_in_scope sc (TrimSpace i) g)) \<and>
    n = length (filter (grant_in_scope sc (TrimSpace i)) (grants_held s (served_tenant base))) \<and>
    (TrimSpace v \<noteq> TrimSpace (served_tenant base) \<longrightarrow> grants_held s' v = grants_held s v)"
proof -
  have r: "s' = snd (RevokeEastWestGrants (served_tenant base) sc i s)" "n = fst (RevokeEastWestGrants (served_tenant base) sc i s)"
    using assms(4) by (simp_all add: RevokeGrants_def)
  show ?thesis
    unfolding hasValid_runtime [OF assms(3)] r
    using ledger.releases_revoke [OF assms(1,2)] ledger.count_revoke [OF assms(1,2)] ledger.held_revoke [OF assms(1,2)] by simp
qed

section \<open>Witnesses\<close>

definition hop_rule :: east_west_rule where
  "hop_rule = zero_east_west_rule\<lparr>er_ID := ''ew-1'', er_Priority := 10, er_Mode := ''authenticate'', er_Protocols := [''ssh''],
     er_Destinations := [''db-1'']\<rparr>"

definition hop_store :: policy_store where
  "hop_store = snd (ApplyEastWestUpdateContext NoMedium ''t1'' (Some [hop_rule]) (Some 3600) (Some True) (Some False) lab_store)"

definition hop_base :: evaluator where
  "hop_base = zero_evaluator\<lparr>ev_PolicyBundle := zero_policy_bundle\<lparr>pb_TenantID := ''t1''\<rparr>\<rparr>"

definition hop_request :: decision_request where
  "hop_request = zero_decision_request\<lparr>rq_TenantID := ''t1'', rq_SubjectUserID := ''alice'', rq_DeviceID := ''dev-1'',
     rq_Destination := ''db-1'', rq_DestinationIP := ''10.0.0.7'', rq_ServiceFamily := ''ssh''\<rparr>"

definition hop_challenge :: "auth_challenge \<times> challenge_store" where
  "hop_challenge = Create_challenge (Some [1, 2]) (BuildAuthChallenge hop_request) 0 []"

theorem ceremony_outcome_witness:
  "eg_ExpiresAt (hd (grants_held (fst (snd (CompleteCeremony ''ewc_0102'' ''t1'' ''alice'' 1 (hop_store, snd hop_challenge)))) ''t1''))
     \<le> 1 + seconds_duration 3600"
proof -
  have i: "\<not> isl (fst (CompleteCeremony ''ewc_0102'' ''t1'' ''alice'' 1 (hop_store, snd hop_challenge)))"
    and m: "EastWestMaxGrantTTL hop_store ''t1'' = 3600" "grants_held hop_store ''t1'' = []" by code_simp+
  then obtain resp s' cs' where e: "CompleteCeremony ''ewc_0102'' ''t1'' ''alice'' 1 (hop_store, snd hop_challenge) = (Inr resp, s', cs')"
    by (metis isl_def prod.exhaust_sel sum.exhaust)
  from ceremony_outcome [where i = "''ewc_0102''" and t = "''t1''" and u = "''alice''" and now = 1 and s = hop_store and cs = "snd hop_challenge"]
  obtain g where "eg_ExpiresAt g \<le> 1 + seconds_duration 3600" "grants_held s' ''t1'' = [g]"
    unfolding e prod.case sum.case m(1) using m(2) by auto
  then show ?thesis by (simp add: e)
qed

theorem challenge_redeemed_once_witness:
  "let st = CompleteCeremony ''ewc_0102'' ''t1'' ''alice'' 1 (hop_store, snd hop_challenge)
   in completed (snd (snd st)) ''ewc_0102'' \<and> isl (fst (CompleteCeremony ''ewc_0102'' ''t1'' ''alice'' 2 (snd st)))"
proof -
  define st where "st = CompleteCeremony ''ewc_0102'' ''t1'' ''alice'' 1 (hop_store, snd hop_challenge)"
  have i: "\<not> isl (fst st)" "TrimSpace ''ewc_0102'' = ''ewc_0102''" and no: "isl (fst (CompleteCeremony ''ewc_0102'' ''t1'' ''alice'' 2 (snd st)))"
    unfolding st_def by code_simp+
  have "ceremony_run [] hop_store (snd hop_challenge)"
    unfolding hop_challenge_def by (intro ceremony_run.hold ceremony_run.start) simp
  from ceremony_run.ceremony [OF this, of "''ewc_0102''" "''t1''" "''alice''" 1 "fst st" "fst (snd st)" "snd (snd st)"]
  have "ceremony_run [''ewc_0102''] (fst (snd st)) (snd (snd st))"
    using i by (cases "fst st") (simp_all add: st_def)
  from challenge_redeemed_once [OF this] no show ?thesis by (simp add: Let_def st_def)
qed


theorem revocation_effective_witness:
  "let s' = IssueEastWestGrant ''t1'' (challenge_grant hop_store (fst hop_challenge) 0) hop_store
   in hasValidEastWestGrant (RuntimeEvaluator s' hop_base) hop_request 1 \<and>
      \<not> hasValidEastWestGrant (RuntimeEvaluator (snd (RevokeGrants ''t1'' ''device'' ''dev-1'' s')) hop_base) hop_request 1"
proof -
  define s' where "s' = IssueEastWestGrant ''t1'' (challenge_grant hop_store (fst hop_challenge) 0) hop_store"
  have b: "served_tenant hop_base = ''t1''" "ev_EastWestGrants hop_base = []" "TrimSpace ''dev-1'' = ''dev-1''"
    and before: "hasValidEastWestGrant (RuntimeEvaluator s' hop_base) hop_request 1"
    and scope: "list_all (grant_in_scope ''device'' ''dev-1'') (grants_held s' ''t1'')"
    unfolding s'_def by code_simp+
  have "RevokeGrants (served_tenant hop_base) ''device'' ''dev-1'' s' =
      (fst (RevokeGrants ''t1'' ''device'' ''dev-1'' s'), snd (RevokeGrants ''t1'' ''device'' ''dev-1'' s'))" by (simp add: b)
  from revocation_effective [OF _ _ b(2) this, of hop_request 1] before scope show ?thesis
    unfolding Let_def s'_def [symmetric] by (auto simp: b list_all_iff)
qed

section \<open>Limits of the code\<close>

text \<open>The idle timer of a grant is not restarted for a device that the transport proved but the request does
  not claim: the grant releases the flow, is not touched, and idles out while it is in use.\<close>

definition idle_grant :: east_west_grant where
  "idle_grant = \<lparr>eg_SubjectUserID = ''alice'', eg_DeviceID = ''dev-1'', eg_Destination = ''db-1'', eg_Protocol = ''ssh'',
     eg_ExpiresAt = 86400 * nanos, eg_LastUsedAt = 0, eg_IdleTTLSeconds = 60\<rparr>"

definition proved_request :: decision_request where
  "proved_request = hop_request\<lparr>rq_TransportDeviceIdentity := ''dev-1'', rq_TransportClientCertVerified := True, rq_DeviceID := []\<rparr>"

lemma proved_device_idles_out:
  "let s = IssueEastWestGrant ''t1'' idle_grant hop_store; dec = Evaluate (50 * nanos) (Random []) (RuntimeEvaluator s hop_base) proved_request;
       s' = TouchGrantIfSatisfied proved_request dec (50 * nanos) s
   in dec_Decision dec = ''allow'' \<and> s' = s \<and>
      dec_Decision (Evaluate (100 * nanos) (Random []) (RuntimeEvaluator s' hop_base) proved_request) = ''authenticate_required''"
proof -
  define s where "s = IssueEastWestGrant ''t1'' idle_grant hop_store"
  define dec where "dec = Evaluate (50 * nanos) (Random []) (RuntimeEvaluator s hop_base) proved_request"
  have d: "dec_Decision dec = ''allow''" "dec_TenantID dec = ''t1''" "TrimSpace ''t1'' = ''t1''"
    and l: "dec_Decision (Evaluate (100 * nanos) (Random []) (RuntimeEvaluator s hop_base) proved_request) = ''authenticate_required''"
    and t: "ps_eastWestGrants s = [(''t1'', [idle_grant])]" "\<not> touches proved_request idle_grant"
    unfolding dec_def s_def by code_simp+
  have "TouchGrantIfSatisfied proved_request dec (50 * nanos) s = s"
    using t by (simp add: TouchGrantIfSatisfied_def TouchEastWestGrant_def d)
  with d l show ?thesis unfolding Let_def s_def [symmetric] dec_def [symmetric] by simp
qed

text \<open>The limit of a rule that selects by group is not applied to the grant: the lookup is made for a request
  without groups.\<close>

lemma group_limit_ignored:
  "let rule = hop_rule\<lparr>er_SourceGroups := [''admins''], er_MaxTTLSeconds := 60\<rparr>;
       s = snd (ApplyEastWestUpdateContext NoMedium ''t1'' (Some [rule]) (Some 0) (Some True) (Some False) lab_store);
       req = hop_request\<lparr>rq_UserGroups := [''admins'']\<rparr>
   in MatchedEastWestRule (EffectiveEastWestRules s ''t1'') req = Some rule \<and>
      eg_ExpiresAt (challenge_grant s (BuildAuthChallenge req) 0) = eastWestGrantDefaultTTL"
  by code_simp

text \<open>A held flow that names its destination only by host name gets a grant bound to no destination.\<close>

lemma host_name_grant_unbound:
  "let req = hop_request\<lparr>rq_Destination := [], rq_FQDN := ''db-1''\<rparr>; g = challenge_grant hop_store (BuildAuthChallenge req) 0
   in fst (eastWestDecisionFor (RuntimeEvaluator hop_store hop_base) req 0) = ''authenticate_required'' \<and>
      grant_matches g (hop_request\<lparr>rq_Destination := ''payroll''\<rparr>) 1"
  by code_simp

end
