(* ===== verification/Spec2Isabelle.thy ===== *)
theory Spec2Isabelle
  imports Scenarios Rule_Compilation Rule_Store_Laws Eastwest_Laws
begin

text \<open>
  A verification of the decision path of a zero-trust access plane.  A control plane authors policies,
  rules and assets and distributes them; an edge node holds them, compiles them and asks the decision
  engine about each flow; a flow inside the network may be held until its user has proved an identity.

  \<^bold>\<open>The parts and how they interact.\<close>  An operator edits assets (\<open>src/assetcatalog\<close>) and rules that
  refer to them (\<open>src/policyrule\<close>).  Rules travel between nodes as snapshots.  On a node the rules are
  resolved against the catalog and compiled to policies and east-west rules, which are put into the
  policy store (\<open>src/policy\<close>) beside the policies of the bundle and the controls of an administrator,
  among them the sign-in restrictions of \<open>src/tenantrestriction\<close>.  The store hands the engine its
  configuration, and the engine (\<open>src/decision\<close>) decides each request on one of three planes: a flow
  opened by a server, an internal hop, or the policies.  A hop that needs authentication becomes a
  challenge, and its ceremony a grant in the policy store (\<open>src/eastwest\<close>).

  \<^bold>\<open>Theories.\<close>
  \<^item> Language and library: \<open>Go_Prelude\<close> (strings), \<open>Go_Values\<close> (numbers, dynamic values, printing),
    \<open>Go_Time\<close>, \<open>Go_Netip\<close>, \<open>Go_Net\<close>, \<open>Go_Hash\<close> (SHA-256, JSON text), \<open>Go_Maps\<close> (maps by tenant), \<open>Domains\<close>
    (labels of host names).
  \<^item> Data: \<open>Model_Types\<close> (\<open>src/model/types.go\<close>) and \<open>Evaluator_Types\<close> (the \<open>Evaluator\<close> structure): a record
    per structure, with its fields in the order of the source.
  \<^item> Engine, \<open>src/decision\<close>: \<open>Locality\<close> (\<open>locality.go\<close>), \<open>Condition_Match\<close>, \<open>Policy_Order\<close>, \<open>Policy_Actions\<close>,
    \<open>Break_Glass\<close>, \<open>Inspection\<close> and \<open>Evaluator\<close> (\<open>evaluator.go\<close>), \<open>Saas_Catalog\<close> (\<open>saas_catalog.go\<close>),
    \<open>Swg_Enforcement\<close> (\<open>swg_tenant_enforcement.go\<close>, \<open>dlp_enforcement.go\<close>), \<open>Server_Initiated\<close>
    (\<open>server_initiated.go\<close>, \<open>legacy_exception.go\<close>), \<open>East_West\<close> (\<open>east_west.go\<close>), \<open>Explain\<close> (\<open>explain.go\<close>),
    \<open>Decision_Records\<close> (records of \<open>evaluator.go\<close>, \<open>config_generation.go\<close>).  \<open>Evaluate\<close> is a composition of
    one state transformer per block of the Go function; \<open>Precedence\<close> is the interface of a rule order.
  \<^item> Catalog, \<open>src/assetcatalog\<close>: \<open>Asset_Catalog\<close> (entries, aliases, resolution) and \<open>Catalog_Transactions\<close>
    (the public operations).
  \<^item> Rules, \<open>src/policyrule\<close>: \<open>Policy_Rules\<close> (rule, validation, compilers) and \<open>Rule_Store\<close> (store, medium,
    snapshots).
  \<^item> Policy store, \<open>src/policy\<close>: \<open>Policy_Store\<close>, over \<open>Tenant_Restriction\<close>.
  \<^item> Ceremonies, \<open>src/eastwest\<close>: \<open>Eastwest_Grants\<close>.

  \<^bold>\<open>What the lemmas show.\<close>
  \<^item> \<open>Evaluator_Laws\<close> and this theory: when the engine allows; that policies of other tenants and claimed
    SaaS fields have no influence; default denial, bypass, break-glass and the tool boundary; that a
    stored denial reaches the flow on another node.
  \<^item> \<open>Policy_Order\<close>, \<open>East_West\<close>: the winner among the rules of a plane, through the locale \<open>precedence\<close>.
  \<^item> \<open>Explain\<close>, \<open>Decision_Records\<close>: what is reported about a decision agrees with it and loses nothing.
  \<^item> \<open>Catalog_Laws\<close>: reachable catalogs, aliases, publication, what the resolvers return.
  \<^item> \<open>Rule_Laws\<close>, \<open>Rule_Compilation\<close>: a meaning of authored rules on the rules themselves, and that the
    compiled forms refine it for every resolver of the locale \<open>egress_resolver\<close>, which the catalog is.
  \<^item> \<open>Rule_Store_Laws\<close>: reachable rule stores hold validated rules, identifiers are found, snapshots
    reproduce a store.
  \<^item> \<open>Policy_Store_Laws\<close>: the invariant of every reachable policy store; disabled policies, restarts,
    bundles, restriction values.
  \<^item> \<open>Eastwest_Laws\<close>: ceremonies, their runs, the release of a held hop, revocation, through the locale
    \<open>grant_ledger\<close>; and three situations in which a grant is wider or shorter lived than meant.
  \<^item> \<open>Scenarios\<close>: concrete configurations on which the properties are instantiated.

  \<^bold>\<open>Conventions and bounds.\<close>  Clocks, random bytes and the answers of files and shared documents are
  arguments, so the theorems hold for all of them.  Operations under a lock are functions on the state;
  interleavings are sequences of operations, the inductive predicates \<open>reachable_catalog\<close>,
  \<open>reachable_rules\<close>, \<open>reachable_store\<close> and \<open>ceremony_run\<close>.  All functions are total; no fuel is used.
  The searches for an alias and for a rule identifier end because every step passes an entry in use.
  Durations and generation counters wrap at 64 bits; other integers are those the code never brings near
  that bound.  Strings are bytes; case mapping is that of ASCII.  A map is an association list, and
  iteration takes one of the orders Go may choose.  A nil slice or map is the empty one.

  \<^bold>\<open>What is not modelled.\<close>  In the packages above: reading files (\<open>src/policy/loader.go\<close>), the catalog
  transaction through a shared database and the table of predefined services, unknown fields that a
  stored document keeps, log lines, and two functions without callers (\<open>editIncomingRuntimeLocked\<close>,
  \<open>eastWestModeLabel\<close>).  Programs under \<open>src/cmd\<close>, endpoint clients, the data plane on sockets, certificates,
  content inspection, identity protocols, agent updates, storage and licensing are outside: they are
  input and output, cryptography of libraries, or stores the decision path does not read.
\<close>

section \<open>The decision engine\<close>

text \<open>C1. When the engine allows.  A request is allowed exactly when it is on the server-initiated
  plane and an active, unexpired exception of mode allow, warn or observe covers it; or it is on the
  east-west plane and the winning rule permits the hop (or no rule matches and unmatched hops are
  allowed); or it is on the policy plane and the winning policy says allow and every overlay of that
  policy (workload attestation, authentication age, tool boundary, human approval, break-glass
  guard) is satisfied.\<close>

theorem evaluate_allow_iff:
  "dec_Decision (Evaluate now r e req) = ''allow'' \<longleftrightarrow>
    (let q = decisionRequestWithSaaSContext e req
     in case plane_of e q of
          ServerPlane \<Rightarrow>
            (\<exists>ex. matchLegacyException e q now = Some ex \<and>
              ToLower (TrimSpace (le_Mode ex)) \<in> {''allow'', ''warn'', ''observe''})
        | EastWestPlane \<Rightarrow>
            (case MatchedEastWestRule (ev_EastWestRules e) q of
               Some rule \<Rightarrow> hop_permitted e q now rule
             | None \<Rightarrow> ev_EastWestAllowUnmatched e)
        | PolicyPlane \<Rightarrow>
            (\<exists>p ns. firstMatchedPolicy now e q (actor q) = Some (p, ns) \<and> policy_permits now p q))"
proof -
  define q where "q = decisionRequestWithSaaSContext e req"
  have server: "fst (serverInitiatedDecisionFor e q now) = ''allow'' \<longleftrightarrow>
      (\<exists>ex. matchLegacyException e q now = Some ex \<and>
        ToLower (TrimSpace (le_Mode ex)) \<in> {''allow'', ''warn'', ''observe''})"
    by (cases "matchLegacyException e q now") (auto simp: serverInitiatedDecisionFor_def Let_def)
  have ew: "fst (eastWestDecisionFor e q now) = ''allow'' \<longleftrightarrow>
      (case MatchedEastWestRule (ev_EastWestRules e) q of
         Some rule \<Rightarrow> hop_permitted e q now rule | None \<Rightarrow> ev_EastWestAllowUnmatched e)"
    using eastWestDecisionFor_matched [of e q] eastWestDecisionFor_unmatched [of e q now]
    by (simp split: option.split)
  have "dec_Decision (Evaluate now r e req) = st_decision (final_state now e q)" by (simp add: Evaluate_sel q_def)
  then show ?thesis
    unfolding q_def [symmetric] Let_def
    by (cases rule: final_state_cases [of e q now]) (simp_all add: matched_branch_allow server ew)
qed


text \<open>C2. Tenant isolation.  Two rule sets that agree on the active policies of the caller's tenant (and on
  the tenant-less ones) give the same decision, whatever the policies of the other tenants say.\<close>

theorem evaluate_tenant_isolation:
  assumes "rq_TenantID req \<noteq> []"
    and "filter (relevant req) ps = filter (relevant req) qs"
  shows "Evaluate now r (e\<lparr>ev_Policies := ps\<rparr>) req = Evaluate now r (e\<lparr>ev_Policies := qs\<rparr>) req"
  using assms by (rule Evaluate_relevant)

theorem evaluate_tenant_isolation_witness:
  "filter (relevant plain_request) [other_policy, plain_policy] = filter (relevant plain_request) [plain_policy] \<and>
   Evaluate 0 plain_entropy (plain_engine\<lparr>ev_Policies := [other_policy, plain_policy]\<rparr>) plain_request =
     Evaluate 0 plain_entropy (plain_engine\<lparr>ev_Policies := [plain_policy]\<rparr>) plain_request"
proof -
  have f: "filter (relevant plain_request) [other_policy, plain_policy] = filter (relevant plain_request) [plain_policy]"
    by code_simp
  moreover have "rq_TenantID plain_request \<noteq> []" by code_simp
  ultimately show ?thesis using evaluate_tenant_isolation by blast
qed



text \<open>C13. Default denial.  The engine reports a default denial exactly when the request is on the policy
  plane and no policy of the rule set matches it.\<close>

theorem default_deny_iff:
  "IsDefaultDeny (Evaluate now r e req) \<longleftrightarrow>
    (let q = decisionRequestWithSaaSContext e req
     in plane_of e q = PolicyPlane \<and> \<not> list_ex (policy_matches now q (actor q)) (ev_Policies e))"
proof -
  define q where "q = decisionRequestWithSaaSContext e req"
  have "IsDefaultDeny (Evaluate now r e req) \<longleftrightarrow> plane_of e q = PolicyPlane \<and> firstMatchedPolicy now e q (actor q) = None"
  proof (cases rule: final_state_cases [of e q now])
    case server
    then show ?thesis
      by (simp add: IsDefaultDeny_def Evaluate_sel q_def [symmetric] serverInitiatedDecisionFor_def containsString_def Let_def
          split: option.split)
  next
    case east_west
    then show ?thesis
      by (simp add: IsDefaultDeny_def Evaluate_sel q_def [symmetric] eastWest_no_default containsString_def)
  next
    case (policy p ns)
    then show ?thesis
      using matched_branch_codes [of now e q "actor q" p ns "initial_state q"]
      by (auto simp: IsDefaultDeny_def Evaluate_sel q_def [symmetric] matched_codes_def containsString_def)
  next
    case unmatched
    then show ?thesis by (simp add: IsDefaultDeny_def Evaluate_sel q_def [symmetric] containsString_def)
  qed
  then show ?thesis unfolding firstMatchedPolicy_None q_def [symmetric] Let_def by (simp add: list_ex_iff)
qed



text \<open>C31. Reason codes.  Every decision carries at least one reason code and never the same code twice.\<close>

theorem evaluate_reason_codes:
  "dec_ReasonCodes (Evaluate now r e req) \<noteq> [] \<and> distinct (dec_ReasonCodes (Evaluate now r e req))"
proof -
  define q where "q = decisionRequestWithSaaSContext e req"
  have "dec_ReasonCodes (Evaluate now r e req) = st_reasonCodes (final_state now e q)" by (simp add: Evaluate_sel q_def)
  moreover have "st_reasonCodes (final_state now e q) \<noteq> [] \<and> distinct (st_reasonCodes (final_state now e q))"
  proof (cases rule: final_state_cases [of e q now])
    case server
    then show ?thesis by (simp add: serverInitiatedDecisionFor_def Let_def split: option.split)
  next
    case east_west
    then show ?thesis using eastWestDecisionFor_codes [of e q now] by auto
  next
    case (policy p ns)
    then show ?thesis using matched_branch_codes [of now e q "actor q" p ns "initial_state q"]
      by (auto simp: matched_codes_def)
  next
    case unmatched
    then show ?thesis by simp
  qed
  ultimately show ?thesis by simp
qed



text \<open>C25. Break-glass is audited.  Whenever the winning policy is a break-glass policy, whatever the outcome,
  the decision carries the break-glass audit action for that policy; and it allows only a request
  with strong authentication no older than the policy's session limit.\<close>

theorem break_glass_audited:
  fixes e req
  defines "q \<equiv> decisionRequestWithSaaSContext e req"
  assumes "plane_of e q = PolicyPlane" "firstMatchedPolicy now e q (actor q) = Some (p, ns)"
    and "breakGlassPolicyConfigured p"
  shows "(\<exists>res. breakGlassAuditAction (breakGlassPolicyContextFor now p q) q p res \<in> set (dec_Actions (Evaluate now r e req))) \<and>
    (dec_Decision (Evaluate now r e req) = ''allow'' \<longrightarrow>
      breakGlassStrongAuthSatisfied q \<and>
      (\<exists>t. Parse (rq_AuthTime q) = Some t \<and> age_seconds now t \<le> breakGlassMaxSessionSeconds p))"
proof -
  have f: "final_state now e q = matched_branch now e q (actor q) p ns (initial_state q)"
    using assms(2,3) by (rule final_state_matched)
  have "dec_Decision (Evaluate now r e req) = ''allow'' \<longleftrightarrow> policy_permits now p q"
    by (simp add: Evaluate_sel q_def [symmetric] f matched_branch_allow)
  then show ?thesis
    using matched_branch_audit [OF assms(4), of now q e "actor q" ns "initial_state q"] runtime_satisfied_iff [OF assms(4), of now q] assms(4)
    by (auto simp: Evaluate_sel q_def [symmetric] f policy_permits_def)
qed

theorem break_glass_audited_witness:
  "\<exists>res. breakGlassAuditAction (breakGlassPolicyContextFor 0 break_glass_policy plain_request) plain_request break_glass_policy res
     \<in> set (dec_Actions (Evaluate 0 plain_entropy (plain_engine\<lparr>ev_Policies := [break_glass_policy]\<rparr>) plain_request))"
  using break_glass_audited [of "plain_engine\<lparr>ev_Policies := [break_glass_policy]\<rparr>" plain_request 0 break_glass_policy
      "[''application_id'']" plain_entropy]
  unfolding break_glass_scenario(1) using break_glass_scenario(2-4) by blast

text \<open>C26. What an out-of-boundary tool call gets.  When the winning policy says allow but the tool or its action
  is outside the policy's boundary, and the policy is not a break-glass policy, the request is never
  allowed; it is denied unless the workload attestation or the age of the authentication is also
  insufficient, in which case the caller is asked to step up instead.\<close>

theorem tool_boundary_outcome:
  fixes e req
  defines "q \<equiv> decisionRequestWithSaaSContext e req"
  assumes "plane_of e q = PolicyPlane" "firstMatchedPolicy now e q (actor q) = Some (p, ns)"
    and "TrimSpace (pa_Decision (pol_Action p)) = ''allow''" "\<not> breakGlassPolicyConfigured p"
    and "toolActionBoundaryViolation p q \<noteq> None"
  shows "dec_Decision (Evaluate now r e req) =
    (if pol_RequiredWorkloadAttestation p \<and> \<not> workloadAttestationSatisfied (rq_WorkloadAttestationState q)
     then ''require_workload_attestation''
     else if \<not> authentication_fresh now p q then ''require_reauthentication''
     else ''deny'')"
proof -
  have f: "final_state now e q = matched_branch now e q (actor q) p ns (initial_state q)"
    using assms(2,3) by (rule final_state_matched)
  show ?thesis
    unfolding Evaluate_sel q_def [symmetric] f decision_of_state_sel
    by (rule matched_branch_boundary [OF assms(4-6)])
qed

theorem tool_boundary_outcome_witness:
  "dec_Decision (Evaluate 0 plain_entropy (plain_engine\<lparr>ev_Policies := [tool_policy]\<rparr>) tool_request) =
    ''require_workload_attestation''"
  using tool_boundary_outcome [of "plain_engine\<lparr>ev_Policies := [tool_policy]\<rparr>" tool_request 0 tool_policy
      "[''application_id'']" plain_entropy]
  unfolding tool_scenario(1) using tool_scenario(2-7) by simp

section \<open>From the control plane to the flow\<close>

text \<open>C3. A denial reaches the flow.  Take a denying egress rule that is active in a reachable store of the control plane.
  After an edge has replaced its rules by the snapshot of that store, compiled the rules it lists for
  the tenant against its catalog and handed the policies to the engine, the engine does not allow a
  request the rule matches unless a matching policy has a smaller priority number.\<close>

theorem distributed_deny_enforced:
  fixes e req
  defines "q \<equiv> decisionRequestWithSaaSContext e req"
  assumes "reachable_rules cp" "Get_rule cp tenant i = Some r"
    and r: "ru_Plane r = ''egress''" "ru_Status r = ''active''" "ra_Access (ru_Action r) = ''deny''"
    and edge: "medium = Unsaved \<or> medium = SavedFile (\<lambda>_. Saved)" "reachable_rules old"
      "edge = snd (ReplaceAll medium (Snapshot cp) old)"
    and "set (compiled_egress s tenant (List_rules edge tenant ''egress'')) \<subseteq> set (ev_Policies e)"
    and req: "egress_rule_matches (SourceDeviceTokens s) (EndpointAddresses s) (ServiceTransportPorts s) tenant req r"
      "no_nul req" "tenant_served tenant req" "plane_of e q = PolicyPlane"
    and "\<forall>p \<in> set (ev_Policies e). policy_matches now q (actor q) p \<longrightarrow> ru_Priority r \<le> pol_Priority p"
  shows "dec_Decision (Evaluate now rnd e req) \<noteq> ''allow''"
proof -
  have "medium_ok medium" using edge(1) by (auto simp: medium_ok_def)
  then have inv: "store_inv edge" using edge(2,3) reachable_rules.replace reachable_store_inv by blast
  have g: "Get_rule edge tenant i = Some r"
    using distributed_lookup [OF reachable_store_inv [OF assms(2)] edge(1), of old] assms(3) edge(3) by (simp add: case_prod_beta)
  have "ru_TenantID r = tenant"
    using reachable_store_inv [OF assms(2)] assms(3) by (auto simp: rows_satisfy_def keyed_rule_def Get_rule_def)
  then have "egress_match s tenant req r" using r req(1) by (simp add: egress_applies_def)
  moreover have "r \<in> set (List_rules edge tenant ''egress'')"
    using set_List_rules [OF inv, of "''egress''"] canonical_word [of "''egress''"] g r(1) by auto
  ultimately show ?thesis
    using denied_by_compiled [of s tenant "List_rules edge tenant ''egress''" e r req now rnd] assms unfolding q_def by blast
qed

definition site_rules :: rule_store where
  "site_rules = snd (Upsert_rule Unsaved site_deny new_rule_store)"

definition edge_rules :: rule_store where
  "edge_rules = snd (ReplaceAll Unsaved (Snapshot site_rules) new_rule_store)"

definition edge_engine :: evaluator where
  "edge_engine = zero_evaluator\<lparr>ev_Policies := compiled_egress site ''acme'' (List_rules edge_rules ''acme'' ''egress'')\<rparr>"

theorem distributed_deny_enforced_witness:
  "dec_Decision (Evaluate 0 plain_entropy edge_engine site_request) \<noteq> ''allow''"
proof -
  have q: "decisionRequestWithSaaSContext edge_engine site_request = site_request" by code_simp
  have "reachable_rules site_rules" unfolding site_rules_def
    by (rule reachable_rules.upsert [OF reachable_rules.start]) (simp add: medium_ok_def)
  moreover have "Get_rule site_rules ''acme'' ''r1'' = Some site_deny" "ru_Plane site_deny = ''egress''" "ru_Status site_deny = ''active''"
    "ra_Access (ru_Action site_deny) = ''deny''" "plane_of edge_engine site_request = PolicyPlane" by code_simp+
  moreover have "list_all (\<lambda>p. ru_Priority site_deny \<le> pol_Priority p) (ev_Policies edge_engine)" by code_simp
  then have "\<forall>p \<in> set (ev_Policies edge_engine). policy_matches 0 site_request (actor site_request) p \<longrightarrow> ru_Priority site_deny \<le> pol_Priority p"
    by (simp add: list_all_iff)
  moreover have "set (compiled_egress site ''acme'' (List_rules edge_rules ''acme'' ''egress'')) \<subseteq> set (ev_Policies edge_engine)"
    by (simp add: edge_engine_def)
  ultimately show ?thesis
    using distributed_deny_enforced [of site_rules "''acme''" "''r1''" site_deny Unsaved new_rule_store edge_rules site edge_engine site_request
        0 plain_entropy] site_facts(1-3) reachable_rules.start
    by (simp add: q edge_rules_def)
qed

end
